(* ===== verification/Prelude.thy ===== *)
theory Prelude
  imports Main "HOL-Library.State_Monad" "HOL-Library.Word" "HOL-Library.AList"
begin

text \<open>
  Shared vocabulary of the development.
  \<^item> Go's machine integers, nil-able maps and panics as HOL types.
  \<^item> A state monad whose state is a pair of an arbitrary \<open>world\<close> (everything outside the program:
    the Kubernetes API server, the Mailgun service, the clock, the random source) and the \<open>trace\<close>
    of the external calls made so far, oldest first. The program can only touch the world by
    \<open>perform\<close>, which runs one external call and appends one event to the trace; the trace is a
    ghost component, which no definition of the model reads.
  \<^item> Compositional judgements about traces: \<open>emits P m\<close> (every event that \<open>m\<close> adds satisfies \<open>P\<close>)
    and \<open>call_bound n m\<close> (\<open>m\<close> adds at most \<open>n\<close> events), each with its rules in a collection.
  \<^item> Symbolic execution: \<open>result m w\<close>, \<open>after m w\<close> and \<open>calls m w\<close> are what \<open>m\<close> returns, the world
    it leaves and the calls it makes when run in the world \<open>w\<close>; \<open>exec_simps\<close> computes them.
\<close>

section \<open>Go data\<close>

type_synonym go_int = "64 word"
type_synonym 'v go_map = "(string \<times> 'v) list"

text \<open>
  A Go map is an association list with at most one entry per key; the order of the list stands for
  the iteration order, which Go leaves unspecified. Writing is \<^const>\<open>AList.update\<close>, reading is
  \<^const>\<open>map_of\<close>. A nil map is \<^const>\<open>None\<close> of the option type where the code distinguishes it.
\<close>

datatype 'a go = Ret 'a | Panic string

text \<open>Copying a map into another: the loop \<^verbatim>\<open>for k, v := range src { dst[k] = v }\<close>.\<close>

fun copy_into :: "'v go_map \<Rightarrow> 'v go_map \<Rightarrow> 'v go_map" where
  "copy_into dst [] = dst"
| "copy_into dst ((k, v) # src) = copy_into (AList.update k v dst) src"

lemma map_of_copy_into:
  "distinct (map fst src) \<Longrightarrow> map_of (copy_into dst src) = map_of dst ++ map_of src"
proof (induction dst src rule: copy_into.induct)
  case (1 dst)
  then show ?case by simp
next
  case (2 dst k v src)
  then have "map_of src k = None" by (simp add: map_of_eq_None_iff)
  with 2 show ?case
    by (auto simp: AList.update_conv' map_add_def fun_eq_iff split: option.splits)
qed

lemma distinct_copy_into:
  "distinct (map fst dst) \<Longrightarrow> distinct (map fst (copy_into dst src))"
  by (induction dst src rule: copy_into.induct) (simp_all add: AList.distinct_update)

lemma copy_into_eq_Nil: "copy_into dst src = [] \<longleftrightarrow> dst = [] \<and> src = []"
  by (induction dst src rule: copy_into.induct) (auto simp: AList.update_nonempty)

section \<open>Programs over a world\<close>

record ('w, 'e) sys =
  world :: 'w
  trace :: "'e list"

type_synonym ('w, 'e, 'a) prog = "(('w, 'e) sys, 'a) state"

definition perform :: "('w \<Rightarrow> 'r \<times> 'w) \<Rightarrow> ('r \<Rightarrow> 'e) \<Rightarrow> ('w, 'e, 'r) prog" where
  "perform f ev = State (\<lambda>s. let (r, w') = f (world s)
     in (r, s\<lparr>world := w', trace := trace s @ [ev r]\<rparr>))"

definition exec :: "('w, 'e, 'a) prog \<Rightarrow> 'w \<Rightarrow> 'a \<times> ('w, 'e) sys" where
  "exec m w = run_state m \<lparr>world = w, trace = []\<rparr>"

definition calls :: "('w, 'e, 'a) prog \<Rightarrow> 'w \<Rightarrow> 'e list" where
  "calls m w = trace (snd (exec m w))"

definition result :: "('w, 'e, 'a) prog \<Rightarrow> 'w \<Rightarrow> 'a" where
  "result m w = fst (exec m w)"

definition after :: "('w, 'e, 'a) prog \<Rightarrow> 'w \<Rightarrow> 'w" where
  "after m w = world (snd (exec m w))"

section \<open>Judgements about traces\<close>

named_theorems emits_rules
named_theorems bound_rules

definition emits :: "('e \<Rightarrow> bool) \<Rightarrow> ('w, 'e, 'a) prog \<Rightarrow> bool" where
  "emits P m \<longleftrightarrow>
     (\<forall>s. \<exists>ts. trace (snd (run_state m s)) = trace s @ ts \<and> list_all P ts)"

lemma emitsI:
  "(\<And>s. \<exists>ts. trace (snd (run_state m s)) = trace s @ ts \<and> list_all P ts) \<Longrightarrow> emits P m"
  by (simp add: emits_def)

lemma emits_return [emits_rules]: "emits P (State_Monad.return x)"
  by (simp add: emits_def)

lemma emits_bind [emits_rules]:
  assumes "emits P m" and "\<And>x. emits P (f x)"
  shows "emits P (State_Monad.bind m f)"
proof (rule emitsI)
  fix s
  obtain a s' where m: "run_state m s = (a, s')" by fastforce
  from assms(1) m obtain t1 where t1: "trace s' = trace s @ t1" "list_all P t1"
    by (fastforce simp: emits_def dest: spec [of _ s])
  from assms(2) [of a] obtain t2
    where "trace (snd (run_state (f a) s')) = trace s' @ t2" "list_all P t2"
    by (fastforce simp: emits_def)
  with t1 have "trace (snd (run_state (State_Monad.bind m f) s)) = trace s @ (t1 @ t2)"
    and "list_all P (t1 @ t2)"
    by (simp_all add: m)
  then show "\<exists>ts. trace (snd (run_state (State_Monad.bind m f) s)) = trace s @ ts \<and> list_all P ts"
    by blast
qed

lemma emits_perform: "(\<And>r. P (ev r)) \<Longrightarrow> emits P (perform f ev)"
  by (simp add: emits_def perform_def split: prod.split)

lemma emits_if [emits_rules]:
  "(b \<Longrightarrow> emits P m) \<Longrightarrow> (\<not> b \<Longrightarrow> emits P n) \<Longrightarrow> emits P (if b then m else n)"
  by simp

lemma emits_case_option [emits_rules]:
  "(x = None \<Longrightarrow> emits P m) \<Longrightarrow> (\<And>y. x = Some y \<Longrightarrow> emits P (f y)) \<Longrightarrow>
   emits P (case x of None \<Rightarrow> m | Some y \<Rightarrow> f y)"
  by (cases x) simp_all

lemma emits_case_sum [emits_rules]:
  "(\<And>e. x = Inl e \<Longrightarrow> emits P (f e)) \<Longrightarrow> (\<And>y. x = Inr y \<Longrightarrow> emits P (g y)) \<Longrightarrow>
   emits P (case x of Inl e \<Rightarrow> f e | Inr y \<Rightarrow> g y)"
  by (cases x) simp_all

lemma emits_case_prod [emits_rules]:
  "(\<And>a b. x = (a, b) \<Longrightarrow> emits P (f a b)) \<Longrightarrow> emits P (case x of (a, b) \<Rightarrow> f a b)"
  by (cases x) simp

lemma emits_case_go [emits_rules]:
  "(\<And>y. x = Ret y \<Longrightarrow> emits P (f y)) \<Longrightarrow> (\<And>e. x = Panic e \<Longrightarrow> emits P (g e)) \<Longrightarrow>
   emits P (case x of Ret y \<Rightarrow> f y | Panic e \<Rightarrow> g e)"
  by (cases x) simp_all

lemma emits_let [emits_rules]: "emits P (f x) \<Longrightarrow> emits P (let y = x in f y)"
  by simp

lemma emits_calls: "emits P m \<Longrightarrow> e \<in> set (calls m w) \<Longrightarrow> P e"
  unfolding emits_def calls_def exec_def
  by (drule spec [of _ "\<lparr>world = w, trace = []\<rparr>"]) (auto simp: list_all_iff)

definition call_bound :: "nat \<Rightarrow> ('w, 'e, 'a) prog \<Rightarrow> bool" where
  "call_bound n m \<longleftrightarrow>
     (\<forall>s. length (trace (snd (run_state m s))) \<le> length (trace s) + n)"

lemma call_bound_return: "call_bound n (State_Monad.return x)"
  by (simp add: call_bound_def)

lemma call_bound_perform: "1 \<le> n \<Longrightarrow> call_bound n (perform f ev)"
  by (simp add: call_bound_def perform_def split: prod.split)

lemma call_bound_bind:
  assumes "call_bound k m" and "k \<le> n" and "\<And>x. call_bound (n - k) (f x)"
  shows "call_bound n (State_Monad.bind m f)"
  unfolding call_bound_def
proof
  fix s
  obtain a s' where m: "run_state m s = (a, s')" by fastforce
  from assms(1) m have "length (trace s') \<le> length (trace s) + k"
    by (fastforce simp: call_bound_def dest: spec [of _ s])
  moreover from assms(3) [of a]
  have "length (trace (snd (run_state (f a) s'))) \<le> length (trace s') + (n - k)"
    by (simp add: call_bound_def)
  ultimately show "length (trace (snd (run_state (State_Monad.bind m f) s)))
      \<le> length (trace s) + n"
    using assms(2) by (simp add: m)
qed

lemma call_bound_if:
  "call_bound n m \<Longrightarrow> call_bound n m' \<Longrightarrow> call_bound n (if b then m else m')"
  by simp

lemma call_bound_case_option:
  "call_bound n m \<Longrightarrow> (\<And>y. call_bound n (f y)) \<Longrightarrow>
   call_bound n (case x of None \<Rightarrow> m | Some y \<Rightarrow> f y)"
  by (cases x) simp_all

lemma call_bound_case_sum:
  "(\<And>e. call_bound n (f e)) \<Longrightarrow> (\<And>y. call_bound n (g y)) \<Longrightarrow>
   call_bound n (case x of Inl e \<Rightarrow> f e | Inr y \<Rightarrow> g y)"
  by (cases x) simp_all

lemma call_bound_case_prod:
  "(\<And>a b. call_bound n (f a b)) \<Longrightarrow> call_bound n (case x of (a, b) \<Rightarrow> f a b)"
  by (cases x) simp

lemma call_bound_case_go:
  "(\<And>y. call_bound n (f y)) \<Longrightarrow> (\<And>e. call_bound n (g e)) \<Longrightarrow>
   call_bound n (case x of Ret y \<Rightarrow> f y | Panic e \<Rightarrow> g e)"
  by (cases x) simp_all

lemma call_bound_let: "call_bound n (f x) \<Longrightarrow> call_bound n (let y = x in f y)"
  by simp

lemmas call_bound_rules [bound_rules] =
  call_bound_let call_bound_return call_bound_if call_bound_case_option call_bound_case_sum
  call_bound_case_prod call_bound_case_go

lemma call_bound_le: "call_bound k m \<Longrightarrow> k \<le> n \<Longrightarrow> call_bound n m"
  unfolding call_bound_def by (meson add_left_mono order_trans)

text \<open>Sequencing first measures the first program, then the rest with what is left.\<close>

named_theorems segment_bounds

lemmas bound_steps = call_bound_rules call_bound_bind

lemma call_bound_calls: "call_bound n m \<Longrightarrow> length (calls m w) \<le> n"
  unfolding call_bound_def calls_def exec_def
  by (drule spec [of _ "\<lparr>world = w, trace = []\<rparr>"]) simp

section \<open>Running programs from the empty trace\<close>

text \<open>
  A program is \<^emph>\<open>framed\<close> when its result, its effect on the world and the calls it makes do not
  depend on the trace it starts from, and it only appends to that trace. Every program built from
  \<open>perform\<close>, \<open>return\<close> and \<open>bind\<close> is framed. For framed programs \<open>result\<close>, \<open>after\<close> and \<open>calls\<close> are
  computed by the equations \<open>exec_simps\<close>, which is how the proofs execute the model symbolically.
\<close>

named_theorems framed_rules
named_theorems exec_simps

definition framed :: "('w, 'e, 'a) prog \<Rightarrow> bool" where
  "framed m \<longleftrightarrow> (\<forall>w ts. run_state m \<lparr>world = w, trace = ts\<rparr> =
     (result m w, \<lparr>world = after m w, trace = ts @ calls m w\<rparr>))"

lemma framed_run:
  "framed m \<Longrightarrow> run_state m \<lparr>world = w, trace = ts\<rparr> =
     (result m w, \<lparr>world = after m w, trace = ts @ calls m w\<rparr>)"
  by (simp add: framed_def)

lemma exec_return [exec_simps]:
  "result (State_Monad.return x) w = x"
  "after (State_Monad.return x) w = w"
  "calls (State_Monad.return x) w = []"
  by (simp_all add: result_def after_def calls_def exec_def)

lemma exec_perform:
  "result (perform f ev) w = fst (f w)"
  "after (perform f ev) w = snd (f w)"
  "calls (perform f ev) w = [ev (fst (f w))]"
  by (simp_all add: result_def after_def calls_def exec_def perform_def split: prod.split)

lemma exec_bind [exec_simps]:
  assumes "\<And>x. framed (f x)"
  shows "result (State_Monad.bind m f) w = result (f (result m w)) (after m w)"
    and "after (State_Monad.bind m f) w = after (f (result m w)) (after m w)"
    and "calls (State_Monad.bind m f) w = calls m w @ calls (f (result m w)) (after m w)"
proof -
  obtain a w' ts
    where m: "run_state m \<lparr>world = w, trace = []\<rparr> = (a, \<lparr>world = w', trace = ts\<rparr>)"
    by (metis prod.exhaust sys.surjective old.unit.exhaust)
  from framed_run [OF assms [of a], of w' ts] m
  show "result (State_Monad.bind m f) w = result (f (result m w)) (after m w)"
    and "after (State_Monad.bind m f) w = after (f (result m w)) (after m w)"
    and "calls (State_Monad.bind m f) w = calls m w @ calls (f (result m w)) (after m w)"
    by (simp_all add: result_def after_def calls_def exec_def)
qed

lemma framed_return [framed_rules]: "framed (State_Monad.return x)"
  by (simp add: framed_def exec_return)

lemma framed_perform: "framed (perform f ev)"
  by (simp add: framed_def exec_perform) (simp add: perform_def split: prod.split)

lemma framed_bind [framed_rules]:
  assumes "framed m" and "\<And>x. framed (f x)"
  shows "framed (State_Monad.bind m f)"
  by (simp add: framed_def exec_bind assms framed_run [OF assms(1)] framed_run [OF assms(2)])

lemma framed_case [framed_rules]:
  "framed m \<Longrightarrow> framed n \<Longrightarrow> framed (if b then m else n)"
  "framed m \<Longrightarrow> (\<And>y. framed (f y)) \<Longrightarrow> framed (case x of None \<Rightarrow> m | Some y \<Rightarrow> f y)"
  "(\<And>e. framed (g e)) \<Longrightarrow> (\<And>y. framed (h y)) \<Longrightarrow>
     framed (case z of Inl e \<Rightarrow> g e | Inr y \<Rightarrow> h y)"
  "(\<And>a b. framed (k a b)) \<Longrightarrow> framed (case p of (a, b) \<Rightarrow> k a b)"
  "(\<And>e. framed (i e)) \<Longrightarrow> (\<And>y. framed (j y)) \<Longrightarrow>
     framed (case u of Ret e \<Rightarrow> i e | Panic y \<Rightarrow> j y)"
  "framed (l t) \<Longrightarrow> framed (let x = t in l x)"
  by (simp_all split: option.split sum.split prod.split go.split)

text \<open>A case distinction moves out of \<open>result\<close>, \<open>after\<close> and \<open>calls\<close>, where it can be split.\<close>

lemma exec_if [exec_simps]:
  "result (if b then m else n) w = (if b then result m w else result n w)"
  "after (if b then m else n) w = (if b then after m w else after n w)"
  "calls (if b then m else n) w = (if b then calls m w else calls n w)"
  by simp_all

lemma exec_case_option [exec_simps]:
  "result (case x of None \<Rightarrow> m | Some y \<Rightarrow> f y) w =
     (case x of None \<Rightarrow> result m w | Some y \<Rightarrow> result (f y) w)"
  "after (case x of None \<Rightarrow> m | Some y \<Rightarrow> f y) w =
     (case x of None \<Rightarrow> after m w | Some y \<Rightarrow> after (f y) w)"
  "calls (case x of None \<Rightarrow> m | Some y \<Rightarrow> f y) w =
     (case x of None \<Rightarrow> calls m w | Some y \<Rightarrow> calls (f y) w)"
  by (simp_all split: option.split)

lemma exec_case_sum [exec_simps]:
  "result (case x of Inl e \<Rightarrow> g e | Inr y \<Rightarrow> f y) w =
     (case x of Inl e \<Rightarrow> result (g e) w | Inr y \<Rightarrow> result (f y) w)"
  "after (case x of Inl e \<Rightarrow> g e | Inr y \<Rightarrow> f y) w =
     (case x of Inl e \<Rightarrow> after (g e) w | Inr y \<Rightarrow> after (f y) w)"
  "calls (case x of Inl e \<Rightarrow> g e | Inr y \<Rightarrow> f y) w =
     (case x of Inl e \<Rightarrow> calls (g e) w | Inr y \<Rightarrow> calls (f y) w)"
  by (simp_all split: sum.split)

lemma exec_case_prod [exec_simps]:
  "result (case x of (a, b) \<Rightarrow> h a b) w = (case x of (a, b) \<Rightarrow> result (h a b) w)"
  "after (case x of (a, b) \<Rightarrow> h a b) w = (case x of (a, b) \<Rightarrow> after (h a b) w)"
  "calls (case x of (a, b) \<Rightarrow> h a b) w = (case x of (a, b) \<Rightarrow> calls (h a b) w)"
  by (simp_all split: prod.split)

lemma exec_case_go [exec_simps]:
  "result (case x of Ret e \<Rightarrow> g e | Panic y \<Rightarrow> f y) w =
     (case x of Ret e \<Rightarrow> result (g e) w | Panic y \<Rightarrow> result (f y) w)"
  "after (case x of Ret e \<Rightarrow> g e | Panic y \<Rightarrow> f y) w =
     (case x of Ret e \<Rightarrow> after (g e) w | Panic y \<Rightarrow> after (f y) w)"
  "calls (case x of Ret e \<Rightarrow> g e | Panic y \<Rightarrow> f y) w =
     (case x of Ret e \<Rightarrow> calls (g e) w | Panic y \<Rightarrow> calls (f y) w)"
  by (simp_all split: go.split)

lemma exec_let [exec_simps]:
  "result (let x = t in l x) w = result (l t) w"
  "after (let x = t in l x) w = after (l t) w"
  "calls (let x = t in l x) w = calls (l t) w"
  by simp_all

section \<open>Traces in which every event is justified by the events before it\<close>

text \<open>
  \<open>guarded G hist es\<close>: each event \<open>e\<close> of \<open>es\<close> satisfies \<open>G\<close> of the events that precede it, those of
  \<open>hist\<close> included. This is the form of the ordering properties of the controllers.
\<close>

fun guarded :: "('e list \<Rightarrow> 'e \<Rightarrow> bool) \<Rightarrow> 'e list \<Rightarrow> 'e list \<Rightarrow> bool" where
  "guarded G hist [] = True"
| "guarded G hist (e # es) = (G hist e \<and> guarded G (hist @ [e]) es)"

lemma guarded_append [simp]:
  "guarded G hist (xs @ ys) \<longleftrightarrow> guarded G hist xs \<and> guarded G (hist @ xs) ys"
  by (induction xs arbitrary: hist) auto

lemma guarded_split: "guarded G [] (pre @ e # post) \<Longrightarrow> G pre e"
  by simp

lemma guardedI: "(\<And>e pre. e \<in> set es \<Longrightarrow> G (hist @ pre) e) \<Longrightarrow> guarded G hist es"
proof (induction es arbitrary: hist)
  case Nil
  show ?case by simp
next
  case (Cons e es)
  from Cons.prems [of e "[]"] have "G hist e" by simp
  moreover have "guarded G (hist @ [e]) es"
    by (rule Cons.IH) (use Cons.prems [of _ "e # _"] in simp)
  ultimately show ?case by simp
qed

lemma guarded_emits:
  assumes "emits P m" and "\<And>e pre. P e \<Longrightarrow> G (hist @ pre) e"
  shows "guarded G hist (calls m w)"
  using assms emits_calls by (metis guardedI)

text \<open>
  The mirror image: \<open>followed G es\<close>, each event \<open>e\<close> of \<open>es\<close> satisfies \<open>G\<close> of the events that come
  after it. With the result of the run in \<open>G\<close>, this is how the theorems say what a program does in
  reaction to an answer.
\<close>

fun followed :: "('e \<Rightarrow> 'e list \<Rightarrow> bool) \<Rightarrow> 'e list \<Rightarrow> bool" where
  "followed G [] = True"
| "followed G (e # es) = (G e es \<and> followed G es)"

lemma followed_append [simp]:
  "followed G (xs @ ys) \<longleftrightarrow> followed (\<lambda>e post. G e (post @ ys)) xs \<and> followed G ys"
  by (induction xs) auto

lemma followed_split: "followed G (pre @ e # post) \<Longrightarrow> G e post"
  by simp

lemma followedI: "(\<And>e post. e \<in> set es \<Longrightarrow> G e post) \<Longrightarrow> followed G es"
  by (induction es) auto

lemma followed_emits:
  assumes "emits P m" and "\<And>e post. P e \<Longrightarrow> G e post"
  shows "followed G (calls m w)"
  using assms emits_calls by (metis followedI)

text \<open>An event of an evaluated trace, with what comes before and after it.\<close>

lemma list_ex_split:
  assumes "list_ex P ts"
  obtains pre e post where "ts = pre @ e # post" "P e"
  using assms by (metis list_ex_iff split_list)

end
