(* ===== verification/Api_Types.thy ===== *)
theory Api_Types
  imports Prelude
begin

text \<open>
  The data of the operator: the custom resources of \<^verbatim>\<open>api/domain/v1\<close> (Domain, Route, their
  specs and statuses) and the fields of the library types the code reads or writes (Kubernetes
  metadata, Secret, ConfigMap and DNSEndpoint objects, the Mailgun client's request and response
  structs). A pointer field is an \<open>option\<close>; a field of Go type \<^verbatim>\<open>int\<close> is a 64-bit word.
  Library structs carry only the fields this repository mentions.
\<close>

section \<open>Library types the code uses\<close>

text \<open>A Go \<^verbatim>\<open>error\<close>: its message and, for an error of the API server, its status reason.\<close>

datatype error = GoError (Error: string) (reason: string)

type_synonym time = int

record NamespacedName =
  nn_Namespace :: string
  nn_Name :: string

record ObjectMeta =
  meta_Name :: string
  meta_Namespace :: string
  meta_ResourceVersion :: string
  meta_Generation :: int
  DeletionTimestamp :: "time option"
  Finalizers :: "string list"

record Endpoint =
  ep_DNSName :: string
  ep_Targets :: "string list"
  ep_RecordType :: string
  ep_SetIdentifier :: string
  ep_RecordTTL :: int
  ep_Labels :: "string go_map"
  ep_ProviderSpecific :: "(string \<times> string) list"

text \<open>\<open>Endpoints\<close> is a slice of pointers, so an element may be nil.\<close>

record DNSEndpoint =
  de_Meta :: ObjectMeta
  Endpoints :: "Endpoint option list"

record Secret =
  sec_Meta :: ObjectMeta
  sec_Data :: "string go_map option"

record ConfigMap =
  cm_Meta :: ObjectMeta
  cm_Data :: "string go_map option"

definition zero_ObjectMeta :: ObjectMeta where
  "zero_ObjectMeta = \<lparr>meta_Name = '''', meta_Namespace = '''', meta_ResourceVersion = '''',
     meta_Generation = 0, DeletionTimestamp = None, Finalizers = []\<rparr>"

definition zero_Secret :: Secret where
  "zero_Secret = \<lparr>sec_Meta = zero_ObjectMeta, sec_Data = None\<rparr>"

definition zero_ConfigMap :: ConfigMap where
  "zero_ConfigMap = \<lparr>cm_Meta = zero_ObjectMeta, cm_Data = None\<rparr>"

definition zero_DNSEndpoint :: DNSEndpoint where
  "zero_DNSEndpoint = \<lparr>de_Meta = zero_ObjectMeta, Endpoints = []\<rparr>"

text \<open>The Mailgun client library's structs.\<close>

record MgDNSRecord =
  mgdns_Name :: string
  mgdns_Priority :: string
  mgdns_RecordType :: string
  mgdns_Valid :: string
  mgdns_Value :: string

record MgDomain =
  mgd_CreatedAt :: time
  mgd_Name :: string
  mgd_SMTPLogin :: string
  mgd_Wildcard :: bool
  mgd_SpamAction :: string
  mgd_State :: string
  mgd_WebScheme :: string

record DomainResponse =
  resp_Domain :: MgDomain
  ReceivingDNSRecords :: "MgDNSRecord list"
  SendingDNSRecords :: "MgDNSRecord list"

record CreateDomainOptions =
  opt_Password :: string
  opt_SpamAction :: string
  opt_Wildcard :: bool
  opt_ForceDKIMAuthority :: bool
  opt_DKIMKeySize :: go_int

record MgRoute =
  mgr_Id :: string
  mgr_Priority :: go_int
  mgr_Actions :: "string list"
  mgr_Description :: string
  mgr_Expression :: string

text \<open>A configured Mailgun client: the three values the code hands to the library.\<close>

record MailgunImpl =
  client_domain :: string
  client_apiKey :: string
  client_apiBase :: string

section \<open>Custom resources: \<^verbatim>\<open>api/domain/v1/domain_types.go\<close>\<close>

record DnsRecord =
  dns_Name :: string
  dns_Priority :: string
  dns_RecordType :: string
  dns_Valid :: string
  dns_Value :: string

definition zero_DnsRecord :: DnsRecord where
  "zero_DnsRecord = \<lparr>dns_Name = '''', dns_Priority = '''', dns_RecordType = '''',
     dns_Valid = '''', dns_Value = ''''\<rparr>"

definition DomainStateCreated :: string where "DomainStateCreated = ''created''"
definition DomainStateFailed :: string where "DomainStateFailed = ''failed''"
definition DomainStateProcessing :: string where "DomainStateProcessing = ''processing''"
definition DomainStateActivated :: string where "DomainStateActivated = ''activated''"

record DomainSpec =
  spec_Domain :: string
  ExternalDNS :: "bool option"
  ExternalDNSRecords :: "Endpoint list"
  WebScheme :: "string option"
  DKIMKeySize :: "go_int option"
  ForceDKIMAuthority :: "bool option"
  Wildcard :: "bool option"
  IPS :: "string list"
  SpamAction :: "string option"
  ExportCredentials :: "bool option"
  ExportSecretName :: "string option"
  ExportSecretLoginKey :: "string option"
  ExportSecretPasswordKey :: "string option"
  ForceMXCheck :: "bool option"

record DomainStatus =
  status_State :: string
  NotManaged :: bool
  SendingDnsRecords :: "DnsRecord list"
  ReceivingDnsRecords :: "DnsRecord list"
  status_DomainState :: string
  MailgunError :: "string option"
  LastDomainValidationTime :: "time option"
  DomainValidationCount :: "go_int option"
  DnsEntrypointCreated :: bool

record Domain =
  d_Meta :: ObjectMeta
  d_Spec :: DomainSpec
  d_Status :: DomainStatus

definition zero_DomainSpec :: DomainSpec where
  "zero_DomainSpec = \<lparr>spec_Domain = '''', ExternalDNS = None, ExternalDNSRecords = [],
     WebScheme = None, DKIMKeySize = None, ForceDKIMAuthority = None, Wildcard = None, IPS = [],
     SpamAction = None, ExportCredentials = None, ExportSecretName = None,
     ExportSecretLoginKey = None, ExportSecretPasswordKey = None, ForceMXCheck = None\<rparr>"

definition zero_DomainStatus :: DomainStatus where
  "zero_DomainStatus = \<lparr>status_State = '''', NotManaged = False, SendingDnsRecords = [],
     ReceivingDnsRecords = [], status_DomainState = '''', MailgunError = None,
     LastDomainValidationTime = None, DomainValidationCount = None,
     DnsEntrypointCreated = False\<rparr>"

definition zero_Domain :: Domain where
  "zero_Domain = \<lparr>d_Meta = zero_ObjectMeta, d_Spec = zero_DomainSpec,
     d_Status = zero_DomainStatus\<rparr>"

section \<open>Custom resources: \<^verbatim>\<open>api/domain/v1/route_types.go\<close>\<close>

record RouteSpec =
  Description :: string
  Expression :: string
  Actions :: "string list"
  Priority :: "go_int option"
  route_Domain :: "string option"

record RouteStatus =
  RouteID :: "string option"
  route_MailgunError :: "string option"

record Route =
  r_Meta :: ObjectMeta
  r_Spec :: RouteSpec
  r_Status :: RouteStatus

definition zero_Route :: Route where
  "zero_Route = \<lparr>r_Meta = zero_ObjectMeta,
     r_Spec = \<lparr>Description = '''', Expression = '''', Actions = [], Priority = None,
       route_Domain = None\<rparr>,
     r_Status = \<lparr>RouteID = None, route_MailgunError = None\<rparr>\<rparr>"

section \<open>Writing one field of a nested struct\<close>

definition set_State :: "string \<Rightarrow> Domain \<Rightarrow> Domain" where
  "set_State st d = d\<lparr>d_Status := (d_Status d)\<lparr>status_State := st\<rparr>\<rparr>"

definition set_NotManaged :: "bool \<Rightarrow> Domain \<Rightarrow> Domain" where
  "set_NotManaged b d = d\<lparr>d_Status := (d_Status d)\<lparr>NotManaged := b\<rparr>\<rparr>"

definition set_MailgunError :: "string \<Rightarrow> Domain \<Rightarrow> Domain" where
  "set_MailgunError msg d = d\<lparr>d_Status := (d_Status d)\<lparr>MailgunError := Some msg\<rparr>\<rparr>"

definition set_RouteError :: "string \<Rightarrow> Route \<Rightarrow> Route" where
  "set_RouteError msg r = r\<lparr>r_Status := (r_Status r)\<lparr>route_MailgunError := Some msg\<rparr>\<rparr>"

lemma set_State_simps [simp]:
  "d_Meta (set_State st d) = d_Meta d"
  "d_Spec (set_State st d) = d_Spec d"
  "d_Status (set_State st d) = (d_Status d)\<lparr>status_State := st\<rparr>"
  by (simp_all add: set_State_def)

lemma set_NotManaged_simps [simp]:
  "d_Meta (set_NotManaged b d) = d_Meta d"
  "d_Spec (set_NotManaged b d) = d_Spec d"
  "d_Status (set_NotManaged b d) = (d_Status d)\<lparr>NotManaged := b\<rparr>"
  by (simp_all add: set_NotManaged_def)

lemma set_MailgunError_simps [simp]:
  "d_Meta (set_MailgunError msg d) = d_Meta d"
  "d_Spec (set_MailgunError msg d) = d_Spec d"
  "d_Status (set_MailgunError msg d) = (d_Status d)\<lparr>MailgunError := Some msg\<rparr>"
  by (simp_all add: set_MailgunError_def)

lemma set_RouteError_simps [simp]:
  "r_Meta (set_RouteError msg r) = r_Meta r"
  "r_Spec (set_RouteError msg r) = r_Spec r"
  "r_Status (set_RouteError msg r) = (r_Status r)\<lparr>route_MailgunError := Some msg\<rparr>"
  by (simp_all add: set_RouteError_def)

lemmas domain_states =
  DomainStateCreated_def DomainStateFailed_def DomainStateProcessing_def
  DomainStateActivated_def

end
