(* ===== verification/Environment.thy ===== *)
theory Environment
  imports Api_Types
begin

text \<open>
  Everything the program calls and this repository does not contain, as one record of functions
  over an arbitrary world type: the controller-runtime client, the controllerutil and metav1
  helpers, the external-dns endpoint constructor, the Mailgun client library, the random source
  and the clock. The model never assumes anything about them; where a theorem relies on documented
  behaviour it says so with one of the predicates at the end of this theory.

  A call that takes a pointer to an object and writes the server's answer into it takes the object
  and returns it: \<open>(error option \<times> Domain)\<close> is Go's \<^verbatim>\<open>err\<close> together with the object after the
  call. The world type is arbitrary and each function may change it in any way, so a theorem that
  holds for every environment holds under every interference of other clients between two calls.

  One event per external call records the call, what was sent and what came back; the wrappers
  below (\<open>k_\<dots>\<close> for Kubernetes, \<open>mg_\<dots>\<close> for Mailgun) run the call and append its event.
\<close>

record 'w env =
  IgnoreNotFound :: "error option \<Rightarrow> error option"
  IsNotFound :: "error option \<Rightarrow> bool"
  IsZero :: "time option \<Rightarrow> bool"
  ContainsFinalizer :: "ObjectMeta \<Rightarrow> string \<Rightarrow> bool"
  AddFinalizer :: "ObjectMeta \<Rightarrow> string \<Rightarrow> ObjectMeta \<times> bool"
  RemoveFinalizer :: "ObjectMeta \<Rightarrow> string \<Rightarrow> ObjectMeta \<times> bool"
  NewEndpoint :: "string \<Rightarrow> string \<Rightarrow> string list \<Rightarrow> Endpoint option"
  NamespacedNameString :: "NamespacedName \<Rightarrow> string"
  APIBaseEU :: string
  APIBaseUS :: string
  GetDomain_api :: "NamespacedName \<Rightarrow> Domain \<Rightarrow> 'w \<Rightarrow> (error option \<times> Domain) \<times> 'w"
  UpdateDomain_api :: "Domain \<Rightarrow> 'w \<Rightarrow> (error option \<times> Domain) \<times> 'w"
  StatusUpdateDomain_api :: "Domain \<Rightarrow> 'w \<Rightarrow> (error option \<times> Domain) \<times> 'w"
  GetRoute_api :: "NamespacedName \<Rightarrow> Route \<Rightarrow> 'w \<Rightarrow> (error option \<times> Route) \<times> 'w"
  UpdateRoute_api :: "Route \<Rightarrow> 'w \<Rightarrow> (error option \<times> Route) \<times> 'w"
  StatusUpdateRoute_api :: "Route \<Rightarrow> 'w \<Rightarrow> (error option \<times> Route) \<times> 'w"
  GetSecret_api :: "NamespacedName \<Rightarrow> Secret \<Rightarrow> 'w \<Rightarrow> (error option \<times> Secret) \<times> 'w"
  CreateOrUpdateSecret_api ::
    "Secret \<Rightarrow> (Secret \<Rightarrow> Secret) \<Rightarrow> 'w \<Rightarrow> (error option \<times> Secret) \<times> 'w"
  GetConfigMap_api :: "NamespacedName \<Rightarrow> ConfigMap \<Rightarrow> 'w \<Rightarrow> (error option \<times> ConfigMap) \<times> 'w"
  GetDNSEndpoint_api ::
    "NamespacedName \<Rightarrow> DNSEndpoint \<Rightarrow> 'w \<Rightarrow> (error option \<times> DNSEndpoint) \<times> 'w"
  CreateDNSEndpoint_api :: "DNSEndpoint \<Rightarrow> 'w \<Rightarrow> error option \<times> 'w"
  DeleteDNSEndpoint_api :: "DNSEndpoint \<Rightarrow> 'w \<Rightarrow> error option \<times> 'w"
  Eventf_api :: "NamespacedName \<Rightarrow> string \<Rightarrow> string \<Rightarrow> string \<Rightarrow> 'w \<Rightarrow> unit \<times> 'w"
  mg_GetDomain_api :: "MailgunImpl \<Rightarrow> string \<Rightarrow> 'w \<Rightarrow> (error + DomainResponse) \<times> 'w"
  mg_CreateDomain_api ::
    "MailgunImpl \<Rightarrow> string \<Rightarrow> CreateDomainOptions \<Rightarrow> 'w \<Rightarrow> (error + DomainResponse) \<times> 'w"
  mg_VerifyDomain_api :: "MailgunImpl \<Rightarrow> string \<Rightarrow> 'w \<Rightarrow> (error + string) \<times> 'w"
  mg_DeleteDomain_api :: "MailgunImpl \<Rightarrow> string \<Rightarrow> 'w \<Rightarrow> error option \<times> 'w"
  mg_GetRoute_api :: "MailgunImpl \<Rightarrow> string \<Rightarrow> 'w \<Rightarrow> (error + MgRoute) \<times> 'w"
  mg_CreateRoute_api :: "MailgunImpl \<Rightarrow> MgRoute \<Rightarrow> 'w \<Rightarrow> (error + MgRoute) \<times> 'w"
  mg_UpdateRoute_api :: "MailgunImpl \<Rightarrow> string \<Rightarrow> MgRoute \<Rightarrow> 'w \<Rightarrow> (error + MgRoute) \<times> 'w"
  mg_DeleteRoute_api :: "MailgunImpl \<Rightarrow> string \<Rightarrow> 'w \<Rightarrow> error option \<times> 'w"
  rand_Read_api :: "nat \<Rightarrow> 'w \<Rightarrow> (error + string) \<times> 'w"
  time_Now_api :: "'w \<Rightarrow> time \<times> 'w"

section \<open>Events\<close>

datatype event =
    is_EGetDomain: EGetDomain NamespacedName "error option" Domain
  | is_EUpdateDomain: EUpdateDomain Domain "error option"
  | is_EStatusUpdateDomain: EStatusUpdateDomain Domain "error option"
  | is_EGetRoute: EGetRoute NamespacedName "error option" Route
  | is_EUpdateRoute: EUpdateRoute Route "error option"
  | is_EStatusUpdateRoute: EStatusUpdateRoute Route "error option"
  | is_EGetSecret: EGetSecret NamespacedName "error option"
  | is_ECreateOrUpdateSecret: ECreateOrUpdateSecret NamespacedName "error option"
  | is_EGetConfigMap: EGetConfigMap NamespacedName "error option"
  | is_EGetDNSEndpoint: EGetDNSEndpoint NamespacedName "error option"
  | is_ECreateDNSEndpoint: ECreateDNSEndpoint DNSEndpoint "error option"
  | is_EDeleteDNSEndpoint: EDeleteDNSEndpoint DNSEndpoint "error option"
  | is_EEventf: EEventf string string string
  | is_MGetDomain: MGetDomain MailgunImpl string "error + DomainResponse"
  | is_MCreateDomain: MCreateDomain MailgunImpl string CreateDomainOptions "error + DomainResponse"
  | is_MVerifyDomain: MVerifyDomain MailgunImpl string "error + string"
  | is_MDeleteDomain: MDeleteDomain MailgunImpl string "error option"
  | is_MGetRoute: MGetRoute MailgunImpl string "error + MgRoute"
  | is_MCreateRoute: MCreateRoute MailgunImpl MgRoute "error + MgRoute"
  | is_MUpdateRoute: MUpdateRoute MailgunImpl string MgRoute "error + MgRoute"
  | is_MDeleteRoute: MDeleteRoute MailgunImpl string "error option"
  | is_ERandRead: ERandRead nat "error option"
  | is_ETimeNow: ETimeNow time

type_synonym ('w, 'a) op = "('w, event, 'a) prog"

definition key_of :: "ObjectMeta \<Rightarrow> NamespacedName" where
  "key_of m = \<lparr>nn_Namespace = meta_Namespace m, nn_Name = meta_Name m\<rparr>"

fun err_of :: "'e + 'a \<Rightarrow> 'e option" where
  "err_of (Inl e) = Some e"
| "err_of (Inr _) = None"

section \<open>Calls of the Kubernetes client\<close>

definition k_GetDomain :: "'w env \<Rightarrow> NamespacedName \<Rightarrow> Domain \<Rightarrow> ('w, error option \<times> Domain) op" where
  "k_GetDomain env key d = perform (GetDomain_api env key d) (\<lambda>(e, d'). EGetDomain key e d')"

definition k_UpdateDomain :: "'w env \<Rightarrow> Domain \<Rightarrow> ('w, error option \<times> Domain) op" where
  "k_UpdateDomain env d = perform (UpdateDomain_api env d) (\<lambda>(e, _). EUpdateDomain d e)"

definition k_StatusUpdateDomain :: "'w env \<Rightarrow> Domain \<Rightarrow> ('w, error option \<times> Domain) op" where
  "k_StatusUpdateDomain env d =
     perform (StatusUpdateDomain_api env d) (\<lambda>(e, _). EStatusUpdateDomain d e)"

definition k_GetRoute :: "'w env \<Rightarrow> NamespacedName \<Rightarrow> Route \<Rightarrow> ('w, error option \<times> Route) op" where
  "k_GetRoute env key r = perform (GetRoute_api env key r) (\<lambda>(e, r'). EGetRoute key e r')"

definition k_UpdateRoute :: "'w env \<Rightarrow> Route \<Rightarrow> ('w, error option \<times> Route) op" where
  "k_UpdateRoute env r = perform (UpdateRoute_api env r) (\<lambda>(e, _). EUpdateRoute r e)"

definition k_StatusUpdateRoute :: "'w env \<Rightarrow> Route \<Rightarrow> ('w, error option \<times> Route) op" where
  "k_StatusUpdateRoute env r =
     perform (StatusUpdateRoute_api env r) (\<lambda>(e, _). EStatusUpdateRoute r e)"

definition k_GetSecret :: "'w env \<Rightarrow> NamespacedName \<Rightarrow> Secret \<Rightarrow> ('w, error option \<times> Secret) op" where
  "k_GetSecret env key s = perform (GetSecret_api env key s) (\<lambda>(e, _). EGetSecret key e)"

definition k_CreateOrUpdateSecret ::
  "'w env \<Rightarrow> Secret \<Rightarrow> (Secret \<Rightarrow> Secret) \<Rightarrow> ('w, error option \<times> Secret) op" where
  "k_CreateOrUpdateSecret env s mutate =
     perform (CreateOrUpdateSecret_api env s mutate)
       (\<lambda>(e, _). ECreateOrUpdateSecret (key_of (sec_Meta s)) e)"

definition k_GetConfigMap ::
  "'w env \<Rightarrow> NamespacedName \<Rightarrow> ConfigMap \<Rightarrow> ('w, error option \<times> ConfigMap) op" where
  "k_GetConfigMap env key c = perform (GetConfigMap_api env key c) (\<lambda>(e, _). EGetConfigMap key e)"

definition k_GetDNSEndpoint ::
  "'w env \<Rightarrow> NamespacedName \<Rightarrow> DNSEndpoint \<Rightarrow> ('w, error option \<times> DNSEndpoint) op" where
  "k_GetDNSEndpoint env key x =
     perform (GetDNSEndpoint_api env key x) (\<lambda>(e, _). EGetDNSEndpoint key e)"

definition k_CreateDNSEndpoint :: "'w env \<Rightarrow> DNSEndpoint \<Rightarrow> ('w, error option) op" where
  "k_CreateDNSEndpoint env x = perform (CreateDNSEndpoint_api env x) (ECreateDNSEndpoint x)"

definition k_DeleteDNSEndpoint :: "'w env \<Rightarrow> DNSEndpoint \<Rightarrow> ('w, error option) op" where
  "k_DeleteDNSEndpoint env x = perform (DeleteDNSEndpoint_api env x) (EDeleteDNSEndpoint x)"

definition k_Eventf ::
  "'w env \<Rightarrow> ObjectMeta \<Rightarrow> string \<Rightarrow> string \<Rightarrow> string \<Rightarrow> ('w, unit) op" where
  "k_Eventf env m ty rsn msg =
     perform (Eventf_api env (key_of m) ty rsn msg) (\<lambda>_. EEventf ty rsn msg)"

section \<open>Calls of the Mailgun client, the random source and the clock\<close>

definition mg_GetDomain :: "'w env \<Rightarrow> MailgunImpl \<Rightarrow> string \<Rightarrow> ('w, error + DomainResponse) op" where
  "mg_GetDomain env mg name = perform (mg_GetDomain_api env mg name) (MGetDomain mg name)"

definition mg_CreateDomain ::
  "'w env \<Rightarrow> MailgunImpl \<Rightarrow> string \<Rightarrow> CreateDomainOptions \<Rightarrow> ('w, error + DomainResponse) op" where
  "mg_CreateDomain env mg name opts =
     perform (mg_CreateDomain_api env mg name opts) (MCreateDomain mg name opts)"

definition mg_VerifyDomain :: "'w env \<Rightarrow> MailgunImpl \<Rightarrow> string \<Rightarrow> ('w, error + string) op" where
  "mg_VerifyDomain env mg name = perform (mg_VerifyDomain_api env mg name) (MVerifyDomain mg name)"

definition mg_DeleteDomain :: "'w env \<Rightarrow> MailgunImpl \<Rightarrow> string \<Rightarrow> ('w, error option) op" where
  "mg_DeleteDomain env mg name = perform (mg_DeleteDomain_api env mg name) (MDeleteDomain mg name)"

definition mg_GetRoute :: "'w env \<Rightarrow> MailgunImpl \<Rightarrow> string \<Rightarrow> ('w, error + MgRoute) op" where
  "mg_GetRoute env mg i = perform (mg_GetRoute_api env mg i) (MGetRoute mg i)"

definition mg_CreateRoute :: "'w env \<Rightarrow> MailgunImpl \<Rightarrow> MgRoute \<Rightarrow> ('w, error + MgRoute) op" where
  "mg_CreateRoute env mg r = perform (mg_CreateRoute_api env mg r) (MCreateRoute mg r)"

definition mg_UpdateRoute ::
  "'w env \<Rightarrow> MailgunImpl \<Rightarrow> string \<Rightarrow> MgRoute \<Rightarrow> ('w, error + MgRoute) op" where
  "mg_UpdateRoute env mg i r = perform (mg_UpdateRoute_api env mg i r) (MUpdateRoute mg i r)"

definition mg_DeleteRoute :: "'w env \<Rightarrow> MailgunImpl \<Rightarrow> string \<Rightarrow> ('w, error option) op" where
  "mg_DeleteRoute env mg i = perform (mg_DeleteRoute_api env mg i) (MDeleteRoute mg i)"

definition rand_Read :: "'w env \<Rightarrow> nat \<Rightarrow> ('w, error + string) op" where
  "rand_Read env n = perform (rand_Read_api env n) (\<lambda>r. ERandRead n (err_of r))"

definition time_Now :: "'w env \<Rightarrow> ('w, time) op" where
  "time_Now env = perform (time_Now_api env) ETimeNow"

lemmas call_defs =
  k_GetDomain_def k_UpdateDomain_def k_StatusUpdateDomain_def k_GetRoute_def k_UpdateRoute_def
  k_StatusUpdateRoute_def k_GetSecret_def k_CreateOrUpdateSecret_def k_GetConfigMap_def
  k_GetDNSEndpoint_def k_CreateDNSEndpoint_def k_DeleteDNSEndpoint_def k_Eventf_def
  mg_GetDomain_def mg_CreateDomain_def mg_VerifyDomain_def mg_DeleteDomain_def mg_GetRoute_def
  mg_CreateRoute_def mg_UpdateRoute_def mg_DeleteRoute_def rand_Read_def time_Now_def

text \<open>Each call, whatever it answers, adds exactly its event.\<close>

lemma emits_calls_rules [emits_rules]:
  "(\<And>e x. P (EGetDomain key e x)) \<Longrightarrow> emits P (k_GetDomain env key d)"
  "(\<And>e. P (EUpdateDomain d e)) \<Longrightarrow> emits P (k_UpdateDomain env d)"
  "(\<And>e. P (EStatusUpdateDomain d e)) \<Longrightarrow> emits P (k_StatusUpdateDomain env d)"
  "(\<And>e x. P (EGetRoute key e x)) \<Longrightarrow> emits P (k_GetRoute env key r)"
  "(\<And>e. P (EUpdateRoute r e)) \<Longrightarrow> emits P (k_UpdateRoute env r)"
  "(\<And>e. P (EStatusUpdateRoute r e)) \<Longrightarrow> emits P (k_StatusUpdateRoute env r)"
  "(\<And>e. P (EGetSecret key e)) \<Longrightarrow> emits P (k_GetSecret env key sec)"
  "(\<And>e. P (ECreateOrUpdateSecret (key_of (sec_Meta sec)) e)) \<Longrightarrow>
     emits P (k_CreateOrUpdateSecret env sec f)"
  "(\<And>e. P (EGetConfigMap key e)) \<Longrightarrow> emits P (k_GetConfigMap env key c)"
  "(\<And>e. P (EGetDNSEndpoint key e)) \<Longrightarrow> emits P (k_GetDNSEndpoint env key x)"
  "(\<And>e. P (ECreateDNSEndpoint x e)) \<Longrightarrow> emits P (k_CreateDNSEndpoint env x)"
  "(\<And>e. P (EDeleteDNSEndpoint x e)) \<Longrightarrow> emits P (k_DeleteDNSEndpoint env x)"
  "P (EEventf ty rsn msg) \<Longrightarrow> emits P (k_Eventf env m ty rsn msg)"
  "(\<And>a. P (MGetDomain mg name a)) \<Longrightarrow> emits P (mg_GetDomain env mg name)"
  "(\<And>a. P (MCreateDomain mg name opts a)) \<Longrightarrow> emits P (mg_CreateDomain env mg name opts)"
  "(\<And>a. P (MVerifyDomain mg name a)) \<Longrightarrow> emits P (mg_VerifyDomain env mg name)"
  "(\<And>e. P (MDeleteDomain mg name e)) \<Longrightarrow> emits P (mg_DeleteDomain env mg name)"
  "(\<And>a. P (MGetRoute mg i a)) \<Longrightarrow> emits P (mg_GetRoute env mg i)"
  "(\<And>a. P (MCreateRoute mg mr a)) \<Longrightarrow> emits P (mg_CreateRoute env mg mr)"
  "(\<And>a. P (MUpdateRoute mg i mr a)) \<Longrightarrow> emits P (mg_UpdateRoute env mg i mr)"
  "(\<And>e. P (MDeleteRoute mg i e)) \<Longrightarrow> emits P (mg_DeleteRoute env mg i)"
  "(\<And>e. P (ERandRead n e)) \<Longrightarrow> emits P (rand_Read env n)"
  "(\<And>t. P (ETimeNow t)) \<Longrightarrow> emits P (time_Now env)"
  unfolding call_defs by (auto intro!: emits_perform)

lemma call_bound_calls_rules [bound_rules]:
  "1 \<le> n \<Longrightarrow> call_bound n (k_GetDomain env key d)"
  "1 \<le> n \<Longrightarrow> call_bound n (k_UpdateDomain env d)"
  "1 \<le> n \<Longrightarrow> call_bound n (k_StatusUpdateDomain env d)"
  "1 \<le> n \<Longrightarrow> call_bound n (k_GetRoute env key r)"
  "1 \<le> n \<Longrightarrow> call_bound n (k_UpdateRoute env r)"
  "1 \<le> n \<Longrightarrow> call_bound n (k_StatusUpdateRoute env r)"
  "1 \<le> n \<Longrightarrow> call_bound n (k_GetSecret env key sec)"
  "1 \<le> n \<Longrightarrow> call_bound n (k_CreateOrUpdateSecret env sec f)"
  "1 \<le> n \<Longrightarrow> call_bound n (k_GetConfigMap env key c)"
  "1 \<le> n \<Longrightarrow> call_bound n (k_GetDNSEndpoint env key x)"
  "1 \<le> n \<Longrightarrow> call_bound n (k_CreateDNSEndpoint env x)"
  "1 \<le> n \<Longrightarrow> call_bound n (k_DeleteDNSEndpoint env x)"
  "1 \<le> n \<Longrightarrow> call_bound n (k_Eventf env m ty rsn msg)"
  "1 \<le> n \<Longrightarrow> call_bound n (mg_GetDomain env mg name)"
  "1 \<le> n \<Longrightarrow> call_bound n (mg_CreateDomain env mg name opts)"
  "1 \<le> n \<Longrightarrow> call_bound n (mg_VerifyDomain env mg name)"
  "1 \<le> n \<Longrightarrow> call_bound n (mg_DeleteDomain env mg name)"
  "1 \<le> n \<Longrightarrow> call_bound n (mg_GetRoute env mg i)"
  "1 \<le> n \<Longrightarrow> call_bound n (mg_CreateRoute env mg mr)"
  "1 \<le> n \<Longrightarrow> call_bound n (mg_UpdateRoute env mg i mr)"
  "1 \<le> n \<Longrightarrow> call_bound n (mg_DeleteRoute env mg i)"
  "1 \<le> n \<Longrightarrow> call_bound n (rand_Read env k)"
  "1 \<le> n \<Longrightarrow> call_bound n (time_Now env)"
  unfolding call_defs by (simp_all add: call_bound_perform)

lemmas one_call [segment_bounds] = call_bound_calls_rules [OF order_refl]
lemmas one_call_Suc [segment_bounds] = one_call [unfolded One_nat_def]

lemma framed_calls [framed_rules]:
  "framed (k_GetDomain env key d)" "framed (k_UpdateDomain env d)"
  "framed (k_StatusUpdateDomain env d)" "framed (k_GetRoute env key r)"
  "framed (k_UpdateRoute env r)" "framed (k_StatusUpdateRoute env r)"
  "framed (k_GetSecret env key sec)" "framed (k_CreateOrUpdateSecret env sec f)"
  "framed (k_GetConfigMap env key c)" "framed (k_GetDNSEndpoint env key x)"
  "framed (k_CreateDNSEndpoint env x)" "framed (k_DeleteDNSEndpoint env x)"
  "framed (k_Eventf env m ty rsn msg)" "framed (mg_GetDomain env mg name)"
  "framed (mg_CreateDomain env mg name opts)" "framed (mg_VerifyDomain env mg name)"
  "framed (mg_DeleteDomain env mg name)" "framed (mg_GetRoute env mg i)"
  "framed (mg_CreateRoute env mg mr)" "framed (mg_UpdateRoute env mg i mr)"
  "framed (mg_DeleteRoute env mg i)" "framed (rand_Read env n)" "framed (time_Now env)"
  by (simp_all add: call_defs framed_perform)

lemmas exec_calls [exec_simps] =
  call_defs [THEN arg_cong, of "\<lambda>m. result m w" for w, unfolded exec_perform]
  call_defs [THEN arg_cong, of "\<lambda>m. after m w" for w, unfolded exec_perform]
  call_defs [THEN arg_cong, of "\<lambda>m. calls m w" for w, unfolded exec_perform]

section \<open>Documented behaviour of the library helpers\<close>

text \<open>
  The controllerutil helpers on an object's finalizers, as their documentation states it: adding
  makes the finalizer present, removing makes it absent and reports whether it was there, neither
  touches any other finalizer or any other metadata.
\<close>

definition finalizer_laws :: "'w env \<Rightarrow> bool" where
  "finalizer_laws env \<longleftrightarrow>
     (\<forall>m f. ContainsFinalizer env m f \<longleftrightarrow> f \<in> set (Finalizers m)) \<and>
     (\<forall>m f. AddFinalizer env m f =
        (if f \<in> set (Finalizers m) then (m, False)
         else (m\<lparr>Finalizers := Finalizers m @ [f]\<rparr>, True))) \<and>
     (\<forall>m f. RemoveFinalizer env m f =
        (m\<lparr>Finalizers := filter (\<lambda>x. x \<noteq> f) (Finalizers m)\<rparr>, f \<in> set (Finalizers m)))"

text \<open>\<^verbatim>\<open>IgnoreNotFound\<close> and \<^verbatim>\<open>IsNotFound\<close> go by the status reason of the error.\<close>

definition error_laws :: "'w env \<Rightarrow> bool" where
  "error_laws env \<longleftrightarrow>
     (\<forall>e. IsNotFound env e \<longleftrightarrow> (\<exists>x. e = Some x \<and> reason x = ''NotFound'')) \<and>
     (\<forall>e. IgnoreNotFound env e = (if IsNotFound env e then None else e))"

text \<open>
  What the API server answers to a write with an up-to-date resource version: \<^verbatim>\<open>Update\<close> returns
  the object with the specification that was sent and the stored status (the status is a
  subresource, so the one sent is ignored; its state is still the one that was read), and
  \<^verbatim>\<open>Status().Update\<close> returns the object with the status that was sent.
\<close>

definition echo_laws :: "'w env \<Rightarrow> bool" where
  "echo_laws env \<longleftrightarrow>
     (\<forall>d w d' w'. UpdateDomain_api env d w = ((None, d'), w') \<longrightarrow>
        d_Spec d' = d_Spec d \<and> status_State (d_Status d') = status_State (d_Status d)) \<and>
     (\<forall>d w d' w'. StatusUpdateDomain_api env d w = ((None, d'), w') \<longrightarrow>
        d_Spec d' = d_Spec d \<and> d_Status d' = d_Status d)"

lemma echo_lawsD:
  assumes "echo_laws env"
  shows "fst (UpdateDomain_api env d w) = (None, d') \<Longrightarrow>
           d_Spec d' = d_Spec d \<and> status_State (d_Status d') = status_State (d_Status d)"
    and "fst (StatusUpdateDomain_api env d w) = (None, d') \<Longrightarrow>
           d_Spec d' = d_Spec d \<and> d_Status d' = d_Status d"
  using assms unfolding echo_laws_def by (metis prod.collapse)+

definition route_echo_laws :: "'w env \<Rightarrow> bool" where
  "route_echo_laws env \<longleftrightarrow>
     (\<forall>r w r' w'. UpdateRoute_api env r w = ((None, r'), w') \<longrightarrow>
        r_Spec r' = r_Spec r \<and> RouteID (r_Status r') = RouteID (r_Status r)) \<and>
     (\<forall>r w r' w'. StatusUpdateRoute_api env r w = ((None, r'), w') \<longrightarrow>
        r_Spec r' = r_Spec r \<and> r_Status r' = r_Status r)"

lemma route_echo_lawsD:
  assumes "route_echo_laws env"
  shows "fst (UpdateRoute_api env r w) = (None, r') \<Longrightarrow>
           r_Spec r' = r_Spec r \<and> RouteID (r_Status r') = RouteID (r_Status r)"
    and "fst (StatusUpdateRoute_api env r w) = (None, r') \<Longrightarrow>
           r_Spec r' = r_Spec r \<and> r_Status r' = r_Status r"
  using assms unfolding route_echo_laws_def by (metis prod.collapse)+

text \<open>\<^verbatim>\<open>( *Time).IsZero\<close> holds of nil.\<close>

definition time_laws :: "'w env \<Rightarrow> bool" where
  "time_laws env \<longleftrightarrow> IsZero env None"

lemma finalizer_lawsD:
  assumes "finalizer_laws env"
  shows "ContainsFinalizer env m f \<longleftrightarrow> f \<in> set (Finalizers m)"
    and "snd (RemoveFinalizer env m f) \<longleftrightarrow> f \<in> set (Finalizers m)"
    and "Finalizers (fst (RemoveFinalizer env m f)) = filter (\<lambda>x. x \<noteq> f) (Finalizers m)"
    and "set (Finalizers (fst (AddFinalizer env m f))) = insert f (set (Finalizers m))"
  using assms by (auto simp: finalizer_laws_def)

end
