(* ===== verification/Configuration.thy ===== *)
theory Configuration
  imports Environment
begin

text \<open>
  Model of \<^verbatim>\<open>internal/configuration/configuration.go\<close>: the operator's settings, their
  defaults, loading them from a ConfigMap and a Secret (the Secret wins), the reflective copy
  \<^verbatim>\<open>hashToConfig\<close> with its panic on a malformed integer, and the choice of the Mailgun API
  base.
\<close>

section \<open>Strings and integers of the Go standard library\<close>

text \<open>
  \<^verbatim>\<open>strconv.ParseInt(s, 10, 0)\<close> on a 64-bit platform (\<^verbatim>\<open>strconv.Atoi\<close> accepts the same
  strings and yields the same values): an optional sign, at least one decimal digit, and a value in
  the range of \<^verbatim>\<open>int\<close>; anything else is an error, here \<^const>\<open>None\<close>.
\<close>

definition digit_of :: "char \<Rightarrow> nat option" where
  "digit_of c = (let k = of_char c :: nat in if 48 \<le> k \<and> k \<le> 57 then Some (k - 48) else None)"

fun parse_digits :: "string \<Rightarrow> nat \<Rightarrow> nat option" where
  "parse_digits [] acc = Some acc"
| "parse_digits (c # cs) acc =
     (case digit_of c of None \<Rightarrow> None | Some k \<Rightarrow> parse_digits cs (10 * acc + k))"

definition parse_nat :: "string \<Rightarrow> nat option" where
  "parse_nat s = (if s = [] then None else parse_digits s 0)"

definition ParseInt :: "string \<Rightarrow> go_int option" where
  "ParseInt s =
     (case s of
        [] \<Rightarrow> None
      | c # cs \<Rightarrow>
          if c = CHR ''-'' then
            (case parse_nat cs of
               None \<Rightarrow> None
             | Some n \<Rightarrow> if int n \<le> 2 ^ 63 then Some (word_of_int (- int n)) else None)
          else
            (case parse_nat (if c = CHR ''+'' then cs else s) of
               None \<Rightarrow> None
             | Some n \<Rightarrow> if int n < 2 ^ 63 then Some (word_of_int (int n)) else None))"

section \<open>The settings\<close>

record Data =
  OperatorNamespace :: string
  APIToken :: string
  APIServer :: string
  DomainVerifyDuration :: go_int

definition NewConfiguration :: "'w env \<Rightarrow> Data" where
  "NewConfiguration env = \<lparr>OperatorNamespace = ''mailgun-operator-system'', APIToken = '''',
     APIServer = APIBaseEU env, DomainVerifyDuration = 300\<rparr>"

definition MailgunClient :: "'w env \<Rightarrow> Data \<Rightarrow> string \<Rightarrow> MailgunImpl" where
  "MailgunClient env d domainName =
     \<lparr>client_domain = domainName, client_apiKey = APIToken d,
      client_apiBase =
        (if APIServer d = ''EU'' then APIBaseEU env
         else if APIServer d = ''US'' then APIBaseUS env
         else APIServer d)\<rparr>"

section \<open>Reading the ConfigMap and the Secret\<close>

definition readConfigMap :: "'w env \<Rightarrow> string \<Rightarrow> string \<Rightarrow> ('w, error + string go_map option) op" where
  "readConfigMap env namespace configMapName = do {
     (err, configMap) \<leftarrow> k_GetConfigMap env
        \<lparr>nn_Namespace = namespace, nn_Name = configMapName\<rparr> zero_ConfigMap;
     if IsNotFound env err then State_Monad.return (Inr None)
     else (case err of
        Some e \<Rightarrow> State_Monad.return (Inl e)
      | None \<Rightarrow> State_Monad.return (Inr (cm_Data configMap)))
   }"

definition readSecret :: "'w env \<Rightarrow> string \<Rightarrow> string \<Rightarrow> ('w, error + string go_map option) op" where
  "readSecret env namespace secretName = do {
     (err, secret) \<leftarrow> k_GetSecret env
        \<lparr>nn_Namespace = namespace, nn_Name = secretName\<rparr> zero_Secret;
     if IsNotFound env err then State_Monad.return (Inr None)
     else (case err of
        Some e \<Rightarrow> State_Monad.return (Inl e)
      | None \<Rightarrow> State_Monad.return (Inr (sec_Data secret)))
   }"

section \<open>\<^verbatim>\<open>hashToConfig\<close>\<close>

text \<open>
  What reflection shows of the struct \<^verbatim>\<open>Data\<close>: its fields in order, each with its name, its json
  tag and its kind, together with the write that \<^verbatim>\<open>FieldByName(...).SetString/SetInt\<close> performs.
\<close>

datatype field_setter =
    SetString "string \<Rightarrow> Data \<Rightarrow> Data"
  | SetInt "go_int \<Rightarrow> Data \<Rightarrow> Data"

type_synonym struct_field = "string \<times> string \<times> field_setter"

definition data_fields :: "struct_field list" where
  "data_fields =
     [(''OperatorNamespace'', '''', SetString (\<lambda>v. OperatorNamespace_update (\<lambda>_. v))),
      (''APIToken'', ''api_token,omitempty'', SetString (\<lambda>v. APIToken_update (\<lambda>_. v))),
      (''APIServer'', ''api_server,omitempty'', SetString (\<lambda>v. APIServer_update (\<lambda>_. v))),
      (''DomainVerifyDuration'', ''domain_verification_timeout,omitempty'',
         SetInt (\<lambda>v. DomainVerifyDuration_update (\<lambda>_. v)))]"

text \<open>\<^verbatim>\<open>strings.Split(key, ",")[0]\<close>\<close>

definition first_of_split :: "string \<Rightarrow> string" where
  "first_of_split key = takeWhile (\<lambda>c. c \<noteq> CHR '','') key"

fun hash_fields :: "struct_field list \<Rightarrow> string go_map \<Rightarrow> Data \<Rightarrow> Data go" where
  "hash_fields [] configData d = Ret d"
| "hash_fields ((name, tag, setter) # rest) configData d =
     (if tag = '''' then hash_fields rest configData d
      else (case map_of configData (first_of_split tag) of
        None \<Rightarrow> hash_fields rest configData d
      | Some value \<Rightarrow>
          (case setter of
             SetString write \<Rightarrow> hash_fields rest configData (write value d)
           | SetInt write \<Rightarrow>
               (case ParseInt value of
                  None \<Rightarrow> Panic (''field '' @ name @ '', type int, kind int is not parsed'')
                | Some intValue \<Rightarrow> hash_fields rest configData (write intValue d)))))"

definition hashToConfig :: "Data \<Rightarrow> string go_map \<Rightarrow> Data go" where
  "hashToConfig d configData = hash_fields data_fields configData d"

section \<open>\<^verbatim>\<open>LoadConfiguration\<close>\<close>

definition map_or_nil :: "'v go_map option \<Rightarrow> 'v go_map" where
  "map_or_nil m = (case m of None \<Rightarrow> [] | Some kvs \<Rightarrow> kvs)"

definition LoadConfiguration ::
  "'w env \<Rightarrow> Data \<Rightarrow> string \<Rightarrow> string \<Rightarrow> ('w, (error option \<times> Data) go) op" where
  "LoadConfiguration env d configMapName secretName = do {
     fromConfigMap \<leftarrow>
       (if configMapName \<noteq> '''' then readConfigMap env (OperatorNamespace d) configMapName
        else State_Monad.return (Inr None));
     (case fromConfigMap of
        Inl err \<Rightarrow> State_Monad.return (Ret (Some err, d))
      | Inr configMapData \<Rightarrow> do {
          let configData = copy_into [] (map_or_nil configMapData);
          fromSecret \<leftarrow>
            (if secretName \<noteq> '''' then readSecret env (OperatorNamespace d) secretName
             else State_Monad.return (Inr None));
          (case fromSecret of
             Inl err \<Rightarrow> State_Monad.return (Ret (Some err, d))
           | Inr secretData \<Rightarrow>
               (let configData = copy_into configData (map_or_nil secretData)
                in if configData \<noteq> [] then
                     (case hashToConfig d configData of
                        Panic msg \<Rightarrow> State_Monad.return (Panic msg)
                      | Ret d' \<Rightarrow> State_Monad.return (Ret (None, d')))
                   else State_Monad.return (Ret (None, d))))
        })
   }"

end
