(* ===== verification/Random_Hex.thy ===== *)
theory Random_Hex
  imports Environment
begin

text \<open>
  Model of \<^verbatim>\<open>internal/utils/random.go\<close>: \<^verbatim>\<open>RandomHex(n)\<close> reads \<open>n\<close> random bytes and
  returns them as lower-case hexadecimal text. The byte slice is a string (a \<^typ>\<open>char\<close> is a byte).
\<close>

definition hex_digit :: "nat \<Rightarrow> char" where
  "hex_digit k = ''0123456789abcdef'' ! k"

text \<open>\<^verbatim>\<open>hex.EncodeToString\<close> and, as its specification, the decoder of two-digit groups.\<close>

fun EncodeToString :: "string \<Rightarrow> string" where
  "EncodeToString [] = []"
| "EncodeToString (b # bs) =
     hex_digit (of_char b div 16) # hex_digit (of_char b mod 16) # EncodeToString bs"

definition hex_value :: "char \<Rightarrow> nat" where
  "hex_value c = (let k = of_char c :: nat in if k < 58 then k - 48 else k - 87)"

fun hex_decode :: "string \<Rightarrow> string" where
  "hex_decode (h # l # cs) = char_of (16 * hex_value h + hex_value l) # hex_decode cs"
| "hex_decode _ = []"

text \<open>
  The slice that \<^verbatim>\<open>make([]byte, n)\<close> allocates, after \<^verbatim>\<open>rand.Read\<close> has overwritten it with
  the bytes it delivered: it has length \<open>n\<close> whatever was delivered.
\<close>

definition fill_buffer :: "nat \<Rightarrow> string \<Rightarrow> string" where
  "fill_buffer n bs = take n bs @ replicate (n - length bs) (CHR 0x00)"

text \<open>
  \<^verbatim>\<open>make([]byte, n)\<close> panics for a negative length and for one beyond what the address space of the
  runtime allows, \<open>2 ^ 48\<close> bytes on the 64-bit targets of the operator. A smaller allocation that the
  machine has no memory for ends the process and is not modelled.
\<close>

definition max_alloc :: int where
  "max_alloc = 281474976710656"

definition RandomHex :: "'w env \<Rightarrow> go_int \<Rightarrow> ('w, (error + string) go) op" where
  "RandomHex env n =
     (if sint n < 0 \<or> max_alloc < sint n
      then State_Monad.return (Panic ''runtime error: makeslice: len out of range'')
      else do {
        r \<leftarrow> rand_Read env (unat n);
        (case r of
           Inl err \<Rightarrow> State_Monad.return (Ret (Inl err))
         | Inr bs \<Rightarrow> State_Monad.return (Ret (Inr (EncodeToString (fill_buffer (unat n) bs)))))
      })"

text \<open>The operator asks for 16 bytes.\<close>

lemma RandomHex_16:
  "RandomHex env 16 = do {
     r \<leftarrow> rand_Read env 16;
     (case r of
        Inl err \<Rightarrow> State_Monad.return (Ret (Inl err))
      | Inr bs \<Rightarrow> State_Monad.return (Ret (Inr (EncodeToString (fill_buffer 16 bs)))))
   }"
proof -
  have "sint (16 :: go_int) = 16" by code_simp
  then show ?thesis by (simp add: RandomHex_def max_alloc_def)
qed

section \<open>Lemmas\<close>

lemma length_EncodeToString [simp]: "length (EncodeToString bs) = 2 * length bs"
  by (induction bs) simp_all

lemma length_fill_buffer [simp]: "length (fill_buffer n bs) = n"
  by (simp add: fill_buffer_def min_def)

lemma take_fill_buffer: "take (length bs) (fill_buffer n bs) = take n bs"
  by (cases "length bs \<le> n") (simp_all add: fill_buffer_def)

lemma of_char_bound: "(of_char c :: nat) < 256"
  by (cases c) (simp add: of_char_Char)

lemma hex_value_digit [simp]: "k < 16 \<Longrightarrow> hex_value (hex_digit k) = k"
proof -
  have "list_all (\<lambda>k. hex_value (hex_digit k) = k) [0..<16]" by code_simp
  then show "k < 16 \<Longrightarrow> hex_value (hex_digit k) = k" by (simp add: list_all_iff)
qed

lemma hex_digit_range: "k < 16 \<Longrightarrow> hex_digit k \<in> set ''0123456789abcdef''"
  unfolding hex_digit_def by (rule nth_mem) simp

lemma hex_decode_encode [simp]: "hex_decode (EncodeToString bs) = bs"
proof (induction bs)
  case Nil
  then show ?case by simp
next
  case (Cons b bs)
  have "(of_char b :: nat) div 16 < 16"
    using of_char_bound [of b] by (simp add: less_mult_imp_div_less)
  with Cons show ?case by simp
qed

lemma EncodeToString_digits: "set (EncodeToString bs) \<subseteq> set ''0123456789abcdef''"
proof (induction bs)
  case Nil
  then show ?case by simp
next
  case (Cons b bs)
  have "(of_char b :: nat) div 16 < 16"
    using of_char_bound [of b] by (simp add: less_mult_imp_div_less)
  then have "hex_digit (of_char b div 16) \<in> set ''0123456789abcdef''"
    and "hex_digit (of_char b mod 16) \<in> set ''0123456789abcdef''"
    by (simp_all only: hex_digit_range mod_less_divisor zero_less_numeral)
  with Cons show ?case by (simp only: EncodeToString.simps set_simps insert_subset simp_thms)
qed


end
