(* ===== verification/Domain_Controller.thy ===== *)
theory Domain_Controller
  imports Configuration Random_Hex
begin

text \<open>
  Model of \<^verbatim>\<open>internal/controller/domain/domain_controller.go\<close>. Each definition is one Go
  function, or one segment of \<^verbatim>\<open>Reconcile\<close> that ends at an early return. A function that
  mutates the object behind a pointer returns the object; an error result is \<^const>\<open>None\<close> for
  Go's nil; dereferencing a nil pointer is \<^const>\<open>Panic\<close>. Log lines are left out.
\<close>

section \<open>Results of a reconciliation\<close>

text \<open>
  \<^verbatim>\<open>ctrl.Result\<close>, of which the code sets only \<^verbatim>\<open>RequeueAfter\<close>: a \<^verbatim>\<open>time.Duration\<close>, an
  int64 count of nanoseconds. A reconciliation returns a result and an error, or panics.
\<close>

record Result =
  RequeueAfter :: go_int

datatype outcome = Done Result "error option" | Crashed string

definition no_requeue :: Result where
  "no_requeue = \<lparr>RequeueAfter = 0\<rparr>"

definition Second :: go_int where
  "Second = 1000000000"

definition domainFinalizer :: string where
  "domainFinalizer = ''domain.mailgun.com/finalizer''"

definition nil_deref :: string where
  "nil_deref = ''runtime error: invalid memory address or nil pointer dereference''"

definition set_Meta :: "ObjectMeta \<Rightarrow> Domain \<Rightarrow> Domain" where
  "set_Meta m d = d\<lparr>d_Meta := m\<rparr>"

lemma set_Meta_simps [simp]:
  "d_Meta (set_Meta m d) = m"
  "d_Spec (set_Meta m d) = d_Spec d"
  "d_Status (set_Meta m d) = d_Status d"
  by (simp_all add: set_Meta_def)

section \<open>DNS records\<close>

text \<open>The loop of \<^verbatim>\<open>mgDNSRecordsToDnsRecords\<close>: \<^verbatim>\<open>result[i]\<close> is written for each index of the input.\<close>

fun convert_from :: "nat \<Rightarrow> MgDNSRecord list \<Rightarrow> DnsRecord list \<Rightarrow> DnsRecord list" where
  "convert_from i [] out = out"
| "convert_from i (r # rs) out =
     convert_from (Suc i) rs
       (out[i := \<lparr>dns_Name = mgdns_Name r, dns_Priority = mgdns_Priority r,
          dns_RecordType = mgdns_RecordType r, dns_Valid = mgdns_Valid r,
          dns_Value = mgdns_Value r\<rparr>])"

definition mgDNSRecordsToDnsRecords :: "MgDNSRecord list \<Rightarrow> DnsRecord list" where
  "mgDNSRecordsToDnsRecords records =
     convert_from 0 records (replicate (length records) zero_DnsRecord)"

section \<open>\<^verbatim>\<open>createExternalDNSEntity\<close>\<close>

text \<open>The loop over the records, with its two accumulators \<^verbatim>\<open>mxRecords\<close> and the endpoints.\<close>

fun collect_records ::
  "'w env \<Rightarrow> DnsRecord list \<Rightarrow> string list \<Rightarrow> Endpoint option list \<Rightarrow>
   string list \<times> Endpoint option list" where
  "collect_records env [] mxRecords eps = (mxRecords, eps)"
| "collect_records env (record # records) mxRecords eps =
     (if dns_RecordType record = ''MX'' then
        collect_records env records
          (mxRecords @ [dns_Priority record @ '' '' @ dns_Value record]) eps
      else
        collect_records env records mxRecords
          (eps @ [NewEndpoint env (dns_Name record) (dns_RecordType record) [dns_Value record]]))"

fun add_extra_records ::
  "'w env \<Rightarrow> Endpoint list \<Rightarrow> Endpoint option list \<Rightarrow> Endpoint option list" where
  "add_extra_records env [] eps = eps"
| "add_extra_records env (record # records) eps =
     add_extra_records env records
       (eps @ [NewEndpoint env (ep_DNSName record) (ep_RecordType record) (ep_Targets record)])"

definition buildDNSEndpoint :: "'w env \<Rightarrow> Domain \<Rightarrow> DNSEndpoint" where
  "buildDNSEndpoint env d =
     (let records = ReceivingDnsRecords (d_Status d) @ SendingDnsRecords (d_Status d);
          (mxRecords, eps) = collect_records env records [] [];
          eps = (if mxRecords \<noteq> [] then
                   eps @ [NewEndpoint env (spec_Domain (d_Spec d)) ''MX'' mxRecords] else eps);
          eps = (if ExternalDNSRecords (d_Spec d) \<noteq> [] then
                   add_extra_records env (ExternalDNSRecords (d_Spec d)) eps else eps)
      in \<lparr>de_Meta = zero_ObjectMeta\<lparr>meta_Name := meta_Name (d_Meta d),
                                      meta_Namespace := meta_Namespace (d_Meta d)\<rparr>,
          Endpoints = eps\<rparr>)"

definition set_DnsEntrypointCreated :: "Domain \<Rightarrow> Domain" where
  "set_DnsEntrypointCreated d = d\<lparr>d_Status := (d_Status d)\<lparr>DnsEntrypointCreated := True\<rparr>\<rparr>"

definition createExternalDNSEntity :: "'w env \<Rightarrow> Domain \<Rightarrow> ('w, error option \<times> Domain) op" where
  "createExternalDNSEntity env d = do {
     err \<leftarrow> k_CreateDNSEndpoint env (buildDNSEndpoint env d);
     (case err of
        Some e \<Rightarrow> State_Monad.return (Some e, d)
      | None \<Rightarrow> k_StatusUpdateDomain env (set_DnsEntrypointCreated d))
   }"

section \<open>\<^verbatim>\<open>exportCredentialsToSecret\<close>\<close>

definition credential_key :: "string \<Rightarrow> string option \<Rightarrow> string" where
  "credential_key default_key custom =
     (case custom of Some k \<Rightarrow> if k \<noteq> '''' then k else default_key | None \<Rightarrow> default_key)"

definition mutate_secret ::
  "string \<Rightarrow> string \<Rightarrow> string \<Rightarrow> string \<Rightarrow> Secret \<Rightarrow> Secret" where
  "mutate_secret passwordKey loginKey password login secret =
     secret\<lparr>sec_Data := Some (AList.update loginKey login
        (AList.update passwordKey password (map_or_nil (sec_Data secret))))\<rparr>"

definition exportCredentialsToSecret ::
  "'w env \<Rightarrow> Domain \<Rightarrow> string \<Rightarrow> string \<Rightarrow> ('w, error option go) op" where
  "exportCredentialsToSecret env d login password =
     (case ExportSecretName (d_Spec d) of
        None \<Rightarrow> State_Monad.return (Panic nil_deref)
      | Some secretName \<Rightarrow> do {
          (err, secret) \<leftarrow> k_GetSecret env
             \<lparr>nn_Namespace = meta_Namespace (d_Meta d), nn_Name = secretName\<rparr> zero_Secret;
          let passwordKey = credential_key ''smtp-password'' (ExportSecretPasswordKey (d_Spec d));
          let loginKey = credential_key ''smtp-login'' (ExportSecretLoginKey (d_Spec d));
          (case (err, IgnoreNotFound env err) of
             (Some e, Some _) \<Rightarrow>
               State_Monad.return
                 (Ret (Some (GoError (''error getting secret: '' @ Error e) (reason e))))
           | _ \<Rightarrow> do {
               let secret =
                 (if err = None then secret
                  else \<lparr>sec_Meta = zero_ObjectMeta\<lparr>meta_Name := secretName,
                                     meta_Namespace := meta_Namespace (d_Meta d)\<rparr>,
                        sec_Data = Some []\<rparr>);
               (err, _) \<leftarrow> k_CreateOrUpdateSecret env secret
                  (mutate_secret passwordKey loginKey password login);
               State_Monad.return (Ret err)
             })
        })"

section \<open>\<^verbatim>\<open>createDomain\<close>\<close>

definition createOptions :: "DomainSpec \<Rightarrow> string \<Rightarrow> CreateDomainOptions" where
  "createOptions spec password =
     \<lparr>opt_Password = password,
      opt_SpamAction = (case SpamAction spec of Some a \<Rightarrow> if a \<noteq> '''' then a else '''' | None \<Rightarrow> ''''),
      opt_Wildcard = (Wildcard spec = Some True),
      opt_ForceDKIMAuthority = (ForceDKIMAuthority spec = Some True),
      opt_DKIMKeySize = (case DKIMKeySize spec of Some n \<Rightarrow> if 0 <s n then n else 0 | None \<Rightarrow> 0)\<rparr>"

definition record_response :: "DomainResponse \<Rightarrow> Domain \<Rightarrow> Domain" where
  "record_response resp d = d\<lparr>d_Status := (d_Status d)
     \<lparr>SendingDnsRecords := mgDNSRecordsToDnsRecords (SendingDNSRecords resp),
      ReceivingDnsRecords := mgDNSRecordsToDnsRecords (ReceivingDNSRecords resp),
      status_DomainState := mgd_State (resp_Domain resp)\<rparr>\<rparr>"

definition createDomain ::
  "'w env \<Rightarrow> MailgunImpl \<Rightarrow> Domain \<Rightarrow> ('w, (error option \<times> Domain) go) op" where
  "createDomain env mg d = do {
     r \<leftarrow> RandomHex env 16;
     (case r of
        Panic msg \<Rightarrow> State_Monad.return (Panic msg)
      | Ret (Inl err) \<Rightarrow> State_Monad.return (Ret (Some err, d))
      | Ret (Inr password) \<Rightarrow> do {
          resp \<leftarrow> mg_CreateDomain env mg (spec_Domain (d_Spec d))
                    (createOptions (d_Spec d) password);
          (case resp of
             Inl err \<Rightarrow> State_Monad.return (Ret (Some err, d))
           | Inr domainResponse \<Rightarrow> do {
               let d = record_response domainResponse d;
               exported \<leftarrow>
                 (if ExportCredentials (d_Spec d) = Some True then
                    exportCredentialsToSecret env d
                      (mgd_SMTPLogin (resp_Domain domainResponse)) password
                  else State_Monad.return (Ret None));
               (case exported of
                  Panic msg \<Rightarrow> State_Monad.return (Panic msg)
                | Ret (Some err) \<Rightarrow> State_Monad.return (Ret (Some err, d))
                | Ret None \<Rightarrow> do {
                    (err, d) \<leftarrow> k_StatusUpdateDomain env d;
                    State_Monad.return (Ret (err, d))
                  })
             })
        })
   }"

section \<open>\<^verbatim>\<open>deleteDomain\<close>\<close>

definition removeDomainFinalizer :: "'w env \<Rightarrow> Domain \<Rightarrow> ('w, error option \<times> Domain) op" where
  "removeDomainFinalizer env d =
     k_UpdateDomain env (set_Meta (fst (RemoveFinalizer env (d_Meta d) domainFinalizer)) d)"

definition deleteFromMailgun ::
  "'w env \<Rightarrow> MailgunImpl \<Rightarrow> string \<Rightarrow> Domain \<Rightarrow> ('w, error option \<times> Domain) op" where
  "deleteFromMailgun env mg domainName d = do {
     got \<leftarrow> mg_GetDomain env mg domainName;
     (case got of
        Inl _ \<Rightarrow> removeDomainFinalizer env d
      | Inr _ \<Rightarrow> do {
          err \<leftarrow> mg_DeleteDomain env mg domainName;
          (case err of
             None \<Rightarrow> removeDomainFinalizer env d
           | Some e \<Rightarrow> do {
               k_Eventf env (d_Meta d) ''Warning'' ''DeletingDomainFailed''
                 (''Deleting domain '' @ domainName @ '' from mailgun is failed'');
               (uerr, d) \<leftarrow> k_StatusUpdateDomain env
                  (set_MailgunError (''Unable to delete domain: '' @ Error e)
                    (set_State DomainStateFailed d));
               (case uerr of
                  Some ue \<Rightarrow> State_Monad.return (Some ue, d)
                | None \<Rightarrow> State_Monad.return (Some e, d))
             })
        })
   }"

definition deleteDomain :: "'w env \<Rightarrow> MailgunImpl \<Rightarrow> Domain \<Rightarrow> ('w, error option \<times> Domain) op" where
  "deleteDomain env mg d = do {
     let domainName = spec_Domain (d_Spec d);
     k_Eventf env (d_Meta d) ''Normal'' ''DeletingDomain''
       (''Deleting domain '' @ domainName @ '' from mailgun'');
     let lookup = key_of (d_Meta d);
     (err, dnsEndpoint) \<leftarrow> k_GetDNSEndpoint env lookup zero_DNSEndpoint;
     if IgnoreNotFound env err \<noteq> None then State_Monad.return (err, d)
     else do {
       derr \<leftarrow> k_DeleteDNSEndpoint env dnsEndpoint;
       (case derr of
          Some e \<Rightarrow> do {
            (uerr, d) \<leftarrow> k_UpdateDomain env
               (set_MailgunError (''Unable to delete DNS endpoint '' @ meta_Name (d_Meta d) @
                  '': '' @ Error e) d);
            (case uerr of
               Some ue \<Rightarrow> State_Monad.return (Some ue, d)
             | None \<Rightarrow> deleteFromMailgun env mg domainName d)
          }
        | None \<Rightarrow> do {
            k_Eventf env (d_Meta d) ''Normal'' ''DeletedEndpoint''
              (''Deleted linked Endpoint '' @ NamespacedNameString env lookup @ '' from DNS'');
            deleteFromMailgun env mg domainName d
          })
     }
   }"

section \<open>\<^verbatim>\<open>checkMXRecordsAndSetState\<close>\<close>

text \<open>The loop that returns at the first record whose \<^verbatim>\<open>Valid\<close> is not \<^verbatim>\<open>"valid"\<close>.\<close>

fun all_records_valid :: "MgDNSRecord list \<Rightarrow> bool" where
  "all_records_valid [] = True"
| "all_records_valid (r # rs) = (if mgdns_Valid r \<noteq> ''valid'' then False else all_records_valid rs)"

definition checkMXRecordsAndSetState ::
  "'w env \<Rightarrow> MailgunImpl \<Rightarrow> Domain \<Rightarrow> ('w, Domain) op" where
  "checkMXRecordsAndSetState env mg d = do {
     r \<leftarrow> mg_GetDomain env mg (spec_Domain (d_Spec d));
     (case r of
        Inl _ \<Rightarrow> State_Monad.return d
      | Inr resp \<Rightarrow>
          if ReceivingDNSRecords resp = [] then State_Monad.return d
          else if all_records_valid (ReceivingDNSRecords resp)
          then State_Monad.return (set_State DomainStateActivated d)
          else State_Monad.return d)
   }"

section \<open>\<^verbatim>\<open>Reconcile\<close>\<close>

definition requeue_verify :: "Data \<Rightarrow> Result" where
  "requeue_verify cfg = \<lparr>RequeueAfter = DomainVerifyDuration cfg * Second\<rparr>"

text \<open>
  The branch for an object with an empty state (a new domain): either the reconciliation ends here
  (\<^const>\<open>Inl\<close>), or it goes on with the object in state \<^verbatim>\<open>created\<close>.
\<close>

definition reconcileNew ::
  "'w env \<Rightarrow> MailgunImpl \<Rightarrow> string \<Rightarrow> Domain \<Rightarrow> ('w, outcome + Domain) op" where
  "reconcileNew env mg domainName d = do {
     existing \<leftarrow> mg_GetDomain env mg domainName;
     (case existing of
        Inr _ \<Rightarrow> do {
          k_Eventf env (d_Meta d) ''Warning'' ''DomainExisted''
            (''Domain '' @ domainName @ '' is already exists on mailgun'');
          (err, _) \<leftarrow> k_StatusUpdateDomain env
             (set_MailgunError ''Domain already exists on Mailgun''
               (set_State DomainStateFailed (set_NotManaged True d)));
          State_Monad.return (Inl (Done no_requeue err))
        }
      | Inl _ \<Rightarrow> do {
          created \<leftarrow> createDomain env mg d;
          (case created of
             Panic msg \<Rightarrow> State_Monad.return (Inl (Crashed msg))
           | Ret (Some e, d) \<Rightarrow> do {
               (err, _) \<leftarrow> k_StatusUpdateDomain env
                  (set_MailgunError (Error e) (set_State DomainStateFailed d));
               State_Monad.return (Inl (Done no_requeue err))
             }
           | Ret (None, d) \<Rightarrow> State_Monad.return (Inr (set_State DomainStateCreated d)))
        })
   }"

definition count_validation :: "time \<Rightarrow> Domain \<Rightarrow> Domain" where
  "count_validation now d = d\<lparr>d_Status := (d_Status d)
     \<lparr>LastDomainValidationTime := Some now,
      DomainValidationCount :=
        Some ((case DomainValidationCount (d_Status d) of None \<Rightarrow> 0 | Some n \<Rightarrow> n) + 1)\<rparr>\<rparr>"

definition record_dns :: "DomainResponse \<Rightarrow> Domain \<Rightarrow> Domain" where
  "record_dns resp d = d\<lparr>d_Status := (d_Status d)
     \<lparr>ReceivingDnsRecords := mgDNSRecordsToDnsRecords (ReceivingDNSRecords resp),
      SendingDnsRecords := mgDNSRecordsToDnsRecords (SendingDNSRecords resp)\<rparr>\<rparr>"

definition set_DomainState :: "string \<Rightarrow> Domain \<Rightarrow> Domain" where
  "set_DomainState st d = d\<lparr>d_Status := (d_Status d)\<lparr>status_DomainState := st\<rparr>\<rparr>"

text \<open>The decision whether the domain is activated, from Mailgun's answer to the verification.\<close>

definition setActivated :: "'w env \<Rightarrow> MailgunImpl \<Rightarrow> string \<Rightarrow> Domain \<Rightarrow> ('w, Domain) op" where
  "setActivated env mg mailgunStatus d =
     (if mailgunStatus = ''active'' then
        (if ForceMXCheck (d_Spec d) = Some True then checkMXRecordsAndSetState env mg d
         else State_Monad.return (set_State DomainStateActivated d))
      else State_Monad.return d)"

text \<open>From the lookup before verification to the end.\<close>

definition reconcileVerify ::
  "'w env \<Rightarrow> Data \<Rightarrow> MailgunImpl \<Rightarrow> string \<Rightarrow> Domain \<Rightarrow> ('w, outcome) op" where
  "reconcileVerify env cfg mg domainName d = do {
     got \<leftarrow> mg_GetDomain env mg domainName;
     (case got of
        Inl _ \<Rightarrow> do {
          (err, _) \<leftarrow> k_StatusUpdateDomain env
             (set_MailgunError ''Domain not found on Mailgun'' (set_State DomainStateFailed d));
          State_Monad.return (Done no_requeue err)
        }
      | Inr resp \<Rightarrow> do {
          let d = record_dns resp d;
          verified \<leftarrow> mg_VerifyDomain env mg domainName;
          (case verified of
             Inl e \<Rightarrow> State_Monad.return (Done (requeue_verify cfg) (Some e))
           | Inr mailgunStatus \<Rightarrow> do {
               now \<leftarrow> time_Now env;
               let d = count_validation now (set_DomainState mailgunStatus d);
               d \<leftarrow> setActivated env mg mailgunStatus d;
               (err, _) \<leftarrow> k_StatusUpdateDomain env d;
               (case err of
                  Some e \<Rightarrow> State_Monad.return (Done no_requeue (Some e))
                | None \<Rightarrow> State_Monad.return (Done (requeue_verify cfg) None))
             })
        })
   }"

text \<open>From the terminal-state check to the end.\<close>

definition reconcileExisting ::
  "'w env \<Rightarrow> Data \<Rightarrow> MailgunImpl \<Rightarrow> string \<Rightarrow> Domain \<Rightarrow> ('w, outcome) op" where
  "reconcileExisting env cfg mg domainName d =
     (if status_State (d_Status d) = DomainStateFailed \<or>
         status_State (d_Status d) = DomainStateActivated
      then State_Monad.return (Done no_requeue None)
      else if ExternalDNS (d_Spec d) = Some True \<and> \<not> DnsEntrypointCreated (d_Status d) then do {
        (err, d) \<leftarrow> createExternalDNSEntity env d;
        (case err of
           Some e \<Rightarrow> State_Monad.return (Done no_requeue (Some e))
         | None \<Rightarrow> reconcileVerify env cfg mg domainName d)
      }
      else reconcileVerify env cfg mg domainName d)"

text \<open>From the empty-state check to the end.\<close>

definition reconcileState ::
  "'w env \<Rightarrow> Data \<Rightarrow> MailgunImpl \<Rightarrow> string \<Rightarrow> Domain \<Rightarrow> ('w, outcome) op" where
  "reconcileState env cfg mg domainName d =
     (if status_State (d_Status d) = '''' then do {
        r \<leftarrow> reconcileNew env mg domainName d;
        (case r of
           Inl out \<Rightarrow> State_Monad.return out
         | Inr d \<Rightarrow> reconcileExisting env cfg mg domainName d)
      }
      else reconcileExisting env cfg mg domainName d)"

definition DomainReconcile :: "'w env \<Rightarrow> Data \<Rightarrow> NamespacedName \<Rightarrow> ('w, outcome) op" where
  "DomainReconcile env cfg key = do {
     (err, d) \<leftarrow> k_GetDomain env key zero_Domain;
     (case err of
        Some _ \<Rightarrow> State_Monad.return (Done no_requeue (IgnoreNotFound env err))
      | None \<Rightarrow> do {
          let domainName = spec_Domain (d_Spec d);
          let mg = MailgunClient env cfg domainName;
          if IsZero env (DeletionTimestamp (d_Meta d)) then
            (if \<not> ContainsFinalizer env (d_Meta d) domainFinalizer then do {
               (err, d) \<leftarrow> k_UpdateDomain env
                  (set_Meta (fst (AddFinalizer env (d_Meta d) domainFinalizer)) d);
               (case err of
                  Some e \<Rightarrow> State_Monad.return (Done no_requeue (Some e))
                | None \<Rightarrow> reconcileState env cfg mg domainName d)
             }
             else reconcileState env cfg mg domainName d)
          else if ContainsFinalizer env (d_Meta d) domainFinalizer then do {
            (err, _) \<leftarrow> deleteDomain env mg d;
            State_Monad.return (Done no_requeue err)
          }
          else reconcileState env cfg mg domainName d
        })
   }"

section \<open>Shared facts about the model\<close>

lemma framed_RandomHex [framed_rules]: "framed (RandomHex env n)"
  unfolding RandomHex_def by (intro framed_rules)

lemma framed_exportCredentialsToSecret [framed_rules]:
  "framed (exportCredentialsToSecret env d login password)"
  unfolding exportCredentialsToSecret_def by (intro framed_rules)

lemma framed_createDomain [framed_rules]: "framed (createDomain env mg d)"
  unfolding createDomain_def by (intro framed_rules)

lemma framed_createExternalDNSEntity [framed_rules]: "framed (createExternalDNSEntity env d)"
  unfolding createExternalDNSEntity_def by (intro framed_rules)

lemma framed_removeDomainFinalizer [framed_rules]: "framed (removeDomainFinalizer env d)"
  unfolding removeDomainFinalizer_def by (intro framed_rules)

lemma framed_deleteFromMailgun [framed_rules]: "framed (deleteFromMailgun env mg name d)"
  unfolding deleteFromMailgun_def by (intro framed_rules)

lemma framed_deleteDomain [framed_rules]: "framed (deleteDomain env mg d)"
  unfolding deleteDomain_def by (intro framed_rules)

lemma framed_checkMX [framed_rules]: "framed (checkMXRecordsAndSetState env mg d)"
  unfolding checkMXRecordsAndSetState_def by (intro framed_rules)

lemma framed_reconcileNew [framed_rules]: "framed (reconcileNew env mg name d)"
  unfolding reconcileNew_def by (intro framed_rules)

lemma framed_setActivated [framed_rules]: "framed (setActivated env mg st d)"
  unfolding setActivated_def by (intro framed_rules)

lemma framed_reconcileVerify [framed_rules]: "framed (reconcileVerify env cfg mg name d)"
  unfolding reconcileVerify_def by (intro framed_rules)

lemma framed_reconcileExisting [framed_rules]: "framed (reconcileExisting env cfg mg name d)"
  unfolding reconcileExisting_def by (intro framed_rules)

lemma framed_reconcileState [framed_rules]: "framed (reconcileState env cfg mg name d)"
  unfolding reconcileState_def by (intro framed_rules)

lemma framed_DomainReconcile [framed_rules]: "framed (DomainReconcile env cfg key)"
  unfolding DomainReconcile_def by (intro framed_rules)

text \<open>The bundle for executing one segment symbolically.\<close>

lemmas domain_exec = exec_simps framed_rules

text \<open>Unfolding everything below \<^const>\<open>reconcileState\<close>.\<close>

lemmas reconcile_defs =
  reconcileState_def reconcileExisting_def reconcileVerify_def reconcileNew_def createDomain_def
  createExternalDNSEntity_def exportCredentialsToSecret_def RandomHex_16
  setActivated_def checkMXRecordsAndSetState_def

end
