(* ===== verification/Route_Controller.thy ===== *)
theory Route_Controller
  imports Domain_Controller
begin

text \<open>
  Model of \<^verbatim>\<open>internal/controller/domain/route_controller.go\<close>, with the conventions of the
  model of the domain controller.
\<close>

definition routeFinalizer :: string where
  "routeFinalizer = ''route.finalizers.mailgun.com''"

definition Minute :: go_int where
  "Minute = 60000000000"

definition set_r_Meta :: "ObjectMeta \<Rightarrow> Route \<Rightarrow> Route" where
  "set_r_Meta m r = r\<lparr>r_Meta := m\<rparr>"

definition set_RouteID :: "string \<Rightarrow> Route \<Rightarrow> Route" where
  "set_RouteID i r = r\<lparr>r_Status := (r_Status r)\<lparr>RouteID := Some i\<rparr>\<rparr>"

lemma set_r_Meta_simps [simp]:
  "r_Meta (set_r_Meta m r) = m"
  "r_Spec (set_r_Meta m r) = r_Spec r"
  "r_Status (set_r_Meta m r) = r_Status r"
  by (simp_all add: set_r_Meta_def)

lemma set_RouteID_simps [simp]:
  "r_Meta (set_RouteID i r) = r_Meta r"
  "r_Spec (set_RouteID i r) = r_Spec r"
  "r_Status (set_RouteID i r) = (r_Status r)\<lparr>RouteID := Some i\<rparr>"
  by (simp_all add: set_RouteID_def)

text \<open>\<^verbatim>\<open>RouteID != nil && len( *RouteID) > 0\<close>\<close>

definition has_route_id :: "Route \<Rightarrow> bool" where
  "has_route_id r = (case RouteID (r_Status r) of None \<Rightarrow> False | Some i \<Rightarrow> i \<noteq> '''')"

definition routeDomain :: "RouteSpec \<Rightarrow> string" where
  "routeDomain spec =
     (case route_Domain spec of None \<Rightarrow> '''' | Some n \<Rightarrow> if n \<noteq> '''' then n else '''')"

definition routeRequest :: "RouteSpec \<Rightarrow> MgRoute" where
  "routeRequest spec =
     \<lparr>mgr_Id = '''',
      mgr_Priority = (case Priority spec of None \<Rightarrow> 0 | Some p \<Rightarrow> if p \<noteq> 0 then p else 0),
      mgr_Actions = Actions spec,
      mgr_Description = Description spec,
      mgr_Expression = Expression spec\<rparr>"

text \<open>The condition under which an existing route is updated.\<close>

definition needs_update :: "MgRoute \<Rightarrow> MgRoute \<Rightarrow> bool" where
  "needs_update existRoute request \<longleftrightarrow>
     mgr_Description existRoute \<noteq> mgr_Description request \<or>
     mgr_Expression existRoute \<noteq> mgr_Expression request \<or>
     length (mgr_Actions existRoute) \<noteq> length (mgr_Actions request) \<or>
     mgr_Priority existRoute \<noteq> mgr_Priority request"

section \<open>Deletion\<close>

definition removeRouteFinalizer :: "'w env \<Rightarrow> Route \<Rightarrow> ('w, outcome) op" where
  "removeRouteFinalizer env r = do {
     (err, _) \<leftarrow> k_UpdateRoute env
        (set_r_Meta (fst (RemoveFinalizer env (r_Meta r) routeFinalizer)) r);
     State_Monad.return (Done no_requeue err)
   }"

text \<open>From the call of \<^verbatim>\<open>DeleteRoute\<close> to the end of the deletion branch.\<close>

definition deleteRouteOnMailgun ::
  "'w env \<Rightarrow> MailgunImpl \<Rightarrow> string \<Rightarrow> Route \<Rightarrow> ('w, outcome) op" where
  "deleteRouteOnMailgun env mg i r = do {
     err \<leftarrow> mg_DeleteRoute env mg i;
     (case err of
        Some e \<Rightarrow> do {
          (uerr, _) \<leftarrow> k_StatusUpdateRoute env
             (set_RouteError ''Unable to delete route from Mailgun'' r);
          (case uerr of
             Some ue \<Rightarrow> State_Monad.return (Done no_requeue (Some ue))
           | None \<Rightarrow> State_Monad.return (Done no_requeue (Some e)))
        }
      | None \<Rightarrow> do {
          k_Eventf env (r_Meta r) ''Warning'' ''Deleted'' ''Route is deleted from mailgun'';
          removeRouteFinalizer env r
        })
   }"

text \<open>
  From the lookup of the route on Mailgun. \<open>removed\<close> is the Boolean that \<^verbatim>\<open>RemoveFinalizer\<close>
  returns; the metadata it has changed stays changed on the path that goes on.
\<close>

definition deleteKnownRoute :: "'w env \<Rightarrow> MailgunImpl \<Rightarrow> Route \<Rightarrow> ('w, outcome) op" where
  "deleteKnownRoute env mg r =
     (case RouteID (r_Status r) of
        None \<Rightarrow> State_Monad.return (Crashed nil_deref)
      | Some i \<Rightarrow> do {
          got \<leftarrow> mg_GetRoute env mg i;
          (case got of
             Inr _ \<Rightarrow> deleteRouteOnMailgun env mg i r
           | Inl _ \<Rightarrow> do {
               k_Eventf env (r_Meta r) ''Warning'' ''Deleted''
                 ''Route is already deleted on mailgun'';
               let (meta, removed) = RemoveFinalizer env (r_Meta r) routeFinalizer;
               if removed then do {
                 (err, _) \<leftarrow> k_UpdateRoute env (set_r_Meta meta r);
                 State_Monad.return (Done no_requeue err)
               }
               else deleteRouteOnMailgun env mg i (set_r_Meta meta r)
             })
        })"

definition deleteRoute :: "'w env \<Rightarrow> MailgunImpl \<Rightarrow> Route \<Rightarrow> ('w, outcome) op" where
  "deleteRoute env mg r =
     (if RouteID (r_Status r) = None then
        (let (meta, removed) = RemoveFinalizer env (r_Meta r) routeFinalizer
         in if removed then do {
              (err, _) \<leftarrow> k_UpdateRoute env (set_r_Meta meta r);
              State_Monad.return (Done no_requeue err)
            }
            else deleteKnownRoute env mg (set_r_Meta meta r))
      else deleteKnownRoute env mg r)"

section \<open>Creation and update\<close>

definition updateRoute :: "'w env \<Rightarrow> MailgunImpl \<Rightarrow> string \<Rightarrow> Route \<Rightarrow> ('w, outcome) op" where
  "updateRoute env mg i r = do {
     got \<leftarrow> mg_GetRoute env mg i;
     (case got of
        Inl _ \<Rightarrow> State_Monad.return (Done no_requeue None)
      | Inr existRoute \<Rightarrow>
          if needs_update existRoute (routeRequest (r_Spec r)) then do {
            updated \<leftarrow> mg_UpdateRoute env mg i (routeRequest (r_Spec r));
            (case updated of
               Inl e \<Rightarrow> do {
                 (uerr, _) \<leftarrow> k_StatusUpdateRoute env (set_RouteError ''Unable to update route'' r);
                 (case uerr of
                    Some ue \<Rightarrow> State_Monad.return (Done no_requeue (Some ue))
                  | None \<Rightarrow> State_Monad.return (Done no_requeue (Some e)))
               }
             | Inr _ \<Rightarrow> State_Monad.return (Done no_requeue None))
          }
          else State_Monad.return (Done no_requeue None))
   }"

text \<open>
  The last statement logs \<^verbatim>\<open>*mailgunRoute.Status.RouteID\<close> after the object has been overwritten
  by the answer to \<^verbatim>\<open>Update\<close>, so an answer without an identifier is a nil dereference.
\<close>

definition createRoute :: "'w env \<Rightarrow> MailgunImpl \<Rightarrow> Route \<Rightarrow> ('w, outcome) op" where
  "createRoute env mg r = do {
     resp \<leftarrow> mg_CreateRoute env mg (routeRequest (r_Spec r));
     (case resp of
        Inl _ \<Rightarrow> do {
          k_Eventf env (r_Meta r) ''Warning'' ''FailedCreate'' ''Unable to create route'';
          (err, _) \<leftarrow> k_StatusUpdateRoute env (set_RouteError ''Unable to create route'' r);
          (case err of
             Some e \<Rightarrow> State_Monad.return (Done no_requeue (Some e))
           | None \<Rightarrow> State_Monad.return (Done \<lparr>RequeueAfter = 1 * Minute\<rparr> None))
        }
      | Inr routeResp \<Rightarrow> do {
          (err, r) \<leftarrow> k_StatusUpdateRoute env (set_RouteID (mgr_Id routeResp) r);
          (case err of
             Some e \<Rightarrow> State_Monad.return (Done no_requeue (Some e))
           | None \<Rightarrow> do {
               let r = (if ContainsFinalizer env (r_Meta r) routeFinalizer then r
                        else set_r_Meta (fst (AddFinalizer env (r_Meta r) routeFinalizer)) r);
               (err, r) \<leftarrow> k_UpdateRoute env r;
               (case err of
                  Some e \<Rightarrow> State_Monad.return (Done no_requeue (Some e))
                | None \<Rightarrow>
                    (case RouteID (r_Status r) of
                       None \<Rightarrow> State_Monad.return (Crashed nil_deref)
                     | Some _ \<Rightarrow> State_Monad.return (Done no_requeue None)))
             })
        })
   }"

definition syncRoute :: "'w env \<Rightarrow> MailgunImpl \<Rightarrow> Route \<Rightarrow> ('w, outcome) op" where
  "syncRoute env mg r =
     (if has_route_id r then
        (case RouteID (r_Status r) of
           None \<Rightarrow> State_Monad.return (Crashed nil_deref)
         | Some i \<Rightarrow> updateRoute env mg i r)
      else createRoute env mg r)"

text \<open>The wait for the route's domain: a missing or inactive domain is retried in five minutes.\<close>

definition postponeRoute :: "'w env \<Rightarrow> string \<Rightarrow> Route \<Rightarrow> ('w, outcome) op" where
  "postponeRoute env msg r = do {
     (err, _) \<leftarrow> k_StatusUpdateRoute env (set_RouteError msg r);
     (case err of
        Some e \<Rightarrow> State_Monad.return (Done no_requeue (Some e))
      | None \<Rightarrow> State_Monad.return (Done \<lparr>RequeueAfter = 5 * Minute\<rparr> None))
   }"

definition reconcileRoute ::
  "'w env \<Rightarrow> MailgunImpl \<Rightarrow> string \<Rightarrow> Route \<Rightarrow> ('w, outcome) op" where
  "reconcileRoute env mg domainName r =
     (if domainName \<noteq> '''' then do {
        got \<leftarrow> mg_GetDomain env mg domainName;
        (case got of
           Inl _ \<Rightarrow> postponeRoute env ''Domain is not exist on mailgun'' r
         | Inr resp \<Rightarrow>
             if mgd_State (resp_Domain resp) \<noteq> ''active''
             then postponeRoute env ''Domain is not active yet'' r
             else syncRoute env mg r)
      }
      else syncRoute env mg r)"

section \<open>\<^verbatim>\<open>Reconcile\<close>\<close>

definition RouteReconcile :: "'w env \<Rightarrow> Data \<Rightarrow> NamespacedName \<Rightarrow> ('w, outcome) op" where
  "RouteReconcile env cfg key = do {
     (err, r) \<leftarrow> k_GetRoute env key zero_Route;
     (case err of
        Some _ \<Rightarrow> State_Monad.return (Done no_requeue (IgnoreNotFound env err))
      | None \<Rightarrow> do {
          let domainName = routeDomain (r_Spec r);
          let mg = MailgunClient env cfg domainName;
          if IsZero env (DeletionTimestamp (r_Meta r)) then
            (if \<not> ContainsFinalizer env (r_Meta r) routeFinalizer \<and> has_route_id r then do {
               (err, r) \<leftarrow> k_UpdateRoute env
                  (set_r_Meta (fst (AddFinalizer env (r_Meta r) routeFinalizer)) r);
               (case err of
                  Some e \<Rightarrow> State_Monad.return (Done no_requeue (Some e))
                | None \<Rightarrow> reconcileRoute env mg domainName r)
             }
             else reconcileRoute env mg domainName r)
          else if ContainsFinalizer env (r_Meta r) routeFinalizer then deleteRoute env mg r
          else reconcileRoute env mg domainName r
        })
   }"

section \<open>Shared facts about the model\<close>

lemma framed_removeRouteFinalizer [framed_rules]: "framed (removeRouteFinalizer env r)"
  unfolding removeRouteFinalizer_def by (intro framed_rules)

lemma framed_deleteRouteOnMailgun [framed_rules]: "framed (deleteRouteOnMailgun env mg i r)"
  unfolding deleteRouteOnMailgun_def by (intro framed_rules)

lemma framed_deleteKnownRoute [framed_rules]: "framed (deleteKnownRoute env mg r)"
  unfolding deleteKnownRoute_def by (intro framed_rules)

lemma framed_deleteRoute [framed_rules]: "framed (deleteRoute env mg r)"
  unfolding deleteRoute_def by (intro framed_rules)

lemma framed_updateRoute [framed_rules]: "framed (updateRoute env mg i r)"
  unfolding updateRoute_def by (intro framed_rules)

lemma framed_createRoute [framed_rules]: "framed (createRoute env mg r)"
  unfolding createRoute_def by (intro framed_rules)

lemma framed_syncRoute [framed_rules]: "framed (syncRoute env mg r)"
  unfolding syncRoute_def by (intro framed_rules)

lemma framed_postponeRoute [framed_rules]: "framed (postponeRoute env msg r)"
  unfolding postponeRoute_def by (intro framed_rules)

lemma framed_reconcileRoute [framed_rules]: "framed (reconcileRoute env mg name r)"
  unfolding reconcileRoute_def by (intro framed_rules)

lemma framed_RouteReconcile [framed_rules]: "framed (RouteReconcile env cfg key)"
  unfolding RouteReconcile_def by (intro framed_rules)

lemmas route_exec = exec_simps framed_rules

lemmas sync_defs =
  reconcileRoute_def postponeRoute_def syncRoute_def createRoute_def updateRoute_def

lemmas route_delete_defs =
  deleteRoute_def deleteKnownRoute_def deleteRouteOnMailgun_def removeRouteFinalizer_def

end
