(* ===== verification/Mock_Server.thy ===== *)
theory Mock_Server
  imports Configuration
begin

text \<open>
  Model of \<^verbatim>\<open>internal/utils/mailgun_mock_server.go\<close>: the in-memory Mailgun service the
  controllers are run against. The server's state is the record \<open>MailgunMockServer\<close>; each HTTP
  handler is a function from the request's inputs and the state to the response and the new state
  (the handlers hold the server's mutex, so they are atomic). A response is a status code and the
  JSON object before it is rendered. What a handler takes from the clock, from the random source and
  from the Mailgun library (its name of the disabled spam action) is an argument.
\<close>

section \<open>State\<close>

text \<open>The library's \<^verbatim>\<open>DomainContainer\<close> has the same three fields as its \<^verbatim>\<open>DomainResponse\<close>.\<close>

type_synonym DomainContainer = DomainResponse

record MailgunMockServer =
  apiToken :: string
  activeDomains :: "string list"
  activeMXDomains :: "string list"
  failedDomains :: "string list"
  domainList :: "DomainContainer list"
  routes :: "MgRoute go_map option"
  failRoutes :: "string list go_map option"

definition unknownDNS :: string where "unknownDNS = ''unknown''"
definition validDNS :: string where "validDNS = ''valid''"
definition unverifiedState :: string where "unverifiedState = ''unverified''"
definition activeState :: string where "activeState = ''active''"

lemmas mock_consts = unknownDNS_def validDNS_def unverifiedState_def activeState_def

definition NewMailgunServer :: "string \<Rightarrow> MailgunMockServer" where
  "NewMailgunServer token = \<lparr>apiToken = token, activeDomains = [], activeMXDomains = [],
     failedDomains = [], domainList = [], routes = None, failRoutes = None\<rparr>"

section \<open>Responses\<close>

datatype payload =
    Message string
  | DomainPayload string DomainContainer
  | DomainsPayload "DomainContainer list"
  | RoutePayload "string option" MgRoute
  | DeletedPayload string string

record response =
  resp_code :: nat
  resp_body :: payload

definition toJSON :: "payload \<Rightarrow> nat \<Rightarrow> response" where
  "toJSON obj status = \<lparr>resp_code = status, resp_body = obj\<rparr>"

text \<open>The parsed form of a request, and \<^verbatim>\<open>FormValue\<close>, which is the first value of a key.\<close>

type_synonym form = "(string \<times> string list) list"

definition Form :: "form \<Rightarrow> string \<Rightarrow> string list" where
  "Form f k = (case map_of f k of None \<Rightarrow> [] | Some vs \<Rightarrow> vs)"

definition FormValue :: "form \<Rightarrow> string \<Rightarrow> string" where
  "FormValue f k = (case Form f k of [] \<Rightarrow> '''' | v # _ \<Rightarrow> v)"

section \<open>Fabricated Mailgun data\<close>

definition newMGDomainFor :: "string \<Rightarrow> time \<Rightarrow> MailgunMockServer \<Rightarrow> string \<Rightarrow> MgDomain" where
  "newMGDomainFor spamDisabled now m domainName =
     \<lparr>mgd_CreatedAt = now, mgd_Name = domainName, mgd_SMTPLogin = ''postmaster@'' @ domainName,
      mgd_Wildcard = True, mgd_SpamAction = spamDisabled,
      mgd_State = (if domainName \<in> set (activeDomains m) then activeState else unverifiedState),
      mgd_WebScheme = ''http''\<rparr>"

definition newMGDnsRecordsFor :: "string \<Rightarrow> bool \<Rightarrow> bool \<Rightarrow> bool \<Rightarrow> MgDNSRecord list" where
  "newMGDnsRecordsFor domainName sendingRecords activeDomain activeMXRecord =
     (let dnsValid = (if activeDomain then validDNS else unknownDNS);
          mxDnsValid = (if activeMXRecord then validDNS else unknownDNS)
      in if sendingRecords then
        [\<lparr>mgdns_Name = domainName, mgdns_Priority = '''', mgdns_RecordType = ''TXT'',
          mgdns_Valid = dnsValid, mgdns_Value = ''v=spf1 include:mailgun.org ~all''\<rparr>,
         \<lparr>mgdns_Name = ''d.mail.'' @ domainName, mgdns_Priority = '''', mgdns_RecordType = ''TXT'',
          mgdns_Valid = dnsValid, mgdns_Value = ''k=rsa; p=MIGfMA0GCSqGSIb3DQEBAQUA....''\<rparr>,
         \<lparr>mgdns_Name = ''email.'' @ domainName, mgdns_Priority = '''', mgdns_RecordType = ''CNAME'',
          mgdns_Valid = dnsValid, mgdns_Value = ''mailgun.org''\<rparr>]
      else
        [\<lparr>mgdns_Name = '''', mgdns_Priority = ''10'', mgdns_RecordType = ''MX'',
          mgdns_Valid = mxDnsValid, mgdns_Value = ''mxa.mailgun.org''\<rparr>,
         \<lparr>mgdns_Name = '''', mgdns_Priority = ''10'', mgdns_RecordType = ''MX'',
          mgdns_Valid = mxDnsValid, mgdns_Value = ''mxb.mailgun.org''\<rparr>])"

definition recordsFor :: "MailgunMockServer \<Rightarrow> string \<Rightarrow> bool \<Rightarrow> MgDNSRecord list" where
  "recordsFor m domainName sending =
     newMGDnsRecordsFor domainName sending (domainName \<in> set (activeDomains m))
       (domainName \<in> set (activeMXDomains m))"

definition newContainer :: "string \<Rightarrow> time \<Rightarrow> MailgunMockServer \<Rightarrow> string \<Rightarrow> DomainContainer" where
  "newContainer spamDisabled now m domainName =
     \<lparr>resp_Domain = newMGDomainFor spamDisabled now m domainName,
      ReceivingDNSRecords = recordsFor m domainName False,
      SendingDNSRecords = recordsFor m domainName True\<rparr>"

section \<open>The test-control interface\<close>

definition container_name :: "DomainContainer \<Rightarrow> string" where
  "container_name c = mgd_Name (resp_Domain c)"

text \<open>\<^verbatim>\<open>slices.Delete(list, i, i+1)\<close> at the first \<^verbatim>\<open>i\<close> whose name matches, if any.\<close>

fun delete_first :: "string \<Rightarrow> DomainContainer list \<Rightarrow> DomainContainer list" where
  "delete_first domainName [] = []"
| "delete_first domainName (c # cs) =
     (if container_name c = domainName then cs else c # delete_first domainName cs)"

definition AddDomain :: "string \<Rightarrow> time \<Rightarrow> string \<Rightarrow> MailgunMockServer \<Rightarrow> MailgunMockServer" where
  "AddDomain spamDisabled now domainName m =
     m\<lparr>domainList := domainList m @ [newContainer spamDisabled now m domainName]\<rparr>"

definition ActivateDomain :: "string \<Rightarrow> MailgunMockServer \<Rightarrow> MailgunMockServer" where
  "ActivateDomain domainName m = m\<lparr>activeDomains := activeDomains m @ [domainName]\<rparr>"

definition ActivateMXDomain :: "string \<Rightarrow> MailgunMockServer \<Rightarrow> MailgunMockServer" where
  "ActivateMXDomain domainName m = m\<lparr>activeMXDomains := activeMXDomains m @ [domainName]\<rparr>"

definition FailedDomain :: "string \<Rightarrow> MailgunMockServer \<Rightarrow> MailgunMockServer" where
  "FailedDomain domainName m = m\<lparr>failedDomains := failedDomains m @ [domainName]\<rparr>"

definition DeleteDomain :: "string \<Rightarrow> MailgunMockServer \<Rightarrow> MailgunMockServer" where
  "DeleteDomain domainName m = m\<lparr>domainList := delete_first domainName (domainList m)\<rparr>"

definition FailRoutes :: "string \<Rightarrow> string \<Rightarrow> MailgunMockServer \<Rightarrow> MailgunMockServer" where
  "FailRoutes action i m =
     (let fr = map_or_nil (failRoutes m);
          fr = (case map_of fr action of None \<Rightarrow> AList.update action [] fr | Some _ \<Rightarrow> fr);
          ids = (case map_of fr action of None \<Rightarrow> [] | Some ids \<Rightarrow> ids)
      in m\<lparr>failRoutes := Some (AList.update action (ids @ [i]) fr)\<rparr>)"

section \<open>Domain handlers\<close>

definition creation_failed :: payload where
  "creation_failed = Message ''Failed to create domain due to invalid DNS configuration.''"

definition createDomain_handler ::
  "string \<Rightarrow> time \<Rightarrow> form \<Rightarrow> MailgunMockServer \<Rightarrow> response \<times> MailgunMockServer" where
  "createDomain_handler spamDisabled now f m =
     (let domainName = FormValue f ''name'' in
      if domainName \<in> set (failedDomains m) then (toJSON creation_failed 500, m)
      else
        (let c = newContainer spamDisabled now m domainName in
         (toJSON (DomainPayload ''Domain DNS records have been created'' c) 200,
          m\<lparr>domainList := domainList m @ [c]\<rparr>)))"

definition getDomains_handler :: "MailgunMockServer \<Rightarrow> response \<times> MailgunMockServer" where
  "getDomains_handler m = (toJSON (DomainsPayload (domainList m)) 200, m)"

text \<open>The loops over the domain list, which stop at the first container with the name.\<close>

fun refresh_first ::
  "MgDNSRecord list \<Rightarrow> string \<Rightarrow> DomainContainer list \<Rightarrow> (DomainContainer \<times> DomainContainer list) option"
where
  "refresh_first receiving domainName [] = None"
| "refresh_first receiving domainName (c # cs) =
     (if domainName = container_name c then
        (let c' = c\<lparr>ReceivingDNSRecords := receiving\<rparr> in Some (c', c' # cs))
      else map_option (\<lambda>(c', cs'). (c', c # cs')) (refresh_first receiving domainName cs))"

definition getDomain_handler :: "string \<Rightarrow> MailgunMockServer \<Rightarrow> response \<times> MailgunMockServer" where
  "getDomain_handler domainName m =
     (case refresh_first (recordsFor m domainName False) domainName (domainList m) of
        None \<Rightarrow> (toJSON (Message ''Domain not found'') 404, m)
      | Some (c, cs) \<Rightarrow>
          (toJSON (DomainPayload ''Domain DNS records have been retrieved'' c) 200,
           m\<lparr>domainList := cs\<rparr>))"

definition mark_valid :: "MgDNSRecord \<Rightarrow> MgDNSRecord" where
  "mark_valid r = r\<lparr>mgdns_Valid := validDNS\<rparr>"

definition mark_verified :: "bool \<Rightarrow> DomainContainer \<Rightarrow> DomainContainer" where
  "mark_verified activateDomain c =
     c\<lparr>resp_Domain := (if activateDomain then (resp_Domain c)\<lparr>mgd_State := activeState\<rparr>
                       else resp_Domain c),
       ReceivingDNSRecords := map mark_valid (ReceivingDNSRecords c),
       SendingDNSRecords := map mark_valid (SendingDNSRecords c)\<rparr>"

fun verify_first ::
  "bool \<Rightarrow> string \<Rightarrow> DomainContainer list \<Rightarrow> (DomainContainer \<times> DomainContainer list) option" where
  "verify_first activateDomain domainName [] = None"
| "verify_first activateDomain domainName (c # cs) =
     (if domainName = container_name c then
        (let c' = mark_verified activateDomain c in Some (c', c' # cs))
      else map_option (\<lambda>(c', cs'). (c', c # cs')) (verify_first activateDomain domainName cs))"

definition verifyDomain_handler :: "string \<Rightarrow> MailgunMockServer \<Rightarrow> response \<times> MailgunMockServer" where
  "verifyDomain_handler domainName m =
     (case verify_first (domainName \<in> set (activeDomains m)) domainName (domainList m) of
        None \<Rightarrow> (toJSON (Message ''Domain not found'') 404, m)
      | Some (c, cs) \<Rightarrow>
          (toJSON (DomainPayload ''Domain DNS records have been updated'' c) 200,
           m\<lparr>domainList := cs\<rparr>))"

definition deleteDomain_handler :: "string \<Rightarrow> MailgunMockServer \<Rightarrow> response \<times> MailgunMockServer" where
  "deleteDomain_handler domainName m =
     (if domainName \<in> set (failedDomains m) then (toJSON creation_failed 500, m)
      else if list_ex (\<lambda>c. domainName = container_name c) (domainList m) then
        (toJSON (Message ''Domain have been removed'') 200,
         m\<lparr>domainList := delete_first domainName (domainList m)\<rparr>)
      else (toJSON (Message ''Domain not found'') 404, m))"

section \<open>Route handlers\<close>

definition id_required :: payload where
  "id_required = Message ''Route ID is required''"

definition createRoute_handler ::
  "string \<Rightarrow> form \<Rightarrow> MailgunMockServer \<Rightarrow> response \<times> MailgunMockServer" where
  "createRoute_handler suffix f m =
     (let description = FormValue f ''description'' in
      if description = ''fail'' then
        (toJSON (Message ''Failed to create route due to invalid expression.'') 500, m)
      else
        (let expression = FormValue f ''expression'';
             priority = FormValue f ''priority''
         in case (if priority \<noteq> '''' then ParseInt priority else Some 0) of
              None \<Rightarrow> (toJSON (Message ''Invalid priority value'') 400, m)
            | Some priorityVal \<Rightarrow>
                (let newRoute = \<lparr>mgr_Id = ''route-'' @ suffix, mgr_Priority = priorityVal,
                       mgr_Actions = Form f ''action'', mgr_Description = description,
                       mgr_Expression = expression\<rparr>
                 in (toJSON (RoutePayload (Some ''Route has been created'') newRoute) 200,
                     m\<lparr>routes := Some (AList.update (mgr_Id newRoute) newRoute
                         (map_or_nil (routes m)))\<rparr>))))"

text \<open>\<^verbatim>\<open>slices.Contains(m.failRoutes[action], id)\<close>, guarded by the presence of the key.\<close>

definition route_fails :: "string \<Rightarrow> string \<Rightarrow> MailgunMockServer \<Rightarrow> bool" where
  "route_fails action i m =
     (case map_of (map_or_nil (failRoutes m)) action of None \<Rightarrow> False | Some ids \<Rightarrow> i \<in> set ids)"

definition getRoute_handler :: "string \<Rightarrow> MailgunMockServer \<Rightarrow> response \<times> MailgunMockServer" where
  "getRoute_handler routeID m =
     (if routeID = '''' then (toJSON id_required 400, m)
      else if route_fails ''get'' routeID m then (toJSON (Message ''Failed to get route'') 500, m)
      else (case map_of (map_or_nil (routes m)) routeID of
              None \<Rightarrow> (toJSON (Message ''Route not found'') 404, m)
            | Some route \<Rightarrow> (toJSON (RoutePayload None route) 200, m)))"

definition deleteRoute_handler :: "string \<Rightarrow> MailgunMockServer \<Rightarrow> response \<times> MailgunMockServer" where
  "deleteRoute_handler routeID m =
     (if routeID = '''' then (toJSON id_required 400, m)
      else if route_fails ''delete'' routeID m
      then (toJSON (Message ''Failed to delete route'') 500, m)
      else (toJSON (DeletedPayload ''Route has been deleted'' routeID) 200,
            m\<lparr>routes := map_option (AList.delete routeID) (routes m)\<rparr>))"

definition updateRoute_handler ::
  "string \<Rightarrow> form \<Rightarrow> MailgunMockServer \<Rightarrow> response \<times> MailgunMockServer" where
  "updateRoute_handler routeID f m =
     (if routeID = '''' then (toJSON id_required 400, m)
      else (case map_of (map_or_nil (routes m)) routeID of
        None \<Rightarrow> (toJSON (Message ''Route not found'') 404, m)
      | Some route \<Rightarrow>
          (let route = (if FormValue f ''action'' \<noteq> '''' then route\<lparr>mgr_Actions := Form f ''action''\<rparr>
                        else route)
           in case (if FormValue f ''priority'' \<noteq> '''' then
                      map_option (\<lambda>p. route\<lparr>mgr_Priority := p\<rparr>) (ParseInt (FormValue f ''priority''))
                    else Some route) of
                None \<Rightarrow> (toJSON (Message ''Invalid priority value'') 400, m)
              | Some route \<Rightarrow>
                  (let route = (if FormValue f ''description'' \<noteq> ''''
                                then route\<lparr>mgr_Description := FormValue f ''description''\<rparr> else route);
                       route = (if FormValue f ''expression'' \<noteq> ''''
                                then route\<lparr>mgr_Expression := FormValue f ''expression''\<rparr> else route)
                   in (toJSON (RoutePayload (Some ''Route has been updated'') route) 200,
                       m\<lparr>routes := Some (AList.update routeID route (map_or_nil (routes m)))\<rparr>)))))"

section \<open>Requests\<close>

datatype http_method = GET | POST | PUT | DELETE

text \<open>
  A request as a handler sees it: method, path segments, parsed form and the credentials of basic
  authentication (user and password), if any.
\<close>

record request =
  req_method :: http_method
  req_path :: "string list"
  req_form :: form
  BasicAuth :: "(string \<times> string) option"

type_synonym handler = "MailgunMockServer \<Rightarrow> response \<times> MailgunMockServer"

definition authHandler :: "request \<Rightarrow> handler \<Rightarrow> handler" where
  "authHandler r next m =
     (case BasicAuth r of
        Some (_, password) \<Rightarrow>
          if password = apiToken m then next m
          else (toJSON (Message ''Invalid private key'') 401, m)
      | None \<Rightarrow> (toJSON (Message ''Invalid private key'') 401, m))"

text \<open>
  The patterns \<^verbatim>\<open>initRoutes\<close> registers. A wildcard of \<^verbatim>\<open>http.ServeMux\<close> matches one non-empty
  segment; a request no pattern matches is refused by the multiplexer, here \<^const>\<open>None\<close>.
\<close>

definition pattern_handler ::
  "string \<Rightarrow> time \<Rightarrow> string \<Rightarrow> http_method \<Rightarrow> string list \<Rightarrow> form \<Rightarrow> handler option" where
  "pattern_handler spamDisabled now suffix method path f =
     (case (method, path) of
        (POST, [v, c]) \<Rightarrow>
          if v = ''v4'' \<and> c = ''domains'' then Some (createDomain_handler spamDisabled now f)
          else if v = ''v4'' \<and> c = ''routes'' then Some (createRoute_handler suffix f)
          else None
      | (GET, [v, c]) \<Rightarrow>
          if v = ''v4'' \<and> c = ''domains'' then Some getDomains_handler else None
      | (GET, [v, c, x]) \<Rightarrow>
          if v = ''v4'' \<and> c = ''domains'' \<and> x \<noteq> '''' then Some (getDomain_handler x)
          else if v = ''v4'' \<and> c = ''routes'' \<and> x \<noteq> '''' then Some (getRoute_handler x)
          else None
      | (PUT, [v, c, x]) \<Rightarrow>
          if v = ''v4'' \<and> c = ''routes'' \<and> x \<noteq> '''' then Some (updateRoute_handler x f) else None
      | (PUT, [v, c, x, y]) \<Rightarrow>
          if v = ''v4'' \<and> c = ''domains'' \<and> x \<noteq> '''' \<and> y = ''verify''
          then Some (verifyDomain_handler x) else None
      | (DELETE, [v, c, x]) \<Rightarrow>
          if v = ''v4'' \<and> c = ''domains'' \<and> x \<noteq> '''' then Some (deleteDomain_handler x)
          else if v = ''v4'' \<and> c = ''routes'' \<and> x \<noteq> '''' then Some (deleteRoute_handler x)
          else None
      | _ \<Rightarrow> None)"

definition initRoutes :: "string \<Rightarrow> time \<Rightarrow> string \<Rightarrow> request \<Rightarrow> handler option" where
  "initRoutes spamDisabled now suffix r =
     map_option (authHandler r)
       (pattern_handler spamDisabled now suffix (req_method r) (req_path r) (req_form r))"

end
