(* ===== verification/Cluster.thy ===== *)
theory Cluster
  imports Mock_Server
begin

text \<open>
  A concrete environment, after the test suite of the controllers: an API server that stores the
  objects, and a Mailgun client that talks to the mock server of \<^verbatim>\<open>internal/utils\<close> over its
  HTTP interface. It satisfies all the laws of the theory Environment, which shows that these laws
  can hold together, and it is where the witnesses of the theorems and the end-to-end scenarios
  are evaluated.
\<close>

record cluster =
  cl_domains :: "(NamespacedName \<times> Domain) list"
  cl_routes :: "(NamespacedName \<times> Route) list"
  cl_secrets :: "(NamespacedName \<times> Secret) list"
  cl_configmaps :: "(NamespacedName \<times> ConfigMap) list"
  cl_dnsendpoints :: "(NamespacedName \<times> DNSEndpoint) list"
  cl_mock :: MailgunMockServer
  cl_clock :: time
  cl_fresh :: nat

definition not_found :: error where
  "not_found = GoError ''not found'' ''NotFound''"

definition conflict :: error where
  "conflict = GoError ''the object has been modified'' ''Conflict''"

section \<open>Objects\<close>

definition cl_get :: "(NamespacedName \<times> 'a) list \<Rightarrow> NamespacedName \<Rightarrow> 'a \<Rightarrow> error option \<times> 'a" where
  "cl_get store key x = (case map_of store key of None \<Rightarrow> (Some not_found, x) | Some y \<Rightarrow> (None, y))"

text \<open>The operator's own objects are found only under the key their metadata give.\<close>

definition cl_read ::
  "('a \<Rightarrow> ObjectMeta) \<Rightarrow> (NamespacedName \<times> 'a) list \<Rightarrow> NamespacedName \<Rightarrow> 'a \<Rightarrow> error option \<times> 'a" where
  "cl_read meta store key x = (case map_of store key of
     None \<Rightarrow> (Some not_found, x)
   | Some y \<Rightarrow> if key_of (meta y) = key then (None, y) else (Some not_found, x))"

text \<open>
  Every write gives the object a new resource version, and a write with an old one is answered with a
  conflict. \<^verbatim>\<open>Update\<close> takes the specification and the finalizers from the object that is sent, counts
  the generation when the specification changes, and leaves the status; \<^verbatim>\<open>Status().Update\<close> takes the
  status alone. The part of the object a write does not take must agree with the stored object (this
  cluster has no other writer between a read and a write, so a disagreement is refused as well). An
  object under deletion disappears with its last finalizer.
\<close>

definition next_version :: "ObjectMeta \<Rightarrow> ObjectMeta" where
  "next_version m = m\<lparr>meta_ResourceVersion := meta_ResourceVersion m @ ''+''\<rparr>"

definition updated :: "bool \<Rightarrow> ObjectMeta \<Rightarrow> ObjectMeta \<Rightarrow> ObjectMeta" where
  "updated edited old sent = (next_version old)\<lparr>Finalizers := Finalizers sent,
     meta_Generation := (if edited then meta_Generation old + 1 else meta_Generation old)\<rparr>"

definition cl_UpdateDomain :: "Domain \<Rightarrow> cluster \<Rightarrow> (error option \<times> Domain) \<times> cluster" where
  "cl_UpdateDomain d w =
     (case map_of (cl_domains w) (key_of (d_Meta d)) of
        None \<Rightarrow> ((Some not_found, d), w)
      | Some old \<Rightarrow>
          if meta_ResourceVersion (d_Meta old) \<noteq> meta_ResourceVersion (d_Meta d) \<or>
             status_State (d_Status old) \<noteq> status_State (d_Status d)
          then ((Some conflict, d), w)
          else (let new = \<lparr>d_Meta = updated (d_Spec old \<noteq> d_Spec d) (d_Meta old) (d_Meta d),
                  d_Spec = d_Spec d, d_Status = d_Status old\<rparr> in
            ((None, new), w\<lparr>cl_domains :=
               (if DeletionTimestamp (d_Meta old) \<noteq> None \<and> Finalizers (d_Meta d) = []
                then AList.delete (key_of (d_Meta d)) (cl_domains w)
                else AList.update (key_of (d_Meta d)) new (cl_domains w))\<rparr>)))"

definition cl_StatusUpdateDomain :: "Domain \<Rightarrow> cluster \<Rightarrow> (error option \<times> Domain) \<times> cluster" where
  "cl_StatusUpdateDomain d w =
     (case map_of (cl_domains w) (key_of (d_Meta d)) of
        None \<Rightarrow> ((Some not_found, d), w)
      | Some old \<Rightarrow>
          if meta_ResourceVersion (d_Meta old) \<noteq> meta_ResourceVersion (d_Meta d) \<or> d_Spec old \<noteq> d_Spec d
          then ((Some conflict, d), w)
          else (let new = old\<lparr>d_Meta := next_version (d_Meta old), d_Status := d_Status d\<rparr> in
            ((None, new), w\<lparr>cl_domains := AList.update (key_of (d_Meta d)) new (cl_domains w)\<rparr>)))"

definition cl_UpdateRoute :: "Route \<Rightarrow> cluster \<Rightarrow> (error option \<times> Route) \<times> cluster" where
  "cl_UpdateRoute r w =
     (case map_of (cl_routes w) (key_of (r_Meta r)) of
        None \<Rightarrow> ((Some not_found, r), w)
      | Some old \<Rightarrow>
          if meta_ResourceVersion (r_Meta old) \<noteq> meta_ResourceVersion (r_Meta r) \<or>
             RouteID (r_Status old) \<noteq> RouteID (r_Status r)
          then ((Some conflict, r), w)
          else (let new = \<lparr>r_Meta = updated (r_Spec old \<noteq> r_Spec r) (r_Meta old) (r_Meta r),
                  r_Spec = r_Spec r, r_Status = r_Status old\<rparr> in
            ((None, new), w\<lparr>cl_routes :=
               (if DeletionTimestamp (r_Meta old) \<noteq> None \<and> Finalizers (r_Meta r) = []
                then AList.delete (key_of (r_Meta r)) (cl_routes w)
                else AList.update (key_of (r_Meta r)) new (cl_routes w))\<rparr>)))"

definition cl_StatusUpdateRoute :: "Route \<Rightarrow> cluster \<Rightarrow> (error option \<times> Route) \<times> cluster" where
  "cl_StatusUpdateRoute r w =
     (case map_of (cl_routes w) (key_of (r_Meta r)) of
        None \<Rightarrow> ((Some not_found, r), w)
      | Some old \<Rightarrow>
          if meta_ResourceVersion (r_Meta old) \<noteq> meta_ResourceVersion (r_Meta r) \<or> r_Spec old \<noteq> r_Spec r
          then ((Some conflict, r), w)
          else (let new = old\<lparr>r_Meta := next_version (r_Meta old), r_Status := r_Status r\<rparr> in
            ((None, new), w\<lparr>cl_routes := AList.update (key_of (r_Meta r)) new (cl_routes w)\<rparr>)))"

definition cl_CreateOrUpdateSecret ::
  "Secret \<Rightarrow> (Secret \<Rightarrow> Secret) \<Rightarrow> cluster \<Rightarrow> (error option \<times> Secret) \<times> cluster" where
  "cl_CreateOrUpdateSecret s mutate w =
     (let key = key_of (sec_Meta s);
          new = mutate (case map_of (cl_secrets w) key of None \<Rightarrow> s | Some old \<Rightarrow> old)
      in ((None, new), w\<lparr>cl_secrets := AList.update key new (cl_secrets w)\<rparr>))"

definition cl_CreateDNSEndpoint :: "DNSEndpoint \<Rightarrow> cluster \<Rightarrow> error option \<times> cluster" where
  "cl_CreateDNSEndpoint x w =
     (let key = key_of (de_Meta x) in
      if map_of (cl_dnsendpoints w) key \<noteq> None then (Some (GoError ''exists'' ''AlreadyExists''), w)
      else (None, w\<lparr>cl_dnsendpoints := AList.update key x (cl_dnsendpoints w)\<rparr>))"

definition cl_DeleteDNSEndpoint :: "DNSEndpoint \<Rightarrow> cluster \<Rightarrow> error option \<times> cluster" where
  "cl_DeleteDNSEndpoint x w =
     (let key = key_of (de_Meta x) in
      if map_of (cl_dnsendpoints w) key = None then (Some not_found, w)
      else (None, w\<lparr>cl_dnsendpoints := AList.delete key (cl_dnsendpoints w)\<rparr>))"

section \<open>The Mailgun client\<close>

definition mock_url :: string where
  "mock_url = ''http://127.0.0.1:8080/v4''"

definition client_request ::
  "MailgunImpl \<Rightarrow> http_method \<Rightarrow> string list \<Rightarrow> form \<Rightarrow> request" where
  "client_request mg m path f = \<lparr>req_method = m, req_path = ''v4'' # path, req_form = f,
     BasicAuth = Some (''api'', client_apiKey mg)\<rparr>"

definition send :: "MailgunImpl \<Rightarrow> http_method \<Rightarrow> string list \<Rightarrow> form \<Rightarrow> cluster \<Rightarrow> response \<times> cluster" where
  "send mg m path f w =
     (if client_apiBase mg \<noteq> mock_url then (toJSON (Message ''no such host'') 503, w)
      else (case initRoutes ''disabled'' (cl_clock w) (replicate (cl_fresh w) CHR ''x'')
                   (client_request mg m path f) of
              None \<Rightarrow> (toJSON (Message ''not found'') 404, w)
            | Some h \<Rightarrow>
                (let (r, m') = h (cl_mock w) in (r, w\<lparr>cl_mock := m', cl_fresh := cl_fresh w + 1\<rparr>))))"

definition unexpected :: error where
  "unexpected = GoError ''unexpected response'' ''''"

definition answer_error :: "response \<Rightarrow> error option" where
  "answer_error r = (if resp_code r = 200 then None else Some unexpected)"

definition domain_answer :: "response \<Rightarrow> error + DomainResponse" where
  "domain_answer r = (case resp_body r of
     DomainPayload _ c \<Rightarrow> if resp_code r = 200 then Inr c else Inl unexpected
   | _ \<Rightarrow> Inl unexpected)"

definition route_answer :: "response \<Rightarrow> error + MgRoute" where
  "route_answer r = (case resp_body r of
     RoutePayload _ x \<Rightarrow> if resp_code r = 200 then Inr x else Inl unexpected
   | _ \<Rightarrow> Inl unexpected)"

fun show_nat :: "nat \<Rightarrow> string" where
  "show_nat n = (if n < 10 then [char_of (48 + n)] else show_nat (n div 10) @ [char_of (48 + n mod 10)])"

definition show_int :: "go_int \<Rightarrow> string" where
  "show_int k = (if sint k < 0 then ''-'' @ show_nat (nat (- sint k)) else show_nat (nat (sint k)))"

definition route_form :: "MgRoute \<Rightarrow> form" where
  "route_form r = [(''priority'', [show_int (mgr_Priority r)]), (''description'', [mgr_Description r]),
     (''expression'', [mgr_Expression r]), (''action'', mgr_Actions r)]"

section \<open>The environment\<close>

definition test_env :: "cluster env" where
  "test_env = \<lparr>
     IgnoreNotFound = (\<lambda>e. case e of None \<Rightarrow> None
       | Some x \<Rightarrow> if reason x = ''NotFound'' then None else Some x),
     IsNotFound = (\<lambda>e. case e of None \<Rightarrow> False | Some x \<Rightarrow> reason x = ''NotFound''),
     IsZero = (\<lambda>t. t = None),
     ContainsFinalizer = (\<lambda>m f. f \<in> set (Finalizers m)),
     AddFinalizer = (\<lambda>m f. if f \<in> set (Finalizers m) then (m, False)
       else (m\<lparr>Finalizers := Finalizers m @ [f]\<rparr>, True)),
     RemoveFinalizer = (\<lambda>m f. (m\<lparr>Finalizers := filter (\<lambda>x. x \<noteq> f) (Finalizers m)\<rparr>,
       f \<in> set (Finalizers m))),
     NewEndpoint = (\<lambda>n t ts. Some \<lparr>ep_DNSName = n, ep_Targets = ts, ep_RecordType = t,
       ep_SetIdentifier = '''', ep_RecordTTL = 0, ep_Labels = [], ep_ProviderSpecific = []\<rparr>),
     NamespacedNameString = (\<lambda>k. nn_Namespace k @ ''/'' @ nn_Name k),
     APIBaseEU = ''https://api.eu.mailgun.net/v3'',
     APIBaseUS = ''https://api.mailgun.net/v3'',
     GetDomain_api = (\<lambda>k x w. (cl_read d_Meta (cl_domains w) k x, w)),
     UpdateDomain_api = cl_UpdateDomain,
     StatusUpdateDomain_api = cl_StatusUpdateDomain,
     GetRoute_api = (\<lambda>k x w. (cl_read r_Meta (cl_routes w) k x, w)),
     UpdateRoute_api = cl_UpdateRoute,
     StatusUpdateRoute_api = cl_StatusUpdateRoute,
     GetSecret_api = (\<lambda>k x w. (cl_get (cl_secrets w) k x, w)),
     CreateOrUpdateSecret_api = cl_CreateOrUpdateSecret,
     GetConfigMap_api = (\<lambda>k x w. (cl_get (cl_configmaps w) k x, w)),
     GetDNSEndpoint_api = (\<lambda>k x w. (cl_get (cl_dnsendpoints w) k x, w)),
     CreateDNSEndpoint_api = cl_CreateDNSEndpoint,
     DeleteDNSEndpoint_api = cl_DeleteDNSEndpoint,
     Eventf_api = (\<lambda>k t r m w. ((), w)),
     mg_GetDomain_api = (\<lambda>mg n w. let (r, w') = send mg GET [''domains'', n] [] w in
       (domain_answer r, w')),
     mg_CreateDomain_api = (\<lambda>mg n opts w.
       let (r, w') = send mg POST [''domains''] [(''name'', [n])] w in (domain_answer r, w')),
     mg_VerifyDomain_api = (\<lambda>mg n w.
       let (r, w') = send mg PUT [''domains'', n, ''verify''] [] w in
       (map_sum id (\<lambda>c. mgd_State (resp_Domain c)) (domain_answer r), w')),
     mg_DeleteDomain_api = (\<lambda>mg n w.
       let (r, w') = send mg DELETE [''domains'', n] [] w in (answer_error r, w')),
     mg_GetRoute_api = (\<lambda>mg i w.
       let (r, w') = send mg GET [''routes'', i] [] w in (route_answer r, w')),
     mg_CreateRoute_api = (\<lambda>mg x w.
       let (r, w') = send mg POST [''routes''] (route_form x) w in (route_answer r, w')),
     mg_UpdateRoute_api = (\<lambda>mg i x w.
       let (r, w') = send mg PUT [''routes'', i] (route_form x) w in (route_answer r, w')),
     mg_DeleteRoute_api = (\<lambda>mg i w.
       let (r, w') = send mg DELETE [''routes'', i] [] w in (answer_error r, w')),
     rand_Read_api = (\<lambda>n w. (Inr (replicate n CHR ''Z''), w)),
     time_Now_api = (\<lambda>w. (cl_clock w, w\<lparr>cl_clock := cl_clock w + 1\<rparr>))\<rparr>"

section \<open>The laws hold\<close>

lemma test_env_finalizer_laws: "finalizer_laws test_env"
  by (simp add: finalizer_laws_def test_env_def)

lemma test_env_error_laws: "error_laws test_env"
  by (simp add: error_laws_def test_env_def split: option.split)

lemma test_env_time_laws: "time_laws test_env"
  by (simp add: time_laws_def test_env_def)

lemma test_env_echo_laws: "echo_laws test_env"
  by (auto simp: echo_laws_def test_env_def cl_UpdateDomain_def cl_StatusUpdateDomain_def Let_def
      split: option.splits if_splits)

lemma test_env_route_echo_laws: "route_echo_laws test_env"
  by (auto simp: route_echo_laws_def test_env_def cl_UpdateRoute_def cl_StatusUpdateRoute_def Let_def
      split: option.splits if_splits)

lemmas test_env_laws =
  test_env_finalizer_laws test_env_error_laws test_env_time_laws test_env_echo_laws
  test_env_route_echo_laws

section \<open>Users of the cluster\<close>

definition empty_cluster :: "MailgunMockServer \<Rightarrow> cluster" where
  "empty_cluster m = \<lparr>cl_domains = [], cl_routes = [], cl_secrets = [], cl_configmaps = [],
     cl_dnsendpoints = [], cl_mock = m, cl_clock = 0, cl_fresh = 0\<rparr>"

definition create_domain_object :: "Domain \<Rightarrow> cluster \<Rightarrow> cluster" where
  "create_domain_object d w =
     w\<lparr>cl_domains := AList.update (key_of (d_Meta d)) d (cl_domains w)\<rparr>"

definition create_route_object :: "Route \<Rightarrow> cluster \<Rightarrow> cluster" where
  "create_route_object r w =
     w\<lparr>cl_routes := AList.update (key_of (r_Meta r)) r (cl_routes w)\<rparr>"

text \<open>A deletion request: the timestamp, or nothing left when there is no finalizer.\<close>

definition request_deletion :: "NamespacedName \<Rightarrow> cluster \<Rightarrow> cluster" where
  "request_deletion k w =
     (case map_of (cl_domains w) k of
        None \<Rightarrow> w
      | Some d \<Rightarrow> w\<lparr>cl_domains :=
          (if Finalizers (d_Meta d) = [] then AList.delete k (cl_domains w)
           else AList.update k
                  (d\<lparr>d_Meta := (next_version (d_Meta d))\<lparr>DeletionTimestamp := Some (cl_clock w)\<rparr>\<rparr>)
                  (cl_domains w))\<rparr>)"

definition with_mock :: "(MailgunMockServer \<Rightarrow> MailgunMockServer) \<Rightarrow> cluster \<Rightarrow> cluster" where
  "with_mock f w = w\<lparr>cl_mock := f (cl_mock w)\<rparr>"

definition test_config :: Data where
  "test_config = \<lparr>OperatorNamespace = ''ops'', APIToken = ''key'', APIServer = mock_url,
     DomainVerifyDuration = 300\<rparr>"

definition test_key :: NamespacedName where
  "test_key = \<lparr>nn_Namespace = ''default'', nn_Name = ''shop''\<rparr>"

definition test_meta :: ObjectMeta where
  "test_meta = zero_ObjectMeta\<lparr>meta_Name := ''shop'', meta_Namespace := ''default''\<rparr>"

definition test_domain :: Domain where
  "test_domain = zero_Domain\<lparr>d_Meta := test_meta,
     d_Spec := zero_DomainSpec\<lparr>spec_Domain := ''shop.io''\<rparr>\<rparr>"

definition fresh_world :: cluster where
  "fresh_world = create_domain_object test_domain (empty_cluster (NewMailgunServer ''key''))"

definition test_route :: Route where
  "test_route = zero_Route\<lparr>r_Meta := test_meta,
     r_Spec := \<lparr>Description = ''all mail'', Expression = ''catch_all()'', Actions = [''stop()''],
       Priority = Some 5, route_Domain = Some ''shop.io''\<rparr>\<rparr>"

text \<open>A route whose domain is active on Mailgun.\<close>

definition route_world :: cluster where
  "route_world = create_route_object test_route
     (with_mock (AddDomain ''disabled'' 0 ''shop.io'' \<circ> ActivateDomain ''shop.io'')
        (empty_cluster (NewMailgunServer ''key'')))"

definition request_route_deletion :: "NamespacedName \<Rightarrow> cluster \<Rightarrow> cluster" where
  "request_route_deletion k w =
     (case map_of (cl_routes w) k of
        None \<Rightarrow> w
      | Some r \<Rightarrow> w\<lparr>cl_routes :=
          (if Finalizers (r_Meta r) = [] then AList.delete k (cl_routes w)
           else AList.update k
                  (r\<lparr>r_Meta := (next_version (r_Meta r))\<lparr>DeletionTimestamp := Some (cl_clock w)\<rparr>\<rparr>)
                  (cl_routes w))\<rparr>)"

end
