(* ===== verification/Reconcilers.thy ===== *)
theory Reconcilers
  imports Route_Controller Cluster
begin

text \<open>
  How much a single reconciliation may ask of the outside world: the exact maximum of external calls of
  each controller, over all environments and all answers. Each segment of the code has its bound; the
  branch that creates a domain has a smaller one when it goes on than when it ends.
\<close>

section \<open>Bounds of the domain controller\<close>

lemma bound_RandomHex [segment_bounds]: "call_bound 1 (RandomHex env n)"
  unfolding RandomHex_def by (rule segment_bounds bound_steps | simp)+

lemma bound_export [segment_bounds]: "call_bound 2 (exportCredentialsToSecret env d login password)"
  unfolding exportCredentialsToSecret_def
  by (rule segment_bounds bound_steps | simp)+

lemma bound_createDomain [segment_bounds]: "call_bound 5 (createDomain env mg d)"
  unfolding createDomain_def
  by (rule segment_bounds bound_steps | simp)+

lemma bound_reconcileNew [segment_bounds]: "call_bound 7 (reconcileNew env mg name d)"
  unfolding reconcileNew_def
  by (rule segment_bounds bound_steps | simp)+

lemma bound_setActivated [segment_bounds]: "call_bound 1 (setActivated env mg st d)"
  unfolding setActivated_def checkMXRecordsAndSetState_def
  by (rule segment_bounds bound_steps | simp)+

lemma bound_createExternalDNSEntity [segment_bounds]: "call_bound 2 (createExternalDNSEntity env d)"
  unfolding createExternalDNSEntity_def by (rule segment_bounds bound_steps | simp)+

lemma bound_reconcileVerify [segment_bounds]: "call_bound 5 (reconcileVerify env cfg mg name d)"
  unfolding reconcileVerify_def
  by (rule segment_bounds bound_steps call_bound_calls_rules | simp)+

lemma bound_reconcileExisting [segment_bounds]: "call_bound 7 (reconcileExisting env cfg mg name d)"
  unfolding reconcileExisting_def
  by (rule segment_bounds bound_steps | simp | rule call_bound_le [OF bound_reconcileVerify])+

text \<open>A creation that goes on has not written its failure.\<close>

lemma reconcileNew_goes_on:
  assumes "result (reconcileNew env mg name d) w = Inr d'"
  shows "length (calls (reconcileNew env mg name d) w) \<le> 6"
proof (cases "fst (mg_GetDomain_api env mg name w)")
  case (Inl e)
  let ?w = "snd (mg_GetDomain_api env mg name w)"
  have "length (calls (createDomain env mg d) ?w) \<le> 5" by (rule call_bound_calls [OF bound_createDomain])
  moreover have "calls (reconcileNew env mg name d) w =
      MGetDomain mg name (Inl e) # calls (createDomain env mg d) ?w"
    using assms Inl unfolding reconcileNew_def
    by (auto simp: domain_exec split: go.splits prod.splits option.splits)
  ultimately show ?thesis by simp
next
  case (Inr resp)
  with assms show ?thesis by (simp add: reconcileNew_def domain_exec split: prod.splits)
qed

lemma reconcileState_calls: "length (calls (reconcileState env cfg mg name d) w) \<le> 13"
proof -
  have new: "length (calls (reconcileNew env mg name d) w) \<le> 7"
    by (rule call_bound_calls [OF bound_reconcileNew])
  have existing: "length (calls (reconcileExisting env cfg mg name x) w') \<le> 7" for x w'
    by (rule call_bound_calls [OF bound_reconcileExisting])
  show ?thesis
  proof (cases "status_State (d_Status d) = ''''")
    case False
    with existing [of d w] show ?thesis by (simp add: reconcileState_def)
  next
    case True
    show ?thesis
    proof (cases "result (reconcileNew env mg name d) w")
      case (Inl out)
      with True new show ?thesis by (simp add: reconcileState_def domain_exec)
    next
      case (Inr d')
      with True reconcileNew_goes_on [OF Inr] existing [of d' "after (reconcileNew env mg name d) w"]
      show ?thesis by (simp add: reconcileState_def domain_exec)
    qed
  qed
qed

lemma bound_reconcileState: "call_bound 13 (reconcileState env cfg mg name d)"
  unfolding call_bound_def
proof
  fix s :: "('a, event) sys"
  show "length (trace (snd (run_state (reconcileState env cfg mg name d) s))) \<le> length (trace s) + 13"
    using reconcileState_calls [of env cfg mg name d "world s"]
      framed_run [OF framed_reconcileState, of env cfg mg name d "world s" "trace s"]
    by (cases s) simp
qed

lemma bound_deleteFromMailgun [segment_bounds]: "call_bound 4 (deleteFromMailgun env mg name d)"
  unfolding deleteFromMailgun_def removeDomainFinalizer_def
  by (rule segment_bounds bound_steps call_bound_calls_rules | simp)+

lemma bound_deleteDomain [segment_bounds]: "call_bound 8 (deleteDomain env mg d)"
  unfolding deleteDomain_def
  by (rule segment_bounds bound_steps | simp | rule call_bound_le [OF bound_deleteFromMailgun])+

lemma bound_DomainReconcile: "call_bound 15 (DomainReconcile env cfg key)"
  unfolding DomainReconcile_def
  by (rule segment_bounds bound_steps | simp | rule call_bound_le [OF bound_reconcileState]
      call_bound_le [OF bound_deleteDomain])+

section \<open>Bounds of the route controller\<close>

lemma bound_deleteRouteOnMailgun [segment_bounds]: "call_bound 3 (deleteRouteOnMailgun env mg i r)"
  unfolding deleteRouteOnMailgun_def removeRouteFinalizer_def
  by (rule segment_bounds bound_steps call_bound_calls_rules | simp)+

lemma bound_deleteKnownRoute [segment_bounds]: "call_bound 5 (deleteKnownRoute env mg r)"
  unfolding deleteKnownRoute_def
  by (rule segment_bounds bound_steps call_bound_calls_rules | simp | rule call_bound_le [OF bound_deleteRouteOnMailgun])+

lemma bound_deleteRoute [segment_bounds]: "call_bound 5 (deleteRoute env mg r)"
  unfolding deleteRoute_def
  by (rule segment_bounds bound_steps call_bound_calls_rules | simp)+

lemma bound_syncRoute [segment_bounds]: "call_bound 3 (syncRoute env mg r)"
  unfolding syncRoute_def updateRoute_def createRoute_def
  by (rule segment_bounds bound_steps call_bound_calls_rules | simp)+

lemma bound_postponeRoute [segment_bounds]: "call_bound 1 (postponeRoute env msg r)"
  unfolding postponeRoute_def by (rule segment_bounds bound_steps | simp)+

lemma bound_reconcileRoute [segment_bounds]: "call_bound 4 (reconcileRoute env mg name r)"
  unfolding reconcileRoute_def
  by (rule segment_bounds bound_steps | simp | rule call_bound_le [OF bound_syncRoute]
      call_bound_le [OF bound_postponeRoute])+

lemma bound_RouteReconcile: "call_bound 6 (RouteReconcile env cfg key)"
  unfolding RouteReconcile_def
  by (rule segment_bounds bound_steps | simp | rule call_bound_le [OF bound_reconcileRoute]
      call_bound_le [OF bound_deleteRoute])+

section \<open>The maxima\<close>

text \<open>
  A new object that asks for everything: exported credentials, external DNS and the forced MX check, and a
  Mailgun that activates its domain at once.
\<close>

definition demanding_world :: cluster where
  "demanding_world = with_mock (ActivateMXDomain ''shop.io'' \<circ> ActivateDomain ''shop.io'')
     (create_domain_object
        (test_domain\<lparr>d_Spec := (d_Spec test_domain)\<lparr>ForceMXCheck := Some True, ExternalDNS := Some True,
           ExportCredentials := Some True, ExportSecretName := Some ''smtp''\<rparr>\<rparr>)
        (empty_cluster (NewMailgunServer ''key'')))"

text \<open>A route that was created, has lost its finalizer and differs from Mailgun, which refuses updates.\<close>

definition stubborn_world :: cluster where
  "stubborn_world =
     (let w = after (RouteReconcile test_env test_config test_key) route_world
      in w\<lparr>cl_routes := map (\<lambda>(k, r). (k, r\<lparr>r_Meta := (r_Meta r)\<lparr>Finalizers := []\<rparr>,
           r_Spec := (r_Spec r)\<lparr>Priority := Some 9\<rparr>\<rparr>)) (cl_routes w)\<rparr>)"

definition stubborn_env :: "cluster env" where
  "stubborn_env = test_env\<lparr>mg_UpdateRoute_api := \<lambda>mg i x w. (Inl unexpected, w)\<rparr>"

text \<open>
  C35. A reconciliation of a Domain makes at most 15 external calls and a reconciliation of a Route at most
  6, whatever the outside world answers; both numbers are attained, by a new Domain object that asks for
  everything and by an edited Route that has lost its finalizer and whose update Mailgun refuses.
\<close>

theorem reconciliations_bounded:
  "length (calls (DomainReconcile env cfg key) w) \<le> 15 \<and>
   length (calls (RouteReconcile env cfg key) w) \<le> 6 \<and>
   length (calls (DomainReconcile test_env test_config test_key) demanding_world) = 15 \<and>
   length (calls (RouteReconcile stubborn_env test_config test_key) stubborn_world) = 6"
proof (intro conjI)
  show "length (calls (DomainReconcile env cfg key) w) \<le> 15"
    by (rule call_bound_calls [OF bound_DomainReconcile])
  show "length (calls (RouteReconcile env cfg key) w) \<le> 6"
    by (rule call_bound_calls [OF bound_RouteReconcile])
  show "length (calls (DomainReconcile test_env test_config test_key) demanding_world) = 15"
    by code_simp
  show "length (calls (RouteReconcile stubborn_env test_config test_key) stubborn_world) = 6"
    by code_simp
qed

end
