(* ===== verification/Domain_Safety.thy ===== *)
theory Domain_Safety
  imports Domain_Controller Cluster
begin

text \<open>
  Safety of the domain controller, for every environment and world: which calls a reconciliation
  may make, and what must have happened before it makes them. The statements speak of the trace
  \<open>calls (DomainReconcile env cfg key) w\<close> of external calls, oldest first; \<open>pre @ e # post\<close> names an
  event \<open>e\<close> together with everything before and after it.
\<close>

section \<open>Calls that do not happen\<close>

lemma reconcileState_no_delete:
  "emits (\<lambda>e. \<not> is_MDeleteDomain e) (reconcileState env cfg mg name d)"
  unfolding reconcile_defs by (intro emits_rules) simp_all

lemma reconcileState_no_update:
  "emits (\<lambda>e. \<not> is_EUpdateDomain e) (reconcileState env cfg mg name d)"
  unfolding reconcile_defs by (intro emits_rules) simp_all

lemma reconcileExisting_no_create:
  "emits (\<lambda>e. \<not> is_MCreateDomain e) (reconcileExisting env cfg mg name d)"
  unfolding reconcile_defs by (intro emits_rules) simp_all

lemma exportCredentials_no_create:
  "emits (\<lambda>e. \<not> is_MCreateDomain e) (exportCredentialsToSecret env d login password)"
  unfolding exportCredentialsToSecret_def by (intro emits_rules) simp_all

lemmas deleteDomain_defs = deleteDomain_def deleteFromMailgun_def removeDomainFinalizer_def

lemma deleteDomain_no_create:
  "emits (\<lambda>e. \<not> is_MCreateDomain e) (deleteDomain env mg d)"
  unfolding deleteDomain_defs by (intro emits_rules) simp_all

section \<open>How a reconciliation starts\<close>

lemma get_cases:
  fixes key :: NamespacedName
  obtains (failed) e d w' where "GetDomain_api env key zero_Domain w = ((Some e, d), w')"
    | (got) d w' where "GetDomain_api env key zero_Domain w = ((None, d), w')"
  by (metis option.exhaust prod.exhaust)

lemma calls_failed_get:
  assumes "GetDomain_api env key zero_Domain w = ((Some e, d), w')"
  shows "calls (DomainReconcile env cfg key) w = [EGetDomain key (Some e) d]"
    and "result (DomainReconcile env cfg key) w = Done no_requeue (IgnoreNotFound env (Some e))"
    and "after (DomainReconcile env cfg key) w = w'"
  using assms by (simp_all add: DomainReconcile_def domain_exec)

lemma calls_after_get:
  assumes "GetDomain_api env key zero_Domain w = ((None, d), w')"
  shows "\<exists>rest. calls (DomainReconcile env cfg key) w = EGetDomain key None d # rest"
  using assms by (simp add: DomainReconcile_def domain_exec split: prod.split)

lemma calls_deletion:
  assumes "GetDomain_api env key zero_Domain w = ((None, d), w')"
    and "\<not> IsZero env (DeletionTimestamp (d_Meta d))"
    and "ContainsFinalizer env (d_Meta d) domainFinalizer"
  shows "calls (DomainReconcile env cfg key) w = EGetDomain key None d #
           calls (deleteDomain env (MailgunClient env cfg (spec_Domain (d_Spec d))) d) w'"
    and "result (DomainReconcile env cfg key) w =
           Done no_requeue (fst (result (deleteDomain env
             (MailgunClient env cfg (spec_Domain (d_Spec d))) d) w'))"
    and "after (DomainReconcile env cfg key) w =
           after (deleteDomain env (MailgunClient env cfg (spec_Domain (d_Spec d))) d) w'"
  using assms by (simp_all add: DomainReconcile_def domain_exec split: prod.split)

section \<open>Mailgun domains are deleted only for objects under deletion\<close>

text \<open>
  C4. A reconciliation asks Mailgun to delete a domain only if the object it read first carries a
  deletion timestamp and the operator's finalizer.
\<close>

theorem domain_deleted_only_on_deletion:
  assumes "MDeleteDomain mg name r \<in> set (calls (DomainReconcile env cfg key) w)"
  shows "\<exists>d rest. calls (DomainReconcile env cfg key) w = EGetDomain key None d # rest \<and>
           \<not> IsZero env (DeletionTimestamp (d_Meta d)) \<and>
           ContainsFinalizer env (d_Meta d) domainFinalizer"
proof (cases rule: get_cases [of env key w])
  case (failed e d w')
  with assms show ?thesis by (simp add: calls_failed_get)
next
  case (got d w')
  show ?thesis
  proof (cases "\<not> IsZero env (DeletionTimestamp (d_Meta d)) \<and>
                ContainsFinalizer env (d_Meta d) domainFinalizer")
    case True
    with got show ?thesis by (simp add: calls_deletion)
  next
    case False
    with got assms have False
      by (auto simp: DomainReconcile_def domain_exec Let_def
          split: if_splits prod.splits option.splits
          dest!: reconcileState_no_delete [THEN emits_calls])
    then show ?thesis ..
  qed
qed

section \<open>The finalizer is released only after the Mailgun domain is gone\<close>

definition finalizer_guard :: "'w env \<Rightarrow> MailgunImpl \<Rightarrow> string \<Rightarrow> event list \<Rightarrow> event \<Rightarrow> bool" where
  "finalizer_guard env mg name pre e \<longleftrightarrow>
     (case e of
        EUpdateDomain d _ \<Rightarrow>
          ContainsFinalizer env (d_Meta d) domainFinalizer \<or>
          (\<exists>pre' x. pre = pre' @ [MGetDomain mg name (Inl x)]) \<or>
          (\<exists>pre'. pre = pre' @ [MDeleteDomain mg name None])
      | _ \<Rightarrow> True)"

lemma deleteFromMailgun_guard:
  "guarded (finalizer_guard env mg name) hist (calls (deleteFromMailgun env mg name d) w)"
  unfolding deleteFromMailgun_def removeDomainFinalizer_def
  by (simp add: domain_exec finalizer_guard_def split: sum.split option.split prod.split)

lemma deleteDomain_guard:
  assumes "ContainsFinalizer env (d_Meta d) domainFinalizer"
  shows "guarded (finalizer_guard env mg (spec_Domain (d_Spec d))) hist
           (calls (deleteDomain env mg d) w)"
  unfolding deleteDomain_def Let_def
  by (simp add: domain_exec assms finalizer_guard_def deleteFromMailgun_guard
      split: option.split prod.split)

text \<open>
  C3. When a reconciliation sends an update that takes the operator's finalizer off the object,
  the call right before it was a lookup of the domain on Mailgun that failed, or a deletion of the
  domain on Mailgun that succeeded, for the domain name and the client of the object read first.
\<close>

theorem domain_finalizer_released_after_mailgun:
  assumes laws: "finalizer_laws env"
    and run: "calls (DomainReconcile env cfg key) w = pre @ EUpdateDomain d' r # post"
    and gone: "\<not> ContainsFinalizer env (d_Meta d') domainFinalizer"
  shows "\<exists>d rest pre' name. calls (DomainReconcile env cfg key) w = EGetDomain key None d # rest \<and>
     name = spec_Domain (d_Spec d) \<and>
     ((\<exists>x. pre = pre' @ [MGetDomain (MailgunClient env cfg name) name (Inl x)]) \<or>
      pre = pre' @ [MDeleteDomain (MailgunClient env cfg name) name None])"
proof (cases rule: get_cases [of env key w])
  case (failed e d w')
  with run show ?thesis by (simp add: calls_failed_get Cons_eq_append_conv)
next
  case (got d w')
  let ?n = "spec_Domain (d_Spec d)"
  let ?G = "finalizer_guard env (MailgunClient env cfg ?n) ?n"
  have "guarded ?G [] (calls (DomainReconcile env cfg key) w)"
    using got by (auto simp: DomainReconcile_def domain_exec Let_def finalizer_guard_def
        deleteDomain_guard finalizer_lawsD [OF laws]
        intro!: guarded_emits [OF reconcileState_no_update]
        split: prod.split option.split event.split)
  then have "?G pre (EUpdateDomain d' r)"
    unfolding run by (rule guarded_split)
  with calls_after_get [OF got, of cfg] gone show ?thesis
    by (auto simp: finalizer_guard_def)
qed

section \<open>Domains are created at most once, and only when Mailgun does not know them\<close>

definition create_guard :: "MailgunImpl \<Rightarrow> string \<Rightarrow> event list \<Rightarrow> event \<Rightarrow> bool" where
  "create_guard mg name pre e \<longleftrightarrow>
     (is_MCreateDomain e \<longrightarrow>
        (\<exists>pre' x. pre = pre' @ [MGetDomain mg name (Inl x), ERandRead 16 None] \<and>
                  list_all (\<lambda>e'. \<not> is_MCreateDomain e') pre'))"

lemma create_guard_other: "\<not> is_MCreateDomain e \<Longrightarrow> create_guard mg name pre e"
  by (simp add: create_guard_def)

lemmas create_guard_emits = guarded_emits [where G = "create_guard mg name" for mg name,
    OF _ create_guard_other]

lemma createDomain_create_guard:
  assumes "list_all (\<lambda>e. \<not> is_MCreateDomain e) hist"
  shows "guarded (create_guard mg name) (hist @ [MGetDomain mg name (Inl x)])
           (calls (createDomain env mg d) w)"
  unfolding createDomain_def RandomHex_16
  by (simp add: domain_exec assms create_guard_other create_guard_def [of _ _ _ "MCreateDomain a b c e" for a b c e]
      create_guard_emits [OF exportCredentials_no_create]
      split: sum.split option.split prod.split go.split)

lemma reconcileNew_create_guard:
  assumes "list_all (\<lambda>e. \<not> is_MCreateDomain e) hist"
  shows "guarded (create_guard mg name) hist (calls (reconcileNew env mg name d) w)"
  unfolding reconcileNew_def
  by (simp add: domain_exec create_guard_other createDomain_create_guard [OF assms]
      split: sum.split option.split prod.split go.split)

lemma reconcileState_create_guard:
  assumes "list_all (\<lambda>e. \<not> is_MCreateDomain e) hist"
  shows "guarded (create_guard mg name) hist (calls (reconcileState env cfg mg name d) w)"
  unfolding reconcileState_def
  by (simp add: domain_exec reconcileNew_create_guard [OF assms] 
      create_guard_emits [OF reconcileExisting_no_create] split: sum.split)

lemma reconcileNew_create_args:
  "emits (\<lambda>e. \<forall>mg' name' opts r. e = MCreateDomain mg' name' opts r \<longrightarrow>
      mg' = mg \<and> name' = spec_Domain (d_Spec d)) (reconcileNew env mg name d)"
  unfolding reconcile_defs by (intro emits_rules) simp_all

lemma reconcileState_create_args:
  assumes "MCreateDomain mg' name' opts r \<in> set (calls (reconcileState env cfg mg name d) w)"
  shows "status_State (d_Status d) = '''' \<and> mg' = mg \<and> name' = spec_Domain (d_Spec d)"
  using assms unfolding reconcileState_def
  by (auto simp: domain_exec split: if_splits sum.splits
      dest: emits_calls [OF reconcileExisting_no_create] emits_calls [OF reconcileNew_create_args])

text \<open>
  C1. A reconciliation that creates a domain on Mailgun does so once, for an object whose state is
  empty, and right after the lookup of the object's domain name on Mailgun failed (only the
  password is drawn in between).
\<close>

theorem domain_created_once_after_failed_lookup:
  assumes laws: "echo_laws env"
    and run: "calls (DomainReconcile env cfg key) w = pre @ MCreateDomain mg name opts r # post"
  shows "\<exists>d rest pre' x. calls (DomainReconcile env cfg key) w = EGetDomain key None d # rest \<and>
     status_State (d_Status d) = '''' \<and>
     mg = MailgunClient env cfg (spec_Domain (d_Spec d)) \<and> name = spec_Domain (d_Spec d) \<and>
     pre = pre' @ [MGetDomain mg name (Inl x), ERandRead 16 None] \<and>
     list_all (\<lambda>e. \<not> is_MCreateDomain e) (pre' @ post)"
proof (cases rule: get_cases [of env key w])
  case (failed e d w')
  with run show ?thesis by (simp add: calls_failed_get Cons_eq_append_conv)
next
  case (got d w')
  let ?n = "spec_Domain (d_Spec d)"
  let ?mg = "MailgunClient env cfg ?n"
  let ?ev = "MCreateDomain mg name opts r"
  have g: "guarded (create_guard ?mg ?n) [] (calls (DomainReconcile env cfg key) w)"
    using got by (auto simp: DomainReconcile_def domain_exec Let_def create_guard_other
        reconcileState_create_guard create_guard_emits [OF deleteDomain_no_create]
        split: prod.split option.split)
  have "list_all (\<lambda>e. \<not> is_MCreateDomain e) post"
  proof (rule ccontr)
    assume "\<not> list_all (\<lambda>e. \<not> is_MCreateDomain e) post"
    then obtain e q1 q2 where e: "is_MCreateDomain e" and q: "post = q1 @ e # q2"
      by (metis list_all_iff split_list)
    from g have "create_guard ?mg ?n (pre @ ?ev # q1) e"
      unfolding run q by simp
    with e obtain p x where p: "pre @ ?ev # q1 = p @ [MGetDomain ?mg ?n (Inl x), ERandRead 16 None]"
      and no: "list_all (\<lambda>e. \<not> is_MCreateDomain e) p"
      by (auto simp: create_guard_def)
    from p have "?ev \<in> set (p @ [MGetDomain ?mg ?n (Inl x), ERandRead 16 None])" 
      by (metis in_set_conv_decomp)
    with no show False by (auto simp: list_all_iff)
  qed
  moreover from g have "create_guard ?mg ?n pre ?ev"
    unfolding run by (rule guarded_split)
  moreover have "status_State (d_Status d) = '''' \<and> mg = ?mg \<and> name = ?n"
  proof -
    from run have "?ev \<in> set (calls (DomainReconcile env cfg key) w)" by simp
    with got show ?thesis
      by (auto simp: DomainReconcile_def domain_exec Let_def
          split: if_splits prod.splits option.splits
          dest!: reconcileState_create_args dest: emits_calls [OF deleteDomain_no_create] echo_lawsD(1) [OF laws])
  qed
  ultimately show ?thesis using calls_after_get [OF got, of cfg]
    by (auto simp: create_guard_def)
qed

section \<open>Activation is sound\<close>

definition verified_active :: "Domain \<Rightarrow> event list \<Rightarrow> bool" where
  "verified_active d pre \<longleftrightarrow>
     (\<exists>mg name. MVerifyDomain mg name (Inr ''active'') \<in> set pre) \<and>
     (ForceMXCheck (d_Spec d) = Some True \<longrightarrow>
       (\<exists>mg name resp. MGetDomain mg name (Inr resp) \<in> set pre \<and> ReceivingDNSRecords resp \<noteq> [] \<and>
          (\<forall>r \<in> set (ReceivingDNSRecords resp). mgdns_Valid r = ''valid'')))"

definition activation_guard :: "event list \<Rightarrow> event \<Rightarrow> bool" where
  "activation_guard pre e \<longleftrightarrow>
     (\<forall>d r. e = EStatusUpdateDomain d r \<longrightarrow> status_State (d_Status d) = DomainStateActivated \<longrightarrow>
        verified_active d pre)"

lemma all_records_valid_iff:
  "all_records_valid rs \<longleftrightarrow> (\<forall>r \<in> set rs. mgdns_Valid r = ''valid'')"
  by (induction rs) auto

lemma segment_fields [simp]:
  "d_Spec (count_validation now d) = d_Spec d" "d_Meta (count_validation now d) = d_Meta d"
  "status_State (d_Status (count_validation now d)) = status_State (d_Status d)"
  "d_Spec (record_dns resp d) = d_Spec d" "d_Meta (record_dns resp d) = d_Meta d"
  "status_State (d_Status (record_dns resp d)) = status_State (d_Status d)"
  "d_Spec (set_DomainState st d) = d_Spec d" "d_Meta (set_DomainState st d) = d_Meta d"
  "status_State (d_Status (set_DomainState st d)) = status_State (d_Status d)"
  "d_Spec (record_response rsp d) = d_Spec d" "d_Meta (record_response rsp d) = d_Meta d"
  "status_State (d_Status (record_response rsp d)) = status_State (d_Status d)"
  "d_Spec (set_DnsEntrypointCreated d) = d_Spec d" "d_Meta (set_DnsEntrypointCreated d) = d_Meta d"
  "status_State (d_Status (set_DnsEntrypointCreated d)) = status_State (d_Status d)"
  by (simp_all add: count_validation_def record_dns_def set_DomainState_def record_response_def
      set_DnsEntrypointCreated_def)

lemma states_distinct [simp]:
  "DomainStateFailed \<noteq> DomainStateActivated" "DomainStateActivated \<noteq> DomainStateFailed"
  "DomainStateCreated \<noteq> DomainStateActivated" "DomainStateActivated \<noteq> DomainStateCreated"
  "DomainStateCreated \<noteq> DomainStateFailed" "DomainStateFailed \<noteq> DomainStateCreated"
  "DomainStateActivated \<noteq> ''''" "DomainStateCreated \<noteq> ''''" "DomainStateFailed \<noteq> ''''"
  "'''' \<noteq> DomainStateActivated" "'''' \<noteq> DomainStateCreated" "'''' \<noteq> DomainStateFailed"
  by (simp_all add: domain_states)

lemma activation_guard_simps [simp]:
  "(\<forall>d r. e \<noteq> EStatusUpdateDomain d r) \<Longrightarrow> activation_guard pre e"
  "activation_guard pre (EStatusUpdateDomain d r) \<longleftrightarrow>
     (status_State (d_Status d) = DomainStateActivated \<longrightarrow> verified_active d pre)"
  by (simp_all add: activation_guard_def)

lemma setActivated_guard:
  assumes "status_State (d_Status d) \<noteq> DomainStateActivated"
  shows "guarded activation_guard hist (calls (setActivated env mg st d) w)"
  unfolding setActivated_def checkMXRecordsAndSetState_def
  by (simp add: domain_exec split: sum.split)

lemma setActivated_verified:
  assumes "status_State (d_Status d) \<noteq> DomainStateActivated"
    and "status_State (d_Status (result (setActivated env mg st d) w)) = DomainStateActivated"
    and "MVerifyDomain mg' name' (Inr st) \<in> set pre"
  shows "verified_active (result (setActivated env mg st d) w)
           (pre @ calls (setActivated env mg st d) w)"
  using assms unfolding setActivated_def checkMXRecordsAndSetState_def
  by (auto simp: domain_exec verified_active_def all_records_valid_iff split: sum.splits if_splits)

lemma reconcileVerify_activation:
  assumes "status_State (d_Status d) \<noteq> DomainStateActivated"
  shows "guarded activation_guard hist (calls (reconcileVerify env cfg mg name d) w)"
  unfolding reconcileVerify_def using assms
  by (auto simp: domain_exec setActivated_guard split: sum.split option.split prod.split
      intro!: setActivated_verified [where mg' = mg and name' = name,
        of _ _ _ _ _ "hist @ [a, b, c]" for a b c, simplified])

lemma createDomain_inactive:
  assumes "status_State (d_Status d) \<noteq> DomainStateActivated"
  shows "emits (\<lambda>e. \<forall>d r. e = EStatusUpdateDomain d r \<longrightarrow> status_State (d_Status d) \<noteq> DomainStateActivated)
    (createDomain env mg d)"
  unfolding createDomain_def exportCredentialsToSecret_def RandomHex_16
  using assms by (intro emits_rules) simp_all

lemma inactive_emits:
  "emits (\<lambda>e. \<forall>d r. e = EStatusUpdateDomain d r \<longrightarrow> status_State (d_Status d) \<noteq> DomainStateActivated) m \<Longrightarrow>
   guarded activation_guard hist (calls m w)"
  by (erule guarded_emits) (simp add: activation_guard_def)

lemma reconcileNew_activation:
  assumes "status_State (d_Status d) \<noteq> DomainStateActivated"
  shows "guarded activation_guard hist (calls (reconcileNew env mg name d) w)"
  unfolding reconcileNew_def
  by (auto simp: domain_exec inactive_emits [OF createDomain_inactive [OF assms]] split: sum.split option.split prod.split go.split)

lemma reconcileNew_result:
  "result (reconcileNew env mg name d) w = Inr d' \<Longrightarrow> status_State (d_Status d') = DomainStateCreated"
  unfolding reconcileNew_def
  by (auto simp: domain_exec split: sum.splits option.splits prod.splits go.splits)

lemma reconcileExisting_activation:
  assumes "echo_laws env"
  shows "guarded activation_guard hist (calls (reconcileExisting env cfg mg name d) w)"
  unfolding reconcileExisting_def createExternalDNSEntity_def
  by (auto simp: domain_exec reconcileVerify_activation dest: echo_lawsD(2) [OF assms] split: option.split prod.split)

lemma reconcileState_activation:
  assumes "echo_laws env"
  shows "guarded activation_guard hist (calls (reconcileState env cfg mg name d) w)"
  unfolding reconcileState_def
  by (auto simp: domain_exec reconcileNew_activation reconcileExisting_activation [OF assms] split: sum.split)

lemma deleteFromMailgun_activation:
  "guarded activation_guard hist (calls (deleteFromMailgun env mg name d) w)"
  unfolding deleteFromMailgun_def removeDomainFinalizer_def
  by (simp add: domain_exec split: sum.split option.split prod.split)

lemma deleteDomain_activation:
  "guarded activation_guard hist (calls (deleteDomain env mg d) w)"
  unfolding deleteDomain_def
  by (simp add: domain_exec deleteFromMailgun_activation split: option.split prod.split)

text \<open>
  C2. A reconciliation writes the state \<^verbatim>\<open>activated\<close> only after Mailgun answered a verification of
  the domain with \<^verbatim>\<open>active\<close> and, when the object forces the check of MX records, after a lookup
  whose receiving records were not empty and all valid.
\<close>

theorem domain_activated_only_when_verified:
  assumes laws: "echo_laws env"
    and run: "calls (DomainReconcile env cfg key) w = pre @ EStatusUpdateDomain d r # post"
    and active: "status_State (d_Status d) = DomainStateActivated"
  shows "(\<exists>mg name. MVerifyDomain mg name (Inr ''active'') \<in> set pre) \<and>
    (ForceMXCheck (d_Spec d) = Some True \<longrightarrow>
      (\<exists>mg name resp. MGetDomain mg name (Inr resp) \<in> set pre \<and> ReceivingDNSRecords resp \<noteq> [] \<and>
         (\<forall>rec \<in> set (ReceivingDNSRecords resp). mgdns_Valid rec = ''valid'')))"
proof -
  have "guarded activation_guard [] (calls (DomainReconcile env cfg key) w)"
    unfolding DomainReconcile_def
    by (simp add: domain_exec deleteDomain_activation reconcileState_activation [OF laws]
        split: prod.split option.split)
  then have "activation_guard pre (EStatusUpdateDomain d r)"
    unfolding run by (rule guarded_split)
  with active show ?thesis by (simp add: verified_active_def)
qed

section \<open>The theorems at work\<close>

text \<open>The worlds of the witnesses: a domain of the cluster is deleted after its creation.\<close>

definition deleting_world :: cluster where
  "deleting_world = request_deletion test_key
     (after (DomainReconcile test_env test_config test_key) fresh_world)"

theorem domain_deleted_only_on_deletion_witness:
  "\<exists>mg name r.
     MDeleteDomain mg name r \<in> set (calls (DomainReconcile test_env test_config test_key) deleting_world) \<and>
     (\<exists>d rest. calls (DomainReconcile test_env test_config test_key) deleting_world =
        EGetDomain test_key None d # rest \<and>
        \<not> IsZero test_env (DeletionTimestamp (d_Meta d)) \<and>
        ContainsFinalizer test_env (d_Meta d) domainFinalizer)"
proof -
  have "list_ex is_MDeleteDomain (calls (DomainReconcile test_env test_config test_key) deleting_world)"
    by code_simp
  then obtain mg name r where del:
    "MDeleteDomain mg name r \<in> set (calls (DomainReconcile test_env test_config test_key) deleting_world)"
    by (auto simp: list_ex_iff is_MDeleteDomain_def)
  show ?thesis using domain_deleted_only_on_deletion [OF del] del by blast
qed

theorem domain_finalizer_released_after_mailgun_witness:
  "\<exists>pre d' r post. calls (DomainReconcile test_env test_config test_key) deleting_world =
       pre @ EUpdateDomain d' r # post \<and>
     \<not> ContainsFinalizer test_env (d_Meta d') domainFinalizer \<and>
     (\<exists>d rest pre' name. calls (DomainReconcile test_env test_config test_key) deleting_world =
          EGetDomain test_key None d # rest \<and>
        name = spec_Domain (d_Spec d) \<and>
        ((\<exists>x. pre = pre' @ [MGetDomain (MailgunClient test_env test_config name) name (Inl x)]) \<or>
         pre = pre' @ [MDeleteDomain (MailgunClient test_env test_config name) name None]))"
proof -
  have "list_ex (\<lambda>e. case e of EUpdateDomain d r \<Rightarrow> \<not> ContainsFinalizer test_env (d_Meta d) domainFinalizer
       | _ \<Rightarrow> False) (calls (DomainReconcile test_env test_config test_key) deleting_world)"
    by code_simp
  then obtain pre d' r post where
    run: "calls (DomainReconcile test_env test_config test_key) deleting_world =
       pre @ EUpdateDomain d' r # post"
    and gone: "\<not> ContainsFinalizer test_env (d_Meta d') domainFinalizer"
    by (rule list_ex_split) (simp split: event.splits)
  show ?thesis
    using domain_finalizer_released_after_mailgun [OF test_env_finalizer_laws run gone] run gone by blast
qed

theorem domain_created_once_after_failed_lookup_witness:
  "\<exists>pre mg name opts r post. calls (DomainReconcile test_env test_config test_key) fresh_world =
       pre @ MCreateDomain mg name opts r # post \<and>
     (\<exists>d rest pre' x. calls (DomainReconcile test_env test_config test_key) fresh_world =
         EGetDomain test_key None d # rest \<and>
       status_State (d_Status d) = '''' \<and>
       mg = MailgunClient test_env test_config (spec_Domain (d_Spec d)) \<and> name = spec_Domain (d_Spec d) \<and>
       pre = pre' @ [MGetDomain mg name (Inl x), ERandRead 16 None] \<and>
       list_all (\<lambda>e. \<not> is_MCreateDomain e) (pre' @ post))"
proof -
  have "list_ex is_MCreateDomain (calls (DomainReconcile test_env test_config test_key) fresh_world)"
    by code_simp
  then obtain pre mg name opts r post where
    run: "calls (DomainReconcile test_env test_config test_key) fresh_world =
       pre @ MCreateDomain mg name opts r # post"
    by (rule list_ex_split) (auto simp: is_MCreateDomain_def)
  show ?thesis
    using domain_created_once_after_failed_lookup [OF test_env_echo_laws run] run by blast
qed

text \<open>A domain that Mailgun activates at once, with the check of MX records forced.\<close>

definition activating_world :: cluster where
  "activating_world = with_mock (ActivateMXDomain ''shop.io'' \<circ> ActivateDomain ''shop.io'')
     (create_domain_object
        (test_domain\<lparr>d_Spec := (d_Spec test_domain)\<lparr>ForceMXCheck := Some True\<rparr>\<rparr>)
        (empty_cluster (NewMailgunServer ''key'')))"

theorem domain_activated_only_when_verified_witness:
  "\<exists>pre d r post. calls (DomainReconcile test_env test_config test_key) activating_world =
       pre @ EStatusUpdateDomain d r # post \<and>
     status_State (d_Status d) = DomainStateActivated \<and> ForceMXCheck (d_Spec d) = Some True \<and>
     (\<exists>mg name. MVerifyDomain mg name (Inr ''active'') \<in> set pre) \<and>
     (\<exists>mg name resp. MGetDomain mg name (Inr resp) \<in> set pre \<and> ReceivingDNSRecords resp \<noteq> [] \<and>
         (\<forall>rec \<in> set (ReceivingDNSRecords resp). mgdns_Valid rec = ''valid''))"
proof -
  have "list_ex (\<lambda>e. case e of EStatusUpdateDomain d r \<Rightarrow> status_State (d_Status d) = DomainStateActivated \<and>
         ForceMXCheck (d_Spec d) = Some True | _ \<Rightarrow> False)
       (calls (DomainReconcile test_env test_config test_key) activating_world)"
    by code_simp
  then obtain pre d r post where
    run: "calls (DomainReconcile test_env test_config test_key) activating_world =
       pre @ EStatusUpdateDomain d r # post"
    and active: "status_State (d_Status d) = DomainStateActivated" and forced: "ForceMXCheck (d_Spec d) = Some True"
    by (rule list_ex_split) (simp split: event.splits)
  show ?thesis
    using domain_activated_only_when_verified [OF test_env_echo_laws run active] run active forced by blast
qed

end
