(* ===== verification/Domain_Behaviour.thy ===== *)
theory Domain_Behaviour
  imports Domain_Safety
begin

text \<open>
  Functional behaviour of the domain controller: what a reconciliation does in reaction to each
  answer of Mailgun, with its result.
\<close>

section \<open>Reactions\<close>

definition create_failed :: "outcome \<Rightarrow> error \<Rightarrow> event list \<Rightarrow> bool" where
  "create_failed res err post \<longleftrightarrow>
     (\<exists>d r. post = [EStatusUpdateDomain d r] \<and> status_State (d_Status d) = DomainStateFailed \<and>
        MailgunError (d_Status d) = Some (Error err) \<and> res = Done no_requeue r)"

definition verify_answered :: "Data \<Rightarrow> outcome \<Rightarrow> string \<Rightarrow> event list \<Rightarrow> bool" where
  "verify_answered cfg res st post \<longleftrightarrow>
     (\<exists>t mid d r. post = ETimeNow t # mid @ [EStatusUpdateDomain d r] \<and> length mid \<le> 1 \<and>
        list_all is_MGetDomain mid \<and> status_DomainState (d_Status d) = st \<and>
        LastDomainValidationTime (d_Status d) = Some t \<and>
        DomainValidationCount (d_Status d) \<noteq> None \<and>
        (st = ''active'' \<and> ForceMXCheck (d_Spec d) \<noteq> Some True \<longrightarrow>
           status_State (d_Status d) = DomainStateActivated) \<and>
        res = (case r of None \<Rightarrow> Done (requeue_verify cfg) None | Some e \<Rightarrow> Done no_requeue r))"

definition delete_failed :: "outcome \<Rightarrow> error \<Rightarrow> event list \<Rightarrow> bool" where
  "delete_failed res err post \<longleftrightarrow>
     (\<exists>ev d r. post = [ev, EStatusUpdateDomain d r] \<and> is_EEventf ev \<and>
        status_State (d_Status d) = DomainStateFailed \<and>
        MailgunError (d_Status d) = Some (''Unable to delete domain: '' @ Error err) \<and>
        res = Done no_requeue (Some (case r of None \<Rightarrow> err | Some ue \<Rightarrow> ue)))"

definition deleted :: "'w env \<Rightarrow> outcome \<Rightarrow> event list \<Rightarrow> bool" where
  "deleted env res post \<longleftrightarrow>
     (\<exists>m d r. post = [EUpdateDomain d r] \<and>
        d_Meta d = fst (RemoveFinalizer env m domainFinalizer) \<and> res = Done no_requeue r)"

definition reaction :: "'w env \<Rightarrow> Data \<Rightarrow> outcome \<Rightarrow> event \<Rightarrow> event list \<Rightarrow> bool" where
  "reaction env cfg res e post \<longleftrightarrow>
     (case e of
        MCreateDomain mg name opts (Inl err) \<Rightarrow> create_failed res err post
      | MVerifyDomain mg name (Inl err) \<Rightarrow>
          post = [] \<and> res = Done (requeue_verify cfg) (Some err)
      | MVerifyDomain mg name (Inr st) \<Rightarrow> verify_answered cfg res st post
      | MDeleteDomain mg name (Some err) \<Rightarrow> delete_failed res err post
      | MDeleteDomain mg name None \<Rightarrow> deleted env res post
      | _ \<Rightarrow> True)"

definition reactive :: "event \<Rightarrow> bool" where
  "reactive e \<longleftrightarrow> is_MCreateDomain e \<or> is_MVerifyDomain e \<or> is_MDeleteDomain e"

lemma reactive_simps [simp]:
  "\<not> is_MCreateDomain e \<Longrightarrow> \<not> is_MVerifyDomain e \<Longrightarrow> \<not> is_MDeleteDomain e \<Longrightarrow> \<not> reactive e"
  by (simp add: reactive_def)

lemma reactive_intros [simp]:
  "reactive (MCreateDomain mg name opts a)" "reactive (MVerifyDomain mg name b)"
  "reactive (MDeleteDomain mg name c)"
  by (simp_all add: reactive_def)

lemma reaction_other [simp]: "\<not> reactive e \<Longrightarrow> reaction env cfg res e post"
  by (cases e) (simp_all add: reaction_def reactive_def)

lemma reaction_simps [simp]:
  "reaction env cfg res (MCreateDomain mg name opts (Inl err)) post = create_failed res err post"
  "reaction env cfg res (MCreateDomain mg name opts (Inr resp)) post"
  "reaction env cfg res (MVerifyDomain mg name (Inl err)) post \<longleftrightarrow>
     post = [] \<and> res = Done (requeue_verify cfg) (Some err)"
  "reaction env cfg res (MVerifyDomain mg name (Inr st)) post = verify_answered cfg res st post"
  "reaction env cfg res (MDeleteDomain mg name (Some err)) post = delete_failed res err post"
  "reaction env cfg res (MDeleteDomain mg name None) post = deleted env res post"
  by (simp_all add: reaction_def)

lemma followed_quiet:
  "emits (\<lambda>e. \<not> reactive e) m \<Longrightarrow> followed (\<lambda>e post. reaction env cfg res e (post @ ys)) (calls m w)"
  by (erule followed_emits) simp

lemma setActivated_result:
  "status_DomainState (d_Status (result (setActivated env mg st d) w)) = status_DomainState (d_Status d)"
  "LastDomainValidationTime (d_Status (result (setActivated env mg st d) w)) =
     LastDomainValidationTime (d_Status d)"
  "DomainValidationCount (d_Status (result (setActivated env mg st d) w)) =
     DomainValidationCount (d_Status d)"
  "d_Spec (result (setActivated env mg st d) w) = d_Spec d"
  "length (calls (setActivated env mg st d) w) \<le> Suc 0"
  "list_all is_MGetDomain (calls (setActivated env mg st d) w)"
  unfolding setActivated_def checkMXRecordsAndSetState_def
  by (simp_all add: domain_exec split: sum.split)

lemma setActivated_active:
  "st = ''active'' \<Longrightarrow> ForceMXCheck (d_Spec d) \<noteq> Some True \<Longrightarrow>
   status_State (d_Status (result (setActivated env mg st d) w)) = DomainStateActivated"
  by (simp add: setActivated_def domain_exec)

lemma setActivated_quiet: "emits (\<lambda>e. \<not> reactive e) (setActivated env mg st d)"
  unfolding setActivated_def checkMXRecordsAndSetState_def by (intro emits_rules) simp_all

lemma exportCredentials_quiet:
  "emits (\<lambda>e. \<not> reactive e) (exportCredentialsToSecret env d login password)"
  unfolding exportCredentialsToSecret_def by (intro emits_rules) simp_all

lemma createExternalDNS_quiet: "emits (\<lambda>e. \<not> reactive e) (createExternalDNSEntity env d)"
  unfolding createExternalDNSEntity_def by (intro emits_rules) simp_all

lemma counted [simp]:
  "status_DomainState (d_Status (count_validation t (set_DomainState st d))) = st"
  "LastDomainValidationTime (d_Status (count_validation t d)) = Some t"
  "DomainValidationCount (d_Status (count_validation t d)) \<noteq> None"
  by (simp_all add: count_validation_def set_DomainState_def)

lemma verify_answeredI:
  assumes "d' = result (setActivated env mg st (count_validation t (set_DomainState st d))) w"
    and "mid = calls (setActivated env mg st (count_validation t (set_DomainState st d))) w"
    and "res = (case r of None \<Rightarrow> Done (requeue_verify cfg) None | Some e \<Rightarrow> Done no_requeue r)"
  shows "verify_answered cfg res st (ETimeNow t # mid @ [EStatusUpdateDomain d' r])"
  unfolding verify_answered_def
  by (intro exI [of _ t] exI [of _ mid] exI [of _ d'] exI [of _ r])
    (use assms in \<open>simp add: setActivated_result setActivated_active\<close>)

lemma reconcileVerify_reaction:
  "followed (reaction env cfg (result (reconcileVerify env cfg mg name d) w))
     (calls (reconcileVerify env cfg mg name d) w)"
  unfolding reconcileVerify_def
  by (simp add: domain_exec verify_answeredI followed_quiet [OF setActivated_quiet]
      split: sum.split option.split prod.split)

lemma reconcileExisting_reaction:
  "followed (reaction env cfg (result (reconcileExisting env cfg mg name d) w))
     (calls (reconcileExisting env cfg mg name d) w)"
  unfolding reconcileExisting_def
  by (simp add: domain_exec followed_quiet [OF createExternalDNS_quiet] reconcileVerify_reaction
      split: option.split prod.split)

text \<open>A creation either ends with Mailgun's refusal, or none of its events calls for a reaction.\<close>

lemma createDomain_refused:
  assumes "MCreateDomain mg' name opts (Inl err) \<in> set (calls (createDomain env mg d) w)"
  shows "\<exists>pre. calls (createDomain env mg d) w = pre @ [MCreateDomain mg' name opts (Inl err)] \<and>
     list_all (\<lambda>e. \<not> reactive e) pre \<and> result (createDomain env mg d) w = Ret (Some err, d)"
  using assms unfolding createDomain_def RandomHex_16
  by (auto simp: domain_exec split: sum.splits option.splits prod.splits go.splits if_splits
      dest: emits_calls [OF exportCredentials_quiet])

lemma createDomain_accepted:
  assumes "\<And>mg' name opts err.
      MCreateDomain mg' name opts (Inl err) \<notin> set (calls (createDomain env mg d) w)"
    and "\<And>e post. \<not> reactive e \<Longrightarrow> G e post"
    and "\<And>mg name opts resp post. G (MCreateDomain mg name opts (Inr resp)) post"
  shows "followed G (calls (createDomain env mg d) w)"
proof (rule followedI)
  fix e post
  assume e: "e \<in> set (calls (createDomain env mg d) w)"
  then have "emits (\<lambda>e. reactive e \<longrightarrow> is_MCreateDomain e) (createDomain env mg d) \<Longrightarrow> reactive e \<Longrightarrow>
      is_MCreateDomain e"
    by (blast dest: emits_calls)
  moreover have "emits (\<lambda>e. reactive e \<longrightarrow> is_MCreateDomain e) (createDomain env mg d)"
    unfolding createDomain_def RandomHex_16 exportCredentialsToSecret_def
    by (intro emits_rules) simp_all
  ultimately have "reactive e \<Longrightarrow> is_MCreateDomain e" by blast
  with assms e show "G e post"
    by (cases "reactive e") (auto simp: is_MCreateDomain_def, metis sum.exhaust)
qed

lemma followed_refused:
  assumes "list_all (\<lambda>e. \<not> reactive e) pre"
  shows "followed (\<lambda>e post. reaction env cfg res e (post @ ys)) pre"
  using assms by (induction pre) simp_all

lemma reconcileNew_reaction:
  "(\<forall>res. result (reconcileNew env mg name d) w = Inl res \<longrightarrow>
      followed (reaction env cfg res) (calls (reconcileNew env mg name d) w)) \<and>
   (\<forall>d' res ys. result (reconcileNew env mg name d) w = Inr d' \<longrightarrow>
      followed (\<lambda>e post. reaction env cfg res e (post @ ys)) (calls (reconcileNew env mg name d) w))"
proof (cases "fst (mg_GetDomain_api env mg name w)")
  case (Inl x)
  let ?w = "snd (mg_GetDomain_api env mg name w)"
  show ?thesis
  proof (cases "\<exists>mg' name opts err.
      MCreateDomain mg' name opts (Inl err) \<in> set (calls (createDomain env mg d) ?w)")
    case True
    then obtain mg' name' opts err pre where
      "calls (createDomain env mg d) ?w = pre @ [MCreateDomain mg' name' opts (Inl err)]"
      "list_all (\<lambda>e. \<not> reactive e) pre" "result (createDomain env mg d) ?w = Ret (Some err, d)"
      by (blast dest: createDomain_refused)
    with Inl show ?thesis unfolding reconcileNew_def
      by (auto simp: domain_exec create_failed_def followed_refused split: prod.split)
  next
    case False
    then have "followed (\<lambda>e post. reaction env cfg res e (post @ ys))
        (calls (createDomain env mg d) ?w)" for res ys
      by (intro createDomain_accepted) simp_all
    with Inl show ?thesis unfolding reconcileNew_def
      by (auto simp: domain_exec split: prod.split go.split option.split)
  qed
next
  case (Inr resp)
  then show ?thesis unfolding reconcileNew_def
    by (simp add: domain_exec split: prod.split)
qed

lemma reconcileState_reaction:
  "followed (reaction env cfg (result (reconcileState env cfg mg name d) w))
     (calls (reconcileState env cfg mg name d) w)"
  unfolding reconcileState_def
  by (simp add: domain_exec reconcileNew_reaction [rule_format] reconcileExisting_reaction
      split: sum.split)

lemma delete_failed_iff [simp]:
  "delete_failed res err [ev, EStatusUpdateDomain d r] \<longleftrightarrow> is_EEventf ev \<and>
     status_State (d_Status d) = DomainStateFailed \<and>
     MailgunError (d_Status d) = Some (''Unable to delete domain: '' @ Error err) \<and>
     res = Done no_requeue (Some (case r of None \<Rightarrow> err | Some ue \<Rightarrow> ue))"
  by (auto simp: delete_failed_def)

lemma deleted_update [simp]:
  "deleted env res [EUpdateDomain (set_Meta (fst (RemoveFinalizer env m domainFinalizer)) d) r] \<longleftrightarrow>
     res = Done no_requeue r"
  by (auto simp: deleted_def)

lemma deleteFromMailgun_reaction:
  "followed (reaction env cfg (Done no_requeue (fst (result (deleteFromMailgun env mg name d) w))))
     (calls (deleteFromMailgun env mg name d) w)"
  unfolding deleteFromMailgun_def removeDomainFinalizer_def
  by (simp add: domain_exec
      split: sum.split option.split prod.split)

lemma deleteDomain_reaction_fst:
  "followed (reaction env cfg (Done no_requeue (fst (result (deleteDomain env mg d) w))))
     (calls (deleteDomain env mg d) w)"
  unfolding deleteDomain_def Let_def
  by (simp add: domain_exec deleteFromMailgun_reaction split: option.split prod.split)

lemma deleteDomain_reaction:
  "result (deleteDomain env mg d) w = (err, d') \<Longrightarrow>
   followed (reaction env cfg (Done no_requeue err)) (calls (deleteDomain env mg d) w)"
  using deleteDomain_reaction_fst [of env cfg mg d w] by simp

lemma DomainReconcile_reaction:
  "followed (reaction env cfg (result (DomainReconcile env cfg key) w))
     (calls (DomainReconcile env cfg key) w)"
  unfolding DomainReconcile_def Let_def
  by (auto simp: domain_exec reconcileState_reaction deleteDomain_reaction
      split: prod.split option.split)

lemma reaction_at:
  assumes "calls (DomainReconcile env cfg key) w = pre @ e # post"
  shows "reaction env cfg (result (DomainReconcile env cfg key) w) e post"
  using DomainReconcile_reaction [of env cfg key w] unfolding assms by (rule followed_split)

section \<open>What a reconciliation does with Mailgun's answers\<close>

text \<open>
  When Mailgun refuses to create the domain, the reconciliation makes exactly one more call: it
  writes the state \<^verbatim>\<open>failed\<close> with Mailgun's message to the status. The error itself is not
  returned, so the object is not retried.
\<close>

theorem domain_creation_refused:
  assumes "calls (DomainReconcile env cfg key) w = pre @ MCreateDomain mg name opts (Inl err) # post"
  shows "\<exists>d r. post = [EStatusUpdateDomain d r] \<and>
    status_State (d_Status d) = DomainStateFailed \<and>
    MailgunError (d_Status d) = Some (Error err) \<and>
    result (DomainReconcile env cfg key) w = Done no_requeue r"
  using reaction_at [OF assms] by (simp add: create_failed_def)

definition refusing_world :: cluster where
  "refusing_world = with_mock (FailedDomain ''shop.io'') fresh_world"

theorem domain_creation_refused_witness:
  "\<exists>pre mg name opts err d r.
     calls (DomainReconcile test_env test_config test_key) refusing_world =
       pre @ [MCreateDomain mg name opts (Inl err), EStatusUpdateDomain d r] \<and>
     status_State (d_Status d) = DomainStateFailed \<and>
     MailgunError (d_Status d) = Some (Error err) \<and>
     result (DomainReconcile test_env test_config test_key) refusing_world = Done no_requeue r"
proof -
  have "list_ex (\<lambda>e. case e of MCreateDomain mg name opts (Inl err) \<Rightarrow> True | _ \<Rightarrow> False)
     (calls (DomainReconcile test_env test_config test_key) refusing_world)"
    by code_simp
  then obtain pre mg name opts err post where
    run: "calls (DomainReconcile test_env test_config test_key) refusing_world =
       pre @ MCreateDomain mg name opts (Inl err) # post"
    by (rule list_ex_split) (auto split: event.splits sum.splits)
  then show ?thesis using domain_creation_refused [OF run] by fastforce
qed

text \<open>
  When Mailgun answers the verification with an error, the reconciliation ends there: nothing is
  written to the status after it, the error is returned, and the requeue interval is set.
\<close>

theorem domain_verification_error:
  assumes "calls (DomainReconcile env cfg key) w = pre @ MVerifyDomain mg name (Inl err) # post"
  shows "post = [] \<and> result (DomainReconcile env cfg key) w =
    Done \<lparr>RequeueAfter = DomainVerifyDuration cfg * Second\<rparr> (Some err)"
  using reaction_at [OF assms] by (simp add: requeue_verify_def)

text \<open>The environment in which every verification fails.\<close>

definition unverifiable_env :: "cluster env" where
  "unverifiable_env = test_env\<lparr>mg_VerifyDomain_api := (\<lambda>mg name w. (Inl unexpected, w))\<rparr>"

theorem domain_verification_error_witness:
  "\<exists>pre mg name err.
     calls (DomainReconcile unverifiable_env test_config test_key) fresh_world =
       pre @ [MVerifyDomain mg name (Inl err)] \<and>
     result (DomainReconcile unverifiable_env test_config test_key) fresh_world =
       Done \<lparr>RequeueAfter = 300 * Second\<rparr> (Some err)"
proof -
  have "list_ex (\<lambda>e. case e of MVerifyDomain mg name (Inl err) \<Rightarrow> True | _ \<Rightarrow> False)
     (calls (DomainReconcile unverifiable_env test_config test_key) fresh_world)"
    by code_simp
  then obtain pre mg name err post where
    run: "calls (DomainReconcile unverifiable_env test_config test_key) fresh_world =
       pre @ MVerifyDomain mg name (Inl err) # post"
    by (rule list_ex_split) (auto split: event.splits sum.splits)
  then show ?thesis using domain_verification_error [OF run] by (simp add: test_config_def)
qed

text \<open>
  C34. When Mailgun fails to delete the domain, the object keeps its finalizer (no update follows):
  the reconciliation emits an event, writes the state \<^verbatim>\<open>failed\<close> with the message, and returns
  an error, so that the deletion is retried.
\<close>

theorem domain_deletion_failed:
  assumes "calls (DomainReconcile env cfg key) w = pre @ MDeleteDomain mg name (Some err) # post"
  shows "\<exists>ev d r. post = [ev, EStatusUpdateDomain d r] \<and> is_EEventf ev \<and>
    status_State (d_Status d) = DomainStateFailed \<and>
    MailgunError (d_Status d) = Some (''Unable to delete domain: '' @ Error err) \<and>
    result (DomainReconcile env cfg key) w =
      Done no_requeue (Some (case r of None \<Rightarrow> err | Some ue \<Rightarrow> ue))"
  using reaction_at [OF assms] unfolding reaction_simps delete_failed_def .

definition undeletable_world :: cluster where
  "undeletable_world = with_mock (FailedDomain ''shop.io'') deleting_world"

theorem domain_deletion_failed_witness:
  "\<exists>pre mg name err ev d r.
     calls (DomainReconcile test_env test_config test_key) undeletable_world =
       pre @ [MDeleteDomain mg name (Some err), ev, EStatusUpdateDomain d r] \<and> is_EEventf ev \<and>
     status_State (d_Status d) = DomainStateFailed \<and>
     MailgunError (d_Status d) = Some (''Unable to delete domain: '' @ Error err) \<and>
     result (DomainReconcile test_env test_config test_key) undeletable_world =
       Done no_requeue (Some (case r of None \<Rightarrow> err | Some ue \<Rightarrow> ue))"
proof -
  have "list_ex (\<lambda>e. case e of MDeleteDomain mg name (Some err) \<Rightarrow> True | _ \<Rightarrow> False)
     (calls (DomainReconcile test_env test_config test_key) undeletable_world)"
    by code_simp
  then obtain pre mg name err post where
    run: "calls (DomainReconcile test_env test_config test_key) undeletable_world =
       pre @ MDeleteDomain mg name (Some err) # post"
    by (rule list_ex_split) (auto split: event.splits option.splits)
  then show ?thesis using domain_deletion_failed [OF run] by fastforce
qed

text \<open>
  When Mailgun has deleted the domain, the reconciliation makes one more call, an update of the
  object without the operator's finalizer, and returns its outcome.
\<close>

theorem domain_deletion_succeeded:
  assumes "finalizer_laws env"
    and "calls (DomainReconcile env cfg key) w = pre @ MDeleteDomain mg name None # post"
  shows "\<exists>d r. post = [EUpdateDomain d r] \<and>
    domainFinalizer \<notin> set (Finalizers (d_Meta d)) \<and>
    result (DomainReconcile env cfg key) w = Done no_requeue r"
  using reaction_at [OF assms(2)] unfolding reaction_simps deleted_def
  by (auto simp: finalizer_lawsD [OF assms(1)])

theorem domain_deletion_succeeded_witness:
  "\<exists>pre mg name d r.
     calls (DomainReconcile test_env test_config test_key) deleting_world =
       pre @ [MDeleteDomain mg name None, EUpdateDomain d r] \<and>
     domainFinalizer \<notin> set (Finalizers (d_Meta d)) \<and>
     result (DomainReconcile test_env test_config test_key) deleting_world = Done no_requeue r"
proof -
  have "list_ex (\<lambda>e. case e of MDeleteDomain mg name None \<Rightarrow> True | _ \<Rightarrow> False)
     (calls (DomainReconcile test_env test_config test_key) deleting_world)"
    by code_simp
  then obtain pre mg name post where
    run: "calls (DomainReconcile test_env test_config test_key) deleting_world =
       pre @ MDeleteDomain mg name None # post"
    by (rule list_ex_split) (auto split: event.splits option.splits)
  then show ?thesis
    using domain_deletion_succeeded [OF test_env_finalizer_laws run] by fastforce
qed

section \<open>Objects that need no work\<close>

text \<open>
  An object that is not being deleted, has the finalizer and is in a terminal state (failed or
  activated) is only read: no other call is made, nothing is requeued and no error is returned.
\<close>

theorem terminal_domain_untouched:
  assumes "GetDomain_api env key zero_Domain w = ((None, d), w')"
    and "IsZero env (DeletionTimestamp (d_Meta d))"
    and "ContainsFinalizer env (d_Meta d) domainFinalizer"
    and "status_State (d_Status d) \<in> {DomainStateFailed, DomainStateActivated}"
  shows "calls (DomainReconcile env cfg key) w = [EGetDomain key None d] \<and>
    result (DomainReconcile env cfg key) w = Done no_requeue None \<and>
    after (DomainReconcile env cfg key) w = w'"
  using assms by (auto simp: DomainReconcile_def reconcileState_def reconcileExisting_def domain_exec)

text \<open>The cluster after the creation was refused, which leaves the object in a terminal state.\<close>

definition failed_object :: Domain where
  "failed_object = test_domain\<lparr>
     d_Meta := test_meta\<lparr>Finalizers := [domainFinalizer]\<rparr>,
     d_Status := zero_DomainStatus\<lparr>status_State := DomainStateFailed\<rparr>\<rparr>"

definition failed_world :: cluster where
  "failed_world = create_domain_object failed_object (empty_cluster (NewMailgunServer ''key''))"

theorem terminal_domain_untouched_witness:
  "calls (DomainReconcile test_env test_config test_key) failed_world =
     [EGetDomain test_key None failed_object] \<and>
   result (DomainReconcile test_env test_config test_key) failed_world = Done no_requeue None \<and>
   after (DomainReconcile test_env test_config test_key) failed_world = failed_world"
  by (rule terminal_domain_untouched) code_simp+

text \<open>
  When the object cannot be read, the reconciliation makes no other call; a missing object is
  not an error, any other failure of the read is returned.
\<close>

theorem unreadable_domain_skipped:
  assumes "error_laws env" and "GetDomain_api env key zero_Domain w = ((Some e, d), w')"
  shows "calls (DomainReconcile env cfg key) w = [EGetDomain key (Some e) d] \<and>
    result (DomainReconcile env cfg key) w =
      Done no_requeue (if reason e = ''NotFound'' then None else Some e)"
  using assms by (simp add: calls_failed_get error_laws_def)

definition empty_world :: cluster where
  "empty_world = empty_cluster (NewMailgunServer ''key'')"

theorem unreadable_domain_skipped_witness:
  "calls (DomainReconcile test_env test_config test_key) empty_world =
     [EGetDomain test_key (Some not_found) zero_Domain] \<and>
   result (DomainReconcile test_env test_config test_key) empty_world =
     Done no_requeue (if reason not_found = ''NotFound'' then None else Some not_found)"
proof -
  have "GetDomain_api test_env test_key zero_Domain empty_world = ((Some not_found, zero_Domain), empty_world)"
    by code_simp
  from unreadable_domain_skipped [OF test_env_error_laws this] show ?thesis .
qed

section \<open>DNS records and the DNSEndpoint object\<close>

definition dns_record_of :: "MgDNSRecord \<Rightarrow> DnsRecord" where
  "dns_record_of r = \<lparr>dns_Name = mgdns_Name r, dns_Priority = mgdns_Priority r,
     dns_RecordType = mgdns_RecordType r, dns_Valid = mgdns_Valid r, dns_Value = mgdns_Value r\<rparr>"

lemma convert_from_map:
  "i + length rs = length out \<Longrightarrow>
   convert_from i rs out = take i out @ map dns_record_of rs"
proof (induction rs arbitrary: i out)
  case Nil
  then show ?case by simp
next
  case (Cons r rs)
  then have "i < length out" by simp
  then have "take (Suc i) (out[i := x]) = take i out @ [x]" for x
    by (simp add: take_Suc_conv_app_nth)
  with Cons.prems show ?case
    by (simp add: Cons.IH dns_record_of_def)
qed

text \<open>
  The indexed loop that converts Mailgun's DNS records is a map: one record per input record, in
  order, with the same name, priority, type, validity and value.
\<close>

theorem mgDNSRecordsToDnsRecords_map:
  "mgDNSRecordsToDnsRecords records =
     map (\<lambda>r. \<lparr>dns_Name = mgdns_Name r, dns_Priority = mgdns_Priority r,
       dns_RecordType = mgdns_RecordType r, dns_Valid = mgdns_Valid r,
       dns_Value = mgdns_Value r\<rparr>) records"
  by (simp add: mgDNSRecordsToDnsRecords_def convert_from_map dns_record_of_def [abs_def])

lemma collect_records_eq:
  "collect_records env records mx eps =
     (mx @ map (\<lambda>r. dns_Priority r @ '' '' @ dns_Value r)
             (filter (\<lambda>r. dns_RecordType r = ''MX'') records),
      eps @ map (\<lambda>r. NewEndpoint env (dns_Name r) (dns_RecordType r) [dns_Value r])
             (filter (\<lambda>r. dns_RecordType r \<noteq> ''MX'') records))"
  by (induction records arbitrary: mx eps) simp_all

lemma add_extra_records_eq:
  "add_extra_records env records eps =
     eps @ map (\<lambda>r. NewEndpoint env (ep_DNSName r) (ep_RecordType r) (ep_Targets r)) records"
  by (induction records arbitrary: eps) simp_all

text \<open>
  C32. The endpoints of the DNSEndpoint object: one per record that is not an MX record (receiving
  records first), then all MX records merged into one endpoint for the domain whose targets are
  "priority value", then the endpoints the user listed, of which only name, type and targets
  are kept. The object has the name and the namespace of the Domain.
\<close>

theorem buildDNSEndpoint_endpoints:
  "buildDNSEndpoint env d =
    (let records = ReceivingDnsRecords (d_Status d) @ SendingDnsRecords (d_Status d);
         isMX = (\<lambda>r. dns_RecordType r = ''MX'')
     in \<lparr>de_Meta = zero_ObjectMeta\<lparr>meta_Name := meta_Name (d_Meta d),
                                     meta_Namespace := meta_Namespace (d_Meta d)\<rparr>,
         Endpoints =
           map (\<lambda>r. NewEndpoint env (dns_Name r) (dns_RecordType r) [dns_Value r])
             (filter (Not \<circ> isMX) records) @
           (if \<exists>r \<in> set records. isMX r
            then [NewEndpoint env (spec_Domain (d_Spec d)) ''MX''
                    (map (\<lambda>r. dns_Priority r @ '' '' @ dns_Value r) (filter isMX records))]
            else []) @
           map (\<lambda>r. NewEndpoint env (ep_DNSName r) (ep_RecordType r) (ep_Targets r))
             (ExternalDNSRecords (d_Spec d))\<rparr>)"
  by (auto simp: buildDNSEndpoint_def collect_records_eq add_extra_records_eq Let_def comp_def
      filter_empty_conv)

section \<open>The exported credentials\<close>

text \<open>
  Writing the credentials into the Secret: under the login key is the login; under the password
  key is the password, unless both keys are the same; every other entry and the metadata are left
  as they were, and a Secret without data gets some.
\<close>

theorem mutate_secret_entries:
  "\<exists>entries. sec_Data (mutate_secret pk lk password login s) = Some entries \<and>
     map_of entries lk = Some login \<and>
     map_of entries pk = Some (if pk = lk then login else password) \<and>
     (\<forall>k. k = lk \<or> k = pk \<or>
        map_of entries k = map_of (case sec_Data s of None \<Rightarrow> [] | Some es \<Rightarrow> es) k) \<and>
     sec_Meta (mutate_secret pk lk password login s) = sec_Meta s"
  by (auto simp: mutate_secret_def AList.update_conv' map_or_nil_def)

lemma export_without_secret:
  assumes "ExportCredentials (d_Spec d) = Some True" and "ExportSecretName (d_Spec d) = None"
    and "MCreateDomain mg' name opts (Inr resp) \<in> set (calls (createDomain env mg d) w)"
  shows "result (createDomain env mg d) w = Panic nil_deref"
    and "\<exists>e. calls (createDomain env mg d) w = [e, MCreateDomain mg' name opts (Inr resp)] \<and>
      is_ERandRead e"
  using assms unfolding createDomain_def exportCredentialsToSecret_def record_response_def RandomHex_16
  by (auto simp: domain_exec split: sum.splits)

lemma reconcileState_create:
  assumes "MCreateDomain mg' name' opts r \<in> set (calls (reconcileState env cfg mg name d) w)"
  shows "status_State (d_Status d) = '''' \<and> (\<exists>x. fst (mg_GetDomain_api env mg name w) = Inl x) \<and>
    MCreateDomain mg' name' opts r \<in> set (calls (createDomain env mg d) (snd (mg_GetDomain_api env mg name w)))"
  using assms unfolding reconcileState_def
  by (auto simp: domain_exec reconcileNew_def split: if_splits sum.splits prod.splits go.splits option.splits
      dest!: emits_calls [OF reconcileExisting_no_create])

lemma reconcileState_crash:
  assumes "status_State (d_Status d) = ''''" "fst (mg_GetDomain_api env mg name w) = Inl x"
    and "result (createDomain env mg d) (snd (mg_GetDomain_api env mg name w)) = Panic msg"
  shows "result (reconcileState env cfg mg name d) w = Crashed msg"
    and "calls (reconcileState env cfg mg name d) w = MGetDomain mg name (Inl x) #
      calls (createDomain env mg d) (snd (mg_GetDomain_api env mg name w))"
  using assms by (simp_all add: reconcileState_def reconcileNew_def domain_exec)

text \<open>
  C16. Exporting the credentials of a domain whose specification names no Secret is a nil dereference:
  the reconciliation crashes right after the domain was created on Mailgun, having made three calls
  for it, and writes nothing about the created domain to the status.
\<close>

theorem export_without_secret_name_crashes:
  assumes "GetDomain_api env key zero_Domain w = ((None, d), w')"
    and "IsZero env (DeletionTimestamp (d_Meta d))"
    and "ContainsFinalizer env (d_Meta d) domainFinalizer"
    and "ExportCredentials (d_Spec d) = Some True" and "ExportSecretName (d_Spec d) = None"
    and "MCreateDomain mg name opts (Inr resp) \<in> set (calls (DomainReconcile env cfg key) w)"
  shows "result (DomainReconcile env cfg key) w = Crashed nil_deref \<and>
    (\<exists>lookup rand. calls (DomainReconcile env cfg key) w =
        [EGetDomain key None d, lookup, rand, MCreateDomain mg name opts (Inr resp)] \<and>
      is_MGetDomain lookup \<and> is_ERandRead rand)"
proof -
  let ?n = "spec_Domain (d_Spec d)"
  let ?m = "reconcileState env cfg (MailgunClient env cfg ?n) ?n d"
  have run: "calls (DomainReconcile env cfg key) w = EGetDomain key None d # calls ?m w'"
    "result (DomainReconcile env cfg key) w = result ?m w'"
    using assms(1-3) by (simp_all add: DomainReconcile_def domain_exec)
  let ?w = "snd (mg_GetDomain_api env (MailgunClient env cfg ?n) ?n w')"
  from assms(6) have "MCreateDomain mg name opts (Inr resp) \<in> set (calls ?m w')"
    by (simp add: run)
  then obtain x where st: "status_State (d_Status d) = ''''"
    and x: "fst (mg_GetDomain_api env (MailgunClient env cfg ?n) ?n w') = Inl x"
    and made: "MCreateDomain mg name opts (Inr resp) \<in>
      set (calls (createDomain env (MailgunClient env cfg ?n) d) ?w)"
    using reconcileState_create by metis
  note crash = export_without_secret [OF assms(4,5) made]
  from crash(2) reconcileState_crash [OF st x crash(1), of cfg] show ?thesis
    by (auto simp: run)
qed

definition careless_domain :: Domain where
  "careless_domain = test_domain\<lparr>
     d_Meta := test_meta\<lparr>Finalizers := [domainFinalizer]\<rparr>,
     d_Spec := (d_Spec test_domain)\<lparr>ExportCredentials := Some True\<rparr>\<rparr>"

definition careless_world :: cluster where
  "careless_world = create_domain_object careless_domain (empty_cluster (NewMailgunServer ''key''))"

theorem export_without_secret_name_crashes_witness:
  "result (DomainReconcile test_env test_config test_key) careless_world = Crashed nil_deref \<and>
   (\<exists>mg name opts resp. MCreateDomain mg name opts (Inr resp) \<in>
      set (calls (DomainReconcile test_env test_config test_key) careless_world))"
proof -
  have get: "GetDomain_api test_env test_key zero_Domain careless_world =
      ((None, careless_domain), careless_world)"
    and hyps: "IsZero test_env (DeletionTimestamp (d_Meta careless_domain))"
      "ContainsFinalizer test_env (d_Meta careless_domain) domainFinalizer"
      "ExportCredentials (d_Spec careless_domain) = Some True"
      "ExportSecretName (d_Spec careless_domain) = None"
    by code_simp+
  have "list_ex (\<lambda>e. case e of MCreateDomain mg name opts (Inr resp) \<Rightarrow> True | _ \<Rightarrow> False)
     (calls (DomainReconcile test_env test_config test_key) careless_world)"
    by code_simp
  then obtain pre mg name opts resp post where
    "calls (DomainReconcile test_env test_config test_key) careless_world =
       pre @ MCreateDomain mg name opts (Inr resp) # post"
    by (rule list_ex_split) (auto split: event.splits sum.splits)
  then have made: "MCreateDomain mg name opts (Inr resp) \<in>
      set (calls (DomainReconcile test_env test_config test_key) careless_world)"
    by simp
  from export_without_secret_name_crashes [OF get hyps made] made show ?thesis by blast
qed

section \<open>The options of a creation\<close>

lemma createOptions_fields:
  "opt_Password (createOptions spec password) = password"
  "opt_SpamAction (createOptions spec password) =
     (case SpamAction spec of None \<Rightarrow> '''' | Some a \<Rightarrow> a)"
  "opt_Wildcard (createOptions spec password) = (Wildcard spec = Some True)"
  "opt_ForceDKIMAuthority (createOptions spec password) = (ForceDKIMAuthority spec = Some True)"
  "sint (opt_DKIMKeySize (createOptions spec password)) =
     (case DKIMKeySize spec of None \<Rightarrow> 0 | Some n \<Rightarrow> max 0 (sint n))"
  by (auto simp: createOptions_def word_sless_alt split: option.split)

lemma createDomain_options:
  assumes "MCreateDomain mg' name opts r \<in> set (calls (createDomain env mg d) w)"
  shows "\<exists>bytes. length bytes = 16 \<and> opts = createOptions (d_Spec d) (EncodeToString bytes)"
  using assms unfolding createDomain_def RandomHex_16
  by (auto simp: domain_exec split: sum.splits option.splits prod.splits go.splits if_splits
      dest: emits_calls [OF exportCredentials_no_create] intro!: exI [of _ "fill_buffer 16 bs" for bs])

text \<open>
  C33. The options a creation sends to Mailgun: a password of 32 lower-case hexadecimal digits that
  encodes 16 bytes, and the spam action, wildcard, DKIM authority and positive key size of the
  object that was read; absent, empty, false, zero and negative settings are not sent.
\<close>

theorem domain_creation_options:
  assumes laws: "echo_laws env"
    and made: "MCreateDomain mg name opts r \<in> set (calls (DomainReconcile env cfg key) w)"
  shows "\<exists>d rest bytes. calls (DomainReconcile env cfg key) w = EGetDomain key None d # rest \<and>
    length bytes = 16 \<and> hex_decode (opt_Password opts) = bytes \<and> length (opt_Password opts) = 32 \<and>
    set (opt_Password opts) \<subseteq> set ''0123456789abcdef'' \<and>
    opt_SpamAction opts = (case SpamAction (d_Spec d) of None \<Rightarrow> '''' | Some a \<Rightarrow> a) \<and>
    opt_Wildcard opts = (Wildcard (d_Spec d) = Some True) \<and>
    opt_ForceDKIMAuthority opts = (ForceDKIMAuthority (d_Spec d) = Some True) \<and>
    sint (opt_DKIMKeySize opts) = (case DKIMKeySize (d_Spec d) of None \<Rightarrow> 0 | Some n \<Rightarrow> max 0 (sint n))"
proof (cases rule: get_cases [of env key w])
  case (failed e d w')
  with made show ?thesis by (simp add: calls_failed_get)
next
  case (got d w')
  have "\<exists>d' mg' w''. d_Spec d' = d_Spec d \<and> MCreateDomain mg name opts r \<in> set (calls (createDomain env mg' d') w'')"
    using made got by (auto simp: DomainReconcile_def domain_exec Let_def
        split: if_splits prod.splits option.splits
        dest!: emits_calls [OF deleteDomain_no_create] reconcileState_create)
      (metis echo_lawsD(1) [OF laws] set_Meta_simps(2))
  then obtain bytes where "length bytes = 16" "opts = createOptions (d_Spec d) (EncodeToString bytes)"
    by (metis createDomain_options)
  moreover obtain rest where "calls (DomainReconcile env cfg key) w = EGetDomain key None d # rest"
    using calls_after_get [OF got, of cfg] by blast
  ultimately show ?thesis
    by (intro exI [of _ d] exI [of _ rest] exI [of _ bytes])
      (simp only: createOptions_fields EncodeToString_digits length_EncodeToString hex_decode_encode, simp)
qed

definition ordered_domain :: Domain where
  "ordered_domain = test_domain\<lparr>d_Spec := (d_Spec test_domain)\<lparr>DKIMKeySize := Some 2048,
     SpamAction := Some ''tag'', Wildcard := Some True\<rparr>\<rparr>"

definition ordered_world :: cluster where
  "ordered_world = create_domain_object ordered_domain (empty_cluster (NewMailgunServer ''key''))"

theorem domain_creation_options_witness:
  "\<exists>mg name opts r. MCreateDomain mg name opts r \<in>
       set (calls (DomainReconcile test_env test_config test_key) ordered_world) \<and>
     sint (opt_DKIMKeySize opts) = 2048 \<and> opt_SpamAction opts = ''tag'' \<and> opt_Wildcard opts \<and>
     \<not> opt_ForceDKIMAuthority opts \<and> length (opt_Password opts) = 32"
proof -
  have "list_ex is_MCreateDomain (calls (DomainReconcile test_env test_config test_key) ordered_world)"
    and get: "hd (calls (DomainReconcile test_env test_config test_key) ordered_world) =
      EGetDomain test_key None ordered_domain"
    by code_simp+
  then obtain pre mg name opts r post where
    "calls (DomainReconcile test_env test_config test_key) ordered_world =
       pre @ MCreateDomain mg name opts r # post"
    by (auto simp: is_MCreateDomain_def elim!: list_ex_split)
  then have made: "MCreateDomain mg name opts r \<in>
      set (calls (DomainReconcile test_env test_config test_key) ordered_world)"
    by simp
  have "sint (2048 :: go_int) = 2048" by code_simp
  then show ?thesis
    using domain_creation_options [OF test_env_echo_laws made] made get
    by (fastforce simp: ordered_domain_def test_domain_def zero_Domain_def zero_DomainSpec_def)
qed

section \<open>Machine integers\<close>

text \<open>
  C36. The requeue interval, a number of seconds turned into nanoseconds in 64 bits, is exact for
  settings of up to 9223372036 seconds in absolute value and for no others: beyond, the
  multiplication wraps around.
\<close>

theorem requeue_interval_exact_iff:
  "sint (RequeueAfter (requeue_verify cfg)) = 1000000000 * sint (DomainVerifyDuration cfg) \<longleftrightarrow>
     \<bar>sint (DomainVerifyDuration cfg)\<bar> \<le> 9223372036"
proof -
  have "sint Second = 1000000000" by (simp add: Second_def)
  then have "sint (RequeueAfter (requeue_verify cfg)) =
      signed_take_bit 63 (sint (DomainVerifyDuration cfg) * 1000000000)"
    by (simp add: requeue_verify_def sint_word_ariths)
  then show ?thesis
    by (simp add: mult.commute signed_take_bit_int_eq_self_iff) linarith
qed

text \<open>
  The count of validations starts at one and goes up by one; at the largest 64-bit integer it
  wraps around to the smallest.
\<close>

theorem validation_count_step:
  "\<exists>k. DomainValidationCount (d_Status (count_validation t d)) = Some k \<and>
     sint k = (case DomainValidationCount (d_Status d) of
       None \<Rightarrow> 1
     | Some n \<Rightarrow> if sint n = 2 ^ 63 - 1 then - (2 ^ 63) else sint n + 1)"
proof (cases "DomainValidationCount (d_Status d)")
  case None
  then show ?thesis by (simp add: count_validation_def)
next
  case (Some n)
  have range: "- (2 ^ 63) \<le> sint n" "sint n < 2 ^ 63"
    using sint_greater_eq [of n] sint_less [of n] by simp_all
  have "sint (n + 1) = signed_take_bit 63 (sint n + 1)"
    by (simp add: sint_word_ariths)
  also have "\<dots> = (if sint n = 2 ^ 63 - 1 then - (2 ^ 63) else sint n + 1)"
    using range by (simp add: signed_take_bit_int_eq_self_iff)
  finally show ?thesis using Some by (simp add: count_validation_def)
qed

end
