(* ===== verification/Domain_Verification.thy ===== *)
theory Domain_Verification
  imports Domain_Behaviour
begin

text \<open>
  The whole effect of an answered verification: what the one status write that follows says of the
  domain, when it says activated, and how it counts on from the object the reconciliation worked on.
\<close>

section \<open>The object a reconciliation works on\<close>

text \<open>The object that was read, or the answer to the update that put the finalizer on it.\<close>

definition object_in_hand :: "'w env \<Rightarrow> NamespacedName \<Rightarrow> 'w \<Rightarrow> Domain" where
  "object_in_hand env key w =
     (let ((err, d), w1) = GetDomain_api env key zero_Domain w in
      if IsZero env (DeletionTimestamp (d_Meta d)) \<and> \<not> ContainsFinalizer env (d_Meta d) domainFinalizer
      then snd (fst (UpdateDomain_api env
        (set_Meta (fst (AddFinalizer env (d_Meta d) domainFinalizer)) d) w1))
      else d)"

definition validations :: "Domain \<Rightarrow> go_int" where
  "validations d = (case DomainValidationCount (d_Status d) of None \<Rightarrow> 0 | Some n \<Rightarrow> n)"

text \<open>The answer of the lookup of the MX check, if it was made, has records and all are valid.\<close>

definition mx_valid :: "event list \<Rightarrow> bool" where
  "mx_valid mid = (case mid of
     [MGetDomain mg name (Inr resp)] \<Rightarrow> ReceivingDNSRecords resp \<noteq> [] \<and>
       list_all (\<lambda>r. mgdns_Valid r = ''valid'') (ReceivingDNSRecords resp)
   | _ \<Rightarrow> False)"

definition verify_recorded ::
  "Data \<Rightarrow> MailgunImpl \<Rightarrow> Domain \<Rightarrow> outcome \<Rightarrow> event \<Rightarrow> event list \<Rightarrow> bool" where
  "verify_recorded cfg mg d res e post \<longleftrightarrow>
     (\<forall>mg' name st. e = MVerifyDomain mg' name (Inr st) \<longrightarrow>
        mg' = mg \<and> name = spec_Domain (d_Spec d) \<and>
        (\<exists>t mid d' r. post = ETimeNow t # mid @ [EStatusUpdateDomain d' r] \<and>
           (if st = ''active'' \<and> ForceMXCheck (d_Spec d) = Some True
            then \<exists>ans. mid = [MGetDomain mg name ans] else mid = []) \<and>
           status_DomainState (d_Status d') = st \<and>
           LastDomainValidationTime (d_Status d') = Some t \<and>
           DomainValidationCount (d_Status d') = Some (validations d + 1) \<and>
           status_State (d_Status d') =
             (if st = ''active'' \<and> (ForceMXCheck (d_Spec d) = Some True \<longrightarrow> mx_valid mid)
              then DomainStateActivated else status_State (d_Status d)) \<and>
           res = (case r of None \<Rightarrow> Done (requeue_verify cfg) None | Some err \<Rightarrow> Done no_requeue r)))"

lemma verify_recorded_other: "\<not> is_MVerifyDomain e \<Longrightarrow> verify_recorded cfg mg d res e post"
  by (auto simp: verify_recorded_def)

lemma verify_recorded_error [simp]: "verify_recorded cfg mg d res (MVerifyDomain mg' name (Inl err)) post"
  by (simp add: verify_recorded_def)

lemma validations_state [simp]: "validations (set_State x d) = validations d"
  by (simp add: validations_def)

lemma verify_recorded_cong:
  assumes "d_Spec d' = d_Spec d" "validations d' = validations d" "status_State (d_Status d') = status_State (d_Status d)"
  shows "verify_recorded cfg mg d' = verify_recorded cfg mg d"
  using assms by (intro ext) (simp add: verify_recorded_def)

lemma followed_no_verification:
  "emits (\<lambda>e. \<not> is_MVerifyDomain e) m \<Longrightarrow>
   followed (\<lambda>e post. verify_recorded cfg mg d res e (post @ ys)) (calls m w)"
  by (erule followed_emits) (rule verify_recorded_other)

section \<open>The pieces of a reconciliation\<close>

lemma setActivated_calls:
  "if st = ''active'' \<and> ForceMXCheck (d_Spec d) = Some True
   then \<exists>ans. calls (setActivated env mg st d) w = [MGetDomain mg (spec_Domain (d_Spec d)) ans]
   else calls (setActivated env mg st d) w = []"
  unfolding setActivated_def checkMXRecordsAndSetState_def
  by (auto simp: domain_exec split: sum.split)

lemma setActivated_verdict:
  "status_State (d_Status (result (setActivated env mg st d) w)) =
     (if st = ''active'' \<and> (ForceMXCheck (d_Spec d) = Some True \<longrightarrow> mx_valid (calls (setActivated env mg st d) w))
      then DomainStateActivated else status_State (d_Status d))"
  unfolding setActivated_def checkMXRecordsAndSetState_def
  by (auto simp: domain_exec mx_valid_def all_records_valid_iff list_all_iff split: sum.split)

lemma reconcileVerify_records:
  assumes "name = spec_Domain (d_Spec d)"
  shows "followed (verify_recorded cfg mg d (result (reconcileVerify env cfg mg name d) w))
     (calls (reconcileVerify env cfg mg name d) w)"
proof -
  have quiet: "emits (\<lambda>e. \<not> is_MVerifyDomain e) (setActivated env mg st x)" for st x
    unfolding setActivated_def checkMXRecordsAndSetState_def by (intro emits_rules) simp_all
  have recorded: "verify_recorded cfg mg d
      (case r of None \<Rightarrow> Done (requeue_verify cfg) None | Some err \<Rightarrow> Done no_requeue r)
      (MVerifyDomain mg name (Inr st))
      (ETimeNow t # calls (setActivated env mg st x) w1 @
         [EStatusUpdateDomain (result (setActivated env mg st x) w1) r])"
    if "x = count_validation t (set_DomainState st (record_dns resp d))" for st t x w1 r resp
    using setActivated_calls [of st x env mg w1] setActivated_verdict [of env mg st x w1] assms that
    by (auto simp: verify_recorded_def setActivated_result validations_def count_validation_def
        set_DomainState_def record_dns_def)
  show ?thesis
    unfolding reconcileVerify_def
    by (simp add: domain_exec followed_no_verification [OF quiet] verify_recorded_other
        recorded [where r = None, simplified] recorded [where r = "Some _", simplified]
        split: sum.split option.split prod.split)
qed

lemma createExternalDNS_no_verification:
  "emits (\<lambda>e. \<not> is_MVerifyDomain e) (createExternalDNSEntity env d)"
  unfolding createExternalDNSEntity_def by (intro emits_rules) simp_all

lemma reconcileNew_no_verification:
  "emits (\<lambda>e. \<not> is_MVerifyDomain e) (reconcileNew env mg name d)"
  unfolding reconcileNew_def createDomain_def RandomHex_16 exportCredentialsToSecret_def
  by (intro emits_rules) simp_all

lemma createExternalDNS_carries:
  assumes "echo_laws env" "result (createExternalDNSEntity env d) w = (None, d')"
  shows "d_Spec d' = d_Spec d" "validations d' = validations d"
    "status_State (d_Status d') = status_State (d_Status d)"
  using assms(2) echo_lawsD(2) [OF assms(1)]
  unfolding createExternalDNSEntity_def
  by (auto simp: domain_exec validations_def set_DnsEntrypointCreated_def split: option.splits)

lemma createDomain_carries:
  assumes "echo_laws env" "result (createDomain env mg d) w = Ret (None, d')"
  shows "d_Spec d' = d_Spec d \<and> validations d' = validations d"
  using assms(2) echo_lawsD(2) [OF assms(1)]
  unfolding createDomain_def
  by (auto simp: domain_exec validations_def record_response_def split: sum.splits option.splits go.splits prod.splits)

lemma reconcileNew_carries:
  assumes "echo_laws env" "result (reconcileNew env mg name d) w = Inr d'"
  shows "d_Spec d' = d_Spec d" "validations d' = validations d" "status_State (d_Status d') = DomainStateCreated"
  using assms(2) createDomain_carries [OF assms(1)]
  unfolding reconcileNew_def
  by (auto simp: domain_exec split: sum.splits option.splits go.splits prod.splits)

lemma reconcileExisting_records:
  assumes "echo_laws env" "name = spec_Domain (d_Spec d)"
  shows "followed (verify_recorded cfg mg d (result (reconcileExisting env cfg mg name d) w))
     (calls (reconcileExisting env cfg mg name d) w)"
proof -
  have later: "followed (verify_recorded cfg mg d (result (reconcileVerify env cfg mg name d') w'))
      (calls (reconcileVerify env cfg mg name d') w')"
    if "result (createExternalDNSEntity env d) w = (None, d')" for d' w'
    using reconcileVerify_records [of name d' cfg mg env w'] assms(2)
      createExternalDNS_carries [OF assms(1) that] verify_recorded_cong [of d' d cfg mg] by simp
  show ?thesis
    unfolding reconcileExisting_def
    using reconcileVerify_records [OF assms(2)]
    by (auto simp: domain_exec followed_no_verification [OF createExternalDNS_no_verification] later
        split: option.split prod.split)
qed

lemma reconcileState_records:
  assumes echo: "echo_laws env" and name: "name = spec_Domain (d_Spec d)"
    and verify: "calls (reconcileState env cfg mg name d) w = pre @ MVerifyDomain mg' n (Inr st) # post"
  shows "verify_recorded cfg mg (if status_State (d_Status d) = '''' then set_State DomainStateCreated d else d)
     (result (reconcileState env cfg mg name d) w) (MVerifyDomain mg' n (Inr st)) post"
proof -
  have later: "followed (verify_recorded cfg mg (set_State DomainStateCreated d)
        (result (reconcileExisting env cfg mg name d') w')) (calls (reconcileExisting env cfg mg name d') w')"
    if "result (reconcileNew env mg name d) w = Inr d'" for d' w'
    using reconcileExisting_records [OF echo, of name d' cfg mg w'] name
      reconcileNew_carries [OF echo that] verify_recorded_cong [of d' "set_State DomainStateCreated d" cfg mg]
    by simp
  have "followed (verify_recorded cfg mg
      (if status_State (d_Status d) = '''' then set_State DomainStateCreated d else d)
      (result (reconcileState env cfg mg name d) w)) (calls (reconcileState env cfg mg name d) w)"
    unfolding reconcileState_def
    using reconcileExisting_records [OF echo name]
    by (auto simp: domain_exec followed_no_verification [OF reconcileNew_no_verification]
        followed_no_verification [OF reconcileNew_no_verification, where ys = "[]", simplified] later
        split: sum.split)
  then show ?thesis unfolding verify by (rule followed_split)
qed

lemma deleteDomain_no_verification: "MVerifyDomain mg' n st \<notin> set (calls (deleteDomain env mg d) w)"
proof -
  have "emits (\<lambda>e. \<not> is_MVerifyDomain e) (deleteDomain env mg d)"
    unfolding deleteDomain_def deleteFromMailgun_def removeDomainFinalizer_def
    by (intro emits_rules) simp_all
  then show ?thesis by (auto dest: emits_calls)
qed

text \<open>
  Unless the object is to be released, a reconciliation that gets beyond the update for the finalizer
  works on the object in hand, whose name and client it uses.
\<close>

definition at_start :: "event \<Rightarrow> bool" where
  "at_start e \<longleftrightarrow> is_EGetDomain e \<or> is_EUpdateDomain e"

lemma works_on_object_in_hand:
  assumes echo: "echo_laws env" and read: "GetDomain_api env key zero_Domain w = ((None, d), w1)"
    and kept: "IsZero env (DeletionTimestamp (d_Meta d)) \<or> \<not> ContainsFinalizer env (d_Meta d) domainFinalizer"
    and e: "e \<in> set (calls (DomainReconcile env cfg key) w)" "\<not> at_start e"
    and n: "n = spec_Domain (d_Spec (object_in_hand env key w))"
  shows "\<exists>start w'. list_all at_start start \<and>
    calls (DomainReconcile env cfg key) w =
      start @ calls (reconcileState env cfg (MailgunClient env cfg n) n (object_in_hand env key w)) w' \<and>
    result (DomainReconcile env cfg key) w =
      result (reconcileState env cfg (MailgunClient env cfg n) n (object_in_hand env key w)) w'"
proof -
  let ?u = "UpdateDomain_api env (set_Meta (fst (AddFinalizer env (d_Meta d) domainFinalizer)) d) w1"
  obtain e1 d1 w2 where update: "?u = ((e1, d1), w2)" by (metis prod.collapse)
  show ?thesis
  proof (cases "IsZero env (DeletionTimestamp (d_Meta d)) \<and> \<not> ContainsFinalizer env (d_Meta d) domainFinalizer")
    case True
    then have e1: "e1 = None"
      using e read update by (cases e1) (auto simp: DomainReconcile_def domain_exec at_start_def)
    with echo_lawsD(1) [OF echo, of "set_Meta (fst (AddFinalizer env (d_Meta d) domainFinalizer)) d" w1 d1]
      update have "d_Spec d1 = d_Spec d" by simp
    with True read update e1 n show ?thesis
      by (intro exI [of _ "take 2 (calls (DomainReconcile env cfg key) w)"] exI [of _ w2])
        (simp add: DomainReconcile_def object_in_hand_def domain_exec at_start_def)
  next
    case False
    with read kept n show ?thesis
      by (intro exI [of _ "take 1 (calls (DomainReconcile env cfg key) w)"] exI [of _ w1])
        (auto simp: DomainReconcile_def object_in_hand_def domain_exec at_start_def)
  qed
qed

lemma verification_in_hand:
  assumes "echo_laws env" and verify: "MVerifyDomain mg name a \<in> set (calls (DomainReconcile env cfg key) w)"
    and n: "n = spec_Domain (d_Spec (object_in_hand env key w))"
  shows "\<exists>start w'. list_all at_start start \<and>
    calls (DomainReconcile env cfg key) w =
      start @ calls (reconcileState env cfg (MailgunClient env cfg n) n (object_in_hand env key w)) w' \<and>
    result (DomainReconcile env cfg key) w =
      result (reconcileState env cfg (MailgunClient env cfg n) n (object_in_hand env key w)) w'"
proof -
  obtain e d w1 where read: "GetDomain_api env key zero_Domain w = ((e, d), w1)" by (metis prod.collapse)
  from verify read have e: "e = None" by (cases e) (auto simp: DomainReconcile_def domain_exec)
  have "IsZero env (DeletionTimestamp (d_Meta d)) \<or> \<not> ContainsFinalizer env (d_Meta d) domainFinalizer"
    using verify read e
    by (auto simp: DomainReconcile_def domain_exec case_prod_beta deleteDomain_no_verification)
  from works_on_object_in_hand [OF assms(1) read [unfolded e] this verify _ n] show ?thesis
    by (simp add: at_start_def)
qed

lemma after_start:
  assumes "pre @ e # post = start @ es" "list_all at_start start" "\<not> at_start e"
  shows "\<exists>pre'. es = pre' @ e # post"
  using assms by (auto simp: append_eq_append_conv2 Cons_eq_append_conv)

section \<open>The verification is recorded\<close>

lemma verification_effect:
  assumes d_def: "d = object_in_hand env key w" and echo: "echo_laws env"
    and run: "calls (DomainReconcile env cfg key) w = pre @ MVerifyDomain mg name (Inr st) # post"
  shows "name = spec_Domain (d_Spec d) \<and> mg = MailgunClient env cfg name \<and>
    (\<exists>t mid d' r. post = ETimeNow t # mid @ [EStatusUpdateDomain d' r] \<and>
       (if st = ''active'' \<and> ForceMXCheck (d_Spec d) = Some True
        then \<exists>ans. mid = [MGetDomain mg name ans] else mid = []) \<and>
       status_DomainState (d_Status d') = st \<and>
       LastDomainValidationTime (d_Status d') = Some t \<and>
       DomainValidationCount (d_Status d') = Some (validations d + 1) \<and>
       status_State (d_Status d') =
         (if st = ''active'' \<and> (ForceMXCheck (d_Spec d) = Some True \<longrightarrow> mx_valid mid)
          then DomainStateActivated
          else if status_State (d_Status d) = '''' then DomainStateCreated
          else status_State (d_Status d)) \<and>
       result (DomainReconcile env cfg key) w =
         (case r of None \<Rightarrow> Done (requeue_verify cfg) None | Some err \<Rightarrow> Done no_requeue r))"
proof -
  define n where n: "n = spec_Domain (d_Spec d)"
  from run have "MVerifyDomain mg name (Inr st) \<in> set (calls (DomainReconcile env cfg key) w)" by simp
  from verification_in_hand [OF echo this n [unfolded d_def]] obtain start w' where
    "list_all at_start start" "pre @ MVerifyDomain mg name (Inr st) # post =
      start @ calls (reconcileState env cfg (MailgunClient env cfg n) n d) w'"
    and res: "result (reconcileState env cfg (MailgunClient env cfg n) n d) w' =
      result (DomainReconcile env cfg key) w"
    unfolding d_def run by auto
  then obtain pre' where calls: "calls (reconcileState env cfg (MailgunClient env cfg n) n d) w' =
      pre' @ MVerifyDomain mg name (Inr st) # post"
    using after_start by (fastforce simp: at_start_def)
  let ?d = "if status_State (d_Status d) = '''' then set_State DomainStateCreated d else d"
  have d: "d_Spec ?d = d_Spec d" "validations ?d = validations d"
    "status_State (d_Status ?d) =
      (if status_State (d_Status d) = '''' then DomainStateCreated else status_State (d_Status d))"
    by simp_all
  note recorded = reconcileState_records [OF echo n calls, unfolded verify_recorded_def d res,
      rule_format, OF refl]
  show ?thesis
  proof (intro conjI)
    show "name = spec_Domain (d_Spec d)" "mg = MailgunClient env cfg name" using recorded n by simp_all
    from recorded have "mg = MailgunClient env cfg n" by blast
    from recorded [THEN conjunct2, THEN conjunct2, folded this]
    show "\<exists>t mid d' r. post = ETimeNow t # mid @ [EStatusUpdateDomain d' r] \<and>
       (if st = ''active'' \<and> ForceMXCheck (d_Spec d) = Some True
        then \<exists>ans. mid = [MGetDomain mg name ans] else mid = []) \<and>
       status_DomainState (d_Status d') = st \<and>
       LastDomainValidationTime (d_Status d') = Some t \<and>
       DomainValidationCount (d_Status d') = Some (validations d + 1) \<and>
       status_State (d_Status d') =
         (if st = ''active'' \<and> (ForceMXCheck (d_Spec d) = Some True \<longrightarrow> mx_valid mid)
          then DomainStateActivated
          else if status_State (d_Status d) = '''' then DomainStateCreated
          else status_State (d_Status d)) \<and>
       result (DomainReconcile env cfg key) w =
         (case r of None \<Rightarrow> Done (requeue_verify cfg) None | Some err \<Rightarrow> Done no_requeue r)" .
  qed
qed

text \<open>
  C13. When Mailgun answers the verification of a domain, the verification was of the name and through
  the client of the object the reconciliation works on, and what follows is fixed: the clock is read, the
  domain is looked up once more exactly when the answer is \<^verbatim>\<open>active\<close> and the MX check is forced, and the
  status is written once. It has Mailgun's state of the domain, the time of the validation, and the
  object's count plus one. Its state is \<^verbatim>\<open>activated\<close> exactly when the answer is \<^verbatim>\<open>active\<close> and, if the MX
  check is forced, the lookup gave records and all of them are valid; otherwise the state is the object's
  own (\<^verbatim>\<open>created\<close>, if that was empty). The result is the requeue interval, or the error of the write.
\<close>

theorem domain_verification_recorded:
  assumes echo: "echo_laws env"
    and run: "calls (DomainReconcile env cfg key) w = pre @ MVerifyDomain mg name (Inr st) # post"
  shows "let d = object_in_hand env key w in
    name = spec_Domain (d_Spec d) \<and> mg = MailgunClient env cfg name \<and>
    (\<exists>t mid d' r. post = ETimeNow t # mid @ [EStatusUpdateDomain d' r] \<and>
       (if st = ''active'' \<and> ForceMXCheck (d_Spec d) = Some True
        then \<exists>ans. mid = [MGetDomain mg name ans] else mid = []) \<and>
       status_DomainState (d_Status d') = st \<and>
       LastDomainValidationTime (d_Status d') = Some t \<and>
       DomainValidationCount (d_Status d') = Some (validations d + 1) \<and>
       status_State (d_Status d') =
         (if st = ''active'' \<and> (ForceMXCheck (d_Spec d) = Some True \<longrightarrow> mx_valid mid)
          then DomainStateActivated
          else if status_State (d_Status d) = '''' then DomainStateCreated
          else status_State (d_Status d)) \<and>
       result (DomainReconcile env cfg key) w =
         (case r of None \<Rightarrow> Done (requeue_verify cfg) None | Some err \<Rightarrow> Done no_requeue r))"
  unfolding Let_def by (rule verification_effect [OF refl echo run])

definition counting_world :: cluster where
  "counting_world = fresh_world\<lparr>cl_domains := [(test_key, test_domain\<lparr>
     d_Spec := (d_Spec test_domain)\<lparr>ForceMXCheck := Some True\<rparr>,
     d_Status := (d_Status test_domain)\<lparr>DomainValidationCount := Some 4\<rparr>\<rparr>)]\<rparr>"

theorem domain_verification_recorded_witness:
  "\<exists>pre mg name st t mid d r.
     calls (DomainReconcile test_env test_config test_key) counting_world =
       pre @ MVerifyDomain mg name (Inr st) # ETimeNow t # mid @ [EStatusUpdateDomain d r] \<and>
     name = ''shop.io'' \<and> status_DomainState (d_Status d) = st \<and>
     DomainValidationCount (d_Status d) = Some 5"
proof -
  have "list_ex (\<lambda>e. case e of MVerifyDomain mg name (Inr st) \<Rightarrow> True | _ \<Rightarrow> False)
     (calls (DomainReconcile test_env test_config test_key) counting_world)"
    by code_simp
  then obtain pre mg name st post where
    run: "calls (DomainReconcile test_env test_config test_key) counting_world =
       pre @ MVerifyDomain mg name (Inr st) # post"
    by (rule list_ex_split) (auto split: event.splits sum.splits)
  have count: "validations (object_in_hand test_env test_key counting_world) = 4"
    and name: "spec_Domain (d_Spec (object_in_hand test_env test_key counting_world)) = ''shop.io''"
    by code_simp+
  from domain_verification_recorded [OF test_env_echo_laws run, unfolded Let_def count name] run
  show ?thesis by fastforce
qed

end
