(* ===== verification/Lifecycle.thy ===== *)
theory Lifecycle
  imports Domain_Safety
begin

text \<open>
  The life of a Domain object as a state machine. The phase of an object abstracts the text in its
  status; \<open>step\<close> is the abstract specification of what one write of the operator may do to it, for
  objects that are being deleted and for others. The refinement theorem shows that every status a
  reconciliation writes is a step from the phase it read; reachability then gives the shape of
  whole histories: phases only advance, and a terminal phase is left only by a failed deletion.
\<close>

section \<open>Phases\<close>

datatype phase = New | InProgress | Activated | Failed

definition phase_of :: "Domain \<Rightarrow> phase" where
  "phase_of d =
     (if status_State (d_Status d) = '''' then New
      else if status_State (d_Status d) = DomainStateActivated then Activated
      else if status_State (d_Status d) = DomainStateFailed then Failed
      else InProgress)"

fun rank :: "phase \<Rightarrow> nat" where
  "rank New = 0"
| "rank InProgress = 1"
| "rank Activated = 2"
| "rank Failed = 3"

lemma rank_inject [simp]: "rank p = rank q \<longleftrightarrow> p = q"
  by (cases p; cases q) simp_all

instantiation phase :: linorder
begin

definition less_eq_phase :: "phase \<Rightarrow> phase \<Rightarrow> bool" where
  "less_eq_phase p q \<longleftrightarrow> rank p \<le> rank q"

definition less_phase :: "phase \<Rightarrow> phase \<Rightarrow> bool" where
  "less_phase p q \<longleftrightarrow> rank p < rank q"

instance
  by standard (auto simp: less_eq_phase_def less_phase_def)

end

section \<open>Steps and histories\<close>

text \<open>The Boolean says whether the object is being deleted by the operator.\<close>

inductive step :: "bool \<Rightarrow> phase \<Rightarrow> phase \<Rightarrow> bool" where
  keep: "p < Activated \<Longrightarrow> step False p p"
| create: "step False New InProgress"
| activate: "p < Activated \<Longrightarrow> step False p Activated"
| fail: "p < Activated \<Longrightarrow> step False p Failed"
| undeletable: "step True p Failed"

inductive_cases stepE: "step b p q"
inductive_simps step_terminal: "step False Activated q" "step False Failed q"
inductive_simps step_deleting: "step True p q"

inductive history :: "phase list \<Rightarrow> bool" where
  start: "history [New]"
| written: "history (p # ps) \<Longrightarrow> step b p q \<Longrightarrow> history (q # p # ps)"

lemma phase_order [simp]:
  "New < Activated" "InProgress < Activated" "\<not> Activated < Activated" "\<not> Failed < Activated"
  "p \<le> Failed" "New \<le> p"
  "Activated \<le> p \<longleftrightarrow> p = Activated \<or> p = Failed"
  by (cases p; simp add: less_phase_def less_eq_phase_def)+

lemma step_live [simp]:
  "step False New q" "step False InProgress q \<longleftrightarrow> q \<noteq> New"
  by (cases q; auto intro: step.intros elim: stepE)+

lemma step_mono: "step b p q \<Longrightarrow> p \<le> q"
  by (induction rule: step.induct) (auto simp: less_imp_le)

lemma history_sorted: "history ps \<Longrightarrow> sorted (rev ps)"
proof (induction rule: history.induct)
  case start
  show ?case by simp
next
  case (written p ps b q)
  then show ?case using step_mono [OF written.hyps(2)]
    by (auto simp: sorted_append intro: order_trans)
qed

section \<open>What the controller writes\<close>

definition writes :: "(string \<Rightarrow> bool) \<Rightarrow> event \<Rightarrow> bool" where
  "writes Q e \<longleftrightarrow> (\<forall>d r. e = EStatusUpdateDomain d r \<longrightarrow> Q (status_State (d_Status d)))"

lemma writes_simps [simp]:
  "writes Q (EStatusUpdateDomain d r) \<longleftrightarrow> Q (status_State (d_Status d))"
  "\<not> is_EStatusUpdateDomain e \<Longrightarrow> writes Q e"
  by (auto simp: writes_def)

lemma emits_list_all: "emits P m \<Longrightarrow> list_all P (calls m w)"
  by (auto simp: list_all_iff dest: emits_calls)

lemma list_all_weaken: "list_all P xs \<Longrightarrow> (\<And>x. P x \<Longrightarrow> Q x) \<Longrightarrow> list_all Q xs"
  by (auto simp: list_all_iff)

lemma writes_weaken:
  "list_all (writes P) es \<Longrightarrow> (\<And>s. P s \<Longrightarrow> Q s) \<Longrightarrow> list_all (writes Q) es"
  by (erule list_all_weaken) (auto simp: writes_def)

lemma setActivated_writes:
  "list_all (writes Q) (calls (setActivated env mg st d) w)"
  "status_State (d_Status (result (setActivated env mg st d) w)) \<in>
     {status_State (d_Status d), DomainStateActivated}"
  unfolding setActivated_def checkMXRecordsAndSetState_def
  by (simp_all add: domain_exec split: sum.split)

lemma setActivated_state:
  assumes "Q (status_State (d_Status d))" "Q DomainStateActivated"
  shows "Q (status_State (d_Status (result (setActivated env mg st d) w)))"
  using setActivated_writes(2) [of env mg st d w] assms by auto

lemma reconcileVerify_writes:
  assumes "Q (status_State (d_Status d))" "Q DomainStateActivated" "Q DomainStateFailed"
  shows "list_all (writes Q) (calls (reconcileVerify env cfg mg name d) w)"
  unfolding reconcileVerify_def using assms
  by (simp add: domain_exec setActivated_writes(1) setActivated_state
      split: sum.split option.split prod.split)

lemma reconcileExisting_writes:
  assumes "echo_laws env" "status_State (d_Status d) = s" "Q s" "Q DomainStateActivated"
    "Q DomainStateFailed"
  shows "list_all (writes Q) (calls (reconcileExisting env cfg mg name d) w)"
  unfolding reconcileExisting_def createExternalDNSEntity_def using assms
  by (auto simp: domain_exec reconcileVerify_writes dest: echo_lawsD(2) [OF assms(1)]
      split: option.split prod.split)

lemma createDomain_writes:
  assumes "Q (status_State (d_Status d))"
  shows "list_all (writes Q) (calls (createDomain env mg d) w)"
  by (rule emits_list_all) (use assms in \<open>unfold createDomain_def exportCredentialsToSecret_def
      RandomHex_16, intro emits_rules, simp_all\<close>)

lemma reconcileNew_writes:
  assumes "Q (status_State (d_Status d))" "Q DomainStateFailed"
  shows "list_all (writes Q) (calls (reconcileNew env mg name d) w)"
  unfolding reconcileNew_def using assms
  by (simp add: domain_exec createDomain_writes split: sum.split option.split prod.split go.split)

lemma reconcileState_writes_new:
  assumes "echo_laws env" "status_State (d_Status d) = ''''"
  shows "list_all (writes (\<lambda>s. s \<in> {'''', DomainStateCreated, DomainStateActivated, DomainStateFailed}))
    (calls (reconcileState env cfg mg name d) w)"
  unfolding reconcileState_def using assms
  by (simp add: domain_exec reconcileNew_writes reconcileNew_result reconcileExisting_writes
      split: sum.split)

lemma reconcileState_writes_old:
  assumes "echo_laws env" "status_State (d_Status d) = s" "s \<noteq> ''''"
  shows "list_all (writes (\<lambda>t. s \<noteq> DomainStateActivated \<and> s \<noteq> DomainStateFailed \<and>
      t \<in> {s, DomainStateActivated, DomainStateFailed}))
    (calls (reconcileState env cfg mg name d) w)"
proof (cases "s = DomainStateActivated \<or> s = DomainStateFailed")
  case True
  with assms show ?thesis
    by (auto simp: reconcileState_def reconcileExisting_def domain_exec)
next
  case False
  with assms show ?thesis
    unfolding reconcileState_def
    by (simp add: domain_exec reconcileExisting_writes [where s = s])
qed

lemma deleteDomain_writes:
  "list_all (writes (\<lambda>s. s = DomainStateFailed)) (calls (deleteDomain env mg d) w)"
  by (rule emits_list_all, unfold deleteDomain_defs, intro emits_rules) simp_all

section \<open>Refinement\<close>

lemma phase_of_simps:
  "status_State (d_Status d) = '''' \<Longrightarrow> phase_of d = New"
  "status_State (d_Status d) = DomainStateCreated \<Longrightarrow> phase_of d = InProgress"
  "status_State (d_Status d) = DomainStateActivated \<Longrightarrow> phase_of d = Activated"
  "status_State (d_Status d) = DomainStateFailed \<Longrightarrow> phase_of d = Failed"
  "status_State (d_Status d) \<notin> {'''', DomainStateActivated, DomainStateFailed} \<Longrightarrow>
     phase_of d = InProgress"
  by (auto simp: phase_of_def)

definition step_written :: "bool \<Rightarrow> Domain \<Rightarrow> event \<Rightarrow> bool" where
  "step_written b d e \<longleftrightarrow> (\<forall>d' r. e = EStatusUpdateDomain d' r \<longrightarrow> step b (phase_of d) (phase_of d'))"

lemma reconcileState_steps:
  assumes "echo_laws env" and "status_State (d_Status d) = status_State (d_Status d0)"
  shows "list_all (step_written False d0) (calls (reconcileState env cfg mg name d) w)"
proof (cases "status_State (d_Status d0) = ''''")
  case True
  with assms have "list_all (writes (\<lambda>s. s \<in> {'''', DomainStateCreated, DomainStateActivated,
      DomainStateFailed})) (calls (reconcileState env cfg mg name d) w)"
    by (intro reconcileState_writes_new) simp_all
  then show ?thesis
    by (rule list_all_weaken)
      (auto simp: step_written_def writes_def phase_of_simps(1) [OF True] phase_of_simps
        intro: step.intros)
next
  case False
  from reconcileState_writes_old [OF assms False, of cfg mg name w] show ?thesis
    by (rule list_all_weaken)
      (auto simp: step_written_def writes_def False phase_of_simps intro: step.intros)
qed

lemma deleteDomain_steps:
  "list_all (step_written True d0) (calls (deleteDomain env mg d) w)"
  by (rule list_all_weaken [OF deleteDomain_writes])
    (auto simp: step_written_def writes_def phase_of_simps intro: step.intros)

lemma written_step:
  assumes laws: "echo_laws env"
    and run: "calls (DomainReconcile env cfg key) w = EGetDomain key None d # rest"
    and wrote: "EStatusUpdateDomain d' r \<in> set rest"
  shows "step (\<not> IsZero env (DeletionTimestamp (d_Meta d)) \<and>
      ContainsFinalizer env (d_Meta d) domainFinalizer) (phase_of d) (phase_of d')"
proof (cases rule: get_cases [of env key w])
  case (failed e d w')
  with run show ?thesis by (simp add: calls_failed_get)
next
  case (got d1 w')
  with calls_after_get [OF got, of cfg] run have [simp]: "d1 = d" by simp
  have "list_all (step_written (\<not> IsZero env (DeletionTimestamp (d_Meta d)) \<and>
      ContainsFinalizer env (d_Meta d) domainFinalizer) d)
    (calls (DomainReconcile env cfg key) w)"
    using got by (auto simp: DomainReconcile_def domain_exec Let_def step_written_def [of _ _ "EGetDomain a b c" for a b c]
        step_written_def [of _ _ "EUpdateDomain a b" for a b] reconcileState_steps [OF laws] deleteDomain_steps
        split: prod.split option.split dest!: echo_lawsD(1) [OF laws])
  with wrote show ?thesis
    unfolding run by (auto simp: step_written_def list_all_iff)
qed

text \<open>
  C5. Refinement: every status that a reconciliation writes is a step of the state machine from the
  phase of the object it read; the step is one for objects under deletion exactly when the object
  carries a deletion timestamp and the operator's finalizer.
\<close>

theorem status_writes_are_steps:
  assumes laws: "echo_laws env"
    and run: "calls (DomainReconcile env cfg key) w = EGetDomain key None d # rest"
    and wrote: "EStatusUpdateDomain d' r \<in> set rest"
  shows "step (\<not> IsZero env (DeletionTimestamp (d_Meta d)) \<and>
      ContainsFinalizer env (d_Meta d) domainFinalizer) (phase_of d) (phase_of d')"
  by (rule written_step [OF assms])

theorem status_writes_are_steps_witness:
  "\<exists>d rest d' r. calls (DomainReconcile test_env test_config test_key) activating_world =
      EGetDomain test_key None d # rest \<and> EStatusUpdateDomain d' r \<in> set rest \<and>
      phase_of d = New \<and> phase_of d' = Activated \<and> step False New Activated"
proof -
  have hd: "calls (DomainReconcile test_env test_config test_key) activating_world =
      EGetDomain test_key None (snd (hd (cl_domains activating_world))) #
      tl (calls (DomainReconcile test_env test_config test_key) activating_world)"
    and live: "IsZero test_env (DeletionTimestamp (d_Meta (snd (hd (cl_domains activating_world)))))"
    and new: "phase_of (snd (hd (cl_domains activating_world))) = New"
    and ex: "list_ex (\<lambda>e. case e of EStatusUpdateDomain d r \<Rightarrow> phase_of d = Activated | _ \<Rightarrow> False)
      (tl (calls (DomainReconcile test_env test_config test_key) activating_world))"
    by code_simp+
  from ex obtain pre d' r post where
    "tl (calls (DomainReconcile test_env test_config test_key) activating_world) =
       pre @ EStatusUpdateDomain d' r # post" and act: "phase_of d' = Activated"
    by (rule list_ex_split) (simp split: event.splits)
  then have wrote: "EStatusUpdateDomain d' r \<in>
      set (tl (calls (DomainReconcile test_env test_config test_key) activating_world))"
    by simp
  from status_writes_are_steps [OF test_env_echo_laws hd wrote] live new act
  have "step False New Activated" by simp
  with hd wrote new act show ?thesis by blast
qed

text \<open>
  The life of one object on the API server, newest first: it starts with an empty state, and every
  further entry was written successfully by a reconciliation that had read an object in the state
  of the entry before. The reconciliations may run in any world.
\<close>

inductive life :: "'w env \<Rightarrow> Data \<Rightarrow> NamespacedName \<Rightarrow> Domain list \<Rightarrow> bool"
  for env cfg key where
  fresh: "status_State (d_Status d) = '''' \<Longrightarrow> life env cfg key [d]"
| reconciled: "life env cfg key (d # ds) \<Longrightarrow>
    calls (DomainReconcile env cfg key) w = EGetDomain key None d0 # rest \<Longrightarrow>
    status_State (d_Status d0) = status_State (d_Status d) \<Longrightarrow>
    EStatusUpdateDomain d' None \<in> set rest \<Longrightarrow> life env cfg key (d' # d # ds)"

lemma phase_of_state: "status_State (d_Status d) = status_State (d_Status d') \<Longrightarrow> phase_of d = phase_of d'"
  by (simp add: phase_of_def)

lemma life_history:
  assumes "echo_laws env" and "life env cfg key ds"
  shows "history (map phase_of ds)"
  using assms(2)
proof (induction rule: life.induct)
  case (fresh d)
  then show ?case by (simp add: phase_of_simps history.start)
next
  case (reconciled d ds w d0 rest d')
  from written_step [OF assms(1) reconciled.hyps(2,4)] phase_of_state [OF reconciled.hyps(3)]
    reconciled.IH show ?case
    by (auto intro: history.written)
qed

lemma life_pair:
  assumes "life env cfg key ds" and "ds = newer @ q # p # older"
  shows "\<exists>w d0 rest. calls (DomainReconcile env cfg key) w = EGetDomain key None d0 # rest \<and>
    status_State (d_Status d0) = status_State (d_Status p) \<and> EStatusUpdateDomain q None \<in> set rest"
  using assms
proof (induction arbitrary: newer rule: life.induct)
  case (fresh d)
  then show ?case by (simp add: Cons_eq_append_conv)
next
  case (reconciled d ds w d0 rest d')
  then show ?case by (cases newer) auto
qed

text \<open>
  C6. In the life of an object whose status only the operator writes, the phases never go back; and
  an entry that follows a terminal phase (activated or failed) has the phase failed and was
  written by a reconciliation of an object under deletion.
\<close>

theorem life_monotone_and_terminal:
  assumes laws: "echo_laws env" and life: "life env cfg key ds"
  shows "sorted (rev (map phase_of ds)) \<and>
    (\<forall>newer q p older. ds = newer @ q # p # older \<longrightarrow> Activated \<le> phase_of p \<longrightarrow>
      phase_of q = Failed \<and>
      (\<exists>w d0 rest. calls (DomainReconcile env cfg key) w = EGetDomain key None d0 # rest \<and>
         EStatusUpdateDomain q None \<in> set rest \<and> \<not> IsZero env (DeletionTimestamp (d_Meta d0))))"
proof (intro conjI allI impI)
  show "sorted (rev (map phase_of ds))"
    by (rule history_sorted [OF life_history [OF laws life]])
next
  fix newer q p older
  assume ds: "ds = newer @ q # p # older" and terminal: "Activated \<le> phase_of p"
  from life_pair [OF life ds] obtain w d0 rest where
    run: "calls (DomainReconcile env cfg key) w = EGetDomain key None d0 # rest"
    and same: "status_State (d_Status d0) = status_State (d_Status p)"
    and wrote: "EStatusUpdateDomain q None \<in> set rest"
    by blast
  from written_step [OF laws run wrote] phase_of_state [OF same] terminal
  have step: "phase_of q = Failed \<and> \<not> IsZero env (DeletionTimestamp (d_Meta d0))"
    by (auto elim!: stepE)
  then show "phase_of q = Failed" by simp
  from step run wrote show "\<exists>w d0 rest. calls (DomainReconcile env cfg key) w = EGetDomain key None d0 # rest \<and>
      EStatusUpdateDomain q None \<in> set rest \<and> \<not> IsZero env (DeletionTimestamp (d_Meta d0))"
    by blast
qed

theorem life_monotone_and_terminal_witness:
  "\<exists>d d'. life test_env test_config test_key [d', d] \<and> phase_of d = New \<and> phase_of d' = Activated \<and>
     sorted (rev (map phase_of [d', d]))"
proof -
  let ?d = "snd (hd (cl_domains activating_world))"
  let ?rest = "tl (calls (DomainReconcile test_env test_config test_key) activating_world)"
  have run: "calls (DomainReconcile test_env test_config test_key) activating_world =
      EGetDomain test_key None ?d # ?rest"
    and new: "status_State (d_Status ?d) = ''''"
    and ex: "list_ex (\<lambda>e. case e of EStatusUpdateDomain d r \<Rightarrow> r = None \<and> phase_of d = Activated | _ \<Rightarrow> False) ?rest"
    by code_simp+
  from ex obtain pre d' post where "?rest = pre @ EStatusUpdateDomain d' None # post"
    and act: "phase_of d' = Activated"
    by (rule list_ex_split) (auto split: event.splits)
  then have wrote: "EStatusUpdateDomain d' None \<in> set ?rest" by simp
  have life: "life test_env test_config test_key [d', ?d]"
    by (rule life.reconciled [OF life.fresh [OF new] run refl wrote])
  from life_monotone_and_terminal [OF test_env_echo_laws life] life act phase_of_simps(1) [OF new]
  show ?thesis by blast
qed

end
