(* ===== verification/Mock_Laws.thy ===== *)
theory Mock_Laws
  imports Mock_Server
begin

text \<open>
  The mock Mailgun service keeps its promises. The locale \<open>registry\<close> is the contract of the domain
  endpoints as their clients use it, in terms of the number of copies of a name the service holds;
  what clients rely on is proved from it, and the mock's handlers provide it. The route endpoints are
  a store of routes under their identifiers.
\<close>

section \<open>The contract of the domain endpoints\<close>

datatype action = Create string | Get string | Verify string | Delete string

text \<open>Running requests in order on a service, with the answers.\<close>

fun act ::
  "(string \<Rightarrow> 's \<Rightarrow> response \<times> 's) \<Rightarrow> (string \<Rightarrow> 's \<Rightarrow> response \<times> 's) \<Rightarrow>
   (string \<Rightarrow> 's \<Rightarrow> response \<times> 's) \<Rightarrow> (string \<Rightarrow> 's \<Rightarrow> response \<times> 's) \<Rightarrow>
   action \<Rightarrow> 's \<Rightarrow> response \<times> 's" where
  "act create get verify delete (Create n) s = create n s"
| "act create get verify delete (Get n) s = get n s"
| "act create get verify delete (Verify n) s = verify n s"
| "act create get verify delete (Delete n) s = delete n s"

fun serve ::
  "(action \<Rightarrow> 's \<Rightarrow> response \<times> 's) \<Rightarrow> action list \<Rightarrow> 's \<Rightarrow> (action \<times> response) list \<times> 's" where
  "serve f [] s = ([], s)"
| "serve f (a # as) s =
     (let (r, s') = f a s; (log, s'') = serve f as s' in ((a, r) # log, s''))"

text \<open>The client's protocol: create a domain only when a lookup does not find it.\<close>

definition ensure ::
  "(string \<Rightarrow> 's \<Rightarrow> response \<times> 's) \<Rightarrow> (string \<Rightarrow> 's \<Rightarrow> response \<times> 's) \<Rightarrow> string \<Rightarrow> 's \<Rightarrow> 's" where
  "ensure get create n s =
     (let (r, s') = get n s in if resp_code r = 200 then s' else snd (create n s'))"

locale registry =
  fixes copies :: "'s \<Rightarrow> string \<Rightarrow> nat"
    and create get verify delete :: "string \<Rightarrow> 's \<Rightarrow> response \<times> 's"
  assumes create_ok: "resp_code (fst (create n s)) = 200 \<Longrightarrow>
      copies (snd (create n s)) m = copies s m + (if m = n then 1 else 0)"
    and create_refused: "resp_code (fst (create n s)) \<noteq> 200 \<Longrightarrow> snd (create n s) = s"
    and get_code: "resp_code (fst (get n s)) = (if copies s n = 0 then 404 else 200)"
    and get_copies: "copies (snd (get n s)) m = copies s m"
    and verify_code: "resp_code (fst (verify n s)) = (if copies s n = 0 then 404 else 200)"
    and verify_copies: "copies (snd (verify n s)) m = copies s m"
    and delete_ok: "resp_code (fst (delete n s)) = 200 \<Longrightarrow>
      copies s m = copies (snd (delete n s)) m + (if m = n then 1 else 0)"
    and delete_refused: "resp_code (fst (delete n s)) \<noteq> 200 \<Longrightarrow> snd (delete n s) = s"
begin

lemma create_count:
  "copies (snd (create n s)) m = copies s m + (if m = n \<and> resp_code (fst (create n s)) = 200 then 1 else 0)"
  using create_ok [of n s m] create_refused [of n s] by (cases "resp_code (fst (create n s)) = 200") auto

lemma delete_count:
  "copies (snd (delete n s)) m + (if m = n \<and> resp_code (fst (delete n s)) = 200 then 1 else 0) = copies s m"
  using delete_ok [of n s m] delete_refused [of n s] by (cases "resp_code (fst (delete n s)) = 200") auto

abbreviation run :: "action \<Rightarrow> 's \<Rightarrow> response \<times> 's" where
  "run \<equiv> act create get verify delete"

lemma act_balance:
  "copies (snd (run a s)) n + (if a = Delete n \<and> resp_code (fst (run a s)) = 200 then 1 else 0) =
   copies s n + (if a = Create n \<and> resp_code (fst (run a s)) = 200 then 1 else 0)"
  using delete_count [of "case a of Delete k \<Rightarrow> k | _ \<Rightarrow> n" s n]
  by (cases a) (auto simp: create_count get_copies verify_copies split: if_splits)

lemma serve_balance:
  "copies (snd (serve run as s)) n + length (filter (\<lambda>(a, r). a = Delete n \<and> resp_code r = 200) (fst (serve run as s))) =
   copies s n + length (filter (\<lambda>(a, r). a = Create n \<and> resp_code r = 200) (fst (serve run as s)))"
proof (induction as arbitrary: s)
  case Nil
  show ?case by simp
next
  case (Cons a as)
  from Cons.IH [of "snd (run a s)"] act_balance [of a s n] show ?case
    by (auto simp: case_prod_beta Let_def split: if_splits)
qed

lemma ensure_unique:
  assumes "\<And>m. copies s m \<le> 1"
  shows "copies (ensure get create n s) m \<le> 1"
proof -
  let ?s = "snd (get n s)"
  have "copies (snd (create n ?s)) m \<le> 1" if "copies s n = 0"
    using that assms [of m] create_ok [of n ?s m] create_refused [of n ?s]
    by (cases "resp_code (fst (create n ?s)) = 200") (auto simp: get_copies)
  with assms [of m] show ?thesis
    by (simp add: ensure_def case_prod_beta get_code get_copies)
qed

lemma foldl_ensure_unique:
  assumes "\<And>m. copies s m \<le> 1"
  shows "copies (foldl (\<lambda>s n. ensure get create n s) s ns) m \<le> 1"
  using assms
proof (induction ns arbitrary: s)
  case Nil
  then show ?case by simp
next
  case (Cons n ns)
  have "copies (ensure get create n s) m' \<le> 1" for m' by (rule ensure_unique) (rule Cons.prems)
  then have "copies (foldl (\<lambda>s n. ensure get create n s) (ensure get create n s) ns) m \<le> 1" by (rule Cons.IH)
  then show ?case by simp
qed

end

section \<open>The mock provides it\<close>

definition copies_of :: "MailgunMockServer \<Rightarrow> string \<Rightarrow> nat" where
  "copies_of m n = length (filter (\<lambda>c. container_name c = n) (domainList m))"

definition create_request :: "string \<Rightarrow> time \<Rightarrow> string \<Rightarrow> MailgunMockServer \<Rightarrow> response \<times> MailgunMockServer" where
  "create_request spam now n = createDomain_handler spam now [(''name'', [n])]"

lemma container_name_simps [simp]:
  "container_name (c\<lparr>ReceivingDNSRecords := rs\<rparr>) = container_name c"
  "container_name (mark_verified b c) = container_name c"
  "container_name (newContainer spam now m n) = n"
  by (simp_all add: container_name_def mark_verified_def newContainer_def newMGDomainFor_def)

lemma create_request_exec:
  "create_request spam now n m =
     (if n \<in> set (failedDomains m) then (toJSON creation_failed 500, m)
      else (toJSON (DomainPayload ''Domain DNS records have been created'' (newContainer spam now m n)) 200,
            m\<lparr>domainList := domainList m @ [newContainer spam now m n]\<rparr>))"
  by (simp add: create_request_def createDomain_handler_def FormValue_def Form_def Let_def)

lemma refresh_first_None: "refresh_first rs n cs = None \<longleftrightarrow> filter (\<lambda>c. container_name c = n) cs = []"
  by (induction cs) (auto simp: Let_def)

lemma refresh_first_names:
  "refresh_first rs n cs = Some (c, cs') \<Longrightarrow> map container_name cs' = map container_name cs"
  by (induction cs arbitrary: cs') (auto simp: Let_def split: if_splits)

lemma verify_first_None: "verify_first b n cs = None \<longleftrightarrow> filter (\<lambda>c. container_name c = n) cs = []"
  by (induction cs) (auto simp: Let_def)

lemma verify_first_names:
  "verify_first b n cs = Some (c, cs') \<Longrightarrow> map container_name cs' = map container_name cs"
  by (induction cs arbitrary: cs') (auto simp: Let_def split: if_splits)

lemma copies_by_name: "length (filter (\<lambda>c. container_name c = n) cs) = count_list (map container_name cs) n"
  by (induction cs) auto

lemma copies_names:
  "map container_name (domainList m') = map container_name (domainList m) \<Longrightarrow> copies_of m' n = copies_of m n"
  by (simp add: copies_of_def copies_by_name)

lemma delete_first_copies:
  "list_ex (\<lambda>c. n = container_name c) cs \<Longrightarrow>
   length (filter (\<lambda>c. container_name c = k) cs) =
     length (filter (\<lambda>c. container_name c = k) (delete_first n cs)) + (if k = n then 1 else 0)"
  by (induction cs) auto

lemma toJSON_code [simp]: "resp_code (toJSON p k) = k" "resp_body (toJSON p k) = p"
  by (simp_all add: toJSON_def)

lemma mock_get_code: "resp_code (fst (getDomain_handler n m)) = (if copies_of m n = 0 then 404 else 200)"
  using refresh_first_None [of "recordsFor m n False" n "domainList m"]
  by (auto simp: getDomain_handler_def copies_of_def split: option.split)

lemma mock_get_copies: "copies_of (snd (getDomain_handler n m)) k = copies_of m k"
  by (auto simp: getDomain_handler_def intro!: copies_names dest: refresh_first_names split: option.split)

lemma mock_verify_code: "resp_code (fst (verifyDomain_handler n m)) = (if copies_of m n = 0 then 404 else 200)"
  using verify_first_None [of "n \<in> set (activeDomains m)" n "domainList m"]
  by (auto simp: verifyDomain_handler_def copies_of_def split: option.split)

lemma mock_verify_copies: "copies_of (snd (verifyDomain_handler n m)) k = copies_of m k"
  by (auto simp: verifyDomain_handler_def intro!: copies_names dest: verify_first_names split: option.split)

interpretation mock: registry copies_of "create_request spam now" getDomain_handler verifyDomain_handler
    deleteDomain_handler for spam now
proof unfold_locales
  fix n k m
  show "resp_code (fst (create_request spam now n m)) = 200 \<Longrightarrow>
      copies_of (snd (create_request spam now n m)) k = copies_of m k + (if k = n then 1 else 0)"
    by (auto simp: create_request_exec copies_of_def split: if_splits)
  show "resp_code (fst (create_request spam now n m)) \<noteq> 200 \<Longrightarrow> snd (create_request spam now n m) = m"
    by (simp add: create_request_exec split: if_splits)
  show "resp_code (fst (deleteDomain_handler n m)) = 200 \<Longrightarrow>
      copies_of m k = copies_of (snd (deleteDomain_handler n m)) k + (if k = n then 1 else 0)"
    using delete_first_copies [of n "domainList m" k]
    by (auto simp: deleteDomain_handler_def copies_of_def split: if_splits)
  show "resp_code (fst (deleteDomain_handler n m)) \<noteq> 200 \<Longrightarrow> snd (deleteDomain_handler n m) = m"
    by (simp add: deleteDomain_handler_def split: if_splits)
qed (rule mock_get_code mock_get_copies mock_verify_code mock_verify_copies)+

abbreviation mock_serve ::
  "string \<Rightarrow> time \<Rightarrow> action list \<Rightarrow> MailgunMockServer \<Rightarrow> (action \<times> response) list \<times> MailgunMockServer"
where
  "mock_serve spam now \<equiv> serve (act (create_request spam now) getDomain_handler verifyDomain_handler
     deleteDomain_handler)"

text \<open>
  C39. The mock's book-keeping: after any sequence of requests, the number of domains with a name is
  the number before, plus the successful creations, minus the successful deletions of that name;
  lookups and verifications change nothing.
\<close>

theorem mock_domain_balance:
  "copies_of (snd (mock_serve spam now as m)) n +
     length (filter (\<lambda>(a, r). a = Delete n \<and> resp_code r = 200) (fst (mock_serve spam now as m))) =
   copies_of m n +
     length (filter (\<lambda>(a, r). a = Create n \<and> resp_code r = 200) (fst (mock_serve spam now as m)))"
  by (rule mock.serve_balance)

text \<open>
  The protocol the operator follows (create a domain only after a lookup did not find it) keeps
  the names on the mock unique, for any sequence of names. The mock itself does not: its creation
  handler appends a second domain with the same name.
\<close>

theorem mock_ensure_unique:
  assumes "\<forall>k. copies_of m k \<le> 1"
  shows "copies_of (foldl (\<lambda>m n. ensure getDomain_handler (create_request spam now) n m) m ns) k \<le> 1 \<and>
    (n \<in> set (failedDomains m) \<or>
       copies_of (snd (create_request spam now n (snd (create_request spam now n m)))) n = copies_of m n + 2)"
  using assms mock.foldl_ensure_unique [of m spam now ns k]
  by (simp add: create_request_exec copies_of_def)

theorem mock_ensure_unique_witness:
  "copies_of (foldl (\<lambda>m n. ensure getDomain_handler (create_request ''disabled'' 0) n m) (NewMailgunServer ''key'') [''a.io'', ''b.io'', ''a.io'']) ''a.io'' \<le> 1"
proof -
  have "\<forall>k. copies_of (NewMailgunServer ''key'') k \<le> 1"
    by (simp add: copies_of_def NewMailgunServer_def)
  from mock_ensure_unique [OF this] show ?thesis by blast
qed

section \<open>What the domain endpoints answer\<close>

lemma refresh_first_hit:
  "refresh_first rs n cs = Some (c, cs') \<Longrightarrow> container_name c = n \<and> ReceivingDNSRecords c = rs"
  by (induction cs arbitrary: cs') (auto simp: Let_def split: if_splits)

lemma verify_first_hit:
  "verify_first b n cs = Some (c, cs') \<Longrightarrow>
   \<exists>c0 \<in> set cs. container_name c0 = n \<and> c = mark_verified b c0"
  by (induction cs arbitrary: cs') (auto simp: Let_def split: if_splits)

text \<open>
  Verification on the mock: a name the mock knows is answered with one of its domains, whose state
  becomes active if the test has activated the name and else stays, and with every DNS record of
  the answer valid; an unknown name is answered with 404 and nothing changes.
\<close>

theorem mock_verification:
  "if copies_of m n = 0
   then verifyDomain_handler n m = (toJSON (Message ''Domain not found'') 404, m)
   else \<exists>c0 c. c0 \<in> set (domainList m) \<and> mgd_Name (resp_Domain c0) = n \<and>
     resp_code (fst (verifyDomain_handler n m)) = 200 \<and>
     resp_body (fst (verifyDomain_handler n m)) =
       DomainPayload ''Domain DNS records have been updated'' c \<and>
     resp_Domain c = (if n \<in> set (activeDomains m) then (resp_Domain c0)\<lparr>mgd_State := ''active''\<rparr>
       else resp_Domain c0) \<and>
     list_all (\<lambda>r. mgdns_Valid r = ''valid'') (ReceivingDNSRecords c @ SendingDNSRecords c)"
proof (cases "verify_first (n \<in> set (activeDomains m)) n (domainList m)")
  case None
  then show ?thesis
    using verify_first_None [of "n \<in> set (activeDomains m)" n "domainList m"]
    by (simp add: verifyDomain_handler_def copies_of_def)
next
  case (Some p)
  then obtain c cs where v: "verify_first (n \<in> set (activeDomains m)) n (domainList m) = Some (c, cs)"
    by (cases p) simp
  from verify_first_hit [OF v] obtain c0 where
    c0: "c0 \<in> set (domainList m)" "container_name c0 = n" "c = mark_verified (n \<in> set (activeDomains m)) c0"
    by blast
  with v have "copies_of m n \<noteq> 0"
    using verify_first_None [of "n \<in> set (activeDomains m)" n "domainList m"] by (auto simp: copies_of_def)
  with c0 v show ?thesis
    by (intro if_not_P [THEN iffD2] exI [of _ c0] exI [of _ c])
      (auto simp: verifyDomain_handler_def mark_verified_def mark_valid_def list_all_iff container_name_def mock_consts)
qed

text \<open>
  A lookup on the mock answers 404 for an unknown name; for a known one it recomputes the two
  receiving records, which are valid exactly if the test has activated the MX records of the name,
  whatever a verification had marked before.
\<close>

theorem mock_lookup_recomputes_receiving:
  "if copies_of m n = 0
   then getDomain_handler n m = (toJSON (Message ''Domain not found'') 404, m)
   else \<exists>c. resp_code (fst (getDomain_handler n m)) = 200 \<and>
     resp_body (fst (getDomain_handler n m)) = DomainPayload ''Domain DNS records have been retrieved'' c \<and>
     mgd_Name (resp_Domain c) = n \<and> length (ReceivingDNSRecords c) = 2 \<and>
     list_all (\<lambda>r. mgdns_RecordType r = ''MX'' \<and>
       mgdns_Valid r = (if n \<in> set (activeMXDomains m) then ''valid'' else ''unknown''))
       (ReceivingDNSRecords c)"
proof (cases "refresh_first (recordsFor m n False) n (domainList m)")
  case None
  then show ?thesis
    using refresh_first_None [of "recordsFor m n False" n "domainList m"]
    by (simp add: getDomain_handler_def copies_of_def)
next
  case (Some p)
  then obtain c cs where g: "refresh_first (recordsFor m n False) n (domainList m) = Some (c, cs)"
    by (cases p) simp
  then have "copies_of m n \<noteq> 0"
    using refresh_first_None [of "recordsFor m n False" n "domainList m"] by (auto simp: copies_of_def)
  with g refresh_first_hit [OF g] show ?thesis
    by (intro if_not_P [THEN iffD2] exI [of _ c])
      (auto simp: getDomain_handler_def recordsFor_def newMGDnsRecordsFor_def Let_def container_name_def mock_consts)
qed

section \<open>Authentication\<close>

text \<open>
  C40. Every endpoint is protected: a request without credentials, or with a password that is not the
  server's token, is answered with 401 and changes nothing; with the token the answer does not
  depend on the user name.
\<close>

theorem mock_requires_token:
  assumes "initRoutes spam now suffix r = Some h"
  shows "(BasicAuth r = None \<or> snd (the (BasicAuth r)) \<noteq> apiToken m \<longrightarrow>
      h m = (toJSON (Message ''Invalid private key'') 401, m)) \<and>
    (\<forall>u u' h'. BasicAuth r = Some (u, apiToken m) \<longrightarrow>
      initRoutes spam now suffix (r\<lparr>BasicAuth := Some (u', apiToken m)\<rparr>) = Some h' \<longrightarrow> h' m = h m)"
  using assms by (auto simp: initRoutes_def authHandler_def split: option.splits)

theorem mock_requires_token_witness:
  "(case initRoutes ''disabled'' 0 ''x'' \<lparr>req_method = DELETE, req_path = [''v4'', ''domains'', ''a.io''],
      req_form = [], BasicAuth = Some (''api'', ''wrong'')\<rparr> of
    None \<Rightarrow> False | Some h \<Rightarrow> h (NewMailgunServer ''key'') =
      (toJSON (Message ''Invalid private key'') 401, NewMailgunServer ''key''))"
proof -
  let ?r = "\<lparr>req_method = DELETE, req_path = [''v4'', ''domains'', ''a.io''], req_form = [],
    BasicAuth = Some (''api'', ''wrong'')\<rparr>"
  obtain h where h: "initRoutes ''disabled'' 0 ''x'' ?r = Some h"
    by (simp add: initRoutes_def pattern_handler_def)
  from mock_requires_token [OF h, of "NewMailgunServer ''key''"] h show ?thesis
    by (simp add: NewMailgunServer_def)
qed

section \<open>Routes\<close>

definition route_of :: "MailgunMockServer \<Rightarrow> string \<Rightarrow> MgRoute option" where
  "route_of m i = map_of (map_or_nil (routes m)) i"

lemma map_or_nil_simps [simp]: "map_or_nil (Some m) = m" "map_or_nil None = []"
  by (simp_all add: map_or_nil_def)

lemma map_of_update_routes [simp]:
  "route_of (m\<lparr>routes := Some (AList.update i x (map_or_nil (routes m)))\<rparr>) j =
     (if j = i then Some x else route_of m j)"
  by (simp add: route_of_def map_or_nil_def AList.update_conv')

lemma route_of_delete:
  "route_of (m\<lparr>routes := map_option (AList.delete i) (routes m)\<rparr>) j = (if j = i then None else route_of m j)"
  by (cases "routes m") (simp_all add: route_of_def map_or_nil_def AList.delete_conv')

text \<open>
  Creating a route on the mock: it is refused for the description \<^verbatim>\<open>fail\<close> (500) and for a
  priority that is not a decimal integer (400), and then nothing changes; otherwise the route of
  the form is stored under the new identifier, where a lookup finds it, and no other route changes.
\<close>

theorem mock_route_creation:
  "let (r, m') = createRoute_handler suffix f m; i = ''route-'' @ suffix in
   (resp_code r = 500 \<and> FormValue f ''description'' = ''fail'' \<and> m' = m) \<or>
   (resp_code r = 400 \<and> FormValue f ''priority'' \<noteq> '''' \<and> ParseInt (FormValue f ''priority'') = None \<and> m' = m) \<or>
   (\<exists>x. resp_code r = 200 \<and> resp_body r = RoutePayload (Some ''Route has been created'') x \<and>
      mgr_Id x = i \<and> mgr_Actions x = Form f ''action'' \<and>
      mgr_Description x = FormValue f ''description'' \<and> mgr_Expression x = FormValue f ''expression'' \<and>
      (if FormValue f ''priority'' = '''' then mgr_Priority x = 0
       else ParseInt (FormValue f ''priority'') = Some (mgr_Priority x)) \<and>
      route_of m' i = Some x \<and> (\<forall>j. j = i \<or> route_of m' j = route_of m j) \<and>
      (route_fails ''get'' i m \<or> getRoute_handler i m' = (toJSON (RoutePayload None x) 200, m')))"
  by (auto simp: createRoute_handler_def getRoute_handler_def route_fails_def Let_def
      route_of_def AList.update_conv' split: option.split)

text \<open>The route after an update with the form \<open>f\<close>, whose priority parses to \<open>p\<close>.\<close>

definition pick :: "form \<Rightarrow> string \<Rightarrow> string \<Rightarrow> string" where
  "pick f k old = (if FormValue f k = '''' then old else FormValue f k)"

definition updated_route :: "form \<Rightarrow> go_int \<Rightarrow> MgRoute \<Rightarrow> MgRoute" where
  "updated_route f p x = x\<lparr>
     mgr_Actions := (if FormValue f ''action'' = '''' then mgr_Actions x else Form f ''action''),
     mgr_Priority := (if FormValue f ''priority'' = '''' then mgr_Priority x else p),
     mgr_Description := pick f ''description'' (mgr_Description x),
     mgr_Expression := pick f ''expression'' (mgr_Expression x)\<rparr>"

lemma updateRoute_exec:
  assumes "i \<noteq> ''''" and "route_of m i = Some x"
    and "FormValue f ''priority'' = '''' \<or> ParseInt (FormValue f ''priority'') = Some p"
  shows "snd (updateRoute_handler i f m) =
    m\<lparr>routes := Some (AList.update i (updated_route f p x) (map_or_nil (routes m)))\<rparr>"
  using assms by (cases "FormValue f ''priority'' = ''''")
    (simp_all add: updateRoute_handler_def route_of_def updated_route_def pick_def Let_def)

lemma updateRoute_unknown:
  "i \<noteq> '''' \<Longrightarrow> route_of m i = None \<Longrightarrow> resp_code (fst (updateRoute_handler i f m)) = 404"
  by (simp add: updateRoute_handler_def route_of_def)

lemma deleteRoute_exec:
  "i \<noteq> '''' \<Longrightarrow> \<not> route_fails ''delete'' i m \<Longrightarrow>
   snd (deleteRoute_handler i m) = m\<lparr>routes := map_option (AList.delete i) (routes m)\<rparr> \<and>
   resp_code (fst (deleteRoute_handler i m)) = 200"
  by (simp add: deleteRoute_handler_def)

lemma route_fails_routes [simp]: "route_fails a i (m\<lparr>routes := r\<rparr>) = route_fails a i m"
  by (simp add: route_fails_def)

text \<open>
  Updating a route on the mock keeps its identifier and every field whose form value is empty,
  replaces the others, and leaves all other routes alone; deleting it makes it unknown, also to a
  following update, and deleting an unknown route succeeds.
\<close>

theorem mock_route_update_and_delete:
  assumes "i \<noteq> ''''" and "route_of m i = Some x"
    and "FormValue f ''priority'' = '''' \<or> ParseInt (FormValue f ''priority'') = Some p"
    and "\<not> route_fails ''delete'' i m"
  shows "let m1 = snd (updateRoute_handler i f m); m2 = snd (deleteRoute_handler i m1);
      pick = (\<lambda>k old. if FormValue f k = '''' then old else FormValue f k)
    in route_of m1 i = Some (x\<lparr>mgr_Actions := (if FormValue f ''action'' = '''' then mgr_Actions x else Form f ''action''),
         mgr_Priority := (if FormValue f ''priority'' = '''' then mgr_Priority x else p),
         mgr_Description := pick ''description'' (mgr_Description x),
         mgr_Expression := pick ''expression'' (mgr_Expression x)\<rparr>) \<and>
       (\<forall>j. j = i \<or> route_of m1 j = route_of m j \<and> route_of m2 j = route_of m j) \<and>
       route_of m2 i = None \<and> resp_code (fst (updateRoute_handler i f m2)) = 404 \<and>
       resp_code (fst (deleteRoute_handler i m2)) = 200"
proof -
  define m1 where "m1 = snd (updateRoute_handler i f m)"
  define m2 where "m2 = snd (deleteRoute_handler i m1)"
  have m1: "m1 = m\<lparr>routes := Some (AList.update i (updated_route f p x) (map_or_nil (routes m)))\<rparr>"
    unfolding m1_def by (rule updateRoute_exec [OF assms(1-3)])
  have ok: "\<not> route_fails ''delete'' i m1" using assms(4) by (simp add: m1)
  have m2: "m2 = m1\<lparr>routes := map_option (AList.delete i) (routes m1)\<rparr>"
    unfolding m2_def using deleteRoute_exec [OF assms(1) ok] by simp
  have r1: "route_of m1 j = (if j = i then Some (updated_route f p x) else route_of m j)" for j
    by (simp add: m1)
  have r2: "route_of m2 j = (if j = i then None else route_of m j)" for j
    by (simp add: m2 route_of_delete r1)
  have "\<not> route_fails ''delete'' i m2" using ok by (simp add: m2)
  with deleteRoute_exec [OF assms(1)] updateRoute_unknown [OF assms(1), of m2] r1 r2
  show ?thesis
    unfolding Let_def m1_def [symmetric] m2_def [symmetric] by (simp add: updated_route_def pick_def)
qed

theorem mock_route_update_and_delete_witness:
  "\<exists>m1. m1 = snd (updateRoute_handler ''r1'' [(''priority'', [''7'']), (''description'', [''d2''])]
       (NewMailgunServer ''key''\<lparr>routes := Some [(''r1'', \<lparr>mgr_Id = ''r1'', mgr_Priority = 1,
          mgr_Actions = [''stop()''], mgr_Description = ''d1'', mgr_Expression = ''e1''\<rparr>)]\<rparr>)) \<and>
     route_of m1 ''r1'' = Some \<lparr>mgr_Id = ''r1'', mgr_Priority = 7, mgr_Actions = [''stop()''],
       mgr_Description = ''d2'', mgr_Expression = ''e1''\<rparr>"
proof -
  let ?f = "[(''priority'', [''7'']), (''description'', [''d2''])]"
  let ?x = "\<lparr>mgr_Id = ''r1'', mgr_Priority = 1 :: go_int, mgr_Actions = [''stop()''],
    mgr_Description = ''d1'', mgr_Expression = ''e1''\<rparr>"
  let ?m = "NewMailgunServer ''key''\<lparr>routes := Some [(''r1'', ?x)]\<rparr>"
  have known: "route_of ?m ''r1'' = Some ?x" and parsed: "ParseInt (FormValue ?f ''priority'') = Some 7"
    and ok: "\<not> route_fails ''delete'' ''r1'' ?m"
    by code_simp+
  from mock_route_update_and_delete [OF _ known disjI2 [OF parsed] ok]
  show ?thesis by (simp add: Let_def FormValue_def Form_def)
qed

end
