(* ===== verification/Route_Safety.thy ===== *)
theory Route_Safety
  imports Route_Controller Cluster
begin

text \<open>
  The route controller: which calls a reconciliation may make and what must have happened before,
  what it does in reaction to each answer, and that it does not crash.
\<close>

section \<open>How a reconciliation starts\<close>

lemma route_get_cases:
  fixes key :: NamespacedName
  obtains (failed) e r w' where "GetRoute_api env key zero_Route w = ((Some e, r), w')"
    | (got) r w' where "GetRoute_api env key zero_Route w = ((None, r), w')"
  by (metis option.exhaust prod.exhaust)

lemma route_failed_get:
  assumes "GetRoute_api env key zero_Route w = ((Some e, r), w')"
  shows "calls (RouteReconcile env cfg key) w = [EGetRoute key (Some e) r]"
    and "result (RouteReconcile env cfg key) w = Done no_requeue (IgnoreNotFound env (Some e))"
  using assms by (simp_all add: RouteReconcile_def route_exec)

lemma route_after_get:
  assumes "GetRoute_api env key zero_Route w = ((None, r), w')"
  shows "\<exists>rest. calls (RouteReconcile env cfg key) w = EGetRoute key None r # rest"
  using assms by (simp add: RouteReconcile_def route_exec split: prod.split)

lemma reconcileRoute_no_delete:
  "emits (\<lambda>e. \<not> is_MDeleteRoute e \<and> \<not> is_EUpdateDomain e) (reconcileRoute env mg name r)"
  unfolding sync_defs by (intro emits_rules) simp_all

lemma deleteRoute_quiet:
  "emits (\<lambda>e. \<not> is_MCreateRoute e \<and> \<not> is_MUpdateRoute e \<and> \<not> is_MGetDomain e) (deleteRoute env mg r)"
  unfolding route_delete_defs Let_def by (intro emits_rules) simp_all

section \<open>Routes are deleted only for objects under deletion\<close>

lemma deleteRoute_id:
  "MDeleteRoute mg' i a \<in> set (calls (deleteRoute env mg r) w) \<Longrightarrow> RouteID (r_Status r) = Some i \<and> mg' = mg"
  unfolding route_delete_defs
  by (auto simp: route_exec split: option.splits sum.splits prod.splits if_splits)

text \<open>
  C29. A reconciliation asks Mailgun to delete a route only if the object it read first carries a
  deletion timestamp and the operator's finalizer, and then only the route whose identifier the
  object records.
\<close>

theorem route_deleted_only_on_deletion:
  assumes "MDeleteRoute mg i a \<in> set (calls (RouteReconcile env cfg key) w)"
  shows "\<exists>r rest. calls (RouteReconcile env cfg key) w = EGetRoute key None r # rest \<and>
    \<not> IsZero env (DeletionTimestamp (r_Meta r)) \<and>
    ContainsFinalizer env (r_Meta r) routeFinalizer \<and> RouteID (r_Status r) = Some i"
proof (cases rule: route_get_cases [of env key w])
  case (failed e r w')
  with assms show ?thesis by (simp add: route_failed_get)
next
  case (got r w')
  with assms have "\<not> IsZero env (DeletionTimestamp (r_Meta r)) \<and>
      ContainsFinalizer env (r_Meta r) routeFinalizer \<and> RouteID (r_Status r) = Some i"
    by (auto simp: RouteReconcile_def route_exec Let_def split: if_splits prod.splits option.splits
        dest!: emits_calls [OF reconcileRoute_no_delete] deleteRoute_id)
  with route_after_get [OF got, of cfg] show ?thesis by blast
qed

definition route_deleting_world :: cluster where
  "route_deleting_world = request_route_deletion test_key
     (after (RouteReconcile test_env test_config test_key) route_world)"

theorem route_deleted_only_on_deletion_witness:
  "\<exists>mg i a r rest. MDeleteRoute mg i a \<in>
       set (calls (RouteReconcile test_env test_config test_key) route_deleting_world) \<and>
     calls (RouteReconcile test_env test_config test_key) route_deleting_world =
       EGetRoute test_key None r # rest \<and> RouteID (r_Status r) = Some i"
proof -
  have "list_ex is_MDeleteRoute (calls (RouteReconcile test_env test_config test_key) route_deleting_world)"
    by code_simp
  then obtain mg i a where del:
    "MDeleteRoute mg i a \<in> set (calls (RouteReconcile test_env test_config test_key) route_deleting_world)"
    by (auto simp: list_ex_iff is_MDeleteRoute_def)
  show ?thesis using route_deleted_only_on_deletion [OF del] del by blast
qed

section \<open>The finalizer is released only when no route is left behind\<close>

definition route_finalizer_guard ::
  "'w env \<Rightarrow> string option \<Rightarrow> event list \<Rightarrow> event \<Rightarrow> bool" where
  "route_finalizer_guard env known pre e \<longleftrightarrow>
     (\<forall>r a. e = EUpdateRoute r a \<longrightarrow> ContainsFinalizer env (r_Meta r) routeFinalizer \<or>
        known = None \<or>
        (\<exists>i mg x pre' ev. known = Some i \<and> pre = pre' @ [MGetRoute mg i (Inl x), ev]) \<or>
        (\<exists>i mg pre' ev. known = Some i \<and> pre = pre' @ [MDeleteRoute mg i None, ev]))"

lemma route_finalizer_guard_simps [simp]:
  "\<not> is_EUpdateRoute e \<Longrightarrow> route_finalizer_guard env known pre e"
  "route_finalizer_guard env None pre e"
  "ContainsFinalizer env (r_Meta r) routeFinalizer \<Longrightarrow> route_finalizer_guard env known pre (EUpdateRoute r a)"
  "route_finalizer_guard env (Some i) (pre' @ [MGetRoute mg i (Inl x), ev]) e"
  "route_finalizer_guard env (Some i) (pre' @ [MDeleteRoute mg i None, ev]) e"
  by (auto simp: route_finalizer_guard_def)

lemma deleteRouteOnMailgun_guard:
  "guarded (route_finalizer_guard env (Some i)) hist (calls (deleteRouteOnMailgun env mg i r) w)"
  unfolding deleteRouteOnMailgun_def removeRouteFinalizer_def
  by (simp add: route_exec split: option.split prod.split)

lemma deleteRoute_guard:
  "guarded (route_finalizer_guard env (RouteID (r_Status r))) hist (calls (deleteRoute env mg r) w)"
  unfolding deleteRoute_def deleteKnownRoute_def
  by (simp add: route_exec deleteRouteOnMailgun_guard split: option.split prod.split sum.split)

lemma route_finalizer_guard_quiet:
  "emits (\<lambda>e. \<not> is_EUpdateRoute e) m \<Longrightarrow> guarded (route_finalizer_guard env known) hist (calls m w)"
  by (erule guarded_emits) simp

lemma updateRoute_quiet: "emits (\<lambda>e. \<not> is_EUpdateRoute e) (updateRoute env mg i r)"
  unfolding updateRoute_def by (intro emits_rules) simp_all

lemma postponeRoute_quiet: "emits (\<lambda>e. \<not> is_EUpdateRoute e) (postponeRoute env msg r)"
  unfolding postponeRoute_def by (intro emits_rules) simp_all

lemma createRoute_guard:
  assumes "finalizer_laws env"
  shows "guarded (route_finalizer_guard env known) hist (calls (createRoute env mg r) w)"
  unfolding createRoute_def Let_def
  by (simp add: route_exec finalizer_lawsD [OF assms] split: option.split prod.split sum.split)

lemma reconcileRoute_guard:
  assumes "finalizer_laws env"
  shows "guarded (route_finalizer_guard env known) hist (calls (reconcileRoute env mg name r) w)"
  unfolding reconcileRoute_def syncRoute_def
  by (simp add: route_exec createRoute_guard [OF assms] route_finalizer_guard_quiet [OF updateRoute_quiet]
      route_finalizer_guard_quiet [OF postponeRoute_quiet] split: option.split sum.split)

text \<open>
  C9. When a reconciliation sends an update of a Route without the operator's finalizer, then either
  the object read first records no route, or the second call before was a lookup of exactly the
  recorded route that failed or a deletion of it that succeeded (the call in between is an event).
\<close>

theorem route_finalizer_released_after_mailgun:
  assumes laws: "finalizer_laws env"
    and run: "calls (RouteReconcile env cfg key) w = pre @ EUpdateRoute r' a # post"
    and gone: "\<not> ContainsFinalizer env (r_Meta r') routeFinalizer"
  shows "\<exists>r rest. calls (RouteReconcile env cfg key) w = EGetRoute key None r # rest \<and>
    (RouteID (r_Status r) = None \<or>
     (\<exists>i mg x pre' ev. RouteID (r_Status r) = Some i \<and> pre = pre' @ [MGetRoute mg i (Inl x), ev]) \<or>
     (\<exists>i mg pre' ev. RouteID (r_Status r) = Some i \<and> pre = pre' @ [MDeleteRoute mg i None, ev]))"
proof (cases rule: route_get_cases [of env key w])
  case (failed e r w')
  with run show ?thesis by (simp add: route_failed_get Cons_eq_append_conv)
next
  case (got r w')
  let ?G = "route_finalizer_guard env (RouteID (r_Status r))"
  have "guarded ?G [] (calls (RouteReconcile env cfg key) w)"
    using got by (simp add: RouteReconcile_def route_exec Let_def deleteRoute_guard
        reconcileRoute_guard [OF laws] finalizer_lawsD [OF laws] split: prod.split option.split)
  then have "?G pre (EUpdateRoute r' a)"
    unfolding run by (rule guarded_split)
  with route_after_get [OF got, of cfg] gone show ?thesis
    by (auto simp: route_finalizer_guard_def)
qed

theorem route_finalizer_released_after_mailgun_witness:
  "\<exists>pre r' a post. calls (RouteReconcile test_env test_config test_key) route_deleting_world =
       pre @ EUpdateRoute r' a # post \<and>
     \<not> ContainsFinalizer test_env (r_Meta r') routeFinalizer \<and>
     (\<exists>r rest. calls (RouteReconcile test_env test_config test_key) route_deleting_world =
         EGetRoute test_key None r # rest \<and>
       (RouteID (r_Status r) = None \<or>
        (\<exists>i mg x pre' ev. RouteID (r_Status r) = Some i \<and> pre = pre' @ [MGetRoute mg i (Inl x), ev]) \<or>
        (\<exists>i mg pre' ev. RouteID (r_Status r) = Some i \<and> pre = pre' @ [MDeleteRoute mg i None, ev])))"
proof -
  have "list_ex (\<lambda>e. case e of EUpdateRoute r a \<Rightarrow> \<not> ContainsFinalizer test_env (r_Meta r) routeFinalizer
      | _ \<Rightarrow> False) (calls (RouteReconcile test_env test_config test_key) route_deleting_world)"
    by code_simp
  then obtain pre r' a post where
    run: "calls (RouteReconcile test_env test_config test_key) route_deleting_world =
       pre @ EUpdateRoute r' a # post"
    and gone: "\<not> ContainsFinalizer test_env (r_Meta r') routeFinalizer"
    by (rule list_ex_split) (simp split: event.splits)
  show ?thesis
    using route_finalizer_released_after_mailgun [OF test_env_finalizer_laws run gone] run gone by blast
qed

end
