(* ===== verification/Route_Behaviour.thy ===== *)
theory Route_Behaviour
  imports Route_Safety
begin

text \<open>
  Functional behaviour of the route controller: when it creates, updates, postpones or leaves a route
  alone, what it records, what it retries, and that it never dereferences a missing identifier.
\<close>

section \<open>Creation\<close>

definition route_create_guard :: "string \<Rightarrow> Route \<Rightarrow> event list \<Rightarrow> event \<Rightarrow> bool" where
  "route_create_guard name r0 pre e \<longleftrightarrow>
     (\<forall>mg req a. e = MCreateRoute mg req a \<longrightarrow>
        req = routeRequest (r_Spec r0) \<and> \<not> has_route_id r0 \<and>
        (name = '''' \<or> (\<exists>pre' resp. pre = pre' @ [MGetDomain mg name (Inr resp)] \<and>
           mgd_State (resp_Domain resp) = ''active'')))"

lemma route_create_guard_quiet:
  "emits (\<lambda>e. \<not> is_MCreateRoute e) m \<Longrightarrow> guarded (route_create_guard name r0) hist (calls m w)"
  by (erule guarded_emits) (auto simp: route_create_guard_def)

lemma route_create_guard_other [simp]:
  "\<not> is_MCreateRoute e \<Longrightarrow> route_create_guard name r0 pre e"
  by (auto simp: route_create_guard_def)

lemma quiet_segments:
  "emits (\<lambda>e. \<not> is_MCreateRoute e) (updateRoute env mg i r)"
  "emits (\<lambda>e. \<not> is_MCreateRoute e) (postponeRoute env msg r)"
  "emits (\<lambda>e. \<not> is_MCreateRoute e) (deleteRoute env mg r)"
  unfolding updateRoute_def postponeRoute_def route_delete_defs Let_def
  by (intro emits_rules; simp)+

lemma createRoute_create_guard:
  assumes "r_Spec r = r_Spec r0" "\<not> has_route_id r0"
    and "name = '''' \<or> (\<exists>pre' resp. hist = pre' @ [MGetDomain mg name (Inr resp)] \<and>
       mgd_State (resp_Domain resp) = ''active'')"
  shows "guarded (route_create_guard name r0) hist (calls (createRoute env mg r) w)"
  using assms unfolding createRoute_def Let_def
  by (auto simp: route_exec route_create_guard_def [of _ _ _ "MCreateRoute a b c" for a b c]
      split: option.split prod.split sum.split)

lemma has_route_id_echo:
  "RouteID (r_Status r) = RouteID (r_Status r0) \<Longrightarrow> has_route_id r = has_route_id r0"
  by (simp add: has_route_id_def)

lemma reconcileRoute_create_guard:
  assumes "r_Spec r = r_Spec r0" "RouteID (r_Status r) = RouteID (r_Status r0)"
  shows "guarded (route_create_guard name r0) hist (calls (reconcileRoute env mg name r) w)"
  unfolding reconcileRoute_def syncRoute_def
  by (simp add: route_exec has_route_id_echo [OF assms(2)] createRoute_create_guard [OF assms(1)]
      route_create_guard_quiet [OF quiet_segments(1)] route_create_guard_quiet [OF quiet_segments(2)]
      split: option.split sum.split)

text \<open>
  C10. A reconciliation creates a route on Mailgun only for an object that records no route
  identifier, with the request its specification describes, and, when the route names a domain,
  right after Mailgun reported this domain as active.
\<close>

theorem route_created_when_domain_active:
  assumes laws: "route_echo_laws env"
    and run: "calls (RouteReconcile env cfg key) w = pre @ MCreateRoute mg req a # post"
  shows "\<exists>r rest. calls (RouteReconcile env cfg key) w = EGetRoute key None r # rest \<and>
    (RouteID (r_Status r) = None \<or> RouteID (r_Status r) = Some '''') \<and>
    req = \<lparr>mgr_Id = '''', mgr_Priority = (case Priority (r_Spec r) of None \<Rightarrow> 0 | Some p \<Rightarrow> p),
      mgr_Actions = Actions (r_Spec r), mgr_Description = Description (r_Spec r),
      mgr_Expression = Expression (r_Spec r)\<rparr> \<and>
    (route_Domain (r_Spec r) = None \<or> route_Domain (r_Spec r) = Some '''' \<or>
     (\<exists>pre' name resp. route_Domain (r_Spec r) = Some name \<and>
        pre = pre' @ [MGetDomain mg name (Inr resp)] \<and> mgd_State (resp_Domain resp) = ''active''))"
proof (cases rule: route_get_cases [of env key w])
  case (failed e r w')
  with run show ?thesis by (simp add: route_failed_get Cons_eq_append_conv)
next
  case (got r w')
  let ?G = "route_create_guard (routeDomain (r_Spec r)) r"
  have "guarded ?G [] (calls (RouteReconcile env cfg key) w)"
    using got by (auto simp: RouteReconcile_def route_exec Let_def reconcileRoute_create_guard
        route_create_guard_quiet [OF quiet_segments(3)] split: prod.split option.split
        dest!: route_echo_lawsD(1) [OF laws])
  then have G: "?G pre (MCreateRoute mg req a)"
    unfolding run by (rule guarded_split)
  moreover have "routeRequest (r_Spec r) = \<lparr>mgr_Id = '''',
      mgr_Priority = (case Priority (r_Spec r) of None \<Rightarrow> 0 | Some p \<Rightarrow> p),
      mgr_Actions = Actions (r_Spec r), mgr_Description = Description (r_Spec r),
      mgr_Expression = Expression (r_Spec r)\<rparr>"
    by (simp add: routeRequest_def split: option.split)
  moreover have "RouteID (r_Status r) = None \<or> RouteID (r_Status r) = Some ''''"
    using G by (auto simp: route_create_guard_def has_route_id_def split: option.splits)
  moreover have "route_Domain (r_Spec r) = None \<or> route_Domain (r_Spec r) = Some '''' \<or>
      routeDomain (r_Spec r) \<noteq> '''' \<and> route_Domain (r_Spec r) = Some (routeDomain (r_Spec r))"
    by (auto simp: routeDomain_def split: option.split)
  ultimately show ?thesis using route_after_get [OF got, of cfg]
    by (auto simp: route_create_guard_def)
qed

theorem route_created_when_domain_active_witness:
  "\<exists>pre mg req a post r rest.
     calls (RouteReconcile test_env test_config test_key) route_world = pre @ MCreateRoute mg req a # post \<and>
     calls (RouteReconcile test_env test_config test_key) route_world = EGetRoute test_key None r # rest \<and>
     (RouteID (r_Status r) = None \<or> RouteID (r_Status r) = Some '''') \<and>
     mgr_Actions req = Actions (r_Spec r)"
proof -
  have "list_ex is_MCreateRoute (calls (RouteReconcile test_env test_config test_key) route_world)"
    by code_simp
  then obtain pre mg req a post where
    run: "calls (RouteReconcile test_env test_config test_key) route_world = pre @ MCreateRoute mg req a # post"
    by (rule list_ex_split) (auto simp: is_MCreateRoute_def)
  from route_created_when_domain_active [OF test_env_route_echo_laws run]
  obtain r rest where
    "calls (RouteReconcile test_env test_config test_key) route_world = EGetRoute test_key None r # rest"
    "RouteID (r_Status r) = None \<or> RouteID (r_Status r) = Some ''''" "mgr_Actions req = Actions (r_Spec r)"
    by (elim exE conjE) (rule that, assumption+, simp)
  with run show ?thesis by blast
qed

section \<open>Reactions\<close>

definition route_recorded :: "outcome \<Rightarrow> string \<Rightarrow> event list \<Rightarrow> bool" where
  "route_recorded res i post \<longleftrightarrow>
     (\<exists>r a rest. post = EStatusUpdateRoute r a # rest \<and> RouteID (r_Status r) = Some i \<and>
        (case a of
           Some _ \<Rightarrow> rest = [] \<and> res = Done no_requeue a
         | None \<Rightarrow> (\<exists>r' a'. rest = [EUpdateRoute r' a'] \<and> (a' \<noteq> None \<longrightarrow> res = Done no_requeue a'))))"

definition route_error_written :: "outcome \<Rightarrow> string \<Rightarrow> outcome \<Rightarrow> event list \<Rightarrow> bool" where
  "route_error_written res msg otherwise post \<longleftrightarrow>
     (\<exists>r a. post = [EStatusUpdateRoute r a] \<and> route_MailgunError (r_Status r) = Some msg \<and>
        res = (case a of Some _ \<Rightarrow> Done no_requeue a | None \<Rightarrow> otherwise))"

definition route_reaction :: "outcome \<Rightarrow> event \<Rightarrow> event list \<Rightarrow> bool" where
  "route_reaction res e post \<longleftrightarrow>
     (case e of
        MCreateRoute mg req (Inr y) \<Rightarrow> route_recorded res (mgr_Id y) post
      | MCreateRoute mg req (Inl x) \<Rightarrow>
          (\<exists>ev post'. post = ev # post' \<and> is_EEventf ev \<and>
             route_error_written res ''Unable to create route'' (Done \<lparr>RequeueAfter = Minute\<rparr> None) post')
      | MUpdateRoute mg i req (Inr y) \<Rightarrow> post = [] \<and> res = Done no_requeue None
      | MUpdateRoute mg i req (Inl x) \<Rightarrow>
          route_error_written res ''Unable to update route'' (Done no_requeue (Some x)) post
      | MGetDomain mg name (Inl x) \<Rightarrow> route_error_written res
          ''Domain is not exist on mailgun'' (Done \<lparr>RequeueAfter = 5 * Minute\<rparr> None) post
      | MGetDomain mg name (Inr resp) \<Rightarrow> mgd_State (resp_Domain resp) \<noteq> ''active'' \<longrightarrow>
          route_error_written res ''Domain is not active yet'' (Done \<lparr>RequeueAfter = 5 * Minute\<rparr> None) post
      | MDeleteRoute mg i (Some x) \<Rightarrow>
          route_error_written res ''Unable to delete route from Mailgun'' (Done no_requeue (Some x)) post
      | _ \<Rightarrow> True)"

lemma route_reaction_other [simp]:
  "\<not> is_MCreateRoute e \<Longrightarrow> \<not> is_MUpdateRoute e \<Longrightarrow> \<not> is_MGetDomain e \<Longrightarrow> \<not> is_MDeleteRoute e \<Longrightarrow>
   route_reaction res e post"
  by (cases e) (simp_all add: route_reaction_def)

lemma route_reaction_simps [simp]:
  "route_reaction res (MCreateRoute mg req (Inr y)) post = route_recorded res (mgr_Id y) post"
  "route_reaction res (MCreateRoute mg req (Inl x)) post =
     (\<exists>ev post'. post = ev # post' \<and> is_EEventf ev \<and>
        route_error_written res ''Unable to create route'' (Done \<lparr>RequeueAfter = Minute\<rparr> None) post')"
  "route_reaction res (MUpdateRoute mg i req (Inr y)) post = (post = [] \<and> res = Done no_requeue None)"
  "route_reaction res (MUpdateRoute mg i req (Inl x)) post =
     route_error_written res ''Unable to update route'' (Done no_requeue (Some x)) post"
  "route_reaction res (MGetDomain mg name (Inl x)) post = route_error_written res
     ''Domain is not exist on mailgun'' (Done \<lparr>RequeueAfter = 5 * Minute\<rparr> None) post"
  "route_reaction res (MGetDomain mg name (Inr resp)) post =
     (mgd_State (resp_Domain resp) \<noteq> ''active'' \<longrightarrow> route_error_written res
        ''Domain is not active yet'' (Done \<lparr>RequeueAfter = 5 * Minute\<rparr> None) post)"
  "route_reaction res (MDeleteRoute mg i None) post"
  "route_reaction res (MDeleteRoute mg i (Some x)) post =
     route_error_written res ''Unable to delete route from Mailgun'' (Done no_requeue (Some x)) post"
  by (simp_all add: route_reaction_def)

lemma route_error_written_iff [simp]:
  "route_error_written res msg out [EStatusUpdateRoute r a] \<longleftrightarrow>
     route_MailgunError (r_Status r) = Some msg \<and>
     res = (case a of Some _ \<Rightarrow> Done no_requeue a | None \<Rightarrow> out)"
  by (auto simp: route_error_written_def)

lemma route_recorded_iff [simp]:
  "route_recorded res i (EStatusUpdateRoute r a # rest) \<longleftrightarrow> RouteID (r_Status r) = Some i \<and>
     (case a of
        Some _ \<Rightarrow> rest = [] \<and> res = Done no_requeue a
      | None \<Rightarrow> (\<exists>r' a'. rest = [EUpdateRoute r' a'] \<and> (a' \<noteq> None \<longrightarrow> res = Done no_requeue a')))"
  by (auto simp: route_recorded_def)

lemma postponeRoute_exec:
  "calls (postponeRoute env msg r) w =
     [EStatusUpdateRoute (set_RouteError msg r) (fst (fst (StatusUpdateRoute_api env (set_RouteError msg r) w)))]"
  "result (postponeRoute env msg r) w =
     (case fst (fst (StatusUpdateRoute_api env (set_RouteError msg r) w)) of
        Some e \<Rightarrow> Done no_requeue (Some e) | None \<Rightarrow> Done \<lparr>RequeueAfter = 5 * Minute\<rparr> None)"
  by (simp_all add: postponeRoute_def route_exec split: prod.split option.split)

lemma createRoute_reaction:
  "followed (route_reaction (result (createRoute env mg r) w)) (calls (createRoute env mg r) w)"
  unfolding createRoute_def Let_def
  by (simp add: route_exec split: option.split prod.split sum.split)

lemma updateRoute_reaction:
  "followed (route_reaction (result (updateRoute env mg i r) w)) (calls (updateRoute env mg i r) w)"
  unfolding updateRoute_def
  by (simp add: route_exec split: option.split prod.split sum.split)

lemma reconcileRoute_reaction:
  "followed (route_reaction (result (reconcileRoute env mg name r) w))
     (calls (reconcileRoute env mg name r) w)"
  unfolding reconcileRoute_def syncRoute_def
  by (simp add: route_exec createRoute_reaction updateRoute_reaction postponeRoute_exec
      split: option.split sum.split)

lemma deleteRoute_reaction:
  "followed (route_reaction (result (deleteRoute env mg r) w)) (calls (deleteRoute env mg r) w)"
  unfolding route_delete_defs
  by (simp add: route_exec split: option.split prod.split sum.split)

lemma RouteReconcile_reaction:
  "followed (route_reaction (result (RouteReconcile env cfg key) w)) (calls (RouteReconcile env cfg key) w)"
  unfolding RouteReconcile_def Let_def
  by (simp add: route_exec reconcileRoute_reaction deleteRoute_reaction split: prod.split option.split)

lemma route_reaction_at:
  assumes "calls (RouteReconcile env cfg key) w = pre @ e # post"
  shows "route_reaction (result (RouteReconcile env cfg key) w) e post"
  using RouteReconcile_reaction [of env cfg key w] unfolding assms by (rule followed_split)

text \<open>The same for a successful creation, with the object of the last write.\<close>

definition route_kept :: "outcome \<Rightarrow> string \<Rightarrow> event list \<Rightarrow> bool" where
  "route_kept res i post \<longleftrightarrow>
     (\<exists>r a rest. post = EStatusUpdateRoute r a # rest \<and> RouteID (r_Status r) = Some i \<and>
        (case a of
           Some _ \<Rightarrow> rest = [] \<and> res = Done no_requeue a
         | None \<Rightarrow> (\<exists>r' a'. rest = [EUpdateRoute r' a'] \<and> routeFinalizer \<in> set (Finalizers (r_Meta r')) \<and>
             r_Spec r' = r_Spec r \<and> RouteID (r_Status r') = Some i \<and> res = Done no_requeue a')))"

definition creation_reaction :: "outcome \<Rightarrow> event \<Rightarrow> event list \<Rightarrow> bool" where
  "creation_reaction res e post \<longleftrightarrow>
     (\<forall>mg req y. e = MCreateRoute mg req (Inr y) \<longrightarrow> route_kept res (mgr_Id y) post)"

lemma creation_reaction_simps [simp]:
  "\<not> is_MCreateRoute e \<Longrightarrow> creation_reaction res e post"
  "creation_reaction res (MCreateRoute mg req (Inl x)) post"
  "creation_reaction res (MCreateRoute mg req (Inr y)) post = route_kept res (mgr_Id y) post"
  by (auto simp: creation_reaction_def)

lemma creation_reaction_quiet:
  "emits (\<lambda>e. \<not> is_MCreateRoute e) m \<Longrightarrow> followed (creation_reaction res) (calls m w)"
  by (erule followed_emits) simp

lemma finalizer_added:
  "finalizer_laws env \<Longrightarrow> routeFinalizer \<in> set (Finalizers (fst (AddFinalizer env m routeFinalizer)))"
  "finalizer_laws env \<Longrightarrow> ContainsFinalizer env m routeFinalizer \<Longrightarrow> routeFinalizer \<in> set (Finalizers m)"
  by (simp_all add: finalizer_laws_def)

lemma createRoute_kept:
  assumes fin: "finalizer_laws env" and echo: "route_echo_laws env"
  shows "followed (creation_reaction (result (createRoute env mg r) w)) (calls (createRoute env mg r) w)"
proof (cases "fst (mg_CreateRoute_api env mg (routeRequest (r_Spec r)) w)")
  case (Inl x)
  then show ?thesis unfolding createRoute_def
    by (simp add: route_exec split: option.split prod.split)
next
  case (Inr y)
  let ?w1 = "snd (mg_CreateRoute_api env mg (routeRequest (r_Spec r)) w)"
  let ?r1 = "set_RouteID (mgr_Id y) r"
  obtain a r2 w2 where st: "StatusUpdateRoute_api env ?r1 ?w1 = ((a, r2), w2)" by (metis prod.exhaust)
  let ?r3 = "if ContainsFinalizer env (r_Meta r2) routeFinalizer then r2
    else set_r_Meta (fst (AddFinalizer env (r_Meta r2) routeFinalizer)) r2"
  obtain a' r4 w4 where up: "UpdateRoute_api env ?r3 w2 = ((a', r4), w4)" by (metis prod.exhaust)
  have r2: "a = None \<Longrightarrow> r_Spec r2 = r_Spec ?r1 \<and> r_Status r2 = r_Status ?r1"
    using route_echo_lawsD(2) [OF echo, of ?r1 ?w1 r2] st by simp
  have r4: "a' = None \<Longrightarrow> RouteID (r_Status r4) = RouteID (r_Status r2)"
    using route_echo_lawsD(1) [OF echo, of ?r3 w2 r4] up by (simp split: if_splits)
  have r3: "routeFinalizer \<in> set (Finalizers (r_Meta ?r3))" "r_Spec ?r3 = r_Spec r2" "r_Status ?r3 = r_Status r2"
    using finalizer_added [OF fin] by simp_all
  show ?thesis
  proof (cases a)
    case (Some e)
    with Inr st show ?thesis unfolding createRoute_def
      by (simp add: route_exec route_kept_def)
  next
    case None
    have "calls (createRoute env mg r) w =
        [MCreateRoute mg (routeRequest (r_Spec r)) (Inr y), EStatusUpdateRoute ?r1 None, EUpdateRoute ?r3 a']"
      "result (createRoute env mg r) w = Done no_requeue a'"
      using Inr st up None r2 r4 unfolding createRoute_def Let_def
      by (simp_all add: route_exec del: split_paired_All split: option.split)
    moreover have "route_kept (Done no_requeue a') (mgr_Id y) [EStatusUpdateRoute ?r1 None, EUpdateRoute ?r3 a']"
      unfolding route_kept_def
      by (intro exI [of _ ?r1] exI [of _ None] exI [of _ "[EUpdateRoute ?r3 a']"])
        (use r2 r3 None in auto)
    ultimately show ?thesis by simp
  qed
qed

lemma RouteReconcile_kept:
  assumes "finalizer_laws env" "route_echo_laws env"
  shows "followed (creation_reaction (result (RouteReconcile env cfg key) w)) (calls (RouteReconcile env cfg key) w)"
proof -
  have "followed (creation_reaction (result (reconcileRoute env mg name r) w)) (calls (reconcileRoute env mg name r) w)"
    for mg name r w
    unfolding reconcileRoute_def syncRoute_def
    by (simp add: route_exec createRoute_kept [OF assms] creation_reaction_quiet [OF quiet_segments(1)]
        creation_reaction_quiet [OF quiet_segments(2)] split: option.split sum.split)
  then show ?thesis
    unfolding RouteReconcile_def Let_def
    by (simp add: route_exec creation_reaction_quiet [OF quiet_segments(3)] split: prod.split option.split)
qed

text \<open>
  C30. After Mailgun has created a route, the next call writes the route's identifier to the status;
  if that write fails, the reconciliation ends with its error, otherwise it makes exactly one more call,
  an update that sends the object with the operator's finalizer, its specification and the recorded
  identifier, and ends with the error of that call, if any.
\<close>

theorem created_route_recorded:
  assumes laws: "finalizer_laws env" "route_echo_laws env"
    and run: "calls (RouteReconcile env cfg key) w = pre @ MCreateRoute mg req (Inr y) # post"
  shows "\<exists>r a rest. post = EStatusUpdateRoute r a # rest \<and> RouteID (r_Status r) = Some (mgr_Id y) \<and>
    (case a of
       Some _ \<Rightarrow> rest = [] \<and> result (RouteReconcile env cfg key) w = Done no_requeue a
     | None \<Rightarrow> (\<exists>r' a'. rest = [EUpdateRoute r' a'] \<and>
         routeFinalizer \<in> set (Finalizers (r_Meta r')) \<and> r_Spec r' = r_Spec r \<and>
         RouteID (r_Status r') = Some (mgr_Id y) \<and>
         result (RouteReconcile env cfg key) w = Done no_requeue a'))"
proof -
  from RouteReconcile_kept [OF laws, of cfg key w, unfolded run, THEN followed_split]
  show ?thesis unfolding creation_reaction_simps route_kept_def .
qed

theorem created_route_recorded_witness:
  "\<exists>pre mg req y r a rest. calls (RouteReconcile test_env test_config test_key) route_world =
     pre @ MCreateRoute mg req (Inr y) # EStatusUpdateRoute r a # rest \<and>
     RouteID (r_Status r) = Some (mgr_Id y)"
proof -
  have "list_ex (\<lambda>e. case e of MCreateRoute mg req (Inr y) \<Rightarrow> True | _ \<Rightarrow> False)
     (calls (RouteReconcile test_env test_config test_key) route_world)"
    by code_simp
  then obtain pre mg req y post where
    run: "calls (RouteReconcile test_env test_config test_key) route_world =
      pre @ MCreateRoute mg req (Inr y) # post"
    by (rule list_ex_split) (auto split: event.splits sum.splits)
  from created_route_recorded [OF test_env_finalizer_laws test_env_route_echo_laws run] run
  show ?thesis by blast
qed

text \<open>
  C31. When the domain of a route is missing on Mailgun or not active there, the reconciliation writes
  the reason to the status and nothing else, and is repeated in five minutes unless that write
  fails, in which case its error is returned.
\<close>

theorem route_postponed_until_domain_active:
  assumes "calls (RouteReconcile env cfg key) w = pre @ MGetDomain mg name a # post"
    and "\<forall>resp. a = Inr resp \<longrightarrow> mgd_State (resp_Domain resp) \<noteq> ''active''"
  shows "\<exists>r e. post = [EStatusUpdateRoute r e] \<and>
    route_MailgunError (r_Status r) = Some (case a of Inl _ \<Rightarrow> ''Domain is not exist on mailgun''
      | Inr _ \<Rightarrow> ''Domain is not active yet'') \<and>
    result (RouteReconcile env cfg key) w =
      (case e of Some _ \<Rightarrow> Done no_requeue e | None \<Rightarrow> Done \<lparr>RequeueAfter = 300 * Second\<rparr> None)"
proof -
  have five: "5 * Minute = 300 * Second" by (simp add: Minute_def Second_def)
  show ?thesis
    using route_reaction_at [OF assms(1)] assms(2)
    by (cases a) (auto simp: route_error_written_def five split: option.split)
qed

definition orphan_route_world :: cluster where
  "orphan_route_world = create_route_object test_route (empty_cluster (NewMailgunServer ''key''))"

theorem route_postponed_until_domain_active_witness:
  "\<exists>pre mg name a r e. calls (RouteReconcile test_env test_config test_key) orphan_route_world =
     pre @ [MGetDomain mg name a, EStatusUpdateRoute r e] \<and> (\<exists>x. a = Inl x)"
proof -
  have "list_ex (\<lambda>e. case e of MGetDomain mg name (Inl x) \<Rightarrow> True | _ \<Rightarrow> False)
     (calls (RouteReconcile test_env test_config test_key) orphan_route_world)"
    by code_simp
  then obtain pre mg name x post where
    run: "calls (RouteReconcile test_env test_config test_key) orphan_route_world =
      pre @ MGetDomain mg name (Inl x) # post"
    by (rule list_ex_split) (auto split: event.splits sum.splits)
  from route_postponed_until_domain_active [OF run] run show ?thesis by fastforce
qed

text \<open>
  When Mailgun refuses to create, update or delete a route, the refusal is written to the status;
  a refused creation is repeated after a minute without an error, the others return Mailgun's
  error. When the status cannot be written, the error of that write is returned instead.
\<close>

theorem route_refusals_recorded:
  assumes "calls (RouteReconcile env cfg key) w = pre @ e # post"
    and "e = MCreateRoute mg req (Inl x) \<or> e = MUpdateRoute mg i req (Inl x) \<or>
      e = MDeleteRoute mg i (Some x)"
  shows "\<exists>evs r a. post = evs @ [EStatusUpdateRoute r a] \<and> list_all is_EEventf evs \<and>
    route_MailgunError (r_Status r) = Some (case e of
        MCreateRoute _ _ _ \<Rightarrow> ''Unable to create route''
      | MUpdateRoute _ _ _ _ \<Rightarrow> ''Unable to update route''
      | _ \<Rightarrow> ''Unable to delete route from Mailgun'') \<and>
    result (RouteReconcile env cfg key) w = (case a of
        Some _ \<Rightarrow> Done no_requeue a
      | None \<Rightarrow> if is_MCreateRoute e then Done \<lparr>RequeueAfter = 60 * Second\<rparr> None
                else Done no_requeue (Some x))"
proof -
  have minute: "Minute = 60 * Second" by (simp add: Minute_def Second_def)
  note react = route_reaction_at [OF assms(1)]
  from assms(2) show ?thesis
  proof (elim disjE)
    assume e: "e = MCreateRoute mg req (Inl x)"
    with react obtain ev r a where "post = [ev] @ [EStatusUpdateRoute r a]" "is_EEventf ev"
      "route_MailgunError (r_Status r) = Some ''Unable to create route''"
      "result (RouteReconcile env cfg key) w = (case a of Some _ \<Rightarrow> Done no_requeue a
         | None \<Rightarrow> Done \<lparr>RequeueAfter = 60 * Second\<rparr> None)"
      by (auto simp: route_error_written_def minute)
    with e show ?thesis by (intro exI [of _ "[ev]"] exI [of _ r] exI [of _ a]) simp
  next
    assume e: "e = MUpdateRoute mg i req (Inl x)"
    with react show ?thesis
      by (intro exI [of _ "[]"]) (auto simp: route_error_written_def)
  next
    assume e: "e = MDeleteRoute mg i (Some x)"
    with react show ?thesis
      by (intro exI [of _ "[]"]) (auto simp: route_error_written_def)
  qed
qed

definition stuck_route_world :: cluster where
  "stuck_route_world = with_mock (FailRoutes ''delete'' ''route-x'') route_deleting_world"

theorem route_refusals_recorded_witness:
  "\<exists>pre mg i x evs r a. calls (RouteReconcile test_env test_config test_key) stuck_route_world =
     pre @ MDeleteRoute mg i (Some x) # evs @ [EStatusUpdateRoute r a] \<and>
     route_MailgunError (r_Status r) = Some ''Unable to delete route from Mailgun''"
proof -
  have "list_ex (\<lambda>e. case e of MDeleteRoute mg i (Some x) \<Rightarrow> True | _ \<Rightarrow> False)
     (calls (RouteReconcile test_env test_config test_key) stuck_route_world)"
    by code_simp
  then obtain pre mg i x post where
    run: "calls (RouteReconcile test_env test_config test_key) stuck_route_world =
      pre @ MDeleteRoute mg i (Some x) # post"
    by (rule list_ex_split) (auto split: event.splits option.splits)
  from route_refusals_recorded [OF run] run show ?thesis by fastforce
qed

section \<open>Updates\<close>

text \<open>An object that is not being deleted, whose route is recorded and whose finalizer is set.\<close>

definition settled_route :: "'w env \<Rightarrow> Route \<Rightarrow> string \<Rightarrow> bool" where
  "settled_route env r i \<longleftrightarrow> IsZero env (DeletionTimestamp (r_Meta r)) \<and>
     ContainsFinalizer env (r_Meta r) routeFinalizer \<and> RouteID (r_Status r) = Some i \<and> i \<noteq> ''''"

lemma settled_route_exec:
  assumes "GetRoute_api env key zero_Route w = ((None, r), w')" and "settled_route env r i"
  shows "calls (RouteReconcile env cfg key) w = EGetRoute key None r #
      calls (reconcileRoute env (MailgunClient env cfg (routeDomain (r_Spec r))) (routeDomain (r_Spec r)) r) w'"
    and "result (RouteReconcile env cfg key) w =
      result (reconcileRoute env (MailgunClient env cfg (routeDomain (r_Spec r))) (routeDomain (r_Spec r)) r) w'"
  using assms by (simp_all add: RouteReconcile_def settled_route_def route_exec has_route_id_def Let_def)

lemma updateRoute_decides:
  assumes "calls (updateRoute env mg i r) w = pre @ MGetRoute mg' i' (Inr exist) # post"
  shows "if needs_update exist (routeRequest (r_Spec r))
    then (\<exists>a post'. post = MUpdateRoute mg i (routeRequest (r_Spec r)) a # post')
    else post = [] \<and> result (updateRoute env mg i r) w = Done no_requeue None"
  using assms unfolding updateRoute_def
  by (auto simp: route_exec Cons_eq_append_conv split: sum.splits if_splits prod.splits option.splits)

lemma reconcileRoute_lookup:
  assumes "RouteID (r_Status r) = Some i" "i \<noteq> ''''"
    and "calls (reconcileRoute env mg name r) w = pre @ MGetRoute mg' i' a # post"
  shows "\<exists>w' pre'. calls (updateRoute env mg i r) w' = pre' @ MGetRoute mg' i' a # post \<and>
    result (reconcileRoute env mg name r) w = result (updateRoute env mg i r) w'"
  using assms unfolding reconcileRoute_def syncRoute_def
  by (auto simp: route_exec has_route_id_def postponeRoute_exec Cons_eq_append_conv split: sum.splits if_splits)

text \<open>
  C11. For a settled route that Mailgun knows, the reconciliation sends an update exactly when the
  description, the expression, the priority or the number of actions on Mailgun differs from the
  specification, and the update carries the whole specification; otherwise it makes no further
  call and reports success.
\<close>

theorem route_update_decision:
  assumes "GetRoute_api env key zero_Route w = ((None, r), w')" and "settled_route env r i"
    and "calls (RouteReconcile env cfg key) w = pre @ MGetRoute mg i' (Inr exist) # post"
  shows "if mgr_Description exist = Description (r_Spec r) \<and> mgr_Expression exist = Expression (r_Spec r) \<and>
      mgr_Priority exist = (case Priority (r_Spec r) of None \<Rightarrow> 0 | Some p \<Rightarrow> p) \<and>
      length (mgr_Actions exist) = length (Actions (r_Spec r))
    then post = [] \<and> result (RouteReconcile env cfg key) w = Done no_requeue None
    else \<exists>mg req a post'. post = MUpdateRoute mg i req a # post' \<and>
      mgr_Description req = Description (r_Spec r) \<and> mgr_Expression req = Expression (r_Spec r) \<and>
      mgr_Priority req = (case Priority (r_Spec r) of None \<Rightarrow> 0 | Some p \<Rightarrow> p) \<and>
      mgr_Actions req = Actions (r_Spec r)"
proof -
  let ?mg = "MailgunClient env cfg (routeDomain (r_Spec r))"
  note exec = settled_route_exec [OF assms(1,2), of cfg]
  from assms(3) obtain pre'' where
    "calls (reconcileRoute env ?mg (routeDomain (r_Spec r)) r) w' = pre'' @ MGetRoute mg i' (Inr exist) # post"
    by (auto simp: exec Cons_eq_append_conv)
  with assms(2) obtain w2 pre' where
    u: "calls (updateRoute env ?mg i r) w2 = pre' @ MGetRoute mg i' (Inr exist) # post"
    and res: "result (RouteReconcile env cfg key) w = result (updateRoute env ?mg i r) w2"
    using reconcileRoute_lookup unfolding exec settled_route_def by metis
  have req: "mgr_Description (routeRequest (r_Spec r)) = Description (r_Spec r)"
    "mgr_Expression (routeRequest (r_Spec r)) = Expression (r_Spec r)"
    "mgr_Actions (routeRequest (r_Spec r)) = Actions (r_Spec r)"
    "mgr_Priority (routeRequest (r_Spec r)) = (case Priority (r_Spec r) of None \<Rightarrow> 0 | Some p \<Rightarrow> p)"
    by (simp_all add: routeRequest_def split: option.split)
  from updateRoute_decides [OF u] show ?thesis
    unfolding needs_update_def req res by (auto simp: req split: if_splits)
qed

text \<open>A settled route, edited after its creation.\<close>

definition settled_world :: cluster where
  "settled_world = after (RouteReconcile test_env test_config test_key) route_world"

definition edit_route :: "(RouteSpec \<Rightarrow> RouteSpec) \<Rightarrow> cluster \<Rightarrow> cluster" where
  "edit_route f w =
     (case map_of (cl_routes w) test_key of
        None \<Rightarrow> w
      | Some r \<Rightarrow> create_route_object
          (r\<lparr>r_Meta := next_version (r_Meta r), r_Spec := f (r_Spec r)\<rparr>) w)"

definition redirected_world :: cluster where
  "redirected_world = edit_route (\<lambda>s. s\<lparr>Actions := [''forward()'']\<rparr>) settled_world"

text \<open>
  The edit of the action is not seen: the route keeps its old action on Mailgun, and the
  reconciliation reports success.
\<close>

theorem route_update_decision_witness:
  "\<exists>r i mg pre exist. map_of (cl_routes redirected_world) test_key = Some r \<and>
     Actions (r_Spec r) = [''forward()''] \<and> mgr_Actions exist = [''stop()''] \<and>
     calls (RouteReconcile test_env test_config test_key) redirected_world =
       pre @ [MGetRoute mg i (Inr exist)] \<and>
     result (RouteReconcile test_env test_config test_key) redirected_world = Done no_requeue None"
proof -
  let ?r = "the (map_of (cl_routes redirected_world) test_key)"
  have known: "map_of (cl_routes redirected_world) test_key = Some ?r"
    and get: "GetRoute_api test_env test_key zero_Route redirected_world = ((None, ?r), redirected_world)"
    and settled: "settled_route test_env ?r ''route-x''"
    and spec: "r_Spec ?r = \<lparr>Description = ''all mail'', Expression = ''catch_all()'',
      Actions = [''forward()''], Priority = Some 5, route_Domain = Some ''shop.io''\<rparr>"
    and ex: "list_ex (\<lambda>e. case e of MGetRoute mg i (Inr x) \<Rightarrow> x = \<lparr>mgr_Id = ''route-x'', mgr_Priority = 5,
        mgr_Actions = [''stop()''], mgr_Description = ''all mail'', mgr_Expression = ''catch_all()''\<rparr> | _ \<Rightarrow> False)
      (calls (RouteReconcile test_env test_config test_key) redirected_world)"
    by code_simp+
  from ex obtain pre mg i x post where
    run: "calls (RouteReconcile test_env test_config test_key) redirected_world =
      pre @ MGetRoute mg i (Inr x) # post"
    and x: "x = \<lparr>mgr_Id = ''route-x'', mgr_Priority = 5, mgr_Actions = [''stop()''],
        mgr_Description = ''all mail'', mgr_Expression = ''catch_all()''\<rparr>"
    by (rule list_ex_split) (auto split: event.splits sum.splits)
  from route_update_decision [OF get settled run] have
    "post = [] \<and> result (RouteReconcile test_env test_config test_key) redirected_world = Done no_requeue None"
    by (simp add: x spec)
  with known spec x run show ?thesis by fastforce
qed

section \<open>No crash\<close>

lemma RemoveFinalizer_flag:
  "finalizer_laws env \<Longrightarrow> RemoveFinalizer env m f = (m', b) \<Longrightarrow> b = (f \<in> set (Finalizers m))"
  by (drule finalizer_lawsD(2) [of env m f]) simp

lemma deleteRoute_safe:
  assumes "finalizer_laws env" "ContainsFinalizer env (r_Meta r) routeFinalizer"
  shows "result (deleteRoute env mg r) w \<noteq> Crashed msg"
  using assms(2) unfolding route_delete_defs
  by (auto simp: route_exec finalizer_lawsD [OF assms(1)] split: option.splits sum.splits prod.splits if_splits
      dest: RemoveFinalizer_flag [OF assms(1)])

lemma createRoute_safe:
  assumes "route_echo_laws env"
  shows "result (createRoute env mg r) w \<noteq> Crashed msg"
  unfolding createRoute_def Let_def
  by (auto simp: route_exec split: option.splits sum.splits prod.splits if_splits
      dest!: route_echo_lawsD [OF assms])

lemma reconcileRoute_safe:
  assumes "route_echo_laws env"
  shows "result (reconcileRoute env mg name r) w \<noteq> Crashed msg"
  unfolding reconcileRoute_def syncRoute_def updateRoute_def postponeRoute_def has_route_id_def
  by (auto simp: route_exec createRoute_safe [OF assms] split: option.splits sum.splits prod.splits if_splits)

text \<open>
  C12. The route controller never dereferences a missing route identifier: with the documented
  behaviour of the finalizer helpers and of the API server, no reconciliation crashes, whatever
  the object, Mailgun and the configuration are.
\<close>

theorem route_reconcile_never_crashes:
  assumes "finalizer_laws env" and "route_echo_laws env"
  shows "result (RouteReconcile env cfg key) w \<noteq> Crashed msg"
  unfolding RouteReconcile_def Let_def
  by (auto simp: route_exec reconcileRoute_safe [OF assms(2)] deleteRoute_safe [OF assms(1)]
      split: prod.splits option.splits if_splits)

theorem route_reconcile_never_crashes_witness:
  "result (RouteReconcile test_env test_config test_key) route_deleting_world \<noteq> Crashed nil_deref"
  by (rule route_reconcile_never_crashes [OF test_env_finalizer_laws test_env_route_echo_laws])

end
