(* ===== verification/Scenarios.thy ===== *)
theory Scenarios
  imports Domain_Verification Lifecycle Mock_Laws Route_Behaviour
begin

text \<open>
  Behaviours that span several reconciliations: what is forgotten when a verification fails right
  after the creation, how a new object disowns a domain that exists already, and runs of both
  controllers on the cluster with the mock Mailgun service.
\<close>

section \<open>A creation whose verification fails is forgotten\<close>

lemma reconcileVerify_failed:
  "MVerifyDomain mg' name' (Inl err) \<in> set (calls (reconcileVerify env cfg mg name d) w) \<Longrightarrow>
   list_all (writes (\<lambda>_. False)) (calls (reconcileVerify env cfg mg name d) w)"
  unfolding reconcileVerify_def
  by (auto simp: domain_exec split: sum.splits option.splits prod.splits
      dest: emits_calls [OF setActivated_quiet])

lemma reconcileNew_quiet: "emits (\<lambda>e. \<not> is_MVerifyDomain e) (reconcileNew env mg name d)"
  unfolding reconcile_defs by (intro emits_rules) simp_all

lemma createDomain_created:
  assumes "result (createDomain env mg d) w = Ret (None, d')"
  shows "(\<exists>mg' name opts resp. MCreateDomain mg' name opts (Inr resp) \<in> set (calls (createDomain env mg d) w)) \<and>
    (echo_laws env \<longrightarrow> d_Spec d' = d_Spec d)"
  using assms unfolding createDomain_def RandomHex_16
  by (auto simp: domain_exec split: sum.splits option.splits prod.splits go.splits if_splits
      dest: echo_lawsD(2))

lemma reconcileNew_created:
  assumes "result (reconcileNew env mg name d) w = Inr d'"
  shows "(\<exists>mg' name' opts resp. MCreateDomain mg' name' opts (Inr resp) \<in> set (calls (reconcileNew env mg name d) w)) \<and>
    (echo_laws env \<longrightarrow> d_Spec d' = d_Spec d)"
proof -
  let ?w = "snd (mg_GetDomain_api env mg name w)"
  obtain x where x: "fst (mg_GetDomain_api env mg name w) = Inl x"
    using assms by (cases "fst (mg_GetDomain_api env mg name w)")
      (auto simp: reconcileNew_def domain_exec split: prod.splits)
  obtain d1 where d1: "result (createDomain env mg d) ?w = Ret (None, d1)"
    using assms x by (cases "result (createDomain env mg d) ?w")
      (auto simp: reconcileNew_def domain_exec split: prod.splits option.splits)
  from x d1 assms have "d' = set_State DomainStateCreated d1"
    by (simp add: reconcileNew_def domain_exec)
  moreover from x have "set (calls (createDomain env mg d) ?w) \<subseteq> set (calls (reconcileNew env mg name d) w)"
    by (auto simp: reconcileNew_def domain_exec)
  ultimately show ?thesis using createDomain_created [OF d1] by (simp add: subset_iff) blast
qed

lemma reconcileExisting_failed:
  assumes "ExternalDNS (d_Spec d) \<noteq> Some True"
    and "MVerifyDomain mg' name' (Inl err) \<in> set (calls (reconcileExisting env cfg mg name d) w)"
  shows "list_all (writes (\<lambda>_. False)) (calls (reconcileExisting env cfg mg name d) w)"
  using assms unfolding reconcileExisting_def
  by (auto simp: domain_exec reconcileVerify_failed split: if_splits)

text \<open>
  C14. When the verification fails in the reconciliation that created the domain, and the object does
  not ask for external DNS (with it, the creation of the DNSEndpoint object writes the status before the
  verification), then the domain exists on Mailgun but no status that the reconciliation wrote says so: in
  all of them the state is still empty. The object is the one in hand: the object read or, when the
  finalizer was added first, the answer to that update.
\<close>

theorem failed_verification_forgets_creation:
  assumes laws: "echo_laws env"
    and new: "status_State (d_Status (object_in_hand env key w)) = ''''"
    and dns: "ExternalDNS (d_Spec (object_in_hand env key w)) \<noteq> Some True"
    and failed: "MVerifyDomain mg name (Inl err) \<in> set (calls (DomainReconcile env cfg key) w)"
  shows "(\<exists>mg' name' opts resp. MCreateDomain mg' name' opts (Inr resp) \<in>
      set (calls (DomainReconcile env cfg key) w)) \<and>
    (\<forall>d' r. EStatusUpdateDomain d' r \<in> set (calls (DomainReconcile env cfg key) w) \<longrightarrow>
      status_State (d_Status d') = '''')"
proof -
  let ?d = "object_in_hand env key w"
  let ?n = "spec_Domain (d_Spec ?d)"
  let ?mg = "MailgunClient env cfg ?n"
  let ?new = "reconcileNew env ?mg ?n ?d"
  from verification_in_hand [OF laws failed refl] obtain start w' where start: "list_all at_start start"
    and run: "calls (DomainReconcile env cfg key) w = start @ calls (reconcileState env cfg ?mg ?n ?d) w'"
    by blast
  have failed': "MVerifyDomain mg name (Inl err) \<in> set (calls (reconcileState env cfg ?mg ?n ?d) w')"
    using failed start by (auto simp: run list_all_iff at_start_def)
  have no_verify: "MVerifyDomain mg name (Inl err) \<notin> set (calls ?new w')"
    using emits_calls [OF reconcileNew_quiet] by fastforce
  obtain d1 where d1: "result ?new w' = Inr d1"
    using failed' no_verify new
    by (cases "result ?new w'") (auto simp: reconcileState_def domain_exec)
  have split: "calls (reconcileState env cfg ?mg ?n ?d) w' =
      calls ?new w' @ calls (reconcileExisting env cfg ?mg ?n d1) (after ?new w')"
    using new d1 by (simp add: reconcileState_def domain_exec)
  from reconcileNew_created [OF d1] laws dns have created:
    "\<exists>mg' name' opts resp. MCreateDomain mg' name' opts (Inr resp) \<in> set (calls ?new w')"
    and dns1: "ExternalDNS (d_Spec d1) \<noteq> Some True" by auto
  have "MVerifyDomain mg name (Inl err) \<in> set (calls (reconcileExisting env cfg ?mg ?n d1) (after ?new w'))"
    using failed' no_verify by (simp add: split)
  from reconcileExisting_failed [OF dns1 this]
  have none: "list_all (writes (\<lambda>_. False)) (calls (reconcileExisting env cfg ?mg ?n d1) (after ?new w'))" .
  have "list_all (writes (\<lambda>s. s = '''')) (calls ?new w')"
    using d1 new unfolding reconcileNew_def
    by (auto simp: domain_exec createDomain_writes split: sum.splits option.splits prod.splits go.splits)
  with none created start show ?thesis
    by (auto simp: run split list_all_iff writes_def at_start_def)
qed

lemma unverifiable_env_echo_laws: "echo_laws unverifiable_env"
  using test_env_echo_laws by (simp add: echo_laws_def unverifiable_env_def)

theorem failed_verification_forgets_creation_witness:
  "\<exists>mg name opts resp. MCreateDomain mg name opts (Inr resp) \<in>
     set (calls (DomainReconcile unverifiable_env test_config test_key) fresh_world)"
proof -
  have new: "status_State (d_Status (object_in_hand unverifiable_env test_key fresh_world)) = ''''"
    and dns: "ExternalDNS (d_Spec (object_in_hand unverifiable_env test_key fresh_world)) \<noteq> Some True"
    and ex: "list_ex (\<lambda>e. case e of MVerifyDomain mg name (Inl err) \<Rightarrow> True | _ \<Rightarrow> False)
      (calls (DomainReconcile unverifiable_env test_config test_key) fresh_world)"
    by code_simp+
  from ex obtain pre mg name err post where
    "calls (DomainReconcile unverifiable_env test_config test_key) fresh_world =
      pre @ MVerifyDomain mg name (Inl err) # post"
    by (rule list_ex_split) (auto split: event.splits sum.splits)
  then have "MVerifyDomain mg name (Inl err) \<in>
      set (calls (DomainReconcile unverifiable_env test_config test_key) fresh_world)" by simp
  from failed_verification_forgets_creation [OF unverifiable_env_echo_laws new dns this]
  show ?thesis by blast
qed

section \<open>A domain that exists already is disowned\<close>

lemma first_unique:
  "xs @ a # ys = us @ b # vs \<Longrightarrow> \<not> list_ex P xs \<Longrightarrow> \<not> list_ex P us \<Longrightarrow> P a \<Longrightarrow> P b \<Longrightarrow>
   xs = us \<and> a = b \<and> ys = vs"
proof (induction xs arbitrary: us)
  case Nil
  then show ?case by (cases us) auto
next
  case (Cons x xs)
  then show ?case by (cases us) auto
qed

lemma reconcileNew_found:
  assumes "fst (mg_GetDomain_api env mg name w) = Inr resp"
  shows "\<exists>ev r. calls (reconcileNew env mg name d) w = [MGetDomain mg name (Inr resp), ev,
      EStatusUpdateDomain (set_MailgunError ''Domain already exists on Mailgun''
        (set_State DomainStateFailed (set_NotManaged True d))) r] \<and> is_EEventf ev \<and>
    result (reconcileNew env mg name d) w = Inl (Done no_requeue r)"
  using assms by (simp add: reconcileNew_def domain_exec split: prod.split)

lemma new_object_looks_up:
  assumes "status_State (d_Status d) = ''''"
  shows "\<exists>ans rest. calls (reconcileState env cfg mg name d) w = MGetDomain mg name ans # rest \<and>
    fst (mg_GetDomain_api env mg name w) = ans"
  using assms unfolding reconcileState_def reconcileNew_def
  by (auto simp: domain_exec split: sum.split)

text \<open>
  C15. When the first lookup for an object with an empty state finds the name on Mailgun, whoever created
  it (also the operator itself, in a reconciliation whose verification failed), the reconciliation
  creates nothing and ends with two calls: an event, and one status write that marks the object as not
  managed and failed, with the message. The error returned is that of the write, there is no requeue, and
  all calls before the lookup are the read of the object and the update for its finalizer. (The object is
  the one in hand, and is not one to be released, under deletion with the finalizer.)
\<close>

theorem existing_domain_disowned:
  assumes laws: "echo_laws env"
    and read: "GetDomain_api env key zero_Domain w = ((None, d0), w1)"
    and kept: "IsZero env (DeletionTimestamp (d_Meta d0)) \<or> \<not> ContainsFinalizer env (d_Meta d0) domainFinalizer"
    and new: "status_State (d_Status (object_in_hand env key w)) = ''''"
    and run: "calls (DomainReconcile env cfg key) w = pre @ MGetDomain mg name (Inr resp) # post"
    and first: "\<not> list_ex is_MGetDomain pre"
  shows "name = spec_Domain (d_Spec (object_in_hand env key w)) \<and>
    list_all (\<lambda>e. is_EGetDomain e \<or> is_EUpdateDomain e) pre \<and>
    (\<exists>ev d' r. post = [ev, EStatusUpdateDomain d' r] \<and> is_EEventf ev \<and>
       NotManaged (d_Status d') \<and> status_State (d_Status d') = DomainStateFailed \<and>
       MailgunError (d_Status d') = Some ''Domain already exists on Mailgun'' \<and>
       result (DomainReconcile env cfg key) w = Done no_requeue r)"
proof -
  let ?d = "object_in_hand env key w"
  let ?n = "spec_Domain (d_Spec ?d)"
  let ?mg = "MailgunClient env cfg ?n"
  have lookup: "MGetDomain mg name (Inr resp) \<in> set (calls (DomainReconcile env cfg key) w)" by (simp add: run)
  from works_on_object_in_hand [OF laws read kept lookup _ refl]
  obtain start w' where start: "list_all at_start start"
    and calls: "calls (DomainReconcile env cfg key) w = start @ calls (reconcileState env cfg ?mg ?n ?d) w'"
    and res: "result (DomainReconcile env cfg key) w = result (reconcileState env cfg ?mg ?n ?d) w'"
    by (auto simp: at_start_def)
  from new_object_looks_up [OF new, of env cfg ?mg ?n w'] obtain ans rest where
    ans: "calls (reconcileState env cfg ?mg ?n ?d) w' = MGetDomain ?mg ?n ans # rest"
      "fst (mg_GetDomain_api env ?mg ?n w') = ans" by blast
  have "pre = start \<and> MGetDomain mg name (Inr resp) = MGetDomain ?mg ?n ans \<and> post = rest"
  proof (rule first_unique [where P = is_MGetDomain])
    show "pre @ MGetDomain mg name (Inr resp) # post = start @ MGetDomain ?mg ?n ans # rest"
      using run calls ans(1) by simp
    show "\<not> list_ex is_MGetDomain start"
      using start by (auto simp: at_start_def list_all_iff list_ex_iff is_MGetDomain_def)
  qed (simp_all add: first)
  moreover from reconcileNew_found [of env ?mg ?n w' resp ?d] ans(2) calculation obtain ev r where
    "calls (reconcileNew env ?mg ?n ?d) w' = [MGetDomain ?mg ?n (Inr resp), ev,
      EStatusUpdateDomain (set_MailgunError ''Domain already exists on Mailgun''
        (set_State DomainStateFailed (set_NotManaged True ?d))) r]"
    "is_EEventf ev" "result (reconcileNew env ?mg ?n ?d) w' = Inl (Done no_requeue r)"
    by auto
  ultimately show ?thesis
    using start res ans(1) new
    by (auto simp: reconcileState_def domain_exec at_start_def list_all_iff)
qed

section \<open>Runs on the cluster\<close>

definition reconcile_in :: "cluster env \<Rightarrow> cluster \<Rightarrow> cluster" where
  "reconcile_in env w = after (DomainReconcile env test_config test_key) w"

definition object_of :: "cluster \<Rightarrow> Domain option" where
  "object_of w = map_of (cl_domains w) test_key"

definition mailgun_names :: "cluster \<Rightarrow> string list" where
  "mailgun_names w = map container_name (domainList (cl_mock w))"

text \<open>
  A whole life on the cluster: a new object gets its domain on Mailgun and stays in the state
  created until Mailgun activates the domain; the next reconciliation then writes activated, with
  the second validation counted; a deletion request makes the following reconciliation remove the
  domain from Mailgun and the object from the cluster.
\<close>

theorem domain_life_on_cluster:
  "let w1 = reconcile_in test_env fresh_world;
       w2 = reconcile_in test_env (with_mock (ActivateDomain ''shop.io'') w1);
       w3 = reconcile_in test_env (request_deletion test_key w2);
       status = (\<lambda>w. map_option (\<lambda>d. (status_State (d_Status d), status_DomainState (d_Status d),
         DomainValidationCount (d_Status d), MailgunError (d_Status d))) (object_of w))
   in status w1 = Some (DomainStateCreated, ''unverified'', Some 1, None) \<and> mailgun_names w1 = [''shop.io''] \<and>
      status w2 = Some (DomainStateActivated, ''active'', Some 2, None) \<and> mailgun_names w2 = [''shop.io''] \<and>
      status w3 = None \<and> mailgun_names w3 = []"
  by code_simp

text \<open>
  The operator disowns a domain it has created itself: the first reconciliation creates the domain
  on Mailgun and fails in the verification; the second one, with Mailgun in order again, finds the
  domain, takes it for somebody else's and writes failed and not managed. Deleting the object then
  deletes the domain on Mailgun nevertheless.
\<close>

theorem own_domain_disowned_then_deleted:
  "let w1 = reconcile_in unverifiable_env fresh_world;
       w2 = reconcile_in test_env w1;
       w3 = reconcile_in test_env (request_deletion test_key w2);
       status = (\<lambda>w. map_option (\<lambda>d. (status_State (d_Status d), NotManaged (d_Status d),
         MailgunError (d_Status d))) (object_of w))
   in mailgun_names fresh_world = [] \<and>
      status w1 = Some ('''', False, None) \<and> mailgun_names w1 = [''shop.io''] \<and>
      status w2 = Some (DomainStateFailed, True, Some ''Domain already exists on Mailgun'') \<and>
      mailgun_names w2 = [''shop.io''] \<and>
      status w3 = None \<and> mailgun_names w3 = []"
  by code_simp

theorem existing_domain_disowned_witness:
  "\<exists>pre mg resp ev d' r. calls (DomainReconcile test_env test_config test_key)
       (reconcile_in unverifiable_env fresh_world) =
         pre @ [MGetDomain mg ''shop.io'' (Inr resp), ev, EStatusUpdateDomain d' r] \<and>
     NotManaged (d_Status d') \<and> status_State (d_Status d') = DomainStateFailed"
proof -
  let ?w = "reconcile_in unverifiable_env fresh_world"
  let ?cs = "calls (DomainReconcile test_env test_config test_key) ?w"
  obtain e d w1 where read: "GetDomain_api test_env test_key zero_Domain ?w = ((e, d), w1)" by (metis prod.collapse)
  have "fst (fst (GetDomain_api test_env test_key zero_Domain ?w)) = None"
    "DeletionTimestamp (d_Meta (snd (fst (GetDomain_api test_env test_key zero_Domain ?w)))) = None"
    by code_simp+
  with read have read': "GetDomain_api test_env test_key zero_Domain ?w = ((None, d), w1)"
    and kept: "IsZero test_env (DeletionTimestamp (d_Meta d))"
    by (simp_all, simp add: test_env_def)
  have new: "status_State (d_Status (object_in_hand test_env test_key ?w)) = ''''"
    and name: "spec_Domain (d_Spec (object_in_hand test_env test_key ?w)) = ''shop.io''"
    and shape: "case ?cs of [a, MGetDomain mg n (Inr resp), b, c] \<Rightarrow> is_EGetDomain a | _ \<Rightarrow> False"
    by code_simp+
  from shape obtain a mg n resp b c where
    run: "?cs = [a] @ MGetDomain mg n (Inr resp) # [b, c]" and a: "is_EGetDomain a"
    by (auto split: list.splits event.splits sum.splits)
  from a have "\<not> list_ex is_MGetDomain [a]" by (cases a) simp_all
  from existing_domain_disowned [OF test_env_echo_laws read' _ new run this] kept name run
  show ?thesis by fastforce
qed

text \<open>
  A route on the cluster: it is created on Mailgun once its domain is active there; editing its
  priority updates it on the following reconciliation; editing only the text of an action changes
  nothing on Mailgun, however often it is reconciled.
\<close>

theorem route_life_on_cluster:
  "let step = (\<lambda>w. after (RouteReconcile test_env test_config test_key) w);
       w1 = step route_world;
       w2 = step (edit_route (\<lambda>s. s\<lparr>Priority := Some 9\<rparr>) w1);
       w3 = step (step (edit_route (\<lambda>s. s\<lparr>Actions := [''forward()'']\<rparr>) w2));
       stored = (\<lambda>w. map (\<lambda>(_, x). (mgr_Priority x, mgr_Actions x)) (map_or_nil (routes (cl_mock w))))
   in stored w1 = [(5, [''stop()''])] \<and> stored w2 = [(9, [''stop()''])] \<and> stored w3 = [(9, [''stop()''])]"
  by code_simp

end
