(* ===== verification/Configuration_Laws.thy ===== *)
theory Configuration_Laws
  imports Configuration Cluster
begin

text \<open>
  The operator's settings: the integers \<^verbatim>\<open>ParseInt\<close> accepts, the precedence of the sources that
  \<^verbatim>\<open>LoadConfiguration\<close> merges, its errors and its panic, and the API base of a client. The two
  sources share an interface, the locale \<open>config_source\<close>, from which the loading is proved.
\<close>

section \<open>ParseInt\<close>

lemma digit_of_show: "k < 10 \<Longrightarrow> digit_of (char_of (48 + k)) = Some k"
  by (simp add: digit_of_def Let_def)

lemma parse_digits_append:
  "parse_digits (xs @ ys) acc =
     (case parse_digits xs acc of None \<Rightarrow> None | Some n \<Rightarrow> parse_digits ys n)"
  by (induction xs acc rule: parse_digits.induct) (auto split: option.split)

lemma parse_digits_show: "parse_digits (show_nat n) 0 = Some n"
proof (induction n rule: show_nat.induct)
  case (1 n)
  show ?case
  proof (cases "n < 10")
    case True
    then show ?thesis by (simp add: digit_of_show)
  next
    case False
    with 1 show ?thesis
      by (subst show_nat.simps) (simp add: parse_digits_append digit_of_show del: show_nat.simps)
  qed
qed

lemma show_nat_first: "\<exists>c cs. show_nat n = c # cs \<and> c \<noteq> CHR ''-'' \<and> c \<noteq> CHR ''+''"
proof (induction n rule: show_nat.induct)
  case (1 n)
  show ?case
  proof (cases "n < 10")
    case True
    have "char_of (48 + n) \<noteq> CHR ''-''" "char_of (48 + n) \<noteq> CHR ''+''"
      using True by (auto dest: arg_cong [where f = "of_char :: char \<Rightarrow> nat"])
    with True show ?thesis by simp
  next
    case False
    with 1 obtain c cs where "show_nat (n div 10) = c # cs" "c \<noteq> CHR ''-''" "c \<noteq> CHR ''+''" by blast
    with False show ?thesis by (subst show_nat.simps) simp
  qed
qed

lemma parse_nat_show: "parse_nat (show_nat n) = Some n"
  using show_nat_first [of n] by (auto simp: parse_nat_def parse_digits_show simp flip: parse_digits_show)

lemma ParseInt_show_int: "ParseInt (show_int k) = Some k"
proof (cases "sint k < 0")
  case True
  have "- (2 ^ 63) \<le> sint k" using sint_greater_eq [of k] by simp
  moreover from True have "word_of_int (- int (nat (- sint k))) = k" by simp
  ultimately show ?thesis using True
    by (simp add: show_int_def ParseInt_def parse_nat_show del: show_nat.simps)
next
  case False
  from show_nat_first obtain c cs
    where c: "show_nat (nat (sint k)) = c # cs" "c \<noteq> CHR ''-''" "c \<noteq> CHR ''+''" by blast
  have "sint k < 2 ^ 63" using sint_less [of k] by simp
  moreover have "parse_nat (c # cs) = Some (nat (sint k))"
    using parse_nat_show [of "nat (sint k)"] by (simp add: c del: show_nat.simps)
  ultimately show ?thesis using False
    by (simp add: show_int_def ParseInt_def c del: show_nat.simps)
qed

section \<open>\<^verbatim>\<open>hashToConfig\<close>\<close>

definition timeout_key :: string where
  "timeout_key = ''domain_verification_timeout''"

definition parse_panic :: string where
  "parse_panic = ''field DomainVerifyDuration, type int, kind int is not parsed''"

definition entry :: "string go_map \<Rightarrow> string \<Rightarrow> string \<Rightarrow> string" where
  "entry m k dflt = (case map_of m k of None \<Rightarrow> dflt | Some v \<Rightarrow> v)"

lemma hashToConfig_spec:
  "hashToConfig d m =
     (case map_of m timeout_key of
        None \<Rightarrow> Ret (d\<lparr>APIToken := entry m ''api_token'' (APIToken d),
                       APIServer := entry m ''api_server'' (APIServer d)\<rparr>)
      | Some v \<Rightarrow> (case ParseInt v of
          None \<Rightarrow> Panic parse_panic
        | Some n \<Rightarrow> Ret (d\<lparr>APIToken := entry m ''api_token'' (APIToken d),
            APIServer := entry m ''api_server'' (APIServer d), DomainVerifyDuration := n\<rparr>)))"
  unfolding hashToConfig_def data_fields_def
  by (simp add: first_of_split_def timeout_key_def parse_panic_def entry_def split: option.split)

definition config_entries :: "Data \<Rightarrow> string go_map" where
  "config_entries d = [(''api_token'', APIToken d), (''api_server'', APIServer d),
     (timeout_key, show_int (DomainVerifyDuration d))]"

text \<open>
  C18. Round trip: settings printed as ConfigMap entries (the interval in decimal, over the whole range
  of \<^verbatim>\<open>int\<close>) are read back unchanged, whatever the settings were before; only the operator's
  namespace is not an entry and keeps its value.
\<close>

theorem hashToConfig_config_entries:
  "hashToConfig old (config_entries d) = Ret (d\<lparr>OperatorNamespace := OperatorNamespace old\<rparr>)"
  by (simp add: hashToConfig_spec config_entries_def timeout_key_def entry_def ParseInt_show_int
      del: show_nat.simps)

section \<open>The sources of settings\<close>

text \<open>What a source holds for a name: an error of the lookup, or its entries (nil is \<^const>\<open>None\<close>).\<close>

definition source_answer ::
  "'w env \<Rightarrow> error option \<times> string go_map option \<Rightarrow> error + string go_map option" where
  "source_answer env a =
     (if IsNotFound env (fst a) then Inr None
      else (case fst a of Some e \<Rightarrow> Inl e | None \<Rightarrow> Inr (snd a)))"

definition configmap_lookup :: "'w env \<Rightarrow> NamespacedName \<Rightarrow> 'w \<Rightarrow> error option \<times> string go_map option" where
  "configmap_lookup env key w =
     (let (e, c) = fst (GetConfigMap_api env key zero_ConfigMap w) in (e, cm_Data c))"

definition secret_lookup :: "'w env \<Rightarrow> NamespacedName \<Rightarrow> 'w \<Rightarrow> error option \<times> string go_map option" where
  "secret_lookup env key w =
     (let (e, s) = fst (GetSecret_api env key zero_Secret w) in (e, sec_Data s))"

locale config_source =
  fixes env :: "'w env"
    and read :: "string \<Rightarrow> string \<Rightarrow> ('w, error + string go_map option) op"
    and lookup :: "NamespacedName \<Rightarrow> 'w \<Rightarrow> error option \<times> string go_map option"
  assumes framed_read: "framed (read ns name)"
    and one_read: "call_bound 1 (read ns name)"
    and answer: "result (read ns name) w =
      source_answer env (lookup \<lparr>nn_Namespace = ns, nn_Name = name\<rparr> w)"
begin

text \<open>A source without a name is not read and has no entries.\<close>

definition optional :: "string \<Rightarrow> string \<Rightarrow> ('w, error + string go_map option) op" where
  "optional ns name = (if name \<noteq> '''' then read ns name else State_Monad.return (Inr None))"

lemma framed_optional: "framed (optional ns name)"
  by (simp add: optional_def framed_read framed_return)

lemma optional_result:
  "result (optional ns name) w = (if name = '''' then Inr None
     else source_answer env (lookup \<lparr>nn_Namespace = ns, nn_Name = name\<rparr> w))"
  by (simp add: optional_def answer exec_return)

lemma optional_calls: "length (calls (optional ns name) w) \<le> 1"
  using call_bound_calls [OF one_read] by (simp add: optional_def exec_return)

lemma optional_found:
  assumes "name \<noteq> ''''" "lookup \<lparr>nn_Namespace = ns, nn_Name = name\<rparr> w = (None, m)"
    and "\<not> IsNotFound env None"
  shows "result (optional ns name) w = Inr m"
  using assms by (simp add: optional_result source_answer_def)

lemma optional_missing:
  assumes "IsNotFound env (fst (lookup \<lparr>nn_Namespace = ns, nn_Name = name\<rparr> w))"
  shows "result (optional ns name) w = Inr None"
  using assms by (simp add: optional_result source_answer_def)

lemma optional_broken:
  assumes "name \<noteq> ''''" "fst (lookup \<lparr>nn_Namespace = ns, nn_Name = name\<rparr> w) = Some e"
    and "\<not> IsNotFound env (Some e)"
  shows "result (optional ns name) w = Inl e"
  using assms by (simp add: optional_result source_answer_def)

end

lemma framed_readConfigMap [framed_rules]: "framed (readConfigMap env ns name)"
  unfolding readConfigMap_def by (intro framed_rules)

lemma framed_readSecret [framed_rules]: "framed (readSecret env ns name)"
  unfolding readSecret_def by (intro framed_rules)

lemma readConfigMap_bound: "call_bound 1 (readConfigMap env ns name)"
  unfolding readConfigMap_def by (rule segment_bounds bound_steps | simp)+

lemma readSecret_bound: "call_bound 1 (readSecret env ns name)"
  unfolding readSecret_def by (rule segment_bounds bound_steps | simp)+

lemma readConfigMap_answer:
  "result (readConfigMap env ns name) w =
     source_answer env (configmap_lookup env \<lparr>nn_Namespace = ns, nn_Name = name\<rparr> w)"
  by (simp add: readConfigMap_def source_answer_def configmap_lookup_def exec_simps framed_rules
      split: prod.split option.split)

lemma readSecret_answer:
  "result (readSecret env ns name) w =
     source_answer env (secret_lookup env \<lparr>nn_Namespace = ns, nn_Name = name\<rparr> w)"
  by (simp add: readSecret_def source_answer_def secret_lookup_def exec_simps framed_rules
      split: prod.split option.split)

interpretation configmap: config_source env "readConfigMap env" "configmap_lookup env" for env
  by unfold_locales (rule framed_readConfigMap readConfigMap_bound readConfigMap_answer)+

interpretation secret: config_source env "readSecret env" "secret_lookup env" for env
  by unfold_locales (rule framed_readSecret readSecret_bound readSecret_answer)+

section \<open>\<^verbatim>\<open>LoadConfiguration\<close>\<close>

text \<open>The settings the merged entries give.\<close>

definition merged :: "Data \<Rightarrow> string go_map \<Rightarrow> (error option \<times> Data) go" where
  "merged d m = (case hashToConfig d m of Panic msg \<Rightarrow> Panic msg | Ret d' \<Rightarrow> Ret (None, d'))"

lemma hashToConfig_Nil: "hashToConfig d [] = Ret d"
  by (simp add: hashToConfig_spec entry_def)

lemma LoadConfiguration_exec:
  "result (LoadConfiguration env d cm sn) w =
     (case result (configmap.optional env (OperatorNamespace d) cm) w of
        Inl e \<Rightarrow> Ret (Some e, d)
      | Inr a \<Rightarrow> (case result (secret.optional env (OperatorNamespace d) sn)
                   (after (configmap.optional env (OperatorNamespace d) cm) w) of
          Inl e \<Rightarrow> Ret (Some e, d)
        | Inr b \<Rightarrow> merged d (copy_into (copy_into [] (map_or_nil a)) (map_or_nil b))))"
  unfolding LoadConfiguration_def configmap.optional_def [symmetric] secret.optional_def [symmetric]
  by (simp add: exec_simps framed_rules configmap.framed_optional secret.framed_optional merged_def
      hashToConfig_Nil split: sum.split go.split)

lemma map_of_merge:
  assumes "distinct (map fst a)" "distinct (map fst b)"
  shows "map_of (copy_into (copy_into [] a) b) k =
    (case map_of b k of None \<Rightarrow> map_of a k | Some v \<Rightarrow> Some v)"
  using assms by (simp add: map_of_copy_into map_add_def)

text \<open>
  C17. Precedence of the settings: the API token, the API server and the interval each come from the
  Secret when it has the entry, else from the ConfigMap, else keep their value (the default); an
  interval that is not a 64-bit decimal integer is a panic, and the namespace never changes.
\<close>

theorem LoadConfiguration_precedence:
  assumes "cm \<noteq> ''''" and "sn \<noteq> ''''"
    and "result (readConfigMap env (OperatorNamespace d) cm) w = Inr a"
    and "result (readSecret env (OperatorNamespace d) sn)
           (after (readConfigMap env (OperatorNamespace d) cm) w) = Inr b"
    and "distinct (map fst (map_or_nil a))" and "distinct (map fst (map_or_nil b))"
  shows "let find = (\<lambda>k. case map_of (map_or_nil b) k of None \<Rightarrow> map_of (map_or_nil a) k | Some v \<Rightarrow> Some v);
             token = (case find ''api_token'' of None \<Rightarrow> APIToken d | Some v \<Rightarrow> v);
             server = (case find ''api_server'' of None \<Rightarrow> APIServer d | Some v \<Rightarrow> v)
         in result (LoadConfiguration env d cm sn) w =
           (case find ''domain_verification_timeout'' of
              None \<Rightarrow> Ret (None, d\<lparr>APIToken := token, APIServer := server\<rparr>)
            | Some v \<Rightarrow> (case ParseInt v of
                None \<Rightarrow> Panic ''field DomainVerifyDuration, type int, kind int is not parsed''
              | Some n \<Rightarrow> Ret (None, d\<lparr>APIToken := token, APIServer := server, DomainVerifyDuration := n\<rparr>)))"
  using assms
  by (simp add: LoadConfiguration_exec configmap.optional_def secret.optional_def merged_def
      hashToConfig_spec entry_def map_of_merge timeout_key_def parse_panic_def Let_def split: option.split)

definition config_world :: "string \<Rightarrow> cluster" where
  "config_world timeout = (empty_cluster (NewMailgunServer ''key''))
     \<lparr>cl_configmaps := [(\<lparr>nn_Namespace = ''ops'', nn_Name = ''settings''\<rparr>,
        \<lparr>cm_Meta = zero_ObjectMeta, cm_Data = Some [(''api_server'', ''US''), (''api_token'', ''none''),
           (''domain_verification_timeout'', timeout)]\<rparr>)],
      cl_secrets := [(\<lparr>nn_Namespace = ''ops'', nn_Name = ''token''\<rparr>,
        \<lparr>sec_Meta = zero_ObjectMeta, sec_Data = Some [(''api_token'', ''s3cret'')]\<rparr>)]\<rparr>"

text \<open>The token comes from the Secret, the server and the interval from the ConfigMap.\<close>

theorem LoadConfiguration_precedence_witness:
  "result (LoadConfiguration test_env test_config ''settings'' ''token'') (config_world ''60'') =
     Ret (None, \<lparr>OperatorNamespace = ''ops'', APIToken = ''s3cret'', APIServer = ''US'',
       DomainVerifyDuration = 60\<rparr>)"
proof -
  let ?a = "[(''api_server'', ''US''), (''api_token'', ''none''), (''domain_verification_timeout'', ''60'')]"
  have cm: "result (readConfigMap test_env (OperatorNamespace test_config) ''settings'') (config_world ''60'') =
      Inr (Some ?a)"
    and sec: "result (readSecret test_env (OperatorNamespace test_config) ''token'')
      (after (readConfigMap test_env (OperatorNamespace test_config) ''settings'') (config_world ''60'')) =
      Inr (Some [(''api_token'', ''s3cret'')])"
    and sixty: "ParseInt ''60'' = Some 60"
    by code_simp+
  show ?thesis
    using LoadConfiguration_precedence [OF _ _ cm sec]
    by (simp add: map_or_nil_def sixty test_config_def)
qed

text \<open>
  A ConfigMap that does not exist is as good as none: the loading goes on as if no ConfigMap had
  been named. Any other failure to read it ends the loading at once, with that error and
  unchanged settings.
\<close>

theorem LoadConfiguration_missing_or_broken:
  assumes "error_laws env" and "cm \<noteq> ''''"
    and "GetConfigMap_api env \<lparr>nn_Namespace = OperatorNamespace d, nn_Name = cm\<rparr> zero_ConfigMap w =
      ((Some e, c), w')"
  shows "if reason e = ''NotFound''
    then result (LoadConfiguration env d cm sn) w = result (LoadConfiguration env d '''' sn) w'
    else result (LoadConfiguration env d cm sn) w = Ret (Some e, d) \<and>
      calls (LoadConfiguration env d cm sn) w =
        [EGetConfigMap \<lparr>nn_Namespace = OperatorNamespace d, nn_Name = cm\<rparr> (Some e)]"
  using assms
  by (auto simp: error_laws_def LoadConfiguration_exec configmap.optional_def readConfigMap_def
      exec_simps framed_rules LoadConfiguration_def [THEN arg_cong, of "\<lambda>m. calls m w"])

theorem LoadConfiguration_missing_or_broken_witness:
  "result (LoadConfiguration test_env test_config ''absent'' ''token'') (config_world ''60'') =
   result (LoadConfiguration test_env test_config '''' ''token'') (config_world ''60'')"
proof -
  have get: "GetConfigMap_api test_env \<lparr>nn_Namespace = OperatorNamespace test_config, nn_Name = ''absent''\<rparr>
      zero_ConfigMap (config_world ''60'') = ((Some not_found, zero_ConfigMap), config_world ''60'')"
    by code_simp
  from LoadConfiguration_missing_or_broken [OF test_env_error_laws _ get, of "''token''"]
  show ?thesis by (simp add: not_found_def)
qed

end
