(* ===== verification/Domain_Progress.thy ===== *)
theory Domain_Progress
  imports Lifecycle Domain_Behaviour
begin

text \<open>
  Liveness of the domain controller. Status writes do not trigger a new reconciliation (the event
  filter of the controller drops updates that leave the generation alone), so an object whose
  reconciliation ends without an error and without a requeue interval is not looked at again until
  somebody edits it. The first theorem says which objects are left that way: none that is still in
  progress, unless the interval is zero. The second says that an object in progress becomes activated, for good, once its calls
  go well.
\<close>

section \<open>How reconciliations end\<close>

definition settled :: "event list \<Rightarrow> bool" where
  "settled es \<longleftrightarrow> (\<exists>d. es \<noteq> [] \<and> last es = EStatusUpdateDomain d None \<and>
     status_State (d_Status d) = DomainStateFailed)"

lemma settled_append [simp]: "settled ys \<Longrightarrow> settled (xs @ ys)" "settled ys \<Longrightarrow> settled (x # ys)"
  by (auto simp: settled_def)

lemma settled_write [simp]:
  "status_State (d_Status d) = DomainStateFailed \<Longrightarrow> settled [EStatusUpdateDomain d None]"
  by (simp add: settled_def)

text \<open>An answered verification whose status write was accepted, with a requeue interval of zero.\<close>

definition unattended :: "Data \<Rightarrow> event list \<Rightarrow> bool" where
  "unattended cfg es \<longleftrightarrow> requeue_verify cfg = no_requeue \<and>
     (\<exists>pre mg name st post d. es = pre @ MVerifyDomain mg name (Inr st) # post @ [EStatusUpdateDomain d None])"

lemma unattended_append [simp]:
  assumes "unattended cfg ys"
  shows "unattended cfg (xs @ ys)" and "unattended cfg (x # ys)"
proof -
  from assms show "unattended cfg (xs @ ys)" unfolding unattended_def by (metis append_assoc)
  from assms show "unattended cfg (x # ys)" unfolding unattended_def by (metis append_Cons)
qed

lemma unattended_verify [simp]:
  "unattended cfg (MVerifyDomain mg name (Inr st) # e # post @ [EStatusUpdateDomain d None]) \<longleftrightarrow>
     requeue_verify cfg = no_requeue"
  unfolding unattended_def by (metis append_Cons append_Nil)

definition left_alone :: "Data \<Rightarrow> event list \<Rightarrow> bool" where
  "left_alone cfg es \<longleftrightarrow> settled es \<or> unattended cfg es"

lemma left_alone_append [simp]:
  "left_alone cfg ys \<Longrightarrow> left_alone cfg (xs @ ys)" "left_alone cfg ys \<Longrightarrow> left_alone cfg (x # ys)"
  by (auto simp: left_alone_def)

lemma reconcileVerify_settles:
  "result (reconcileVerify env cfg mg name d) w = Done no_requeue None \<Longrightarrow>
   left_alone cfg (calls (reconcileVerify env cfg mg name d) w)"
  unfolding reconcileVerify_def
  by (auto simp: domain_exec left_alone_def split: sum.splits option.splits prod.splits)

lemma reconcileExisting_settles:
  "result (reconcileExisting env cfg mg name d) w = Done no_requeue None \<Longrightarrow>
   Activated \<le> phase_of d \<or> left_alone cfg (calls (reconcileExisting env cfg mg name d) w)"
  unfolding reconcileExisting_def
  by (auto simp: domain_exec phase_of_def domain_states reconcileVerify_settles
    split: if_splits option.splits prod.splits)

lemma reconcileNew_settles:
  "result (reconcileNew env mg name d) w = Inl (Done no_requeue None) \<Longrightarrow>
   settled (calls (reconcileNew env mg name d) w)"
  unfolding reconcileNew_def
  by (auto simp: domain_exec split: sum.splits option.splits prod.splits go.splits)

lemma reconcileState_settles:
  assumes "result (reconcileState env cfg mg name d) w = Done no_requeue None"
  shows "Activated \<le> phase_of d \<or> left_alone cfg (calls (reconcileState env cfg mg name d) w)"
proof (cases "status_State (d_Status d) = ''''")
  case True
  show ?thesis
  proof (cases "result (reconcileNew env mg name d) w")
    case (Inl out)
    with True assms reconcileNew_settles [of env mg name d w] show ?thesis
      by (simp add: reconcileState_def domain_exec left_alone_def)
  next
    case (Inr d1)
    with reconcileNew_result [OF this] have "\<not> Activated \<le> phase_of d1"
      by (auto simp: phase_of_def domain_states)
    with True Inr assms reconcileExisting_settles [of env cfg mg name d1] show ?thesis
      by (auto simp: reconcileState_def domain_exec)
  qed
next
  case False
  with assms reconcileExisting_settles show ?thesis by (simp add: reconcileState_def)
qed

definition released :: "'w env \<Rightarrow> event list \<Rightarrow> bool" where
  "released env es \<longleftrightarrow> (\<exists>d m. es \<noteq> [] \<and> last es = EUpdateDomain d None \<and>
     d_Meta d = fst (RemoveFinalizer env m domainFinalizer))"

lemma released_append [simp]:
  "released env ys \<Longrightarrow> released env (xs @ ys)" "released env ys \<Longrightarrow> released env (x # ys)"
  by (auto simp: released_def)

lemma deleteFromMailgun_releases:
  "fst (result (deleteFromMailgun env mg name d) w) = None \<Longrightarrow>
   released env (calls (deleteFromMailgun env mg name d) w)"
  unfolding deleteFromMailgun_def removeDomainFinalizer_def
  by (auto simp: domain_exec released_def split: sum.splits option.splits prod.splits)

lemma IgnoreNotFound_None: "error_laws env \<Longrightarrow> IgnoreNotFound env None = None"
  by (simp add: error_laws_def)

lemma deleteDomain_releases:
  assumes "error_laws env"
  shows "fst (result (deleteDomain env mg d) w) = None \<Longrightarrow>
    released env (calls (deleteDomain env mg d) w)"
  unfolding deleteDomain_def
  by (auto simp: domain_exec deleteFromMailgun_releases IgnoreNotFound_None [OF assms]
      split: sum.splits option.splits prod.splits)



text \<open>With the setting zero an object is left in the state created.\<close>

lemma zero_interval_abandons:
  "let m = DomainReconcile test_env (test_config\<lparr>DomainVerifyDuration := 0\<rparr>) test_key
   in result m fresh_world = Done no_requeue None \<and>
     map_option (\<lambda>d. status_State (d_Status d)) (map_of (cl_domains (after m fresh_world)) test_key) =
       Some DomainStateCreated"
  by code_simp

section \<open>Favourable answers lead to activation\<close>

text \<open>
  A call went well: writes succeed, Mailgun accepts a creation, answers \<^verbatim>\<open>active\<close> to a verification
  and a lookup finds the domain, with valid records for receiving mail when these are forced. A
  missing Secret is fine, it is created.
\<close>

fun went_well :: "'w env \<Rightarrow> bool \<Rightarrow> event \<Rightarrow> bool" where
  "went_well env mx (EUpdateDomain _ e) \<longleftrightarrow> e = None"
| "went_well env mx (EStatusUpdateDomain _ e) \<longleftrightarrow> e = None"
| "went_well env mx (EGetSecret _ e) \<longleftrightarrow> e = None \<or> IgnoreNotFound env e = None"
| "went_well env mx (ECreateOrUpdateSecret _ e) \<longleftrightarrow> e = None"
| "went_well env mx (ECreateDNSEndpoint _ e) \<longleftrightarrow> e = None"
| "went_well env mx (MGetDomain _ _ answer) \<longleftrightarrow>
     (case answer of Inl _ \<Rightarrow> False
      | Inr resp \<Rightarrow> mx \<longrightarrow> ReceivingDNSRecords resp \<noteq> [] \<and>
          all_records_valid (ReceivingDNSRecords resp))"
| "went_well env mx (MCreateDomain _ _ _ answer) \<longleftrightarrow> \<not> isl answer"
| "went_well env mx (MVerifyDomain _ _ answer) \<longleftrightarrow> answer = Inr ''active''"
| "went_well env mx (ERandRead _ e) \<longleftrightarrow> e = None"
| "went_well env mx _ \<longleftrightarrow> True"

text \<open>
  For a new domain the first lookup must also fail, so that it is created; what follows goes well.
\<close>

fun missing_once :: "(event \<Rightarrow> bool) \<Rightarrow> event list \<Rightarrow> bool" where
  "missing_once P [] = False"
| "missing_once P (e # es) =
     (case e of MGetDomain _ _ (Inl _) \<Rightarrow> list_all P es | _ \<Rightarrow> P e \<and> missing_once P es)"

definition favourable :: "'w env \<Rightarrow> Domain \<Rightarrow> event list \<Rightarrow> bool" where
  "favourable env d =
     (if status_State (d_Status d) = '''' then missing_once else list_all)
       (went_well env (ForceMXCheck (d_Spec d) = Some True))"

text \<open>The state on the API server after the calls.\<close>

definition stored :: "string \<Rightarrow> event list \<Rightarrow> string" where
  "stored = foldl (\<lambda>s e. case e of EStatusUpdateDomain d None \<Rightarrow> status_State (d_Status d) | _ \<Rightarrow> s)"

lemma stored_simps [simp]:
  "stored s [] = s"
  "stored s (xs @ ys) = stored (stored s xs) ys"
  "stored s (e # es) =
     stored (case e of EStatusUpdateDomain d None \<Rightarrow> status_State (d_Status d) | _ \<Rightarrow> s) es"
  by (simp_all add: stored_def)

lemma setActivated_well:
  "list_all (went_well env (ForceMXCheck (d_Spec d) = Some True))
     (calls (setActivated env mg ''active'' d) w) \<Longrightarrow>
   status_State (d_Status (result (setActivated env mg ''active'' d) w)) = DomainStateActivated"
  unfolding setActivated_def checkMXRecordsAndSetState_def
  by (auto simp: domain_exec split: if_splits sum.splits)

lemma reconcileVerify_well:
  assumes "list_all (went_well env (ForceMXCheck (d_Spec d) = Some True))
     (calls (reconcileVerify env cfg mg name d) w)"
  shows "stored s (calls (reconcileVerify env cfg mg name d) w) = DomainStateActivated"
  using assms setActivated_well [of env "count_validation t (set_DomainState ''active'' (record_dns r d))" for t r]
  unfolding reconcileVerify_def
  by (auto simp: domain_exec split: sum.splits option.splits prod.splits)

lemma createExternalDNS_well:
  assumes "echo_laws env" "list_all (went_well env mx) (calls (createExternalDNSEntity env d) w)"
  shows "fst (result (createExternalDNSEntity env d) w) = None"
    and "d_Spec (snd (result (createExternalDNSEntity env d) w)) = d_Spec d"
  using assms(2) echo_lawsD(2) [OF assms(1)] unfolding createExternalDNSEntity_def
  by (auto simp: domain_exec prod_eq_iff split: option.splits prod.splits)

lemma reconcileExisting_well:
  assumes "echo_laws env" "phase_of d < Activated"
    and "list_all (went_well env (ForceMXCheck (d_Spec d) = Some True))
     (calls (reconcileExisting env cfg mg name d) w)"
  shows "stored s (calls (reconcileExisting env cfg mg name d) w) = DomainStateActivated"
  using assms createExternalDNS_well [OF assms(1), of "ForceMXCheck (d_Spec d) = Some True" d w]
  unfolding reconcileExisting_def
  by (auto simp: domain_exec phase_of_def reconcileVerify_well split: if_splits option.splits prod.splits)

lemma exportCredentials_well:
  assumes "error_laws env"
    and "list_all (went_well env mx) (calls (exportCredentialsToSecret env d login password) w)"
  shows "result (exportCredentialsToSecret env d login password) w \<noteq> Ret (Some e)"
  using assms(2) unfolding exportCredentialsToSecret_def
  by (auto simp: domain_exec IgnoreNotFound_None [OF assms(1)]
      split: option.splits prod.splits)

lemma createDomain_well:
  assumes laws: "echo_laws env" "error_laws env"
    and well: "list_all (went_well env mx) (calls (createDomain env mg d) w)"
    and res: "result (createDomain env mg d) w = Ret (err, d')"
  shows "err = None \<and> d_Spec d' = d_Spec d"
  using well res echo_lawsD(2) [OF laws(1)] unfolding createDomain_def RandomHex_16
  by (auto simp: domain_exec prod_eq_iff dest: exportCredentials_well [OF laws(2), THEN notE]
      split: option.splits prod.splits sum.splits go.splits if_splits)

lemma reconcileNew_well:
  assumes laws: "echo_laws env" "error_laws env"
    and calls: "calls (reconcileNew env mg name d) w = MGetDomain mg' name' (Inl e) # rest"
    and well: "list_all (went_well env mx) rest"
  shows "(\<exists>msg. result (reconcileNew env mg name d) w = Inl (Crashed msg)) \<or>
    (\<exists>d'. result (reconcileNew env mg name d) w = Inr d' \<and> phase_of d' < Activated \<and>
       d_Spec d' = d_Spec d)"
proof -
  from calls obtain e' where get: "fst (mg_GetDomain_api env mg name w) = Inl e'"
    unfolding reconcileNew_def by (auto simp: domain_exec split: sum.splits)
  let ?w = "snd (mg_GetDomain_api env mg name w)"
  show ?thesis
  proof (cases "result (createDomain env mg d) ?w")
    case (Panic msg)
    with get show ?thesis by (simp add: reconcileNew_def domain_exec)
  next
    case (Ret r)
    moreover obtain err d1 where "r = (err, d1)" by fastforce
    moreover from calls get have "\<exists>more. rest = calls (createDomain env mg d) ?w @ more"
      unfolding reconcileNew_def by (auto simp: domain_exec)
    then have "list_all (went_well env mx) (calls (createDomain env mg d) ?w)"
      using well by auto
    ultimately have "err = None \<and> d_Spec d1 = d_Spec d"
      using createDomain_well [OF laws] by blast
    with get Ret \<open>r = _\<close> show ?thesis
      by (simp add: reconcileNew_def domain_exec phase_of_def)
  qed
qed

lemma favourable_Cons:
  assumes "favourable env d (e # es)" "\<not> is_MGetDomain e"
  shows "went_well env (ForceMXCheck (d_Spec d) = Some True) e" "favourable env d es"
  using assms unfolding favourable_def by (cases e; simp split: if_splits)+

lemma favourable_cong:
  "d_Spec d' = d_Spec d \<Longrightarrow> status_State (d_Status d') = status_State (d_Status d) \<Longrightarrow>
   favourable env d' es = favourable env d es"
  by (simp add: favourable_def)

lemma missing_once_lookup:
  "missing_once P es \<Longrightarrow> \<exists>mg name e. MGetDomain mg name (Inl e) \<in> set es"
  by (induction es) (auto split: event.splits sum.splits)

lemma favourable_lookup:
  assumes "favourable env d (MGetDomain mg name answer # es)" "status_State (d_Status d) = ''''"
  shows "(\<exists>e. answer = Inl e) \<and> list_all (went_well env (ForceMXCheck (d_Spec d) = Some True)) es \<or>
    (\<exists>resp mg' name' e'. answer = Inr resp \<and> MGetDomain mg' name' (Inl e') \<in> set es)"
  using assms missing_once_lookup unfolding favourable_def
  by (auto split: sum.splits)

lemma reconcileNew_calls:
  "\<exists>more. calls (reconcileNew env mg name d) w =
     MGetDomain mg name (fst (mg_GetDomain_api env mg name w)) # more"
  unfolding reconcileNew_def by (simp add: domain_exec split: sum.split prod.split)

lemma reconcileNew_exists:
  "fst (mg_GetDomain_api env mg name w) = Inr resp \<Longrightarrow>
   (\<exists>out. result (reconcileNew env mg name d) w = Inl out) \<and>
   MGetDomain mg' name' (Inl e) \<notin> set (calls (reconcileNew env mg name d) w)"
  unfolding reconcileNew_def by (simp add: domain_exec split: sum.split prod.split)

lemma reconcileState_well:
  assumes laws: "echo_laws env" "error_laws env" and phase: "phase_of d < Activated"
    and well: "favourable env d (calls (reconcileState env cfg mg name d) w)"
    and returns: "\<And>msg. result (reconcileState env cfg mg name d) w \<noteq> Crashed msg"
  shows "stored s (calls (reconcileState env cfg mg name d) w) = DomainStateActivated"
proof (cases "status_State (d_Status d) = ''''")
  case False
  with well reconcileExisting_well [OF laws(1) phase] show ?thesis
    by (simp add: reconcileState_def favourable_def)
next
  case True
  let ?new = "reconcileNew env mg name d"
  let ?rest = "case result ?new w of Inl out \<Rightarrow> []
    | Inr d' \<Rightarrow> calls (reconcileExisting env cfg mg name d') (after ?new w)"
  have split: "calls (reconcileState env cfg mg name d) w = calls ?new w @ ?rest"
    using True by (simp add: reconcileState_def domain_exec split: sum.split)
  obtain more where new: "calls ?new w =
      MGetDomain mg name (fst (mg_GetDomain_api env mg name w)) # more"
    using reconcileNew_calls [of env mg name d w] by blast
  have "favourable env d (MGetDomain mg name (fst (mg_GetDomain_api env mg name w)) # (more @ ?rest))"
    using well by (simp only: split new append_Cons)
  from favourable_lookup [OF this True]
  consider (absent) e where "fst (mg_GetDomain_api env mg name w) = Inl e"
      "list_all (went_well env (ForceMXCheck (d_Spec d) = Some True)) (more @ ?rest)"
    | (present) resp mg' name' e' where "fst (mg_GetDomain_api env mg name w) = Inr resp"
      "MGetDomain mg' name' (Inl e') \<in> set (more @ ?rest)"
    by blast
  then show ?thesis
  proof cases
    case absent
    from absent(2) have "list_all (went_well env (ForceMXCheck (d_Spec d) = Some True)) more"
      by simp
    from reconcileNew_well [OF laws new [unfolded absent(1)] this]
    consider (crash) msg where "result ?new w = Inl (Crashed msg)"
      | (created) d' where "result ?new w = Inr d'" "phase_of d' < Activated" "d_Spec d' = d_Spec d"
      by blast
    then show ?thesis
    proof cases
      case crash
      with returns [of msg] True show ?thesis by (simp add: reconcileState_def domain_exec)
    next
      case created
      with absent(2) reconcileExisting_well [OF laws(1) created(2)] split show ?thesis by simp
    qed
  next
    case present
    from reconcileNew_exists [OF present(1)] new obtain out where "result ?new w = Inl out"
      and "MGetDomain mg' name' (Inl e') \<notin> set more"
      by (metis list.set_intros(2))
    with present(2) show ?thesis by simp
  qed
qed

section \<open>Runs without end\<close>

text \<open>
  \<open>reconciled_forever env cfg key W obj\<close>: the object's reconciliations number \<open>0, 1, 2, \<dots>\<close> run in the
  worlds \<open>W 0, W 1, \<dots>\<close>, number \<open>n\<close> reads \<open>obj n\<close>, and the state of \<open>obj (n + 1)\<close> is the one
  stored at the end of number \<open>n\<close>: nobody else writes the state. Everything else may change between
  two reconciliations.
\<close>

definition reconciled_forever ::
  "'w env \<Rightarrow> Data \<Rightarrow> NamespacedName \<Rightarrow> (nat \<Rightarrow> 'w) \<Rightarrow> (nat \<Rightarrow> Domain) \<Rightarrow> bool" where
  "reconciled_forever env cfg key W obj \<longleftrightarrow>
     (\<forall>n. \<exists>rest. calls (DomainReconcile env cfg key) (W n) = EGetDomain key None (obj n) # rest \<and>
        status_State (d_Status (obj (Suc n))) = stored (status_State (d_Status (obj n))) rest)"

lemma reconcile_live:
  assumes laws: "echo_laws env"
    and run: "calls (DomainReconcile env cfg key) w = EGetDomain key None d # rest"
    and live: "IsZero env (DeletionTimestamp (d_Meta d))"
  obtains (refused) d1 e where "rest = [EUpdateDomain d1 (Some e)]"
    | (goes_on) pre d1 w1 where
      "rest = pre @ calls (reconcileState env cfg (MailgunClient env cfg (spec_Domain (d_Spec d)))
         (spec_Domain (d_Spec d)) d1) w1"
      "result (DomainReconcile env cfg key) w =
         result (reconcileState env cfg (MailgunClient env cfg (spec_Domain (d_Spec d)))
         (spec_Domain (d_Spec d)) d1) w1"
      "pre = [] \<or> (\<exists>d0. pre = [EUpdateDomain d0 None])"
      "d_Spec d1 = d_Spec d" "status_State (d_Status d1) = status_State (d_Status d)"
proof (cases rule: get_cases [of env key w])
  case (failed e d' w')
  with calls_failed_get run show ?thesis by fastforce
next
  case (got d' w')
  with calls_after_get [OF got, of cfg] run have [simp]: "d' = d" by auto
  show ?thesis
  proof (cases "ContainsFinalizer env (d_Meta d) domainFinalizer")
    case True
    with got live run show ?thesis
      by (intro goes_on [of "[]" d w']) (auto simp: DomainReconcile_def domain_exec)
  next
    case False
    let ?d0 = "set_Meta (fst (AddFinalizer env (d_Meta d) domainFinalizer)) d"
    obtain r d1 w1 where upd: "UpdateDomain_api env ?d0 w' = ((r, d1), w1)" by (metis prod.exhaust)
    show ?thesis
    proof (cases r)
      case None
      with upd echo_lawsD(1) [OF laws, of ?d0 w' d1]
      have "d_Spec d1 = d_Spec d" "status_State (d_Status d1) = status_State (d_Status d)"
        by simp_all
      with got live run False upd None show ?thesis
        by (intro goes_on [of "[EUpdateDomain ?d0 None]" d1 w1])
          (auto simp: DomainReconcile_def domain_exec)
    next
      case (Some e)
      with got live run False upd show ?thesis
        by (intro refused) (auto simp: DomainReconcile_def domain_exec)
    qed
  qed
qed

lemma round_activates:
  assumes laws: "echo_laws env" "error_laws env"
    and run: "calls (DomainReconcile env cfg key) w = EGetDomain key None d # rest"
    and live: "IsZero env (DeletionTimestamp (d_Meta d))" and phase: "phase_of d < Activated"
    and well: "favourable env d rest"
    and returns: "\<And>msg. result (DomainReconcile env cfg key) w \<noteq> Crashed msg"
  shows "stored s rest = DomainStateActivated"
proof (cases rule: reconcile_live [OF laws(1) run live, case_names refused goes_on])
  case (refused d1 e)
  with favourable_Cons(1) [of env d "EUpdateDomain d1 (Some e)" "[]"] well show ?thesis by simp
next
  case (goes_on pre d1 w1)
  let ?m = "reconcileState env cfg (MailgunClient env cfg (spec_Domain (d_Spec d)))
    (spec_Domain (d_Spec d)) d1"
  have "favourable env d (calls ?m w1)"
    using goes_on(3) well favourable_Cons(2) [of env d _ "calls ?m w1"] by (auto simp: goes_on(1))
  then have "favourable env d1 (calls ?m w1)"
    by (rule favourable_cong [OF goes_on(4,5), THEN iffD2])
  moreover have "phase_of d1 < Activated" using phase phase_of_state [OF goes_on(5)] by simp
  ultimately show ?thesis
    using reconcileState_well [OF laws] returns by (simp add: goes_on(1,2))
qed

lemma round_keeps_activated:
  assumes laws: "echo_laws env"
    and run: "calls (DomainReconcile env cfg key) w = EGetDomain key None d # rest"
    and live: "IsZero env (DeletionTimestamp (d_Meta d))"
    and active: "status_State (d_Status d) = DomainStateActivated"
  shows "stored s rest = s"
proof (cases rule: reconcile_live [OF laws run live, case_names refused goes_on])
  case (refused d1 e)
  then show ?thesis by simp
next
  case (goes_on pre d1 w1)
  with active show ?thesis
    by (auto simp: reconcileState_def reconcileExisting_def exec_return)
qed

text \<open>
  C21. Every domain whose calls go well once is activated for good. Take an endless run of
  reconciliations of one object that is not deleted from number \<open>N\<close> on. If the object read in number
  \<open>N\<close> has no terminal state, and in that one reconciliation the calls go well (for a new object: the
  domain is not on Mailgun yet) and nothing panics, then every object read later is activated.
\<close>

theorem domain_eventually_activated:
  assumes laws: "echo_laws env" "error_laws env"
    and run: "reconciled_forever env cfg key W obj"
    and live: "\<And>n. N \<le> n \<Longrightarrow> IsZero env (DeletionTimestamp (d_Meta (obj n)))"
    and phase: "phase_of (obj N) < Activated"
    and well: "favourable env (obj N) (tl (calls (DomainReconcile env cfg key) (W N)))"
    and returns: "\<And>msg. result (DomainReconcile env cfg key) (W N) \<noteq> Crashed msg"
  shows "\<forall>m > N. phase_of (obj m) = Activated"
proof (intro allI impI)
  fix m
  assume "N < m"
  then have "status_State (d_Status (obj m)) = DomainStateActivated"
  proof (induction m)
    case (Suc m)
    from run obtain rest
      where m: "calls (DomainReconcile env cfg key) (W m) = EGetDomain key None (obj m) # rest"
        and state: "status_State (d_Status (obj (Suc m))) = stored (status_State (d_Status (obj m))) rest"
      unfolding reconciled_forever_def by blast
    from Suc.prems live have lm: "IsZero env (DeletionTimestamp (d_Meta (obj m)))" by simp
    show ?case
    proof (cases "m = N")
      case True
      with m well round_activates [OF laws m lm _ _] phase returns show ?thesis
        unfolding state by simp
    next
      case False
      with Suc have "status_State (d_Status (obj m)) = DomainStateActivated" by simp
      then show ?thesis
        unfolding state using round_keeps_activated [OF laws(1) m lm] by simp
    qed
  qed simp
  then show "phase_of (obj m) = Activated" by (simp add: phase_of_def)
qed

theorem domain_eventually_activated_witness:
  "\<exists>W obj. reconciled_forever test_env test_config test_key W obj \<and> phase_of (obj 0) = New \<and>
     (\<forall>m > 0. phase_of (obj m) = Activated)"
proof -
  let ?run = "DomainReconcile test_env test_config test_key"
  let ?w1 = "after ?run activating_world"
  let ?W = "\<lambda>n :: nat. if n = 0 then activating_world else ?w1"
  let ?obj = "\<lambda>n :: nat. snd (hd (cl_domains (?W n)))"
  let ?rest = "tl (calls ?run (?W 0))"
  have run0: "calls ?run (?W 0) = EGetDomain test_key None (?obj 0) # ?rest"
    and run1: "calls ?run ?w1 = [EGetDomain test_key None (?obj 1)]"
    and state: "status_State (d_Status (?obj 1)) = stored (status_State (d_Status (?obj 0))) ?rest"
    and live: "IsZero test_env (DeletionTimestamp (d_Meta (?obj 0)))"
      "IsZero test_env (DeletionTimestamp (d_Meta (?obj 1)))"
    and new: "phase_of (?obj 0) = New" and well: "favourable test_env (?obj 0) ?rest"
    and res: "result ?run (?W 0) = Done (requeue_verify test_config) None"
    by code_simp+
  have forever: "reconciled_forever test_env test_config test_key ?W ?obj"
    unfolding reconciled_forever_def
  proof
    fix n
    show "\<exists>rest. calls ?run (?W n) = EGetDomain test_key None (?obj n) # rest \<and>
        status_State (d_Status (?obj (Suc n))) = stored (status_State (d_Status (?obj n))) rest"
    proof (cases n)
      case 0
      from run0 state show ?thesis unfolding 0 One_nat_def by blast
    next
      case (Suc k)
      with run1 show ?thesis by simp
    qed
  qed
  have "\<forall>m > 0. phase_of (?obj m) = Activated"
    by (rule domain_eventually_activated [OF test_env_echo_laws test_env_error_laws forever])
      (use live new well res in \<open>auto split: if_splits\<close>)
  with forever new show ?thesis by blast
qed

end
