(* ===== verification/Route_Progress.thy ===== *)
theory Route_Progress
  imports Route_Behaviour
begin

text \<open>
  How the reconciliations of a Route end. The first theorem says which objects a reconciliation
  leaves alone until the next edit; one of the cases, a recorded route that cannot be read on
  Mailgun, is not the end the operator should aim for, and the second theorem says what happens
  then: nothing, so that a route deleted on Mailgun is never created again.
\<close>

text \<open>The four ways in which a reconciliation of the object \<open>r\<close> may end in silence.\<close>

definition route_released :: "event list \<Rightarrow> bool" where
  "route_released es \<longleftrightarrow>
     (\<exists>pre r'. es = pre @ [EUpdateRoute r' None] \<and> routeFinalizer \<notin> set (Finalizers (r_Meta r')))"

definition route_recorded :: "Route \<Rightarrow> event list \<Rightarrow> bool" where
  "route_recorded r es \<longleftrightarrow>
     (\<exists>pre mg y r1 r2. es = pre @ [MCreateRoute mg (routeRequest (r_Spec r)) (Inr y),
          EStatusUpdateRoute r1 None, EUpdateRoute r2 None] \<and>
        RouteID (r_Status r1) = Some (mgr_Id y) \<and> routeFinalizer \<in> set (Finalizers (r_Meta r2)))"

definition route_in_sync :: "Route \<Rightarrow> event list \<Rightarrow> bool" where
  "route_in_sync r es \<longleftrightarrow>
     (\<exists>pre mg i. RouteID (r_Status r) = Some i \<and>
        ((\<exists>y. es = pre @ [MUpdateRoute mg i (routeRequest (r_Spec r)) (Inr y)]) \<or>
         (\<exists>exist. es = pre @ [MGetRoute mg i (Inr exist)] \<and>
            \<not> needs_update exist (routeRequest (r_Spec r)))))"

definition route_lost :: "Route \<Rightarrow> event list \<Rightarrow> bool" where
  "route_lost r es \<longleftrightarrow>
     (\<exists>pre mg i e. RouteID (r_Status r) = Some i \<and> es = pre @ [MGetRoute mg i (Inl e)])"

definition route_ends :: "Route \<Rightarrow> event list \<Rightarrow> bool" where
  "route_ends r es \<longleftrightarrow> route_recorded r es \<or> route_in_sync r es \<or> route_lost r es"

lemma route_ends_append [simp]:
  "route_ends r ys \<Longrightarrow> route_ends r (xs @ ys)"
  "route_released ys \<Longrightarrow> route_released (xs @ ys)"
  unfolding route_ends_def route_recorded_def route_in_sync_def route_lost_def route_released_def
  by (metis append_assoc)+

lemma route_ends_Cons [simp]:
  "route_ends r ys \<Longrightarrow> route_ends r (x # ys)"
  "route_released ys \<Longrightarrow> route_released (x # ys)"
  using route_ends_append [where xs = "[x]"] by simp_all

lemma route_ends_last [simp]:
  "RouteID (r_Status r) = Some i \<Longrightarrow>
     route_ends r [MUpdateRoute mg i (routeRequest (r_Spec r)) (Inr answer)]"
  "RouteID (r_Status r) = Some i \<Longrightarrow> \<not> needs_update exist (routeRequest (r_Spec r)) \<Longrightarrow>
     route_ends r [MGetRoute mg i (Inr exist)]"
  "RouteID (r_Status r) = Some i \<Longrightarrow> route_ends r [MGetRoute mg i (Inl e)]"
  "routeFinalizer \<notin> set (Finalizers (r_Meta r')) \<Longrightarrow> route_released [EUpdateRoute r' None]"
  by (auto simp: route_ends_def route_in_sync_def route_lost_def route_released_def)

lemma route_ends_created [simp]:
  "RouteID (r_Status r1) = Some (mgr_Id y) \<Longrightarrow> routeFinalizer \<in> set (Finalizers (r_Meta r2)) \<Longrightarrow>
   route_ends r [MCreateRoute mg (routeRequest (r_Spec r)) (Inr y), EStatusUpdateRoute r1 None, EUpdateRoute r2 None]"
  by (auto simp: route_ends_def route_recorded_def)

lemma route_ends_cong:
  "r_Spec r' = r_Spec r \<Longrightarrow> RouteID (r_Status r') = RouteID (r_Status r) \<Longrightarrow> route_ends r' = route_ends r"
  by (intro ext) (simp add: route_ends_def route_recorded_def route_in_sync_def route_lost_def)

lemma requeue_intervals [simp]:
  "\<lparr>RequeueAfter = 1 * Minute\<rparr> \<noteq> no_requeue" "\<lparr>RequeueAfter = 5 * Minute\<rparr> \<noteq> no_requeue"
  "\<lparr>RequeueAfter = Minute\<rparr> \<noteq> no_requeue"
  by (simp_all add: no_requeue_def Minute_def Second_def)

lemma removed_finalizer [simp]:
  "finalizer_laws env \<Longrightarrow> routeFinalizer \<notin> set (Finalizers (fst (RemoveFinalizer env m routeFinalizer)))"
  by (simp add: finalizer_laws_def)

lemma deleteRouteOnMailgun_ends:
  "finalizer_laws env \<Longrightarrow> result (deleteRouteOnMailgun env mg i r) w = Done no_requeue None \<Longrightarrow>
   route_released (calls (deleteRouteOnMailgun env mg i r) w)"
  unfolding deleteRouteOnMailgun_def removeRouteFinalizer_def
  by (auto simp: route_exec case_prod_beta split: option.splits)

lemma deleteKnownRoute_ends:
  "finalizer_laws env \<Longrightarrow> result (deleteKnownRoute env mg r) w = Done no_requeue None \<Longrightarrow>
   route_released (calls (deleteKnownRoute env mg r) w)"
  unfolding deleteKnownRoute_def
  by (auto simp: route_exec deleteRouteOnMailgun_ends case_prod_beta
      split: option.splits sum.splits if_splits)

lemma deleteRoute_ends:
  "finalizer_laws env \<Longrightarrow> result (deleteRoute env mg r) w = Done no_requeue None \<Longrightarrow>
   route_released (calls (deleteRoute env mg r) w)"
  unfolding deleteRoute_def
  by (auto simp: route_exec deleteKnownRoute_ends case_prod_beta split: if_splits)

lemma updateRoute_ends:
  "RouteID (r_Status r) = Some i \<Longrightarrow> result (updateRoute env mg i r) w = Done no_requeue None \<Longrightarrow>
   route_ends r (calls (updateRoute env mg i r) w)"
  unfolding updateRoute_def
  by (auto simp: route_exec split: option.splits sum.splits prod.splits if_splits)

lemma with_finalizer:
  assumes "finalizer_laws env"
  shows "(if ContainsFinalizer env (r_Meta r) routeFinalizer then r
     else set_r_Meta (fst (AddFinalizer env (r_Meta r) routeFinalizer)) r) =
       set_r_Meta (fst (AddFinalizer env (r_Meta r) routeFinalizer)) r"
    and "routeFinalizer \<in> set (Finalizers (fst (AddFinalizer env m routeFinalizer)))"
  using assms by (simp_all add: finalizer_laws_def set_r_Meta_def)

lemma createRoute_ends:
  assumes "finalizer_laws env" "result (createRoute env mg r) w = Done no_requeue None"
  shows "route_ends r (calls (createRoute env mg r) w)"
  using assms(2) unfolding createRoute_def Let_def with_finalizer(1) [OF assms(1)]
  by (auto simp: route_exec with_finalizer(2) [OF assms(1)] split: option.splits sum.splits prod.splits)

lemma postponeRoute_requeues [simp]: "result (postponeRoute env msg r) w \<noteq> Done no_requeue None"
  using requeue_intervals(2) unfolding postponeRoute_def
  by (simp add: route_exec split: option.split prod.split)

lemma syncRoute_ends:
  "finalizer_laws env \<Longrightarrow> result (syncRoute env mg r) w = Done no_requeue None \<Longrightarrow>
   route_ends r (calls (syncRoute env mg r) w)"
  unfolding syncRoute_def
  by (auto simp: route_exec updateRoute_ends createRoute_ends split: option.splits if_splits)

lemma reconcileRoute_ends:
  "finalizer_laws env \<Longrightarrow> result (reconcileRoute env mg name r) w = Done no_requeue None \<Longrightarrow>
   route_ends r (calls (reconcileRoute env mg name r) w)"
  unfolding reconcileRoute_def
  by (auto simp: route_exec syncRoute_ends split: option.splits sum.splits if_splits)

text \<open>
  C27. A route is left alone only when it is settled or lost. A reconciliation that ends without an
  error and without asking to be run again found no object; or the object is under deletion and the last
  call wrote it without the operator's finalizer; or it ended with a creation from the specification, the
  write of the new identifier and the write with the finalizer, all accepted; or the last call was an
  accepted update of the recorded route with the request of the specification, or a lookup of the
  recorded route that showed no difference to the specification (as the operator compares them), or a
  failed lookup of the recorded route.
\<close>

theorem route_left_alone_only_when_settled:
  assumes laws: "finalizer_laws env" "route_echo_laws env" "error_laws env"
    and res: "result (RouteReconcile env cfg key) w = Done no_requeue None"
  shows "\<exists>err r rest. calls (RouteReconcile env cfg key) w = EGetRoute key err r # rest \<and>
    (IsNotFound env err \<or> \<not> IsZero env (DeletionTimestamp (r_Meta r)) \<and> route_released rest \<or>
     route_recorded r rest \<or> route_in_sync r rest \<or> route_lost r rest)"
proof (cases rule: route_get_cases [of env key w])
  case (failed e r w')
  from route_failed_get [OF this] res laws(3) show ?thesis
    by (auto simp: error_laws_def split: if_splits)
next
  case (got r w')
  let ?mg = "MailgunClient env cfg (routeDomain (r_Spec r))" and ?name = "routeDomain (r_Spec r)"
  let ?r1 = "set_r_Meta (fst (AddFinalizer env (r_Meta r) routeFinalizer)) r"
  obtain u r2 w2 where upd: "UpdateRoute_api env ?r1 w' = ((u, r2), w2)" by (metis prod.exhaust)
  have same: "u = None \<Longrightarrow> route_ends r2 = route_ends r"
    using route_echo_lawsD(1) [OF laws(2), of ?r1 w' r2] upd
    by (intro route_ends_cong) (simp_all add: set_r_Meta_def)
  from route_after_get [OF got, of cfg] obtain rest
    where run: "calls (RouteReconcile env cfg key) w = EGetRoute key None r # rest" by blast
  moreover have "\<not> IsZero env (DeletionTimestamp (r_Meta r)) \<and> route_released rest \<or> route_ends r rest"
    using got upd res run same reconcileRoute_ends [OF laws(1), of ?mg ?name r2 w2]
      reconcileRoute_ends [OF laws(1), of ?mg ?name r w'] deleteRoute_ends [OF laws(1), of ?mg r w']
    by (auto simp: RouteReconcile_def route_exec split: if_splits option.splits)
  ultimately show ?thesis by (auto simp: route_ends_def)
qed

text \<open>The world after the creation of the route: the next reconciliation finds nothing to do.\<close>

theorem route_left_alone_only_when_settled_witness:
  "\<exists>err r rest. calls (RouteReconcile test_env test_config test_key) settled_world =
      EGetRoute test_key err r # rest \<and>
     (IsNotFound test_env err \<or> \<not> IsZero test_env (DeletionTimestamp (r_Meta r)) \<and> route_released rest \<or>
      route_recorded r rest \<or> route_in_sync r rest \<or> route_lost r rest)"
proof -
  have "result (RouteReconcile test_env test_config test_key) settled_world = Done no_requeue None"
    by code_simp
  from route_left_alone_only_when_settled [OF test_env_finalizer_laws test_env_route_echo_laws
      test_env_error_laws this]
  show ?thesis .
qed

section \<open>Lost routes\<close>

lemma updateRoute_lost:
  "calls (updateRoute env mg i r) w = pre @ MGetRoute mg' i' (Inl e) # post \<Longrightarrow>
   post = [] \<and> result (updateRoute env mg i r) w = Done no_requeue None"
  unfolding updateRoute_def
  by (auto simp: route_exec Cons_eq_append_conv split: sum.splits if_splits prod.splits option.splits)

text \<open>
  C28. A route that has disappeared from Mailgun is never created again. For a settled object (not
  being deleted, with finalizer and recorded identifier), a failed lookup of the recorded route ends
  the reconciliation: no creation, no note in the status, no error and no retry; the status keeps
  naming a route that does not exist.
\<close>

theorem lost_route_never_recreated:
  assumes "GetRoute_api env key zero_Route w = ((None, r), w')" and "settled_route env r i"
    and "calls (RouteReconcile env cfg key) w = pre @ MGetRoute mg i' (Inl e) # post"
  shows "post = [] \<and> result (RouteReconcile env cfg key) w = Done no_requeue None \<and>
    list_all (\<lambda>e. is_EGetRoute e \<or> is_MGetDomain e \<or> is_MGetRoute e)
      (calls (RouteReconcile env cfg key) w)"
proof -
  let ?mg = "MailgunClient env cfg (routeDomain (r_Spec r))"
  note exec = settled_route_exec [OF assms(1,2), of cfg]
  from assms(3) obtain pre'' where
    c: "calls (reconcileRoute env ?mg (routeDomain (r_Spec r)) r) w' = pre'' @ MGetRoute mg i' (Inl e) # post"
    by (auto simp: exec Cons_eq_append_conv)
  with assms(2) obtain w2 pre' where
    u: "calls (updateRoute env ?mg i r) w2 = pre' @ MGetRoute mg i' (Inl e) # post"
    and res: "result (RouteReconcile env cfg key) w = result (updateRoute env ?mg i r) w2"
    using reconcileRoute_lookup unfolding exec settled_route_def by metis
  from assms(2) c have "list_all (\<lambda>e. is_MGetDomain e \<or> is_MGetRoute e) pre''"
    unfolding reconcileRoute_def syncRoute_def updateRoute_def settled_route_def
    by (auto simp: route_exec has_route_id_def postponeRoute_exec Cons_eq_append_conv
        split: sum.splits if_splits prod.splits option.splits)
  with updateRoute_lost [OF u] res c show ?thesis
    by (auto simp: exec list_all_iff)
qed

definition lost_world :: cluster where
  "lost_world = with_mock (\<lambda>ms. ms\<lparr>routes := Some []\<rparr>) settled_world"

theorem lost_route_never_recreated_witness:
  "\<exists>r mg e pre. map_of (cl_routes lost_world) test_key = Some r \<and>
     RouteID (r_Status r) = Some ''route-x'' \<and>
     calls (RouteReconcile test_env test_config test_key) lost_world =
       pre @ [MGetRoute mg ''route-x'' (Inl e)] \<and>
     result (RouteReconcile test_env test_config test_key) lost_world = Done no_requeue None"
proof -
  let ?r = "the (map_of (cl_routes lost_world) test_key)"
  have known: "map_of (cl_routes lost_world) test_key = Some ?r"
    and get: "GetRoute_api test_env test_key zero_Route lost_world = ((None, ?r), lost_world)"
    and settled: "settled_route test_env ?r ''route-x''"
    and i: "RouteID (r_Status ?r) = Some ''route-x''"
    and ex: "list_ex (\<lambda>e. case e of MGetRoute mg i (Inl x) \<Rightarrow> i = ''route-x'' | _ \<Rightarrow> False)
      (calls (RouteReconcile test_env test_config test_key) lost_world)"
    by code_simp+
  from ex obtain pre mg e post where
    run: "calls (RouteReconcile test_env test_config test_key) lost_world =
      pre @ MGetRoute mg ''route-x'' (Inl e) # post"
    by (rule list_ex_split) (auto split: event.splits sum.splits)
  from lost_route_never_recreated [OF get settled run] known i run show ?thesis by blast
qed

end
