(* ===== verification/Go_Heap.thy ===== *)
theory Go_Heap
  imports Api_Types
begin

text \<open>
  A store for the code whose meaning depends on aliasing. An address holds one cell: the pointee
  of a pointer, or the backing array of a slice. \<open>limit\<close> bounds the addresses in use, so \<open>new\<close> and
  \<open>make\<close> return addresses that nothing refers to yet. Reading a cell at the wrong type, a dangling
  pointer or an index out of range is \<^const>\<open>None\<close>: the operations are partial, and what a well-typed
  heap excludes is proved, not assumed.

  \<open>'t\<close> is the type of the third-party structs (and of the cells only third-party code allocates).

  A \<^emph>\<open>reader\<close> takes a Go value in a heap to the abstract value it stands for, together with its
  footprint, the addresses it is made of. The locale \<open>deep_copy\<close> is the contract of a copying
  function: the copy reads as the original, is made of addresses that were free before, and no
  address in use is written.
\<close>

type_synonym addr = nat

datatype slice = NilSlice | Slice (slice_base: addr) (slice_off: nat) (slice_len: nat) (slice_cap: nat)

datatype 'c heap = Heap (cells: "addr \<Rightarrow> 'c option") (limit: addr)

datatype ('c, 'a) kind = Kind (mk: "'a \<Rightarrow> 'c") (sel: "'c \<Rightarrow> 'a option")

type_synonym ('c, 'x) copier = "'x \<Rightarrow> 'c heap \<Rightarrow> ('x \<times> 'c heap) option"
type_synonym ('c, 'x, 'v) reader = "'x \<Rightarrow> 'c heap \<Rightarrow> ('v \<times> addr list) option"

section \<open>Operations of the language\<close>

definition new_cell :: "'c \<Rightarrow> 'c heap \<Rightarrow> addr \<times> 'c heap" where
  "new_cell c h = (limit h, Heap ((cells h)(limit h \<mapsto> c)) (Suc (limit h)))"

definition load :: "('c, 'a) kind \<Rightarrow> addr \<Rightarrow> 'c heap \<Rightarrow> 'a option" where
  "load k a h = Option.bind (cells h a) (sel k)"

definition store :: "('c, 'a) kind \<Rightarrow> addr \<Rightarrow> 'a \<Rightarrow> 'c heap \<Rightarrow> 'c heap option" where
  "store k a x h =
     (if load k a h = None then None else Some (Heap ((cells h)(a \<mapsto> mk k x)) (limit h)))"

text \<open>The elements a slice shows of its backing array.\<close>

definition elements :: "('c, 'a list) kind \<Rightarrow> slice \<Rightarrow> 'c heap \<Rightarrow> 'a list option" where
  "elements k s h =
     (case s of
        NilSlice \<Rightarrow> Some []
      | Slice a off n cap \<Rightarrow> do {
          xs \<leftarrow> load k a h;
          if n \<le> cap \<and> off + cap \<le> length xs then Some (take n (drop off xs)) else None
        })"

text \<open>The built-in \<^verbatim>\<open>make([]T, n)\<close> followed by \<^verbatim>\<open>copy(dst, src)\<close>.\<close>

definition make_and_copy :: "('c, 'a list) kind \<Rightarrow> 'a \<Rightarrow> ('c, slice) copier" where
  "make_and_copy k zero s h =
     (case s of
        NilSlice \<Rightarrow> Some (NilSlice, h)
      | Slice _ _ n _ \<Rightarrow> (let (b, h) = new_cell (mk k (replicate n zero)) h in do {
          xs \<leftarrow> elements k s h;
          ys \<leftarrow> load k b h;
          h \<leftarrow> store k b (take (length ys) xs @ drop (length xs) ys) h;
          Some (Slice b 0 n n, h)
        }))"

text \<open>The loop \<^verbatim>\<open>for i := range *in { (*in)[i].DeepCopyInto(&(*out)[i]) }\<close> over the indices left.\<close>

fun copy_elements ::
  "('c, 'a list) kind \<Rightarrow> ('c, 'a) copier \<Rightarrow> slice \<Rightarrow> addr \<Rightarrow> nat list \<Rightarrow> 'c heap \<Rightarrow> 'c heap option"
where
  "copy_elements k f s b [] h = Some h"
| "copy_elements k f s b (i # is) h = do {
     xs \<leftarrow> elements k s h;
     (if i < length xs then do {
        (y, h) \<leftarrow> f (xs ! i) h;
        ys \<leftarrow> load k b h;
        h \<leftarrow> store k b (ys[i := y]) h;
        copy_elements k f s b is h
      } else None)
   }"

definition make_and_deep_copy ::
  "('c, 'a list) kind \<Rightarrow> 'a \<Rightarrow> ('c, 'a) copier \<Rightarrow> ('c, slice) copier" where
  "make_and_deep_copy k zero f s h =
     (case s of
        NilSlice \<Rightarrow> Some (NilSlice, h)
      | Slice _ _ n _ \<Rightarrow> (let (b, h) = new_cell (mk k (replicate n zero)) h in do {
          h \<leftarrow> copy_elements k f s b [0..<n] h;
          Some (Slice b 0 n n, h)
        }))"

text \<open>
  The shape of every generated \<^verbatim>\<open>DeepCopy\<close>: nil for nil, otherwise \<^verbatim>\<open>out := new(T)\<close> and
  \<^verbatim>\<open>in.DeepCopyInto(out)\<close>. A receiver \<open>in\<close> that is a pointer to a struct is read once, which is
  what the copy of the whole struct at the start of every \<^verbatim>\<open>DeepCopyInto\<close> does.
\<close>

definition new_copy :: "('c, 'a) kind \<Rightarrow> 'a \<Rightarrow> ('c, 'a) copier \<Rightarrow> ('c, addr option) copier" where
  "new_copy k zero f p h =
     (case p of
        None \<Rightarrow> Some (None, h)
      | Some a \<Rightarrow> (let (b, h) = new_cell (mk k zero) h in do {
          x \<leftarrow> load k a h;
          (y, h) \<leftarrow> f x h;
          h \<leftarrow> store k b y h;
          Some (Some b, h)
        }))"

text \<open>A struct without pointers is copied by the assignment \<^verbatim>\<open>*out = *in\<close> alone.\<close>

definition assign :: "('c, 'a) copier" where
  "assign x h = Some (x, h)"

section \<open>Readers\<close>

definition read_plain :: "('c, 'a, 'a) reader" where
  "read_plain x h = Some (x, [])"

definition read_pointer :: "('c, 'a) kind \<Rightarrow> ('c, 'a, 'v) reader \<Rightarrow> ('c, addr option, 'v option) reader"
where
  "read_pointer k r p h =
     (case p of
        None \<Rightarrow> Some (None, [])
      | Some a \<Rightarrow> do {
          x \<leftarrow> load k a h;
          (v, A) \<leftarrow> r x h;
          Some (Some v, a # A)
        })"

fun read_list :: "('c, 'a, 'v) reader \<Rightarrow> ('c, 'a list, 'v list) reader" where
  "read_list r [] h = Some ([], [])"
| "read_list r (x # xs) h = do {
     (v, A) \<leftarrow> r x h;
     (vs, B) \<leftarrow> read_list r xs h;
     Some (v # vs, A @ B)
   }"

text \<open>A slice stands for its elements; whether it is nil is part of what it stands for.\<close>

definition read_slice ::
  "('c, 'a list) kind \<Rightarrow> ('c, 'a, 'v) reader \<Rightarrow> ('c, slice, 'v list option) reader" where
  "read_slice k r s h =
     (case s of
        NilSlice \<Rightarrow> Some (None, [])
      | Slice a _ _ _ \<Rightarrow> do {
          xs \<leftarrow> elements k s h;
          (vs, A) \<leftarrow> read_list r xs h;
          Some (Some vs, a # A)
        })"

section \<open>The contract of a copying function\<close>

definition live :: "'c heap \<Rightarrow> addr \<Rightarrow> bool" where
  "live h a \<longleftrightarrow> cells h a \<noteq> None"

definition wf_heap :: "'c heap \<Rightarrow> bool" where
  "wf_heap h \<longleftrightarrow> (\<forall>a. limit h \<le> a \<longrightarrow> cells h a = None)"

definition extends :: "'c heap \<Rightarrow> 'c heap \<Rightarrow> bool" where
  "extends h h' \<longleftrightarrow> wf_heap h' \<and> limit h \<le> limit h' \<and> (\<forall>a < limit h. cells h' a = cells h a)"

definition lawful :: "('c, 'a) kind \<Rightarrow> bool" where
  "lawful k \<longleftrightarrow> (\<forall>x. sel k (mk k x) = Some x)"

definition footed :: "('c, 'x, 'v) reader \<Rightarrow> bool" where
  "footed r \<longleftrightarrow> (\<forall>x h v A. r x h = Some (v, A) \<longrightarrow>
     (\<forall>a \<in> set A. live h a) \<and>
     (\<forall>h'. (\<forall>a \<in> set A. cells h' a = cells h a) \<longrightarrow> r x h' = Some (v, A)))"

definition copying :: "('c, 'x) copier \<Rightarrow> ('c, 'x, 'v) reader \<Rightarrow> bool" where
  "copying f r \<longleftrightarrow> (\<forall>x h v A. wf_heap h \<longrightarrow> r x h = Some (v, A) \<longrightarrow>
     (\<exists>x' h' A'. f x h = Some (x', h') \<and> extends h h' \<and> r x' h' = Some (v, A') \<and>
        set A' \<subseteq> {limit h..<limit h'}))"

lemma footed_live: "footed r \<Longrightarrow> r x h = Some (v, A) \<Longrightarrow> a \<in> set A \<Longrightarrow> live h a"
  unfolding footed_def by blast

lemma footed_local:
  "footed r \<Longrightarrow> r x h = Some (v, A) \<Longrightarrow> (\<And>a. a \<in> set A \<Longrightarrow> cells h' a = cells h a) \<Longrightarrow>
   r x h' = Some (v, A)"
  unfolding footed_def by blast

lemma footed_below: "footed r \<Longrightarrow> wf_heap h \<Longrightarrow> r x h = Some (v, A) \<Longrightarrow> set A \<subseteq> {..<limit h}"
  unfolding wf_heap_def by (meson footed_live live_def lessThan_iff not_le subsetI)

lemma footed_extends:
  assumes "footed r" "wf_heap h" "r x h = Some (v, A)" "extends h h'"
  shows "r x h' = Some (v, A)"
  using footed_below [OF assms(1-3)] assms(4)
  by (intro footed_local [OF assms(1,3)]) (auto simp: extends_def)

lemma extends_refl: "wf_heap h \<Longrightarrow> extends h h"
  by (simp add: extends_def)

lemma extends_trans: "extends h h' \<Longrightarrow> extends h' h'' \<Longrightarrow> extends h h''"
  by (auto simp: extends_def)

lemma copyingE:
  assumes "copying f r" "wf_heap h" "r x h = Some (v, A)"
  obtains x' h' A' where "f x h = Some (x', h')" "extends h h'" "r x' h' = Some (v, A')"
    "set A' \<subseteq> {limit h..<limit h'}"
  using assms unfolding copying_def by blast

locale deep_copy =
  fixes f :: "('c, 'x) copier" and r :: "('c, 'x, 'v) reader"
  assumes footed: "footed r"
    and copying: "copying f r"
begin

text \<open>The copy and the original share no address, so writing to one does not change the other.\<close>

lemma disjoint:
  assumes "wf_heap h" "r x h = Some (v, A)" "f x h = Some (x', h')"
  obtains A' where "wf_heap h'" "r x h' = Some (v, A)" "r x' h' = Some (v, A')"
    "set A \<inter> set A' = {}"
proof -
  obtain A' where "extends h h'" "r x' h' = Some (v, A')" "set A' \<subseteq> {limit h..<limit h'}"
    by (rule copyingE [OF copying assms(1,2)]) (simp add: assms(3))
  moreover have "r x h' = Some (v, A)"
    by (rule footed_extends [OF footed assms(1,2)]) fact
  moreover have "set A \<inter> set A' = {}"
    using footed_below [OF footed assms(1,2)] \<open>set A' \<subseteq> _\<close>
    by (meson Int_emptyI atLeastLessThan_iff lessThan_iff not_le subsetD)
  ultimately show ?thesis
    by (intro that [of A']) (simp_all add: extends_def)
qed

lemma independent:
  assumes "wf_heap h" "r x h = Some (v, A)" "f x h = Some (x', h')" "r x' h' = Some (v, A')"
  shows "(\<And>a. a \<notin> set A' \<Longrightarrow> cells h'' a = cells h' a) \<Longrightarrow> r x h'' = Some (v, A)"
    and "(\<And>a. a \<notin> set A \<Longrightarrow> cells h'' a = cells h' a) \<Longrightarrow> r x' h'' = Some (v, A')"
proof -
  from disjoint [OF assms(1-3)] assms(4)
  have r: "r x h' = Some (v, A)" and dj: "set A \<inter> set A' = {}"
    by (metis option.inject prod.inject)+
  show "r x h'' = Some (v, A)" if "\<And>a. a \<notin> set A' \<Longrightarrow> cells h'' a = cells h' a"
    using dj by (intro footed_local [OF footed r] that) blast
  show "r x' h'' = Some (v, A')" if "\<And>a. a \<notin> set A \<Longrightarrow> cells h'' a = cells h' a"
    using dj by (intro footed_local [OF footed assms(4)] that) blast
qed

end

section \<open>Footprints compose\<close>

named_theorems footed_rules
named_theorems copying_rules

lemma load_local: "cells h' a = cells h a \<Longrightarrow> load k a h' = load k a h"
  by (simp add: load_def)

lemma load_live: "load k a h = Some x \<Longrightarrow> live h a"
  by (cases "cells h a") (simp_all add: load_def live_def)

lemma extends_live:
  "wf_heap h \<Longrightarrow> live h a \<Longrightarrow> extends h h' \<Longrightarrow> cells h' a = cells h a"
  unfolding wf_heap_def extends_def live_def by (meson not_le)

lemma load_extends:
  assumes "wf_heap h" "load k a h = Some x" "extends h h'"
  shows "load k a h' = Some x"
  using load_local [OF extends_live [OF assms(1) load_live [OF assms(2)] assms(3)], of k] assms(2)
  by simp

lemma elements_local: "cells h' (slice_base s) = cells h (slice_base s) \<Longrightarrow> elements k s h' = elements k s h"
  by (cases s) (simp_all add: elements_def load_def)

lemma elements_Slice:
  "elements k (Slice a off n cap) h = Some xs \<Longrightarrow> live h a \<and> length xs = n"
  by (auto simp: elements_def bind_eq_Some_conv load_live split: if_splits)

lemma elements_extends:
  assumes "wf_heap h" "elements k s h = Some xs" "extends h h'"
  shows "elements k s h' = Some xs"
proof (cases s)
  case NilSlice
  with assms(2) show ?thesis by (simp add: elements_def)
next
  case (Slice a off n cap)
  with assms(2) have "live h a" by (simp add: elements_Slice)
  with assms Slice have "cells h' (slice_base s) = cells h (slice_base s)"
    by (simp add: extends_live)
  from elements_local [OF this, of k] assms(2) show ?thesis by simp
qed

lemma footedI:
  assumes "\<And>x h v A a. r x h = Some (v, A) \<Longrightarrow> a \<in> set A \<Longrightarrow> live h a"
    and "\<And>x h h' v A. r x h = Some (v, A) \<Longrightarrow> \<forall>a \<in> set A. cells h' a = cells h a \<Longrightarrow>
      r x h' = Some (v, A)"
  shows "footed r"
  unfolding footed_def using assms by blast

lemma footed_plain [footed_rules]: "footed read_plain"
  by (rule footedI) (auto simp: read_plain_def)

lemma footed_pointer [footed_rules]:
  assumes "footed r"
  shows "footed (read_pointer k r)"
proof (rule footedI)
  fix p h v A
  assume r: "read_pointer k r p h = Some (v, A)"
  show "live h a" if "a \<in> set A" for a
    using that r by (cases p) (auto simp: read_pointer_def bind_eq_Some_conv load_live
        dest: footed_live [OF assms])
  show "read_pointer k r p h' = Some (v, A)" if eq: "\<forall>a \<in> set A. cells h' a = cells h a" for h'
  proof (cases p)
    case (Some a)
    with r obtain x w B where "load k a h = Some x" "r x h = Some (w, B)" "v = Some w" "A = a # B"
      by (auto simp: read_pointer_def bind_eq_Some_conv)
    moreover from this eq have "r x h' = Some (w, B)"
      by (intro footed_local [OF assms \<open>r x h = _\<close>]) simp
    ultimately show ?thesis using Some eq by (simp add: read_pointer_def load_local [of h' a h])
  qed (use r in \<open>simp add: read_pointer_def\<close>)
qed

lemma footed_list [footed_rules]:
  assumes "footed r"
  shows "footed (read_list r)"
proof (rule footedI)
  fix xs h vs A a
  assume "read_list r xs h = Some (vs, A)" "a \<in> set A"
  then show "live h a"
    by (induction xs arbitrary: vs A)
      (auto simp: bind_eq_Some_conv dest: footed_live [OF assms])
next
  fix xs h h' vs A
  assume "read_list r xs h = Some (vs, A)" "\<forall>a \<in> set A. cells h' a = cells h a"
  then show "read_list r xs h' = Some (vs, A)"
  proof (induction xs arbitrary: vs A)
    case (Cons x xs)
    then obtain v B vs' B' where "r x h = Some (v, B)" "read_list r xs h = Some (vs', B')"
        "vs = v # vs'" "A = B @ B'"
      by (auto simp: bind_eq_Some_conv)
    moreover from this Cons.prems have "r x h' = Some (v, B)"
      by (intro footed_local [OF assms \<open>r x h = _\<close>]) simp
    ultimately show ?case using Cons.IH [of vs' B'] Cons.prems by simp
  qed simp
qed

lemma footed_slice [footed_rules]:
  assumes "footed r"
  shows "footed (read_slice k r)"
proof (rule footedI)
  note list = footed_list [OF assms]
  fix s h vs A
  assume r: "read_slice k r s h = Some (vs, A)"
  then show "live h a" if "a \<in> set A" for a
    using that by (cases s)
      (auto simp: read_slice_def bind_eq_Some_conv dest: footed_live [OF list] elements_Slice)
  show "read_slice k r s h' = Some (vs, A)" if "\<forall>a \<in> set A. cells h' a = cells h a" for h'
  proof (cases s)
    case (Slice a off n cap)
    with r obtain xs us B where "elements k s h = Some xs" "read_list r xs h = Some (us, B)"
        "vs = Some us" "A = a # B"
      by (auto simp: read_slice_def bind_eq_Some_conv)
    moreover from this that have "read_list r xs h' = Some (us, B)"
      by (intro footed_local [OF list \<open>read_list r xs h = _\<close>]) simp
    ultimately show ?thesis
      using that Slice elements_local [of h' s h k] by (simp add: read_slice_def)
  qed (use r in \<open>simp add: read_slice_def\<close>)
qed

section \<open>Copying functions compose\<close>

lemma copyingI:
  assumes "\<And>x h v A. wf_heap h \<Longrightarrow> r x h = Some (v, A) \<Longrightarrow>
    \<exists>x' h' A'. f x h = Some (x', h') \<and> extends h h' \<and> r x' h' = Some (v, A') \<and>
      set A' \<subseteq> {limit h..<limit h'}"
  shows "copying f r"
  unfolding copying_def using assms by blast

lemma new_cell_simps [simp]:
  "fst (new_cell c h) = limit h"
  "limit (snd (new_cell c h)) = Suc (limit h)"
  "cells (snd (new_cell c h)) = (cells h)(limit h \<mapsto> c)"
  by (simp_all add: new_cell_def)

lemma extends_new: "wf_heap h \<Longrightarrow> extends h (snd (new_cell c h))"
  by (simp add: extends_def wf_heap_def)

text \<open>Filling a cell that was allocated after \<open>h\<close> leaves the addresses in use at \<open>h\<close> alone.\<close>

lemma store_fresh:
  assumes "extends h g" "limit h \<le> b" "b < limit g" "load k b g = Some z" "lawful k"
  obtains g' where "store k b y g = Some g'" "extends h g'" "limit g' = limit g"
    "load k b g' = Some y" "\<And>a. a \<noteq> b \<Longrightarrow> cells g' a = cells g a"
  using assms
  by (intro that [of "Heap ((cells g)(b \<mapsto> mk k y)) (limit g)"])
    (auto simp: store_def load_def lawful_def extends_def wf_heap_def)

lemma copying_plain [copying_rules]: "copying assign read_plain"
  by (rule copyingI) (auto simp: assign_def read_plain_def extends_refl)

lemma copying_pointer [copying_rules]:
  assumes k: "lawful k" and r: "footed r" and f: "copying f r"
  shows "copying (new_copy k zero f) (read_pointer k r)"
proof (rule copyingI)
  fix p h v A
  assume wf: "wf_heap h" and p: "read_pointer k r p h = Some (v, A)"
  show "\<exists>p' h' A'. new_copy k zero f p h = Some (p', h') \<and> extends h h' \<and>
    read_pointer k r p' h' = Some (v, A') \<and> set A' \<subseteq> {limit h..<limit h'}"
  proof (cases p)
    case None
    with p wf show ?thesis by (simp add: read_pointer_def new_copy_def extends_refl)
  next
    case (Some a)
    with p obtain x w B where x: "load k a h = Some x" "r x h = Some (w, B)" "v = Some w"
      by (auto simp: read_pointer_def bind_eq_Some_conv)
    define g where "g = snd (new_cell (mk k zero) h)"
    have hg: "extends h g" by (simp add: g_def extends_new wf)
    then have wg: "wf_heap g" by (simp add: extends_def)
    from footed_extends [OF r wf x(2) hg] obtain y g1 C
      where f: "f x g = Some (y, g1)" and g1: "extends g g1" and y: "r y g1 = Some (w, C)"
        and C: "set C \<subseteq> {limit g..<limit g1}"
      by (rule copyingE [OF f wg])
    have "load k (limit h) g = Some zero"
      using k by (simp add: g_def load_def lawful_def)
    from load_extends [OF wg this g1] have "load k (limit h) g1 = Some zero" .
    moreover have "limit h < limit g1"
      using g1 by (simp add: extends_def g_def)
    ultimately obtain g2 where g2: "store k (limit h) y g1 = Some g2" "extends h g2"
        "limit g2 = limit g1" "load k (limit h) g2 = Some y"
        "\<And>a. a \<noteq> limit h \<Longrightarrow> cells g2 a = cells g1 a"
      using store_fresh [OF extends_trans [OF hg g1] order_refl, of k zero y] k by blast
    have "r y g2 = Some (w, C)"
      using C by (intro footed_local [OF r y] g2(5)) (auto simp: g_def)
    moreover have "new_copy k zero f p h = Some (Some (limit h), g2)"
      using Some f g2(1) load_extends [OF wf x(1) hg]
      by (simp add: new_copy_def g_def case_prod_beta)
    moreover have "set (limit h # C) \<subseteq> {limit h..<limit g2}"
      using C \<open>limit h < limit g1\<close> g2(3) by (auto simp: g_def)
    ultimately show ?thesis
      using g2 x(3)
      by (intro exI [of _ "Some (limit h)"] exI [of _ g2] exI [of _ "limit h # C"])
        (simp add: read_pointer_def)
  qed
qed

lemma read_list_append:
  "read_list r (xs @ ys) h = do {
     (vs, A) \<leftarrow> read_list r xs h;
     (ws, B) \<leftarrow> read_list r ys h;
     Some (vs @ ws, A @ B)
   }"
proof (induction xs)
  case (Cons x xs)
  then show ?case
    by (cases "r x h"; cases "read_list r xs h"; cases "read_list r ys h") auto
qed (cases "read_list r ys h"; auto)

lemma read_list_length: "read_list r xs h = Some (vs, A) \<Longrightarrow> length vs = length xs"
  by (induction xs arbitrary: vs A) (auto simp: bind_eq_Some_conv)

lemma read_list_nth:
  "read_list r xs h = Some (vs, A) \<Longrightarrow> i < length xs \<Longrightarrow> \<exists>B. r (xs ! i) h = Some (vs ! i, B)"
  by (induction xs arbitrary: vs A i) (auto simp: bind_eq_Some_conv nth_Cons split: nat.split)

lemma read_list_plain: "read_list read_plain xs h = Some (xs, [])"
  by (induction xs) (simp_all add: read_plain_def)

lemma elements_whole: "load k b h = Some xs \<Longrightarrow> elements k (Slice b 0 (length xs) (length xs)) h = Some xs"
  by (simp add: elements_def)

text \<open>The loop: the elements up to the index are copied, the array \<open>b\<close> itself is written in place.\<close>

lemma copy_elements_correct:
  assumes k: "lawful k" and r: "footed r" and f: "copying f r"
    and wf: "wf_heap h" and xs: "elements k s h = Some xs" "read_list r xs h = Some (vs, A)"
  shows "i \<le> length xs \<Longrightarrow> extends h g \<Longrightarrow> limit h < limit g \<Longrightarrow>
    load k (limit h) g = Some ys \<Longrightarrow> length ys = length xs \<Longrightarrow>
    read_list r (take i ys) g = Some (take i vs, B) \<Longrightarrow> set B \<subseteq> {limit h<..<limit g} \<Longrightarrow>
    \<exists>g' zs C. copy_elements k f s (limit h) [i..<length xs] g = Some g' \<and> extends h g' \<and>
      limit h < limit g' \<and> load k (limit h) g' = Some zs \<and> length zs = length xs \<and>
      read_list r zs g' = Some (vs, C) \<and> set C \<subseteq> {limit h<..<limit g'}"
proof (induction "length xs - i" arbitrary: i g ys B)
  case 0
  then have "i = length xs" by simp
  with 0 read_list_length [OF xs(2)] show ?case by auto
next
  case (Suc n)
  then have i: "i < length xs" and wg: "wf_heap g" by (auto simp: extends_def)
  from read_list_nth [OF xs(2) i] obtain D where "r (xs ! i) h = Some (vs ! i, D)" ..
  from footed_extends [OF r wf this Suc.prems(2)] obtain y g1 E
    where fy: "f (xs ! i) g = Some (y, g1)" and g1: "extends g g1"
      and y: "r y g1 = Some (vs ! i, E)" and E: "set E \<subseteq> {limit g..<limit g1}"
    by (rule copyingE [OF f wg])
  from load_extends [OF wg Suc.prems(4) g1] have l1: "load k (limit h) g1 = Some ys" .
  have lim: "limit g \<le> limit g1" using g1 by (simp add: extends_def)
  with Suc.prems(3) have "limit h < limit g1" by simp
  then obtain g2
    where g2: "store k (limit h) (ys[i := y]) g1 = Some g2" "extends h g2" "limit g2 = limit g1"
      "load k (limit h) g2 = Some (ys[i := y])" "\<And>a. a \<noteq> limit h \<Longrightarrow> cells g2 a = cells g1 a"
    by (rule store_fresh [where y = "ys[i := y]",
        OF extends_trans [OF Suc.prems(2) g1] order_refl _ l1 k]) blast
  have done1: "read_list r (take i ys) g1 = Some (take i vs, B)"
    by (rule footed_extends [OF footed_list [OF r] wg Suc.prems(6) g1])
  have "read_list r (take i ys) g2 = Some (take i vs, B)"
    using Suc.prems(7) by (intro footed_local [OF footed_list [OF r] done1] g2(5)) auto
  moreover have "r y g2 = Some (vs ! i, E)"
    using E Suc.prems(3) by (intro footed_local [OF r y] g2(5)) auto
  moreover have "take (Suc i) (ys[i := y]) = take i ys @ [y]"
    using i Suc.prems(5) by (simp add: take_Suc_conv_app_nth)
  moreover have "take (Suc i) vs = take i vs @ [vs ! i]"
    using i read_list_length [OF xs(2)] by (simp add: take_Suc_conv_app_nth)
  ultimately have "read_list r (take (Suc i) (ys[i := y])) g2 = Some (take (Suc i) vs, B @ E)"
    by (simp add: read_list_append)
  moreover have "set (B @ E) \<subseteq> {limit h<..<limit g2}"
    using Suc.prems(3,7) E lim g2(3) by fastforce
  moreover have "copy_elements k f s (limit h) [i..<length xs] g =
      copy_elements k f s (limit h) [Suc i..<length xs] g2"
    using i elements_extends [OF wf xs(1) Suc.prems(2)] fy l1 g2(1)
    by (simp add: upt_conv_Cons)
  ultimately show ?case
    using Suc.hyps(1) [of "Suc i" g2 "ys[i := y]" "B @ E"] Suc.hyps(2) Suc.prems(5) i g2
      \<open>limit h < limit g1\<close>
    by simp
qed

lemma read_sliceE:
  assumes "read_slice k r s h = Some (v, A)" "s \<noteq> NilSlice"
  obtains xs vs B where "elements k s h = Some xs" "read_list r xs h = Some (vs, B)"
    "v = Some vs" "slice_len s = length xs"
  using assms by (cases s) (auto simp: read_slice_def bind_eq_Some_conv elements_Slice)

lemma read_fresh_slice:
  assumes "load k b h = Some xs" "read_list r xs h = Some (vs, A)" "length xs = n"
  shows "read_slice k r (Slice b 0 n n) h = Some (Some vs, b # A)"
  using assms elements_whole [OF assms(1)] by (simp add: read_slice_def)

lemma copying_make_and_copy [copying_rules]:
  assumes k: "lawful k"
  shows "copying (make_and_copy k zero) (read_slice k read_plain)"
proof (rule copyingI)
  fix s h v A
  assume wf: "wf_heap h" and s: "read_slice k read_plain s h = Some (v, A)"
  show "\<exists>s' h' A'. make_and_copy k zero s h = Some (s', h') \<and> extends h h' \<and>
    read_slice k read_plain s' h' = Some (v, A') \<and> set A' \<subseteq> {limit h..<limit h'}"
  proof (cases "s = NilSlice")
    case True
    with s wf show ?thesis by (simp add: read_slice_def make_and_copy_def extends_refl)
  next
    case False
    with s obtain xs where xs: "elements k s h = Some xs" "v = Some xs" "slice_len s = length xs"
      by (elim read_sliceE) (auto simp: read_list_plain)
    define g where "g = snd (new_cell (mk k (replicate (length xs) zero)) h)"
    have hg: "extends h g" by (simp add: g_def extends_new wf)
    have lg: "load k (limit h) g = Some (replicate (length xs) zero)"
      using k by (simp add: g_def load_def lawful_def)
    have "limit h < limit g" by (simp add: g_def)
    then obtain g2 where g2: "store k (limit h) xs g = Some g2" "extends h g2"
        "limit g2 = limit g" "load k (limit h) g2 = Some xs"
      by (rule store_fresh [OF hg order_refl _ lg k])
    have "make_and_copy k zero s h = Some (Slice (limit h) 0 (length xs) (length xs), g2)"
      using False xs(3) g2(1) lg elements_extends [OF wf xs(1) hg]
      by (cases s) (simp_all add: make_and_copy_def case_prod_beta g_def)
    with g2 xs(2) show ?thesis
      by (simp add: read_fresh_slice [OF g2(4) read_list_plain] \<open>limit h < limit g\<close>)
  qed
qed

lemma copying_make_and_deep_copy [copying_rules]:
  assumes k: "lawful k" and r: "footed r" and f: "copying f r"
  shows "copying (make_and_deep_copy k zero f) (read_slice k r)"
proof (rule copyingI)
  fix s h v A
  assume wf: "wf_heap h" and s: "read_slice k r s h = Some (v, A)"
  show "\<exists>s' h' A'. make_and_deep_copy k zero f s h = Some (s', h') \<and> extends h h' \<and>
    read_slice k r s' h' = Some (v, A') \<and> set A' \<subseteq> {limit h..<limit h'}"
  proof (cases "s = NilSlice")
    case True
    with s wf show ?thesis by (simp add: read_slice_def make_and_deep_copy_def extends_refl)
  next
    case False
    with s obtain xs vs B where xs: "elements k s h = Some xs" "read_list r xs h = Some (vs, B)"
        "v = Some vs" "slice_len s = length xs"
      by (rule read_sliceE)
    define g where "g = snd (new_cell (mk k (replicate (length xs) zero)) h)"
    have hg: "extends h g" by (simp add: g_def extends_new wf)
    have lg: "load k (limit h) g = Some (replicate (length xs) zero)"
      using k by (simp add: g_def load_def lawful_def)
    from copy_elements_correct [OF k r f wf xs(1,2) _ hg _ lg, of 0 "[]"]
    obtain g2 zs C where g2: "copy_elements k f s (limit h) [0..<length xs] g = Some g2"
        "extends h g2" "limit h < limit g2" "load k (limit h) g2 = Some zs"
        "length zs = length xs" "read_list r zs g2 = Some (vs, C)"
        "set C \<subseteq> {limit h<..<limit g2}"
      by (auto simp: g_def)
    have "make_and_deep_copy k zero f s h = Some (Slice (limit h) 0 (length xs) (length xs), g2)"
      using False xs(4) g2(1)
      by (cases s) (simp_all add: make_and_deep_copy_def case_prod_beta g_def)
    moreover have "set (limit h # C) \<subseteq> {limit h..<limit g2}"
      using g2(3,7) by auto
    ultimately show ?thesis
      using g2(2) xs(3) read_fresh_slice [OF g2(4,6,5)] by blast
  qed
qed

section \<open>Structs field by field\<close>

text \<open>
  A struct with several pointer fields is copied one field after the other. Pairs of copying
  functions satisfy the contract; a struct whose copy and reading go through such a pair of its
  fields (\<open>get\<close> them, \<open>put\<close> them back) satisfies it too.
\<close>

definition copy_pair :: "('c, 'x) copier \<Rightarrow> ('c, 'y) copier \<Rightarrow> ('c, 'x \<times> 'y) copier" where
  "copy_pair f g xy h = do {
     (x, h) \<leftarrow> f (fst xy) h;
     (y, h) \<leftarrow> g (snd xy) h;
     Some ((x, y), h)
   }"

definition read_pair :: "('c, 'x, 'v) reader \<Rightarrow> ('c, 'y, 'u) reader \<Rightarrow> ('c, 'x \<times> 'y, 'v \<times> 'u) reader"
where
  "read_pair r q xy h = do {
     (v, A) \<leftarrow> r (fst xy) h;
     (u, B) \<leftarrow> q (snd xy) h;
     Some ((v, u), A @ B)
   }"

lemma footed_pair [footed_rules]:
  assumes r: "footed r" and q: "footed q"
  shows "footed (read_pair r q)"
proof (rule footedI)
  fix xy h vu A
  assume "read_pair r q xy h = Some (vu, A)"
  then obtain v B u C where B: "r (fst xy) h = Some (v, B)" and C: "q (snd xy) h = Some (u, C)"
      and eq: "vu = (v, u)" "A = B @ C"
    by (auto simp: read_pair_def bind_eq_Some_conv)
  show "live h a" if "a \<in> set A" for a
    using that eq footed_live [OF r B] footed_live [OF q C] by auto
  show "read_pair r q xy h' = Some (vu, A)" if "\<forall>a \<in> set A. cells h' a = cells h a" for h'
  proof -
    have "r (fst xy) h' = Some (v, B)" "q (snd xy) h' = Some (u, C)"
      using that eq footed_local [OF r B] footed_local [OF q C] by simp_all
    then show ?thesis by (simp add: read_pair_def eq)
  qed
qed

lemma copying_pair [copying_rules]:
  assumes r: "footed r" and q: "footed q" and f: "copying f r" and g: "copying g q"
  shows "copying (copy_pair f g) (read_pair r q)"
proof (rule copyingI)
  fix xy h vu A
  assume wf: "wf_heap h" and "read_pair r q xy h = Some (vu, A)"
  then obtain v B u C where v: "r (fst xy) h = Some (v, B)" and u: "q (snd xy) h = Some (u, C)"
      and vu: "vu = (v, u)"
    by (auto simp: read_pair_def bind_eq_Some_conv)
  obtain x h1 B' where x: "f (fst xy) h = Some (x, h1)" "extends h h1" "r x h1 = Some (v, B')"
      "set B' \<subseteq> {limit h..<limit h1}"
    by (rule copyingE [OF f wf v])
  then have wf1: "wf_heap h1" by (simp add: extends_def)
  obtain y h2 C' where y: "g (snd xy) h1 = Some (y, h2)" "extends h1 h2" "q y h2 = Some (u, C')"
      "set C' \<subseteq> {limit h1..<limit h2}"
    by (rule copyingE [OF g wf1 footed_extends [OF q wf u x(2)]])
  have "r x h2 = Some (v, B')" by (rule footed_extends [OF r wf1 x(3) y(2)])
  moreover have "limit h \<le> limit h1" "limit h1 \<le> limit h2"
    using x(2) y(2) by (simp_all add: extends_def)
  then have "set (B' @ C') \<subseteq> {limit h..<limit h2}"
    using x(4) y(4) by fastforce
  ultimately show "\<exists>xy' h' A'. copy_pair f g xy h = Some (xy', h') \<and> extends h h' \<and>
      read_pair r q xy' h' = Some (vu, A') \<and> set A' \<subseteq> {limit h..<limit h'}"
    using x(1) y(1,3) vu extends_trans [OF x(2) y(2)]
    by (intro exI [of _ "(x, y)"] exI [of _ h2] exI [of _ "B' @ C'"])
      (simp add: copy_pair_def read_pair_def)
qed

lemma footed_via:
  assumes "footed r" and "\<And>s h. q s h = map_option (\<lambda>(v, A). (val s v, A)) (r (get s) h)"
  shows "footed q"
proof (rule footedI)
  fix s h u A
  assume "q s h = Some (u, A)"
  with assms(2) obtain v where v: "r (get s) h = Some (v, A)" "u = val s v" by auto
  show "live h a" if "a \<in> set A" for a
    by (rule footed_live [OF assms(1) v(1) that])
  show "q s h' = Some (u, A)" if "\<forall>a \<in> set A. cells h' a = cells h a" for h'
    using that footed_local [OF assms(1) v(1), of h'] v(2) assms(2) by simp
qed

lemma copying_via:
  assumes "copying f r"
    and q: "\<And>s h. q s h = map_option (\<lambda>(v, A). (val s v, A)) (r (get s) h)"
    and g: "\<And>s h. g s h = map_option (\<lambda>(t, h). (put s t, h)) (f (get s) h)"
    and put: "\<And>s t. get (put s t) = t" "\<And>s t. val (put s t) = val s"
  shows "copying g q"
proof (rule copyingI)
  fix s h u A
  assume wf: "wf_heap h" and "q s h = Some (u, A)"
  with q obtain v where v: "r (get s) h = Some (v, A)" "u = val s v" by auto
  obtain t h' A' where "f (get s) h = Some (t, h')" "extends h h'" "r t h' = Some (v, A')"
      "set A' \<subseteq> {limit h..<limit h'}"
    by (rule copyingE [OF assms(1) wf v(1)])
  with v(2) show "\<exists>s' h' A'. g s h = Some (s', h') \<and> extends h h' \<and> q s' h' = Some (u, A') \<and>
      set A' \<subseteq> {limit h..<limit h'}"
    by (intro exI [of _ "put s t"] exI [of _ h'] exI [of _ A']) (simp add: q g put)
qed

text \<open>Both sides of such an equation are chains of binds once these rules have been applied.\<close>

lemma bind_chains:
  "Option.bind (case p of (x, y) \<Rightarrow> f x y) g = (case p of (x, y) \<Rightarrow> Option.bind (f x y) g)"
  "map_option k (Option.bind m i) = Option.bind m (\<lambda>x. map_option k (i x))"
  "map_option k (case p of (x, y) \<Rightarrow> j x y) = (case p of (x, y) \<Rightarrow> map_option k (j x y))"
  by (simp_all add: map_conv_bind_option split: prod.split)

lemmas field_by_field = copy_pair_def read_pair_def Option.bind_assoc bind_chains Let_def

end
