(* ===== verification/Deep_Copy.thy ===== *)
theory Deep_Copy
  imports Go_Heap
begin

text \<open>
  Model of \<^verbatim>\<open>api/domain/v1/zz_generated.deepcopy.go\<close>: the deep copies of the custom resources,
  over the store of \<^theory_text>\<open>Go_Heap\<close>. The structs here have the pointers and slices of the Go structs;
  the readers \<open>read_\<dots>\<close> take them to the values the other theories work with (an optional field for
  a pointer, a list for a slice), so the theorems at the end are what allows the controllers to be
  modelled over values: an object handed out by a cache is copied, and nobody sees it change.

  Third-party structs (endpoints, object and list metadata) and the library's deep copies of them
  are the parameter \<open>copy_lib\<close>; what is documented of a generated or hand-written \<^verbatim>\<open>DeepCopy\<close> is
  the hypothesis \<open>copy_laws\<close>: it satisfies the same contract.
\<close>

section \<open>Structs with pointers\<close>

record TypeMeta =
  tm_Kind :: string
  tm_APIVersion :: string

record ListMeta =
  lm_ResourceVersion :: string
  lm_RemainingItemCount :: "int option"

record DomainSpec_go =
  gs_Domain :: string
  gs_ExternalDNS :: "addr option"
  gs_ExternalDNSRecords :: slice
  gs_WebScheme :: "addr option"
  gs_DKIMKeySize :: "addr option"
  gs_ForceDKIMAuthority :: "addr option"
  gs_Wildcard :: "addr option"
  gs_IPS :: slice
  gs_SpamAction :: "addr option"
  gs_ExportCredentials :: "addr option"
  gs_ExportSecretName :: "addr option"
  gs_ExportSecretLoginKey :: "addr option"
  gs_ExportSecretPasswordKey :: "addr option"
  gs_ForceMXCheck :: "addr option"

record DomainStatus_go =
  gt_State :: string
  gt_NotManaged :: bool
  gt_SendingDnsRecords :: slice
  gt_ReceivingDnsRecords :: slice
  gt_DomainState :: string
  gt_MailgunError :: "addr option"
  gt_LastDomainValidationTime :: "addr option"
  gt_DomainValidationCount :: "addr option"
  gt_DnsEntrypointCreated :: bool

record 't Domain_go =
  gd_TypeMeta :: TypeMeta
  gd_ObjectMeta :: 't
  gd_Spec :: DomainSpec_go
  gd_Status :: DomainStatus_go

record 't DomainList_go =
  gdl_TypeMeta :: TypeMeta
  gdl_ListMeta :: 't
  gdl_Items :: slice

record RouteSpec_go =
  gu_Description :: string
  gu_Expression :: string
  gu_Actions :: slice
  gu_Priority :: "addr option"
  gu_Domain :: "addr option"

record RouteStatus_go =
  gv_RouteID :: "addr option"
  gv_MailgunError :: "addr option"

record 't Route_go =
  gr_TypeMeta :: TypeMeta
  gr_ObjectMeta :: 't
  gr_Spec :: RouteSpec_go
  gr_Status :: RouteStatus_go

record 't RouteList_go =
  grl_TypeMeta :: TypeMeta
  grl_ListMeta :: 't
  grl_Items :: slice

text \<open>What one address holds: the pointee of a pointer or the backing array of a slice.\<close>

datatype 't cell =
    BoolCell bool | IntCell go_int | StringCell string | TimeCell time
  | StringArray "string list" | DnsRecordArray "DnsRecord list" | EndpointArray "'t list"
  | DomainArray "'t Domain_go list" | RouteArray "'t Route_go list"
  | DnsRecordCell DnsRecord
  | DomainCell "'t Domain_go" | DomainListCell "'t DomainList_go"
  | DomainSpecCell DomainSpec_go | DomainStatusCell DomainStatus_go
  | RouteCell "'t Route_go" | RouteListCell "'t RouteList_go"
  | RouteSpecCell RouteSpec_go | RouteStatusCell RouteStatus_go
  | LibraryCell 't

type_synonym 't store = "'t cell heap"

abbreviation bool_kind :: "('t cell, bool) kind" where
  "bool_kind \<equiv> Kind BoolCell (\<lambda>c. case c of BoolCell x \<Rightarrow> Some x | _ \<Rightarrow> None)"
abbreviation int_kind :: "('t cell, go_int) kind" where
  "int_kind \<equiv> Kind IntCell (\<lambda>c. case c of IntCell x \<Rightarrow> Some x | _ \<Rightarrow> None)"
abbreviation string_kind :: "('t cell, string) kind" where
  "string_kind \<equiv> Kind StringCell (\<lambda>c. case c of StringCell x \<Rightarrow> Some x | _ \<Rightarrow> None)"
abbreviation time_kind :: "('t cell, time) kind" where
  "time_kind \<equiv> Kind TimeCell (\<lambda>c. case c of TimeCell x \<Rightarrow> Some x | _ \<Rightarrow> None)"
abbreviation string_array :: "('t cell, string list) kind" where
  "string_array \<equiv> Kind StringArray (\<lambda>c. case c of StringArray x \<Rightarrow> Some x | _ \<Rightarrow> None)"
abbreviation dns_record_array :: "('t cell, DnsRecord list) kind" where
  "dns_record_array \<equiv> Kind DnsRecordArray (\<lambda>c. case c of DnsRecordArray x \<Rightarrow> Some x | _ \<Rightarrow> None)"
abbreviation endpoint_array :: "('t cell, 't list) kind" where
  "endpoint_array \<equiv> Kind EndpointArray (\<lambda>c. case c of EndpointArray x \<Rightarrow> Some x | _ \<Rightarrow> None)"
abbreviation domain_array :: "('t cell, 't Domain_go list) kind" where
  "domain_array \<equiv> Kind DomainArray (\<lambda>c. case c of DomainArray x \<Rightarrow> Some x | _ \<Rightarrow> None)"
abbreviation route_array :: "('t cell, 't Route_go list) kind" where
  "route_array \<equiv> Kind RouteArray (\<lambda>c. case c of RouteArray x \<Rightarrow> Some x | _ \<Rightarrow> None)"
abbreviation dns_record_kind :: "('t cell, DnsRecord) kind" where
  "dns_record_kind \<equiv> Kind DnsRecordCell (\<lambda>c. case c of DnsRecordCell x \<Rightarrow> Some x | _ \<Rightarrow> None)"
abbreviation domain_kind :: "('t cell, 't Domain_go) kind" where
  "domain_kind \<equiv> Kind DomainCell (\<lambda>c. case c of DomainCell x \<Rightarrow> Some x | _ \<Rightarrow> None)"
abbreviation domain_list_kind :: "('t cell, 't DomainList_go) kind" where
  "domain_list_kind \<equiv> Kind DomainListCell (\<lambda>c. case c of DomainListCell x \<Rightarrow> Some x | _ \<Rightarrow> None)"
abbreviation domain_spec_kind :: "('t cell, DomainSpec_go) kind" where
  "domain_spec_kind \<equiv> Kind DomainSpecCell (\<lambda>c. case c of DomainSpecCell x \<Rightarrow> Some x | _ \<Rightarrow> None)"
abbreviation domain_status_kind :: "('t cell, DomainStatus_go) kind" where
  "domain_status_kind \<equiv>
     Kind DomainStatusCell (\<lambda>c. case c of DomainStatusCell x \<Rightarrow> Some x | _ \<Rightarrow> None)"
abbreviation route_kind :: "('t cell, 't Route_go) kind" where
  "route_kind \<equiv> Kind RouteCell (\<lambda>c. case c of RouteCell x \<Rightarrow> Some x | _ \<Rightarrow> None)"
abbreviation route_list_kind :: "('t cell, 't RouteList_go) kind" where
  "route_list_kind \<equiv> Kind RouteListCell (\<lambda>c. case c of RouteListCell x \<Rightarrow> Some x | _ \<Rightarrow> None)"
abbreviation route_spec_kind :: "('t cell, RouteSpec_go) kind" where
  "route_spec_kind \<equiv> Kind RouteSpecCell (\<lambda>c. case c of RouteSpecCell x \<Rightarrow> Some x | _ \<Rightarrow> None)"
abbreviation route_status_kind :: "('t cell, RouteStatus_go) kind" where
  "route_status_kind \<equiv>
     Kind RouteStatusCell (\<lambda>c. case c of RouteStatusCell x \<Rightarrow> Some x | _ \<Rightarrow> None)"

section \<open>Third-party code\<close>

record 't copy_lib =
  zero_endpoint :: 't
  zero_object_meta :: 't
  zero_list_meta :: 't
  endpoint_DeepCopyInto :: "('t cell, 't) copier"
  object_meta_DeepCopyInto :: "('t cell, 't) copier"
  list_meta_DeepCopyInto :: "('t cell, 't) copier"
  time_DeepCopy :: "('t cell, addr option) copier"
  read_endpoint :: "('t cell, 't, Endpoint) reader"
  read_object_meta :: "('t cell, 't, ObjectMeta) reader"
  read_list_meta :: "('t cell, 't, ListMeta) reader"

definition copy_laws :: "'t copy_lib \<Rightarrow> bool" where
  "copy_laws L \<longleftrightarrow>
     deep_copy (endpoint_DeepCopyInto L) (read_endpoint L) \<and>
     deep_copy (object_meta_DeepCopyInto L) (read_object_meta L) \<and>
     deep_copy (list_meta_DeepCopyInto L) (read_list_meta L) \<and>
     copying (time_DeepCopy L) (read_pointer time_kind read_plain)"

section \<open>The values structs stand for\<close>

text \<open>
  With each value that has slices comes, for each slice, whether it is nil: the copies preserve the
  difference between a nil and an empty slice.
\<close>

abbreviation slice_value :: "'a list option \<Rightarrow> 'a list" where
  "slice_value xs \<equiv> (case xs of None \<Rightarrow> [] | Some ys \<Rightarrow> ys)"

definition read_DomainSpec ::
  "'t copy_lib \<Rightarrow> ('t cell, DomainSpec_go, DomainSpec \<times> bool \<times> bool) reader" where
  "read_DomainSpec L s h = do {
     (external, A1) \<leftarrow> read_pointer bool_kind read_plain (gs_ExternalDNS s) h;
     (records, A2) \<leftarrow> read_slice endpoint_array (read_endpoint L) (gs_ExternalDNSRecords s) h;
     (scheme, A3) \<leftarrow> read_pointer string_kind read_plain (gs_WebScheme s) h;
     (size, A4) \<leftarrow> read_pointer int_kind read_plain (gs_DKIMKeySize s) h;
     (dkim, A5) \<leftarrow> read_pointer bool_kind read_plain (gs_ForceDKIMAuthority s) h;
     (wildcard, A6) \<leftarrow> read_pointer bool_kind read_plain (gs_Wildcard s) h;
     (ips, A7) \<leftarrow> read_slice string_array read_plain (gs_IPS s) h;
     (spam, A8) \<leftarrow> read_pointer string_kind read_plain (gs_SpamAction s) h;
     (export, A9) \<leftarrow> read_pointer bool_kind read_plain (gs_ExportCredentials s) h;
     (secret, A10) \<leftarrow> read_pointer string_kind read_plain (gs_ExportSecretName s) h;
     (login, A11) \<leftarrow> read_pointer string_kind read_plain (gs_ExportSecretLoginKey s) h;
     (password, A12) \<leftarrow> read_pointer string_kind read_plain (gs_ExportSecretPasswordKey s) h;
     (mx, A13) \<leftarrow> read_pointer bool_kind read_plain (gs_ForceMXCheck s) h;
     Some ((\<lparr>spec_Domain = gs_Domain s, ExternalDNS = external,
         ExternalDNSRecords = slice_value records, WebScheme = scheme, DKIMKeySize = size,
         ForceDKIMAuthority = dkim, Wildcard = wildcard, IPS = slice_value ips, SpamAction = spam,
         ExportCredentials = export, ExportSecretName = secret, ExportSecretLoginKey = login,
         ExportSecretPasswordKey = password, ForceMXCheck = mx\<rparr>, records = None, ips = None),
       A1 @ A2 @ A3 @ A4 @ A5 @ A6 @ A7 @ A8 @ A9 @ A10 @ A11 @ A12 @ A13)
   }"

definition read_DomainStatus :: "('t cell, DomainStatus_go, DomainStatus \<times> bool \<times> bool) reader" where
  "read_DomainStatus s h = do {
     (sending, A1) \<leftarrow> read_slice dns_record_array read_plain (gt_SendingDnsRecords s) h;
     (receiving, A2) \<leftarrow> read_slice dns_record_array read_plain (gt_ReceivingDnsRecords s) h;
     (err, A3) \<leftarrow> read_pointer string_kind read_plain (gt_MailgunError s) h;
     (last_time, A4) \<leftarrow> read_pointer time_kind read_plain (gt_LastDomainValidationTime s) h;
     (count, A5) \<leftarrow> read_pointer int_kind read_plain (gt_DomainValidationCount s) h;
     Some ((\<lparr>status_State = gt_State s, NotManaged = gt_NotManaged s,
         SendingDnsRecords = slice_value sending, ReceivingDnsRecords = slice_value receiving,
         status_DomainState = gt_DomainState s, MailgunError = err,
         LastDomainValidationTime = last_time, DomainValidationCount = count,
         DnsEntrypointCreated = gt_DnsEntrypointCreated s\<rparr>, sending = None, receiving = None),
       A1 @ A2 @ A3 @ A4 @ A5)
   }"

definition read_Domain ::
  "'t copy_lib \<Rightarrow> ('t cell, 't Domain_go, (TypeMeta \<times> Domain) \<times> (bool \<times> bool) \<times> (bool \<times> bool)) reader"
where
  "read_Domain L d h = do {
     (meta, A1) \<leftarrow> read_object_meta L (gd_ObjectMeta d) h;
     ((spec, nils), A2) \<leftarrow> read_DomainSpec L (gd_Spec d) h;
     ((status, nils'), A3) \<leftarrow> read_DomainStatus (gd_Status d) h;
     Some (((gd_TypeMeta d, \<lparr>d_Meta = meta, d_Spec = spec, d_Status = status\<rparr>), nils, nils'),
       A1 @ A2 @ A3)
   }"

definition read_DomainList where
  "read_DomainList L l h = do {
     (meta, A1) \<leftarrow> read_list_meta L (gdl_ListMeta l) h;
     (items, A2) \<leftarrow> read_slice domain_array (read_Domain L) (gdl_Items l) h;
     Some ((gdl_TypeMeta l, meta, items), A1 @ A2)
   }"

definition read_RouteSpec :: "('t cell, RouteSpec_go, RouteSpec \<times> bool) reader" where
  "read_RouteSpec s h = do {
     (actions, A1) \<leftarrow> read_slice string_array read_plain (gu_Actions s) h;
     (priority, A2) \<leftarrow> read_pointer int_kind read_plain (gu_Priority s) h;
     (dom, A3) \<leftarrow> read_pointer string_kind read_plain (gu_Domain s) h;
     Some ((\<lparr>Description = gu_Description s, Expression = gu_Expression s,
         Actions = slice_value actions, Priority = priority, route_Domain = dom\<rparr>, actions = None),
       A1 @ A2 @ A3)
   }"

definition read_RouteStatus :: "('t cell, RouteStatus_go, RouteStatus) reader" where
  "read_RouteStatus s h = do {
     (i, A1) \<leftarrow> read_pointer string_kind read_plain (gv_RouteID s) h;
     (err, A2) \<leftarrow> read_pointer string_kind read_plain (gv_MailgunError s) h;
     Some (\<lparr>RouteID = i, route_MailgunError = err\<rparr>, A1 @ A2)
   }"

definition read_Route :: "'t copy_lib \<Rightarrow> ('t cell, 't Route_go, (TypeMeta \<times> Route) \<times> bool) reader" where
  "read_Route L r h = do {
     (meta, A1) \<leftarrow> read_object_meta L (gr_ObjectMeta r) h;
     ((spec, nils), A2) \<leftarrow> read_RouteSpec (gr_Spec r) h;
     (status, A3) \<leftarrow> read_RouteStatus (gr_Status r) h;
     Some (((gr_TypeMeta r, \<lparr>r_Meta = meta, r_Spec = spec, r_Status = status\<rparr>), nils),
       A1 @ A2 @ A3)
   }"

definition read_RouteList where
  "read_RouteList L l h = do {
     (meta, A1) \<leftarrow> read_list_meta L (grl_ListMeta l) h;
     (items, A2) \<leftarrow> read_slice route_array (read_Route L) (grl_Items l) h;
     Some ((grl_TypeMeta l, meta, items), A1 @ A2)
   }"

section \<open>Zero values\<close>

definition zero_DomainSpec_go :: DomainSpec_go where
  "zero_DomainSpec_go = \<lparr>gs_Domain = '''', gs_ExternalDNS = None, gs_ExternalDNSRecords = NilSlice,
     gs_WebScheme = None, gs_DKIMKeySize = None, gs_ForceDKIMAuthority = None, gs_Wildcard = None,
     gs_IPS = NilSlice, gs_SpamAction = None, gs_ExportCredentials = None,
     gs_ExportSecretName = None, gs_ExportSecretLoginKey = None, gs_ExportSecretPasswordKey = None,
     gs_ForceMXCheck = None\<rparr>"

definition zero_DomainStatus_go :: DomainStatus_go where
  "zero_DomainStatus_go = \<lparr>gt_State = '''', gt_NotManaged = False, gt_SendingDnsRecords = NilSlice,
     gt_ReceivingDnsRecords = NilSlice, gt_DomainState = '''', gt_MailgunError = None,
     gt_LastDomainValidationTime = None, gt_DomainValidationCount = None,
     gt_DnsEntrypointCreated = False\<rparr>"

definition zero_TypeMeta :: TypeMeta where
  "zero_TypeMeta = \<lparr>tm_Kind = '''', tm_APIVersion = ''''\<rparr>"

definition zero_Domain_go :: "'t copy_lib \<Rightarrow> 't Domain_go" where
  "zero_Domain_go L = \<lparr>gd_TypeMeta = zero_TypeMeta, gd_ObjectMeta = zero_object_meta L,
     gd_Spec = zero_DomainSpec_go, gd_Status = zero_DomainStatus_go\<rparr>"

definition zero_DomainList_go :: "'t copy_lib \<Rightarrow> 't DomainList_go" where
  "zero_DomainList_go L = \<lparr>gdl_TypeMeta = zero_TypeMeta, gdl_ListMeta = zero_list_meta L,
     gdl_Items = NilSlice\<rparr>"

definition zero_RouteSpec_go :: RouteSpec_go where
  "zero_RouteSpec_go = \<lparr>gu_Description = '''', gu_Expression = '''', gu_Actions = NilSlice,
     gu_Priority = None, gu_Domain = None\<rparr>"

definition zero_RouteStatus_go :: RouteStatus_go where
  "zero_RouteStatus_go = \<lparr>gv_RouteID = None, gv_MailgunError = None\<rparr>"

definition zero_Route_go :: "'t copy_lib \<Rightarrow> 't Route_go" where
  "zero_Route_go L = \<lparr>gr_TypeMeta = zero_TypeMeta, gr_ObjectMeta = zero_object_meta L,
     gr_Spec = zero_RouteSpec_go, gr_Status = zero_RouteStatus_go\<rparr>"

definition zero_RouteList_go :: "'t copy_lib \<Rightarrow> 't RouteList_go" where
  "zero_RouteList_go L = \<lparr>grl_TypeMeta = zero_TypeMeta, grl_ListMeta = zero_list_meta L,
     grl_Items = NilSlice\<rparr>"

section \<open>\<^verbatim>\<open>DeepCopyInto\<close>, \<^verbatim>\<open>DeepCopy\<close> and \<^verbatim>\<open>DeepCopyObject\<close>\<close>

text \<open>
  The struct \<open>inp\<close> points to is the argument, the struct written to \<open>out\<close> is the result; the
  assignments to the fields of \<open>out\<close> are made one by one, in the order of the code.
\<close>

datatype runtime_Object =
    DomainObject addr | DomainListObject addr | RouteObject addr | RouteListObject addr

definition DnsRecord_DeepCopyInto :: "('t cell, DnsRecord) copier" where
  "DnsRecord_DeepCopyInto inp h = Some (inp, h)"

definition DnsRecord_DeepCopy :: "('t cell, addr option) copier" where
  "DnsRecord_DeepCopy = new_copy dns_record_kind zero_DnsRecord DnsRecord_DeepCopyInto"

definition DomainSpec_DeepCopyInto :: "'t copy_lib \<Rightarrow> ('t cell, DomainSpec_go) copier" where
  "DomainSpec_DeepCopyInto L inp h = do {
     let out = inp;
     (p, h) \<leftarrow> new_copy bool_kind False assign (gs_ExternalDNS inp) h;
     let out = out\<lparr>gs_ExternalDNS := p\<rparr>;
     (p, h) \<leftarrow> make_and_deep_copy endpoint_array (zero_endpoint L)
       (endpoint_DeepCopyInto L) (gs_ExternalDNSRecords inp) h;
     let out = out\<lparr>gs_ExternalDNSRecords := p\<rparr>;
     (p, h) \<leftarrow> new_copy string_kind '''' assign (gs_WebScheme inp) h;
     let out = out\<lparr>gs_WebScheme := p\<rparr>;
     (p, h) \<leftarrow> new_copy int_kind 0 assign (gs_DKIMKeySize inp) h;
     let out = out\<lparr>gs_DKIMKeySize := p\<rparr>;
     (p, h) \<leftarrow> new_copy bool_kind False assign (gs_ForceDKIMAuthority inp) h;
     let out = out\<lparr>gs_ForceDKIMAuthority := p\<rparr>;
     (p, h) \<leftarrow> new_copy bool_kind False assign (gs_Wildcard inp) h;
     let out = out\<lparr>gs_Wildcard := p\<rparr>;
     (p, h) \<leftarrow> make_and_copy string_array '''' (gs_IPS inp) h;
     let out = out\<lparr>gs_IPS := p\<rparr>;
     (p, h) \<leftarrow> new_copy string_kind '''' assign (gs_SpamAction inp) h;
     let out = out\<lparr>gs_SpamAction := p\<rparr>;
     (p, h) \<leftarrow> new_copy bool_kind False assign (gs_ExportCredentials inp) h;
     let out = out\<lparr>gs_ExportCredentials := p\<rparr>;
     (p, h) \<leftarrow> new_copy string_kind '''' assign (gs_ExportSecretName inp) h;
     let out = out\<lparr>gs_ExportSecretName := p\<rparr>;
     (p, h) \<leftarrow> new_copy string_kind '''' assign (gs_ExportSecretLoginKey inp) h;
     let out = out\<lparr>gs_ExportSecretLoginKey := p\<rparr>;
     (p, h) \<leftarrow> new_copy string_kind '''' assign (gs_ExportSecretPasswordKey inp) h;
     let out = out\<lparr>gs_ExportSecretPasswordKey := p\<rparr>;
     (p, h) \<leftarrow> new_copy bool_kind False assign (gs_ForceMXCheck inp) h;
     let out = out\<lparr>gs_ForceMXCheck := p\<rparr>;
     Some (out, h)
   }"

definition DomainSpec_DeepCopy :: "'t copy_lib \<Rightarrow> ('t cell, addr option) copier" where
  "DomainSpec_DeepCopy L = new_copy domain_spec_kind zero_DomainSpec_go (DomainSpec_DeepCopyInto L)"

text \<open>\<^verbatim>\<open>if in.LastDomainValidationTime != nil { *out = (*in).DeepCopy() }\<close>\<close>

definition copy_time :: "'t copy_lib \<Rightarrow> ('t cell, addr option) copier" where
  "copy_time L p h = (if p = None then Some (None, h) else time_DeepCopy L p h)"

definition DomainStatus_DeepCopyInto :: "'t copy_lib \<Rightarrow> ('t cell, DomainStatus_go) copier" where
  "DomainStatus_DeepCopyInto L inp h = do {
     let out = inp;
     (p, h) \<leftarrow> make_and_copy dns_record_array zero_DnsRecord (gt_SendingDnsRecords inp) h;
     let out = out\<lparr>gt_SendingDnsRecords := p\<rparr>;
     (p, h) \<leftarrow> make_and_copy dns_record_array zero_DnsRecord (gt_ReceivingDnsRecords inp) h;
     let out = out\<lparr>gt_ReceivingDnsRecords := p\<rparr>;
     (p, h) \<leftarrow> new_copy string_kind '''' assign (gt_MailgunError inp) h;
     let out = out\<lparr>gt_MailgunError := p\<rparr>;
     (p, h) \<leftarrow> copy_time L (gt_LastDomainValidationTime inp) h;
     let out = out\<lparr>gt_LastDomainValidationTime := p\<rparr>;
     (p, h) \<leftarrow> new_copy int_kind 0 assign (gt_DomainValidationCount inp) h;
     let out = out\<lparr>gt_DomainValidationCount := p\<rparr>;
     Some (out, h)
   }"

definition DomainStatus_DeepCopy :: "'t copy_lib \<Rightarrow> ('t cell, addr option) copier" where
  "DomainStatus_DeepCopy L = new_copy domain_status_kind zero_DomainStatus_go (DomainStatus_DeepCopyInto L)"

definition Domain_DeepCopyInto :: "'t copy_lib \<Rightarrow> ('t cell, 't Domain_go) copier" where
  "Domain_DeepCopyInto L inp h = do {
     let out = inp;
     let out = out\<lparr>gd_TypeMeta := gd_TypeMeta inp\<rparr>;
     (x, h) \<leftarrow> object_meta_DeepCopyInto L (gd_ObjectMeta inp) h;
     let out = out\<lparr>gd_ObjectMeta := x\<rparr>;
     (x, h) \<leftarrow> DomainSpec_DeepCopyInto L (gd_Spec inp) h;
     let out = out\<lparr>gd_Spec := x\<rparr>;
     (x, h) \<leftarrow> DomainStatus_DeepCopyInto L (gd_Status inp) h;
     let out = out\<lparr>gd_Status := x\<rparr>;
     Some (out, h)
   }"

definition Domain_DeepCopy :: "'t copy_lib \<Rightarrow> ('t cell, addr option) copier" where
  "Domain_DeepCopy L = new_copy domain_kind (zero_Domain_go L) (Domain_DeepCopyInto L)"

definition Domain_DeepCopyObject ::
  "'t copy_lib \<Rightarrow> addr option \<Rightarrow> 't store \<Rightarrow> (runtime_Object option \<times> 't store) option" where
  "Domain_DeepCopyObject L inp h = do {
     (c, h) \<leftarrow> Domain_DeepCopy L inp h;
     (case c of
        Some a \<Rightarrow> Some (Some (DomainObject a), h)
      | None \<Rightarrow> Some (None, h))
   }"

definition DomainList_DeepCopyInto :: "'t copy_lib \<Rightarrow> ('t cell, 't DomainList_go) copier" where
  "DomainList_DeepCopyInto L inp h = do {
     let out = inp;
     let out = out\<lparr>gdl_TypeMeta := gdl_TypeMeta inp\<rparr>;
     (x, h) \<leftarrow> list_meta_DeepCopyInto L (gdl_ListMeta inp) h;
     let out = out\<lparr>gdl_ListMeta := x\<rparr>;
     (x, h) \<leftarrow> make_and_deep_copy domain_array (zero_Domain_go L) (Domain_DeepCopyInto L) (gdl_Items inp) h;
     let out = out\<lparr>gdl_Items := x\<rparr>;
     Some (out, h)
   }"

definition DomainList_DeepCopy :: "'t copy_lib \<Rightarrow> ('t cell, addr option) copier" where
  "DomainList_DeepCopy L = new_copy domain_list_kind (zero_DomainList_go L) (DomainList_DeepCopyInto L)"

definition DomainList_DeepCopyObject ::
  "'t copy_lib \<Rightarrow> addr option \<Rightarrow> 't store \<Rightarrow> (runtime_Object option \<times> 't store) option" where
  "DomainList_DeepCopyObject L inp h = do {
     (c, h) \<leftarrow> DomainList_DeepCopy L inp h;
     (case c of
        Some a \<Rightarrow> Some (Some (DomainListObject a), h)
      | None \<Rightarrow> Some (None, h))
   }"

definition RouteSpec_DeepCopyInto :: "('t cell, RouteSpec_go) copier" where
  "RouteSpec_DeepCopyInto inp h = do {
     let out = inp;
     (p, h) \<leftarrow> make_and_copy string_array '''' (gu_Actions inp) h;
     let out = out\<lparr>gu_Actions := p\<rparr>;
     (p, h) \<leftarrow> new_copy int_kind 0 assign (gu_Priority inp) h;
     let out = out\<lparr>gu_Priority := p\<rparr>;
     (p, h) \<leftarrow> new_copy string_kind '''' assign (gu_Domain inp) h;
     let out = out\<lparr>gu_Domain := p\<rparr>;
     Some (out, h)
   }"

definition RouteSpec_DeepCopy :: "('t cell, addr option) copier" where
  "RouteSpec_DeepCopy = new_copy route_spec_kind zero_RouteSpec_go RouteSpec_DeepCopyInto"

definition RouteStatus_DeepCopyInto :: "('t cell, RouteStatus_go) copier" where
  "RouteStatus_DeepCopyInto inp h = do {
     let out = inp;
     (p, h) \<leftarrow> new_copy string_kind '''' assign (gv_RouteID inp) h;
     let out = out\<lparr>gv_RouteID := p\<rparr>;
     (p, h) \<leftarrow> new_copy string_kind '''' assign (gv_MailgunError inp) h;
     let out = out\<lparr>gv_MailgunError := p\<rparr>;
     Some (out, h)
   }"

definition RouteStatus_DeepCopy :: "('t cell, addr option) copier" where
  "RouteStatus_DeepCopy = new_copy route_status_kind zero_RouteStatus_go RouteStatus_DeepCopyInto"

definition Route_DeepCopyInto :: "'t copy_lib \<Rightarrow> ('t cell, 't Route_go) copier" where
  "Route_DeepCopyInto L inp h = do {
     let out = inp;
     let out = out\<lparr>gr_TypeMeta := gr_TypeMeta inp\<rparr>;
     (x, h) \<leftarrow> object_meta_DeepCopyInto L (gr_ObjectMeta inp) h;
     let out = out\<lparr>gr_ObjectMeta := x\<rparr>;
     (x, h) \<leftarrow> RouteSpec_DeepCopyInto (gr_Spec inp) h;
     let out = out\<lparr>gr_Spec := x\<rparr>;
     (x, h) \<leftarrow> RouteStatus_DeepCopyInto (gr_Status inp) h;
     let out = out\<lparr>gr_Status := x\<rparr>;
     Some (out, h)
   }"

definition Route_DeepCopy :: "'t copy_lib \<Rightarrow> ('t cell, addr option) copier" where
  "Route_DeepCopy L = new_copy route_kind (zero_Route_go L) (Route_DeepCopyInto L)"

definition Route_DeepCopyObject ::
  "'t copy_lib \<Rightarrow> addr option \<Rightarrow> 't store \<Rightarrow> (runtime_Object option \<times> 't store) option" where
  "Route_DeepCopyObject L inp h = do {
     (c, h) \<leftarrow> Route_DeepCopy L inp h;
     (case c of
        Some a \<Rightarrow> Some (Some (RouteObject a), h)
      | None \<Rightarrow> Some (None, h))
   }"

definition RouteList_DeepCopyInto :: "'t copy_lib \<Rightarrow> ('t cell, 't RouteList_go) copier" where
  "RouteList_DeepCopyInto L inp h = do {
     let out = inp;
     let out = out\<lparr>grl_TypeMeta := grl_TypeMeta inp\<rparr>;
     (x, h) \<leftarrow> list_meta_DeepCopyInto L (grl_ListMeta inp) h;
     let out = out\<lparr>grl_ListMeta := x\<rparr>;
     (x, h) \<leftarrow> make_and_deep_copy route_array (zero_Route_go L) (Route_DeepCopyInto L) (grl_Items inp) h;
     let out = out\<lparr>grl_Items := x\<rparr>;
     Some (out, h)
   }"

definition RouteList_DeepCopy :: "'t copy_lib \<Rightarrow> ('t cell, addr option) copier" where
  "RouteList_DeepCopy L = new_copy route_list_kind (zero_RouteList_go L) (RouteList_DeepCopyInto L)"

definition RouteList_DeepCopyObject ::
  "'t copy_lib \<Rightarrow> addr option \<Rightarrow> 't store \<Rightarrow> (runtime_Object option \<times> 't store) option" where
  "RouteList_DeepCopyObject L inp h = do {
     (c, h) \<leftarrow> RouteList_DeepCopy L inp h;
     (case c of
        Some a \<Rightarrow> Some (Some (RouteListObject a), h)
      | None \<Rightarrow> Some (None, h))
   }"

text \<open>The method call \<^verbatim>\<open>obj.DeepCopyObject()\<close> on the interface \<^verbatim>\<open>runtime.Object\<close>.\<close>

fun DeepCopyObject ::
  "'t copy_lib \<Rightarrow> runtime_Object \<Rightarrow> 't store \<Rightarrow> (runtime_Object option \<times> 't store) option" where
  "DeepCopyObject L (DomainObject a) h = Domain_DeepCopyObject L (Some a) h"
| "DeepCopyObject L (DomainListObject a) h = DomainList_DeepCopyObject L (Some a) h"
| "DeepCopyObject L (RouteObject a) h = Route_DeepCopyObject L (Some a) h"
| "DeepCopyObject L (RouteListObject a) h = RouteList_DeepCopyObject L (Some a) h"

lemma lawful_kinds [simp, intro]:
  "lawful bool_kind" "lawful int_kind" "lawful string_kind" "lawful time_kind"
  "lawful string_array" "lawful dns_record_array" "lawful endpoint_array" "lawful domain_array"
  "lawful route_array" "lawful dns_record_kind" "lawful domain_kind" "lawful domain_list_kind"
  "lawful domain_spec_kind" "lawful domain_status_kind" "lawful route_kind"
  "lawful route_list_kind" "lawful route_spec_kind" "lawful route_status_kind"
  by (simp_all add: lawful_def)

text \<open>
  Each struct below is copied and read through the tuple of its pointer fields. The proofs are the
  same for all of them: the tuple is copied by the rules for pairs, pointers and slices, and the
  struct's own functions are the tuple's, field by field.
\<close>

abbreviation (input) "rb \<equiv> read_pointer bool_kind read_plain"
abbreviation (input) "rs \<equiv> read_pointer string_kind read_plain"
abbreviation (input) "ri \<equiv> read_pointer int_kind read_plain"
abbreviation (input) "cb \<equiv> new_copy bool_kind False assign"
abbreviation (input) "cs \<equiv> new_copy string_kind '''' assign"
abbreviation (input) "ci \<equiv> new_copy int_kind 0 assign"

lemma deep_copy_via:
  assumes "deep_copy f r"
    and "\<And>s h. q s h = map_option (\<lambda>(v, A). (val s v, A)) (r (get s) h)"
    and "\<And>s h. g s h = map_option (\<lambda>(t, h). (put s t, h)) (f (get s) h)"
    and "\<And>s t. get (put s t) = t" "\<And>s t. val (put s t) = val s"
  shows "deep_copy g q"
  using footed_via [where q = q, OF deep_copy.footed [OF assms(1)] assms(2)]
    copying_via [where g = g and q = q, OF deep_copy.copying [OF assms(1)] assms(2-5)]
  by (rule deep_copy.intro)

lemma deep_copyI: "footed r \<Longrightarrow> copying f r \<Longrightarrow> deep_copy f r"
  by (rule deep_copy.intro)

lemma deep_copy_pointer:
  "lawful k \<Longrightarrow> deep_copy f r \<Longrightarrow> deep_copy (new_copy k zero f) (read_pointer k r)"
  by (intro deep_copyI footed_rules copying_rules) (simp_all add: deep_copy_def)

lemma deep_copy_slice:
  "lawful k \<Longrightarrow> deep_copy f r \<Longrightarrow> deep_copy (make_and_deep_copy k zero f) (read_slice k r)"
  by (intro deep_copyI footed_rules copying_rules) (simp_all add: deep_copy_def)

lemma deep_copy_pair:
  "deep_copy f r \<Longrightarrow> deep_copy g q \<Longrightarrow> deep_copy (copy_pair f g) (read_pair r q)"
  by (intro deep_copyI footed_rules copying_rules) (simp_all add: deep_copy_def)

lemma deep_copy_assign: "deep_copy assign read_plain"
  by (intro deep_copyI footed_rules copying_rules)

lemma deep_copy_make_and_copy:
  "lawful k \<Longrightarrow> deep_copy (make_and_copy k zero) (read_slice k read_plain)"
  by (intro deep_copyI footed_rules copying_rules)

lemmas deep_copy_rules =
  deep_copy_pointer deep_copy_make_and_copy deep_copy_slice deep_copy_pair deep_copy_assign
  lawful_kinds

definition spec_fields where
  "spec_fields s = (gs_ExternalDNS s, gs_ExternalDNSRecords s, gs_WebScheme s, gs_DKIMKeySize s,
     gs_ForceDKIMAuthority s, gs_Wildcard s, gs_IPS s, gs_SpamAction s, gs_ExportCredentials s,
     gs_ExportSecretName s, gs_ExportSecretLoginKey s, gs_ExportSecretPasswordKey s,
     gs_ForceMXCheck s)"

definition put_spec_fields where
  "put_spec_fields s = (\<lambda>(p1, p2, p3, p4, p5, p6, p7, p8, p9, p10, p11, p12, p13).
     s\<lparr>gs_ExternalDNS := p1, gs_ExternalDNSRecords := p2, gs_WebScheme := p3, gs_DKIMKeySize := p4,
       gs_ForceDKIMAuthority := p5, gs_Wildcard := p6, gs_IPS := p7, gs_SpamAction := p8,
       gs_ExportCredentials := p9, gs_ExportSecretName := p10, gs_ExportSecretLoginKey := p11,
       gs_ExportSecretPasswordKey := p12, gs_ForceMXCheck := p13\<rparr>)"

definition spec_of_fields where
  "spec_of_fields s = (\<lambda>(p1, p2, p3, p4, p5, p6, p7, p8, p9, p10, p11, p12, p13).
     (\<lparr>spec_Domain = gs_Domain s, ExternalDNS = p1,
         ExternalDNSRecords = slice_value p2, WebScheme = p3, DKIMKeySize = p4,
         ForceDKIMAuthority = p5, Wildcard = p6, IPS = slice_value p7, SpamAction = p8,
         ExportCredentials = p9, ExportSecretName = p10, ExportSecretLoginKey = p11,
         ExportSecretPasswordKey = p12, ForceMXCheck = p13\<rparr>, p2 = None, p7 = None))"

definition read_spec_fields where
  "read_spec_fields L = read_pair rb (read_pair (read_slice endpoint_array (read_endpoint L))
     (read_pair rs (read_pair ri (read_pair rb (read_pair rb
       (read_pair (read_slice string_array read_plain) (read_pair rs (read_pair rb
         (read_pair rs (read_pair rs (read_pair rs rb)))))))))))"

definition copy_spec_fields where
  "copy_spec_fields L = copy_pair cb (copy_pair
       (make_and_deep_copy endpoint_array (zero_endpoint L) (endpoint_DeepCopyInto L))
     (copy_pair cs (copy_pair ci (copy_pair cb (copy_pair cb
       (copy_pair (make_and_copy string_array '''') (copy_pair cs (copy_pair cb
         (copy_pair cs (copy_pair cs (copy_pair cs cb)))))))))))"

lemma read_DomainSpec_fields:
  "read_DomainSpec L s h =
     map_option (\<lambda>(v, A). (spec_of_fields s v, A)) (read_spec_fields L (spec_fields s) h)"
  by (simp add: read_DomainSpec_def read_spec_fields_def spec_fields_def spec_of_fields_def
      field_by_field)

lemma copy_DomainSpec_fields:
  "DomainSpec_DeepCopyInto L s h =
     map_option (\<lambda>(t, h). (put_spec_fields s t, h)) (copy_spec_fields L (spec_fields s) h)"
  by (simp add: DomainSpec_DeepCopyInto_def copy_spec_fields_def spec_fields_def put_spec_fields_def
      field_by_field)

lemma deep_copy_DomainSpec:
  assumes "deep_copy (endpoint_DeepCopyInto L) (read_endpoint L)"
  shows "deep_copy (DomainSpec_DeepCopyInto L) (read_DomainSpec L)"
proof (rule deep_copy_via [where get = spec_fields and put = put_spec_fields
      and val = spec_of_fields, OF _ read_DomainSpec_fields copy_DomainSpec_fields])
  show "deep_copy (copy_spec_fields L) (read_spec_fields L)"
    unfolding copy_spec_fields_def read_spec_fields_def by (intro deep_copy_rules assms)
qed (simp_all add: spec_fields_def put_spec_fields_def spec_of_fields_def split: prod.split)

lemma deep_copy_DomainStatus:
  assumes "copying (time_DeepCopy L) (read_pointer time_kind read_plain)"
  shows "deep_copy (DomainStatus_DeepCopyInto L) read_DomainStatus"
proof (rule deep_copy_via [where get = "\<lambda>s. (gt_SendingDnsRecords s, gt_ReceivingDnsRecords s,
        gt_MailgunError s, gt_LastDomainValidationTime s, gt_DomainValidationCount s)"
      and put = "\<lambda>s (p1, p2, p3, p4, p5). s\<lparr>gt_SendingDnsRecords := p1,
        gt_ReceivingDnsRecords := p2, gt_MailgunError := p3, gt_LastDomainValidationTime := p4,
        gt_DomainValidationCount := p5\<rparr>"
      and val = "\<lambda>s (p1, p2, p3, p4, p5). (\<lparr>status_State = gt_State s,
        NotManaged = gt_NotManaged s, SendingDnsRecords = slice_value p1,
        ReceivingDnsRecords = slice_value p2, status_DomainState = gt_DomainState s,
        MailgunError = p3, LastDomainValidationTime = p4, DomainValidationCount = p5,
        DnsEntrypointCreated = gt_DnsEntrypointCreated s\<rparr>, p1 = None, p2 = None)"
      and f = "copy_pair (make_and_copy dns_record_array zero_DnsRecord)
        (copy_pair (make_and_copy dns_record_array zero_DnsRecord)
        (copy_pair cs (copy_pair (copy_time L) ci)))"
      and r = "read_pair (read_slice dns_record_array read_plain)
        (read_pair (read_slice dns_record_array read_plain)
        (read_pair rs (read_pair (read_pointer time_kind read_plain) ri)))"])
  have "copying (copy_time L) (read_pointer time_kind read_plain)"
    using assms unfolding copying_def
    by (auto simp: copy_time_def read_pointer_def extends_refl)
  then show "deep_copy (copy_pair (make_and_copy dns_record_array zero_DnsRecord)
        (copy_pair (make_and_copy dns_record_array zero_DnsRecord)
        (copy_pair cs (copy_pair (copy_time L) ci))))
      (read_pair (read_slice dns_record_array read_plain)
        (read_pair (read_slice dns_record_array read_plain)
        (read_pair rs (read_pair (read_pointer time_kind read_plain) ri))))"
    by (intro deep_copy_rules deep_copyI [of "read_pointer _ _" "copy_time L"] footed_rules)
qed (simp_all add: read_DomainStatus_def DomainStatus_DeepCopyInto_def field_by_field
    split: prod.split)

lemma deep_copy_Domain:
  assumes "copy_laws L"
  shows "deep_copy (Domain_DeepCopyInto L) (read_Domain L)"
proof (rule deep_copy_via [where get = "\<lambda>d. (gd_ObjectMeta d, gd_Spec d, gd_Status d)"
      and put = "\<lambda>d (m, s, t). d\<lparr>gd_ObjectMeta := m, gd_Spec := s, gd_Status := t\<rparr>"
      and val = "\<lambda>d (m, (s, n1), (t, n2)).
        ((gd_TypeMeta d, \<lparr>d_Meta = m, d_Spec = s, d_Status = t\<rparr>), n1, n2)"])
  show "deep_copy (copy_pair (object_meta_DeepCopyInto L)
        (copy_pair (DomainSpec_DeepCopyInto L) (DomainStatus_DeepCopyInto L)))
      (read_pair (read_object_meta L) (read_pair (read_DomainSpec L) read_DomainStatus))"
    using assms unfolding copy_laws_def
    by (intro deep_copy_rules deep_copy_DomainSpec deep_copy_DomainStatus) simp_all
qed (simp_all add: read_Domain_def Domain_DeepCopyInto_def field_by_field case_prod_unfold)

lemma deep_copy_DomainList:
  assumes "copy_laws L"
  shows "deep_copy (DomainList_DeepCopyInto L) (read_DomainList L)"
proof (rule deep_copy_via [where get = "\<lambda>l. (gdl_ListMeta l, gdl_Items l)"
      and put = "\<lambda>l (m, s). l\<lparr>gdl_ListMeta := m, gdl_Items := s\<rparr>"
      and val = "\<lambda>l (m, s). (gdl_TypeMeta l, m, s)"])
  show "deep_copy (copy_pair (list_meta_DeepCopyInto L)
        (make_and_deep_copy domain_array (zero_Domain_go L) (Domain_DeepCopyInto L)))
      (read_pair (read_list_meta L) (read_slice domain_array (read_Domain L)))"
    using assms unfolding copy_laws_def
    by (intro deep_copy_rules deep_copy_Domain [OF assms]) simp_all
qed (simp_all add: read_DomainList_def DomainList_DeepCopyInto_def field_by_field split: prod.split)

lemma deep_copy_RouteSpec: "deep_copy RouteSpec_DeepCopyInto read_RouteSpec"
proof (rule deep_copy_via [where get = "\<lambda>s. (gu_Actions s, gu_Priority s, gu_Domain s)"
      and put = "\<lambda>s (a, p, d). s\<lparr>gu_Actions := a, gu_Priority := p, gu_Domain := d\<rparr>"
      and val = "\<lambda>s (a, p, d). (\<lparr>Description = gu_Description s, Expression = gu_Expression s,
         Actions = slice_value a, Priority = p, route_Domain = d\<rparr>, a = None)"])
  show "deep_copy (copy_pair (make_and_copy string_array '''') (copy_pair ci cs))
      (read_pair (read_slice string_array read_plain) (read_pair ri rs))"
    by (intro deep_copy_rules)
qed (simp_all add: read_RouteSpec_def RouteSpec_DeepCopyInto_def field_by_field split: prod.split)

lemma deep_copy_RouteStatus: "deep_copy RouteStatus_DeepCopyInto read_RouteStatus"
proof (rule deep_copy_via [where get = "\<lambda>s. (gv_RouteID s, gv_MailgunError s)"
      and put = "\<lambda>s (i, e). s\<lparr>gv_RouteID := i, gv_MailgunError := e\<rparr>"
      and val = "\<lambda>s (i, e). \<lparr>RouteID = i, route_MailgunError = e\<rparr>"])
  show "deep_copy (copy_pair cs cs) (read_pair rs rs)" by (intro deep_copy_rules)
qed (simp_all add: read_RouteStatus_def RouteStatus_DeepCopyInto_def field_by_field
    split: prod.split)

lemma deep_copy_Route:
  assumes "copy_laws L"
  shows "deep_copy (Route_DeepCopyInto L) (read_Route L)"
proof (rule deep_copy_via [where get = "\<lambda>r. (gr_ObjectMeta r, gr_Spec r, gr_Status r)"
      and put = "\<lambda>r (m, s, t). r\<lparr>gr_ObjectMeta := m, gr_Spec := s, gr_Status := t\<rparr>"
      and val = "\<lambda>r (m, (s, n), t). ((gr_TypeMeta r, \<lparr>r_Meta = m, r_Spec = s, r_Status = t\<rparr>), n)"])
  show "deep_copy (copy_pair (object_meta_DeepCopyInto L)
        (copy_pair RouteSpec_DeepCopyInto RouteStatus_DeepCopyInto))
      (read_pair (read_object_meta L) (read_pair read_RouteSpec read_RouteStatus))"
    using assms unfolding copy_laws_def
    by (intro deep_copy_rules deep_copy_RouteSpec deep_copy_RouteStatus) simp_all
qed (simp_all add: read_Route_def Route_DeepCopyInto_def field_by_field case_prod_unfold)

lemma deep_copy_RouteList:
  assumes "copy_laws L"
  shows "deep_copy (RouteList_DeepCopyInto L) (read_RouteList L)"
proof (rule deep_copy_via [where get = "\<lambda>l. (grl_ListMeta l, grl_Items l)"
      and put = "\<lambda>l (m, s). l\<lparr>grl_ListMeta := m, grl_Items := s\<rparr>"
      and val = "\<lambda>l (m, s). (grl_TypeMeta l, m, s)"])
  show "deep_copy (copy_pair (list_meta_DeepCopyInto L)
        (make_and_deep_copy route_array (zero_Route_go L) (Route_DeepCopyInto L)))
      (read_pair (read_list_meta L) (read_slice route_array (read_Route L)))"
    using assms unfolding copy_laws_def
    by (intro deep_copy_rules deep_copy_Route [OF assms]) simp_all
qed (simp_all add: read_RouteList_def RouteList_DeepCopyInto_def field_by_field split: prod.split)

section \<open>Objects behind the interface \<^verbatim>\<open>runtime.Object\<close>\<close>

datatype object_value =
    DomainValue "(TypeMeta \<times> Domain) \<times> (bool \<times> bool) \<times> (bool \<times> bool)"
  | DomainListValue "TypeMeta \<times> ListMeta \<times>
      ((TypeMeta \<times> Domain) \<times> (bool \<times> bool) \<times> (bool \<times> bool)) list option"
  | RouteValue "(TypeMeta \<times> Route) \<times> bool"
  | RouteListValue "TypeMeta \<times> ListMeta \<times> ((TypeMeta \<times> Route) \<times> bool) list option"

text \<open>An object has a value exactly when every pointer in it leads to a cell of the right type.\<close>

fun read_object :: "'t copy_lib \<Rightarrow> ('t cell, runtime_Object, object_value) reader" where
  "read_object L (DomainObject a) h = do {
     d \<leftarrow> load domain_kind a h; (v, A) \<leftarrow> read_Domain L d h; Some (DomainValue v, a # A) }"
| "read_object L (DomainListObject a) h = do {
     d \<leftarrow> load domain_list_kind a h; (v, A) \<leftarrow> read_DomainList L d h;
     Some (DomainListValue v, a # A) }"
| "read_object L (RouteObject a) h = do {
     d \<leftarrow> load route_kind a h; (v, A) \<leftarrow> read_Route L d h; Some (RouteValue v, a # A) }"
| "read_object L (RouteListObject a) h = do {
     d \<leftarrow> load route_list_kind a h; (v, A) \<leftarrow> read_RouteList L d h;
     Some (RouteListValue v, a # A) }"

definition copy_object :: "'t copy_lib \<Rightarrow> ('t cell, runtime_Object) copier" where
  "copy_object L x h = do {
     (y, h) \<leftarrow> DeepCopyObject L x h;
     (case y of None \<Rightarrow> None | Some z \<Rightarrow> Some (z, h))
   }"

lemmas object_copiers =
  Domain_DeepCopyObject_def DomainList_DeepCopyObject_def Route_DeepCopyObject_def
  RouteList_DeepCopyObject_def Domain_DeepCopy_def DomainList_DeepCopy_def Route_DeepCopy_def
  RouteList_DeepCopy_def

text \<open>One kind of object at a time: its interface value is its pointer under a constructor.\<close>

lemma object_of_pointer:
  assumes "deep_copy (new_copy k zero f) (read_pointer k r)" and "wf_heap h"
    and "load k a h = Some d" "r d h = Some (v, A)"
    and copy: "\<And>b h'. new_copy k zero f (Some a) h = Some (Some b, h') \<Longrightarrow> g h = Some (c b, h')"
    and read: "\<And>b h' d A. load k b h' = Some d \<Longrightarrow> r d h' = Some (v, A) \<Longrightarrow>
      q (c b) h' = Some (u v, b # A)"
  shows "\<exists>y h' B. g h = Some (y, h') \<and> extends h h' \<and> q y h' = Some (u v, B) \<and>
    set B \<subseteq> {limit h..<limit h'}"
proof -
  have "read_pointer k r (Some a) h = Some (Some v, a # A)"
    by (simp add: read_pointer_def assms(3,4))
  then obtain p h' B where p: "new_copy k zero f (Some a) h = Some (p, h')" "extends h h'"
      "read_pointer k r p h' = Some (Some v, B)" "set B \<subseteq> {limit h..<limit h'}"
    by (rule copyingE [OF deep_copy.copying [OF assms(1)] assms(2)])
  then obtain b d' B' where "p = Some b" "load k b h' = Some d'" "r d' h' = Some (v, B')"
      "B = b # B'"
    by (auto simp: read_pointer_def bind_eq_Some_conv split: option.splits)
  with p copy read show ?thesis by blast
qed

lemma footed_object:
  assumes "copy_laws L"
  shows "footed (read_object L)"
proof (rule footedI)
  note laws = assms [THEN deep_copy_Domain] assms [THEN deep_copy_DomainList]
    assms [THEN deep_copy_Route] assms [THEN deep_copy_RouteList]
  note footed = laws [THEN deep_copy.footed]
  fix x h v A
  assume x: "read_object L x h = Some (v, A)"
  show "live h a" if "a \<in> set A" for a
    using x that by (cases x)
      (auto simp: bind_eq_Some_conv load_live dest: footed [THEN footed_live])
  show "read_object L x h' = Some (v, A)" if eq: "\<forall>a \<in> set A. cells h' a = cells h a" for h'
  proof -
    have *: "load k a h' = Some d \<and> r d h' = Some (u, B)"
      if "load k a h = Some d" "r d h = Some (u, B)" "A = a # B" "footed r"
      for k :: "('a cell, 'd) kind" and a d u B and r :: "('a cell, 'd, 'u) reader"
      using that eq load_local [of h' a h k] footed_local [OF that(4,2), of h'] by simp
    from x show ?thesis
      by (cases x) (auto simp: bind_eq_Some_conv dest!: * [OF _ _ _ footed(1)]
          * [OF _ _ _ footed(2)] * [OF _ _ _ footed(3)] * [OF _ _ _ footed(4)])
  qed
qed

lemma copied_object:
  "new_copy domain_kind (zero_Domain_go L) (Domain_DeepCopyInto L) (Some a) h = Some (Some b, h') \<Longrightarrow>
    copy_object L (DomainObject a) h = Some (DomainObject b, h')"
  "new_copy domain_list_kind (zero_DomainList_go L) (DomainList_DeepCopyInto L) (Some a) h =
      Some (Some b, h') \<Longrightarrow>
    copy_object L (DomainListObject a) h = Some (DomainListObject b, h')"
  "new_copy route_kind (zero_Route_go L) (Route_DeepCopyInto L) (Some a) h = Some (Some b, h') \<Longrightarrow>
    copy_object L (RouteObject a) h = Some (RouteObject b, h')"
  "new_copy route_list_kind (zero_RouteList_go L) (RouteList_DeepCopyInto L) (Some a) h =
      Some (Some b, h') \<Longrightarrow>
    copy_object L (RouteListObject a) h = Some (RouteListObject b, h')"
  by (simp_all add: copy_object_def object_copiers)

lemma copying_object:
  assumes "copy_laws L"
  shows "copying (copy_object L) (read_object L)"
proof (rule copyingI)
  fix x h v A
  assume wf: "wf_heap h" and x: "read_object L x h = Some (v, A)"
  note pointers = deep_copy_pointer [where zero = "zero_Domain_go L",
      OF lawful_kinds(11) deep_copy_Domain [OF assms]]
    deep_copy_pointer [where zero = "zero_DomainList_go L",
      OF lawful_kinds(12) deep_copy_DomainList [OF assms]]
    deep_copy_pointer [where zero = "zero_Route_go L",
      OF lawful_kinds(15) deep_copy_Route [OF assms]]
    deep_copy_pointer [where zero = "zero_RouteList_go L",
      OF lawful_kinds(16) deep_copy_RouteList [OF assms]]
  show "\<exists>x' h' A'. copy_object L x h = Some (x', h') \<and> extends h h' \<and>
    read_object L x' h' = Some (v, A') \<and> set A' \<subseteq> {limit h..<limit h'}"
  proof (cases x)
    case (DomainObject a)
    with x obtain d w B where d: "load domain_kind a h = Some d" "read_Domain L d h = Some (w, B)"
        and v: "v = DomainValue w"
      by (auto simp: bind_eq_Some_conv)
    show ?thesis
      unfolding v DomainObject
      by (rule object_of_pointer [OF pointers(1) wf d, where c = DomainObject])
        (erule copied_object(1), simp)
  next
    case (DomainListObject a)
    with x obtain d w B where d: "load domain_list_kind a h = Some d" "read_DomainList L d h = Some (w, B)"
        and v: "v = DomainListValue w"
      by (auto simp: bind_eq_Some_conv)
    show ?thesis
      unfolding v DomainListObject
      by (rule object_of_pointer [OF pointers(2) wf d, where c = DomainListObject])
        (erule copied_object(2), simp)
  next
    case (RouteObject a)
    with x obtain d w B where d: "load route_kind a h = Some d" "read_Route L d h = Some (w, B)"
        and v: "v = RouteValue w"
      by (auto simp: bind_eq_Some_conv)
    show ?thesis
      unfolding v RouteObject
      by (rule object_of_pointer [OF pointers(3) wf d, where c = RouteObject])
        (erule copied_object(3), simp)
  next
    case (RouteListObject a)
    with x obtain d w B where d: "load route_list_kind a h = Some d" "read_RouteList L d h = Some (w, B)"
        and v: "v = RouteListValue w"
      by (auto simp: bind_eq_Some_conv)
    show ?thesis
      unfolding v RouteListObject
      by (rule object_of_pointer [OF pointers(4) wf d, where c = RouteListObject])
        (erule copied_object(4), simp)
  qed
qed

lemma deep_copy_object: "copy_laws L \<Longrightarrow> deep_copy (copy_object L) (read_object L)"
  by (intro deep_copyI footed_object copying_object)

section \<open>A library without pointers, and an object\<close>

text \<open>
  An instance of the third-party parameter, for the examples: metadata and endpoints as plain
  values, which their copy functions copy by assignment. The heap holds a Domain at address 0 with
  a pointer, a slice of addresses that shows the middle of a larger array, and an empty slice.
\<close>

datatype plain = PlainEndpoint Endpoint | PlainObjectMeta ObjectMeta | PlainListMeta ListMeta

definition plain_lib :: "plain copy_lib" where
  "plain_lib = \<lparr>
     zero_endpoint = PlainEndpoint \<lparr>ep_DNSName = '''', ep_Targets = [], ep_RecordType = '''',
       ep_SetIdentifier = '''', ep_RecordTTL = 0, ep_Labels = [], ep_ProviderSpecific = []\<rparr>,
     zero_object_meta = PlainObjectMeta zero_ObjectMeta,
     zero_list_meta = PlainListMeta \<lparr>lm_ResourceVersion = '''', lm_RemainingItemCount = None\<rparr>,
     endpoint_DeepCopyInto = assign,
     object_meta_DeepCopyInto = assign,
     list_meta_DeepCopyInto = assign,
     time_DeepCopy = new_copy time_kind 0 assign,
     read_endpoint = (\<lambda>x h. case x of PlainEndpoint e \<Rightarrow> Some (e, []) | _ \<Rightarrow> None),
     read_object_meta = (\<lambda>x h. case x of PlainObjectMeta m \<Rightarrow> Some (m, []) | _ \<Rightarrow> None),
     read_list_meta = (\<lambda>x h. case x of PlainListMeta m \<Rightarrow> Some (m, []) | _ \<Rightarrow> None)\<rparr>"

lemma deep_copy_by_assignment:
  assumes "\<And>x h. r x h = map_option (\<lambda>v. (v, [])) (g x)"
  shows "deep_copy assign r"
  by (rule deep_copyI; (rule footedI | rule copyingI))
    (auto simp: assms assign_def extends_refl)

lemma plain_laws: "copy_laws plain_lib"
  unfolding copy_laws_def
proof (intro conjI)
  show "deep_copy (endpoint_DeepCopyInto plain_lib) (read_endpoint plain_lib)"
    by (simp add: plain_lib_def, rule deep_copy_by_assignment
        [where g = "\<lambda>x. case x of PlainEndpoint e \<Rightarrow> Some e | _ \<Rightarrow> None"])
      (simp split: plain.split)
  show "deep_copy (object_meta_DeepCopyInto plain_lib) (read_object_meta plain_lib)"
    by (simp add: plain_lib_def, rule deep_copy_by_assignment
        [where g = "\<lambda>x. case x of PlainObjectMeta e \<Rightarrow> Some e | _ \<Rightarrow> None"])
      (simp split: plain.split)
  show "deep_copy (list_meta_DeepCopyInto plain_lib) (read_list_meta plain_lib)"
    by (simp add: plain_lib_def, rule deep_copy_by_assignment
        [where g = "\<lambda>x. case x of PlainListMeta e \<Rightarrow> Some e | _ \<Rightarrow> None"])
      (simp split: plain.split)
  show "copying (time_DeepCopy plain_lib) (read_pointer time_kind read_plain)"
    by (simp add: plain_lib_def) (intro copying_rules footed_rules lawful_kinds)
qed

definition sample_domain :: "plain Domain_go" where
  "sample_domain = (zero_Domain_go plain_lib)
     \<lparr>gd_TypeMeta := \<lparr>tm_Kind = ''Domain'', tm_APIVersion = ''domain.mailgun.com/v1''\<rparr>,
      gd_Spec := zero_DomainSpec_go\<lparr>gs_Domain := ''example.com'', gs_ExternalDNS := Some 1,
        gs_IPS := Slice 2 1 1 2, gs_ExternalDNSRecords := Slice 3 0 0 0\<rparr>\<rparr>"

definition sample_heap :: "plain store" where
  "sample_heap = Heap [0 \<mapsto> DomainCell sample_domain, 1 \<mapsto> BoolCell True,
     2 \<mapsto> StringArray [''10.0.0.1'', ''10.0.0.2'', ''10.0.0.3''], 3 \<mapsto> EndpointArray []] 4"

text \<open>The contract holds of every copying function of the file.\<close>

interpretation dns_record: deep_copy DnsRecord_DeepCopyInto "read_plain :: ('t cell, DnsRecord, DnsRecord) reader"
  using deep_copy_assign by (simp add: DnsRecord_DeepCopyInto_def [abs_def] assign_def [abs_def])

interpretation route_spec: deep_copy RouteSpec_DeepCopyInto read_RouteSpec
  by (rule deep_copy_RouteSpec)

interpretation route_status: deep_copy RouteStatus_DeepCopyInto read_RouteStatus
  by (rule deep_copy_RouteStatus)

interpretation objects: deep_copy "copy_object plain_lib" "read_object plain_lib"
  by (rule deep_copy_object [OF plain_laws])

section \<open>Properties of the deep copies\<close>

lemma copy_object_eq:
  "copy_object L x h = Some (y, h') \<longleftrightarrow> DeepCopyObject L x h = Some (Some y, h')"
  by (auto simp: copy_object_def bind_eq_Some_conv split: option.splits)

text \<open>
  C23. Deep copies are type safe. For every object whose pointers all lead to cells of the right type,
  \<open>DeepCopyObject\<close> returns (no nil dereference, no index out of range) an object of the same kind
  that is again well typed, stands for the same value field by field (nil slices stay nil) and
  shares no memory with the original; every other well-typed object of the heap stays well typed
  and unchanged.
\<close>

theorem DeepCopyObject_well_typed:
  assumes "copy_laws L" and "wf_heap h" and "read_object L x h = Some (v, A)"
  shows "\<exists>y h' B. DeepCopyObject L x h = Some (Some y, h') \<and> wf_heap h' \<and>
    read_object L y h' = Some (v, B) \<and> set A \<inter> set B = {} \<and>
    (\<forall>z w C. read_object L z h = Some (w, C) \<longrightarrow> read_object L z h' = Some (w, C))"
proof -
  note contract = deep_copy_object [OF assms(1)]
  from copyingE [OF deep_copy.copying [OF contract] assms(2,3)] obtain y h' B
    where y: "copy_object L x h = Some (y, h')" "extends h h'" "read_object L y h' = Some (v, B)"
    by metis
  obtain B' where "wf_heap h'" "read_object L y h' = Some (v, B')" "set A \<inter> set B' = {}"
    by (rule deep_copy.disjoint [OF contract assms(2,3) y(1)])
  moreover have "read_object L z h' = Some (w, C)" if "read_object L z h = Some (w, C)" for z w C
    by (rule footed_extends [OF deep_copy.footed [OF contract] assms(2) that y(2)])
  ultimately show ?thesis using y(1) by (auto simp: copy_object_eq)
qed

lemma sample_wf: "wf_heap sample_heap"
  by (simp add: wf_heap_def sample_heap_def)

definition sample_value :: object_value where
  "sample_value = DomainValue ((\<lparr>tm_Kind = ''Domain'', tm_APIVersion = ''domain.mailgun.com/v1''\<rparr>,
     zero_Domain\<lparr>d_Spec := zero_DomainSpec\<lparr>spec_Domain := ''example.com'',
       ExternalDNS := Some True, IPS := [''10.0.0.2'']\<rparr>\<rparr>), (False, False), (True, True))"

lemmas sample_defs =
  sample_heap_def sample_domain_def zero_Domain_go_def zero_DomainSpec_go_def
  zero_DomainStatus_go_def zero_TypeMeta_def plain_lib_def read_Domain_def read_DomainSpec_def
  read_DomainStatus_def read_pointer_def read_slice_def read_plain_def elements_def load_def

lemma sample_read: "read_object plain_lib (DomainObject 0) sample_heap = Some (sample_value, [0, 1, 3, 2])"
  by (simp add: sample_defs sample_value_def zero_Domain_def zero_DomainSpec_def
      zero_DomainStatus_def numeral_eq_Suc read_list_plain)

theorem DeepCopyObject_well_typed_witness:
  "\<exists>y h' B. DeepCopyObject plain_lib (DomainObject 0) sample_heap = Some (Some y, h') \<and>
     wf_heap h' \<and> read_object plain_lib y h' = Some (sample_value, B) \<and>
     set [0, 1, 3, 2] \<inter> set B = {} \<and>
     read_object plain_lib (DomainObject 0) h' = Some (sample_value, [0, 1, 3, 2])"
  using DeepCopyObject_well_typed [OF plain_laws sample_wf sample_read] sample_read by blast

text \<open>
  C24. A deep copy is independent of the original: once \<open>DeepCopyObject\<close> has returned, any change of
  memory that leaves the original's addresses alone (any write through the copy) leaves the
  original's value unchanged, and any change that leaves the copy's addresses alone leaves the
  copy's value unchanged.
\<close>

theorem DeepCopyObject_independent:
  assumes "copy_laws L" and "wf_heap h" and "read_object L x h = Some (v, A)"
    and "DeepCopyObject L x h = Some (Some y, h')" and "read_object L y h' = Some (v', B)"
  shows "v' = v \<and>
    ((\<forall>a. a \<notin> set B \<longrightarrow> cells h'' a = cells h' a) \<longrightarrow> read_object L x h'' = Some (v, A)) \<and>
    ((\<forall>a. a \<notin> set A \<longrightarrow> cells h'' a = cells h' a) \<longrightarrow> read_object L y h'' = Some (v, B))"
proof -
  note contract = deep_copy_object [OF assms(1)]
  from assms(4) have y: "copy_object L x h = Some (y, h')" by (simp add: copy_object_eq)
  obtain B' where "read_object L y h' = Some (v, B')"
    by (rule deep_copy.disjoint [OF contract assms(2,3) y])
  with assms(5) have "read_object L y h' = Some (v, B)" "v' = v" by simp_all
  with deep_copy.independent [OF contract assms(2,3) y this(1), of h''] show ?thesis by blast
qed

definition sample_copy :: "plain store" where
  "sample_copy = Heap ((cells sample_heap)
     (4 \<mapsto> DomainCell (sample_domain\<lparr>gd_Spec := (gd_Spec sample_domain)
        \<lparr>gs_ExternalDNS := Some 5, gs_ExternalDNSRecords := Slice 6 0 0 0,
         gs_IPS := Slice 7 0 1 1\<rparr>\<rparr>),
      5 \<mapsto> BoolCell True, 6 \<mapsto> EndpointArray [], 7 \<mapsto> StringArray [''10.0.0.2''])) 8"

lemma sample_DeepCopyObject:
  "DeepCopyObject plain_lib (DomainObject 0) sample_heap = Some (Some (DomainObject 4), sample_copy)"
  by (simp add: sample_defs sample_copy_def object_copiers Domain_DeepCopyInto_def
      DomainSpec_DeepCopyInto_def DomainStatus_DeepCopyInto_def new_copy_def new_cell_def assign_def
      make_and_copy_def make_and_deep_copy_def store_def copy_time_def numeral_eq_Suc
      fun_upd_twist)

lemma sample_copy_read:
  "read_object plain_lib (DomainObject 4) sample_copy = Some (sample_value, [4, 5, 6, 7])"
  by (simp add: sample_defs sample_copy_def sample_value_def zero_Domain_def zero_DomainSpec_def
      zero_DomainStatus_def numeral_eq_Suc read_list_plain)

text \<open>Turning the copy's \<^verbatim>\<open>external_dns\<close> off and overwriting its array leaves the original as it was.\<close>

theorem DeepCopyObject_independent_witness:
  "read_object plain_lib (DomainObject 0)
     (Heap ((cells sample_copy)(5 \<mapsto> BoolCell False, 7 \<mapsto> StringArray [''0.0.0.0''])) 8) =
   Some (sample_value, [0, 1, 3, 2])"
  using DeepCopyObject_independent [OF plain_laws sample_wf sample_read sample_DeepCopyObject
      sample_copy_read, of "Heap ((cells sample_copy)
        (5 \<mapsto> BoolCell False, 7 \<mapsto> StringArray [''0.0.0.0''])) 8"]
  by simp

end
