(* ===== verification/Startup.thy ===== *)
theory Startup
  imports Configuration
begin

text \<open>
  Model of \<^verbatim>\<open>cmd/main.go\<close> and of the two methods \<^verbatim>\<open>SetupWithManager\<close>: the command line, the TLS
  and metrics options, the checks and failures of the start-up in their order, the registration of
  the controllers with their event filter, and the start of the manager. The package \<^verbatim>\<open>flag\<close> of the
  standard library is written out. The controller-runtime manager, the client constructor and the
  process environment are the parameter \<open>startup\<close>, which extends the environment of the
  controllers; flags that imported packages register are its field \<open>extra_flags\<close>. Logging is left
  out.
\<close>

section \<open>The command line\<close>

record flags =
  metricsAddr :: string
  probeAddr :: string
  enableLeaderElection :: bool
  secureMetrics :: bool
  enableHTTP2 :: bool
  configMapName :: string
  secretName :: string

text \<open>The default values given to \<^verbatim>\<open>flag.StringVar\<close> and \<^verbatim>\<open>flag.BoolVar\<close>.\<close>

definition default_flags :: flags where
  "default_flags = \<lparr>metricsAddr = ''0'', probeAddr = '':8081'', enableLeaderElection = False,
     secureMetrics = True, enableHTTP2 = False, configMapName = '''', secretName = ''''\<rparr>"

text \<open>A registered flag: the variable it writes, or (of other packages) what it accepts.\<close>

datatype flag_var =
    StringVar "string \<Rightarrow> flags \<Rightarrow> flags"
  | BoolVar "bool \<Rightarrow> flags \<Rightarrow> flags"
  | OtherVar bool "string \<Rightarrow> bool"

definition main_flags :: "(string \<times> flag_var) list" where
  "main_flags =
     [(''metrics-bind-address'', StringVar (\<lambda>v. metricsAddr_update (\<lambda>_. v))),
      (''health-probe-bind-address'', StringVar (\<lambda>v. probeAddr_update (\<lambda>_. v))),
      (''leader-elect'', BoolVar (\<lambda>v. enableLeaderElection_update (\<lambda>_. v))),
      (''metrics-secure'', BoolVar (\<lambda>v. secureMetrics_update (\<lambda>_. v))),
      (''enable-http2'', BoolVar (\<lambda>v. enableHTTP2_update (\<lambda>_. v))),
      (''config-map-name'', StringVar (\<lambda>v. configMapName_update (\<lambda>_. v))),
      (''secret-name'', StringVar (\<lambda>v. secretName_update (\<lambda>_. v)))]"

text \<open>\<^verbatim>\<open>strconv.ParseBool\<close>\<close>

definition ParseBool :: "string \<Rightarrow> bool option" where
  "ParseBool s =
     (if s \<in> {''1'', ''t'', ''T'', ''TRUE'', ''true'', ''True''} then Some True
      else if s \<in> {''0'', ''f'', ''F'', ''FALSE'', ''false'', ''False''} then Some False
      else None)"

text \<open>The name and the value of an argument, split at the first \<^verbatim>\<open>=\<close> that is not its first character.\<close>

fun split_flag :: "string \<Rightarrow> string \<times> string option" where
  "split_flag [] = ([], None)"
| "split_flag (c # cs) =
     (c # takeWhile (\<lambda>x. x \<noteq> CHR ''='') cs,
      if CHR ''='' \<in> set cs then Some (tl (dropWhile (\<lambda>x. x \<noteq> CHR ''='') cs)) else None)"

text \<open>
  \<^verbatim>\<open>flag.Parse\<close>: it stops at the first argument that is not a flag or at \<^verbatim>\<open>--\<close>; an error ends the
  process with status 2, a request for help with status 0.
\<close>

datatype parsed = Parsed flags | HelpRequested | BadFlag

fun parse_flags :: "(string \<Rightarrow> flag_var option) \<Rightarrow> string list \<Rightarrow> flags \<Rightarrow> parsed" where
  "parse_flags registered [] f = Parsed f"
| "parse_flags registered (s # args) f =
     (if length s < 2 \<or> hd s \<noteq> CHR ''-'' \<or> s = ''--'' then Parsed f
      else
        (let name = (if hd (tl s) = CHR ''-'' then tl (tl s) else tl s) in
         if name = '''' \<or> hd name = CHR ''-'' \<or> hd name = CHR ''='' then BadFlag
         else
           (case registered (fst (split_flag name)) of
              None \<Rightarrow>
                if fst (split_flag name) = ''help'' \<or> fst (split_flag name) = ''h'' then HelpRequested
                else BadFlag
            | Some (BoolVar put) \<Rightarrow>
                (case ParseBool (case snd (split_flag name) of None \<Rightarrow> ''true'' | Some v \<Rightarrow> v) of
                   None \<Rightarrow> BadFlag
                 | Some b \<Rightarrow> parse_flags registered args (put b f))
            | Some (StringVar put) \<Rightarrow>
                (case snd (split_flag name) of
                   Some v \<Rightarrow> parse_flags registered args (put v f)
                 | None \<Rightarrow>
                     (case args of
                        [] \<Rightarrow> BadFlag
                      | v # rest \<Rightarrow> parse_flags registered rest (put v f)))
            | Some (OtherVar is_bool accepts) \<Rightarrow>
                (case snd (split_flag name) of
                   Some v \<Rightarrow> if accepts v then parse_flags registered args f else BadFlag
                 | None \<Rightarrow>
                     if is_bool then
                       (if accepts ''true'' then parse_flags registered args f else BadFlag)
                     else
                       (case args of
                          [] \<Rightarrow> BadFlag
                        | v # rest \<Rightarrow>
                            if accepts v then parse_flags registered rest f else BadFlag)))))"

section \<open>Options of the manager\<close>

record tls_Config =
  NextProtos :: "string list"

definition disableHTTP2 :: "tls_Config \<Rightarrow> tls_Config" where
  "disableHTTP2 c = c\<lparr>NextProtos := [''http/1.1'']\<rparr>"

definition tlsOpts :: "flags \<Rightarrow> (tls_Config \<Rightarrow> tls_Config) list" where
  "tlsOpts f = (if \<not> enableHTTP2 f then [] @ [disableHTTP2] else [])"

datatype filter_provider = WithAuthenticationAndAuthorization

record metricsserver_Options =
  BindAddress :: string
  SecureServing :: bool
  metrics_TLSOpts :: "(tls_Config \<Rightarrow> tls_Config) list"
  FilterProvider :: "filter_provider option"

record ctrl_Options =
  Metrics :: metricsserver_Options
  webhook_TLSOpts :: "(tls_Config \<Rightarrow> tls_Config) list"
  HealthProbeBindAddress :: string
  LeaderElection :: bool
  LeaderElectionID :: string

definition metricsServerOptions :: "flags \<Rightarrow> metricsserver_Options" where
  "metricsServerOptions f =
     (let opts = \<lparr>BindAddress = metricsAddr f, SecureServing = secureMetrics f,
        metrics_TLSOpts = tlsOpts f, FilterProvider = None\<rparr>
      in if secureMetrics f then opts\<lparr>FilterProvider := Some WithAuthenticationAndAuthorization\<rparr>
         else opts)"

definition managerOptions :: "flags \<Rightarrow> ctrl_Options" where
  "managerOptions f = \<lparr>Metrics = metricsServerOptions f, webhook_TLSOpts = tlsOpts f,
     HealthProbeBindAddress = probeAddr f, LeaderElection = enableLeaderElection f,
     LeaderElectionID = ''abe245e7.mailgun.com''\<rparr>"

section \<open>Controllers\<close>

datatype watched = WatchDomains | WatchRoutes
datatype event_filter = GenerationChangedPredicate

text \<open>What a controller is built of; the reconciler is its settings and its event recorder.\<close>

record controller =
  ctl_EventFilters :: "event_filter list"
  ctl_For :: "watched option"
  ctl_Recorder :: string
  ctl_Config :: Data

definition NewControllerManagedBy :: "string \<Rightarrow> Data \<Rightarrow> controller" where
  "NewControllerManagedBy recorder config = \<lparr>ctl_EventFilters = [], ctl_For = None,
     ctl_Recorder = recorder, ctl_Config = config\<rparr>"

definition WithEventFilter :: "event_filter \<Rightarrow> controller \<Rightarrow> controller" where
  "WithEventFilter p c = c\<lparr>ctl_EventFilters := ctl_EventFilters c @ [p]\<rparr>"

definition For :: "watched \<Rightarrow> controller \<Rightarrow> controller" where
  "For x c = c\<lparr>ctl_For := Some x\<rparr>"

section \<open>The calls of the start-up\<close>

record 'w startup = "'w env" +
  extra_flags :: "string \<Rightarrow> (bool \<times> (string \<Rightarrow> bool)) option"
  GetConfig_api :: "'w \<Rightarrow> bool \<times> 'w"
  NewManager_api :: "ctrl_Options \<Rightarrow> 'w \<Rightarrow> error option \<times> 'w"
  SetupSignalHandler_api :: "'w \<Rightarrow> unit \<times> 'w"
  LookupEnv_api :: "string \<Rightarrow> 'w \<Rightarrow> string option \<times> 'w"
  NewClient_api :: "'w \<Rightarrow> error option \<times> 'w"
  Complete_api :: "controller \<Rightarrow> 'w \<Rightarrow> error option \<times> 'w"
  AddHealthzCheck_api :: "string \<Rightarrow> 'w \<Rightarrow> error option \<times> 'w"
  AddReadyzCheck_api :: "string \<Rightarrow> 'w \<Rightarrow> error option \<times> 'w"
  Start_api :: "'w \<Rightarrow> error option \<times> 'w"

datatype startup_event =
    is_SCall: SCall event
  | SGetConfig bool
  | SNewManager ctrl_Options "error option"
  | SSetupSignalHandler
  | SLookupEnv string "string option"
  | SNewClient "error option"
  | SComplete controller "error option"
  | SAddHealthzCheck string "error option"
  | SAddReadyzCheck string "error option"
  | SStart "error option"

type_synonym ('w, 'a) startup_op = "('w, startup_event, 'a) prog"

text \<open>A program of the controllers' world inside the start-up: its calls keep their order.\<close>

definition lift_op :: "('w, 'a) op \<Rightarrow> ('w, 'a) startup_op" where
  "lift_op m = State (\<lambda>s. let (a, s') = exec m (world s)
     in (a, s\<lparr>world := world s', trace := trace s @ map SCall (trace s')\<rparr>))"

text \<open>How the process ends: \<^verbatim>\<open>main\<close> returns, \<^verbatim>\<open>os.Exit\<close> with a status, or a panic.\<close>

datatype process_end = Returned | Exited nat | Panicked string

definition Domain_SetupWithManager :: "'w startup \<Rightarrow> Data \<Rightarrow> ('w, error option) startup_op" where
  "Domain_SetupWithManager S config =
     (let pred = GenerationChangedPredicate;
          c = For WatchDomains (WithEventFilter pred
                (NewControllerManagedBy ''mailgun-controller'' config))
      in perform (Complete_api S c) (SComplete c))"

definition Route_SetupWithManager :: "'w startup \<Rightarrow> Data \<Rightarrow> ('w, error option) startup_op" where
  "Route_SetupWithManager S config =
     (let pred = GenerationChangedPredicate;
          c = WithEventFilter pred (For WatchRoutes
                (NewControllerManagedBy ''mailgun-controller'' config))
      in perform (Complete_api S c) (SComplete c))"

section \<open>\<^verbatim>\<open>main\<close>\<close>

definition exit_on_error ::
  "('w, error option) startup_op \<Rightarrow> ('w, process_end) startup_op \<Rightarrow> ('w, process_end) startup_op" where
  "exit_on_error m n = do {
     err \<leftarrow> m;
     (case err of Some _ \<Rightarrow> State_Monad.return (Exited 1) | None \<Rightarrow> n)
   }"

text \<open>From the registration of the controllers to the end.\<close>

definition run_manager :: "'w startup \<Rightarrow> Data \<Rightarrow> ('w, process_end) startup_op" where
  "run_manager S config =
     exit_on_error (Domain_SetupWithManager S config)
    (exit_on_error (Route_SetupWithManager S config)
    (exit_on_error (perform (AddHealthzCheck_api S ''healthz'') (SAddHealthzCheck ''healthz''))
    (exit_on_error (perform (AddReadyzCheck_api S ''readyz'') (SAddReadyzCheck ''readyz''))
    (exit_on_error (perform (Start_api S) SStart)
      (State_Monad.return Returned)))))"

text \<open>From the creation of the client, with the namespace set.\<close>

definition load_and_run :: "'w startup \<Rightarrow> flags \<Rightarrow> Data \<Rightarrow> ('w, process_end) startup_op" where
  "load_and_run S f config =
     exit_on_error (perform (NewClient_api S) SNewClient) (do {
       loaded \<leftarrow> lift_op (LoadConfiguration (env.truncate S) config (configMapName f) (secretName f));
       (case loaded of
          Panic msg \<Rightarrow> State_Monad.return (Panicked msg)
        | Ret (Some _, _) \<Rightarrow> State_Monad.return (Exited 1)
        | Ret (None, config) \<Rightarrow> run_manager S config)
     })"

definition configure :: "'w startup \<Rightarrow> flags \<Rightarrow> ('w, process_end) startup_op" where
  "configure S f = do {
     perform (SetupSignalHandler_api S) (\<lambda>_. SSetupSignalHandler);
     let config = NewConfiguration (env.truncate S);
     namespace \<leftarrow> perform (LookupEnv_api S ''OPERATOR_NAMESPACE'') (SLookupEnv ''OPERATOR_NAMESPACE'');
     (case namespace of
        Some ns \<Rightarrow> load_and_run S f (config\<lparr>OperatorNamespace := ns\<rparr>)
      | None \<Rightarrow> State_Monad.return (Exited 1))
   }"

definition registered_flags :: "'w startup \<Rightarrow> string \<Rightarrow> flag_var option" where
  "registered_flags S name =
     (case map_of main_flags name of
        Some v \<Rightarrow> Some v
      | None \<Rightarrow> map_option (\<lambda>(is_bool, accepts). OtherVar is_bool accepts) (extra_flags S name))"

definition main :: "'w startup \<Rightarrow> string list \<Rightarrow> ('w, process_end) startup_op" where
  "main S args =
     (case parse_flags (registered_flags S) args default_flags of
        HelpRequested \<Rightarrow> State_Monad.return (Exited 0)
      | BadFlag \<Rightarrow> State_Monad.return (Exited 2)
      | Parsed f \<Rightarrow> do {
          found \<leftarrow> perform (GetConfig_api S) SGetConfig;
          if \<not> found then State_Monad.return (Exited 1)
          else exit_on_error
            (perform (NewManager_api S (managerOptions f)) (SNewManager (managerOptions f)))
            (configure S f)
        })"

end
