(* ===== verification/Startup_Laws.thy ===== *)
theory Startup_Laws
  imports Startup Cluster
begin

text \<open>
  Properties of the start-up: the manager is started only after every step before it has succeeded
  and with the loaded configuration; each failure ends the process at once; the command line is
  read back as it was printed; HTTP/2 and the protection of the metrics follow the flags.
\<close>

section \<open>Symbolic execution of the start-up\<close>

lemma exec_lift_op [exec_simps]:
  "result (lift_op m) w = result m w"
  "after (lift_op m) w = after m w"
  "calls (lift_op m) w = map SCall (calls m w)"
  by (simp_all add: lift_op_def exec_def [of "State f" for f] result_def after_def calls_def
      split: prod.split)

lemma framed_lift_op [framed_rules]: "framed (lift_op m)"
  unfolding framed_def exec_lift_op
  by (simp add: lift_op_def result_def after_def calls_def split: prod.split)

lemma framed_exit_on_error [framed_rules]:
  "framed m \<Longrightarrow> framed n \<Longrightarrow> framed (exit_on_error m n)"
  unfolding exit_on_error_def by (intro framed_rules)

lemma exec_exit_on_error [exec_simps]:
  assumes "framed n"
  shows "result (exit_on_error m n) w =
      (case result m w of Some _ \<Rightarrow> Exited 1 | None \<Rightarrow> result n (after m w))"
    and "calls (exit_on_error m n) w =
      calls m w @ (case result m w of Some _ \<Rightarrow> [] | None \<Rightarrow> calls n (after m w))"
  using assms by (simp_all add: exit_on_error_def exec_simps framed_rules split: option.split)

lemma framed_SetupWithManager [framed_rules]:
  "framed (Domain_SetupWithManager S config)" "framed (Route_SetupWithManager S config)"
  by (simp_all add: Domain_SetupWithManager_def Route_SetupWithManager_def framed_perform Let_def)

lemma framed_run_manager [framed_rules]: "framed (run_manager S config)"
  unfolding run_manager_def by (intro framed_rules framed_perform)

lemma framed_load_and_run [framed_rules]: "framed (load_and_run S f config)"
  unfolding load_and_run_def by (intro framed_rules framed_perform)

lemma framed_configure [framed_rules]: "framed (configure S f)"
  unfolding configure_def by (intro framed_rules framed_perform)

lemmas startup_exec = exec_simps exec_perform framed_rules framed_perform

section \<open>The manager is started last\<close>

text \<open>What the two \<^verbatim>\<open>SetupWithManager\<close> register with the manager.\<close>

definition domain_controller :: "Data \<Rightarrow> controller" where
  "domain_controller cfg = \<lparr>ctl_EventFilters = [GenerationChangedPredicate],
     ctl_For = Some WatchDomains, ctl_Recorder = ''mailgun-controller'', ctl_Config = cfg\<rparr>"

definition route_controller :: "Data \<Rightarrow> controller" where
  "route_controller cfg = \<lparr>ctl_EventFilters = [GenerationChangedPredicate],
     ctl_For = Some WatchRoutes, ctl_Recorder = ''mailgun-controller'', ctl_Config = cfg\<rparr>"

lemma SetupWithManager_registers:
  "Domain_SetupWithManager S cfg =
     perform (Complete_api S (domain_controller cfg)) (SComplete (domain_controller cfg))"
  "Route_SetupWithManager S cfg =
     perform (Complete_api S (route_controller cfg)) (SComplete (route_controller cfg))"
  by (simp_all add: Domain_SetupWithManager_def Route_SetupWithManager_def For_def Let_def
      WithEventFilter_def NewControllerManagedBy_def domain_controller_def route_controller_def)

text \<open>The calls after the configuration has been loaded, up to the start of the manager.\<close>

definition launch :: "Data \<Rightarrow> error option \<Rightarrow> startup_event list" where
  "launch cfg e = [SComplete (domain_controller cfg) None, SComplete (route_controller cfg) None,
     SAddHealthzCheck ''healthz'' None, SAddReadyzCheck ''readyz'' None, SStart e]"

lemma run_manager_started:
  "SStart e \<in> set (calls (run_manager S cfg) w) \<Longrightarrow> calls (run_manager S cfg) w = launch cfg e"
  unfolding run_manager_def SetupWithManager_registers launch_def
  by (auto simp: startup_exec split: option.splits)

text \<open>\<open>config\<close> was read, with the calls \<open>cs\<close>, from the settings named on the command line.\<close>

definition loaded :: "'w startup \<Rightarrow> flags \<Rightarrow> string \<Rightarrow> event list \<Rightarrow> Data \<Rightarrow> bool" where
  "loaded S f ns cs cfg \<longleftrightarrow>
     (\<exists>w. let m = LoadConfiguration (env.truncate S)
            ((NewConfiguration (env.truncate S))\<lparr>OperatorNamespace := ns\<rparr>)
            (configMapName f) (secretName f)
          in result m w = Ret (None, cfg) \<and> calls m w = cs)"

lemma configure_started:
  assumes "SStart e \<in> set (calls (configure S f) w)"
  shows "\<exists>ns cs cfg. loaded S f ns cs cfg \<and> calls (configure S f) w =
    [SSetupSignalHandler, SLookupEnv ''OPERATOR_NAMESPACE'' (Some ns), SNewClient None] @
    map SCall cs @ launch cfg e"
  using assms unfolding configure_def load_and_run_def loaded_def Let_def
  by (fastforce simp: startup_exec dest!: run_manager_started
      split: option.splits go.splits prod.splits)

text \<open>
  C25. The manager is started last and only when everything before has succeeded: the command line
  was parsed, the cluster's configuration was found and the manager built with the options of the
  flags, the namespace was set in the environment, the operator's settings were loaded, and both
  controllers were registered with these settings and the filter for generation changes, then the
  two health checks. The calls are exactly these, in this order.
\<close>

theorem manager_started_last:
  assumes "SStart e \<in> set (calls (main S args) w)"
  shows "\<exists>f ns cs cfg. parse_flags (registered_flags S) args default_flags = Parsed f \<and>
    loaded S f ns cs cfg \<and>
    calls (main S args) w =
      [SGetConfig True, SNewManager (managerOptions f) None, SSetupSignalHandler,
       SLookupEnv ''OPERATOR_NAMESPACE'' (Some ns), SNewClient None] @ map SCall cs @ launch cfg e"
  using assms unfolding main_def
  by (fastforce simp: startup_exec dest!: configure_started split: parsed.splits option.splits if_splits)

section \<open>A failure ends the process\<close>

fun failed :: "startup_event \<Rightarrow> bool" where
  "failed (SGetConfig found) \<longleftrightarrow> \<not> found"
| "failed (SNewManager opts e) \<longleftrightarrow> e \<noteq> None"
| "failed (SLookupEnv name v) \<longleftrightarrow> v = None"
| "failed (SNewClient e) \<longleftrightarrow> e \<noteq> None"
| "failed (SComplete c e) \<longleftrightarrow> e \<noteq> None"
| "failed (SAddHealthzCheck name e) \<longleftrightarrow> e \<noteq> None"
| "failed (SAddReadyzCheck name e) \<longleftrightarrow> e \<noteq> None"
| "failed (SStart e) \<longleftrightarrow> e \<noteq> None"
| "failed _ \<longleftrightarrow> False"

definition fail_fast :: "process_end \<Rightarrow> startup_event \<Rightarrow> startup_event list \<Rightarrow> bool" where
  "fail_fast out e post \<longleftrightarrow> (failed e \<longrightarrow> post = [] \<and> out = Exited 1)"

lemma fail_fast_simps [simp]:
  "\<not> failed e \<Longrightarrow> fail_fast out e post"
  "fail_fast (Exited 1) e []"
  "fail_fast (Exited (Suc 0)) e []"
  by (simp_all add: fail_fast_def)

lemma fail_fast_calls [simp]:
  "followed (\<lambda>e post. fail_fast out e (post @ ys)) (map SCall cs)"
  "followed (\<lambda>e post. fail_fast out e post) (map SCall cs)"
  "SStart e \<notin> SCall ` set cs"
  by (induction cs) auto

lemma run_manager_fail_fast:
  "followed (fail_fast (result (run_manager S cfg) w)) (calls (run_manager S cfg) w)"
  "result (run_manager S cfg) w = Returned \<longleftrightarrow> SStart None \<in> set (calls (run_manager S cfg) w)"
  unfolding run_manager_def SetupWithManager_registers
  by (simp_all add: startup_exec split: option.split)

lemma load_and_run_fail_fast:
  "followed (fail_fast (result (load_and_run S f config) w)) (calls (load_and_run S f config) w)"
  "result (load_and_run S f config) w = Returned \<longleftrightarrow> SStart None \<in> set (calls (load_and_run S f config) w)"
  unfolding load_and_run_def
  by (simp_all add: startup_exec run_manager_fail_fast split: option.split go.split prod.split)

lemma main_fail_fast:
  "followed (fail_fast (result (main S args) w)) (calls (main S args) w)"
  "result (main S args) w = Returned \<longleftrightarrow> SStart None \<in> set (calls (main S args) w)"
  unfolding main_def configure_def
  by (simp_all add: startup_exec load_and_run_fail_fast split: option.split parsed.split)

text \<open>The settings are loaded in the world after the creation of the client.\<close>

definition before_load :: "'w startup \<Rightarrow> flags \<Rightarrow> 'w \<Rightarrow> 'w" where
  "before_load S f w = snd (NewClient_api S (snd (LookupEnv_api S ''OPERATOR_NAMESPACE''
     (snd (SetupSignalHandler_api S (snd (NewManager_api S (managerOptions f) (snd (GetConfig_api S w)))))))))"

definition loading :: "'w startup \<Rightarrow> flags \<Rightarrow> string \<Rightarrow> ('w, (error option \<times> Data) go) op" where
  "loading S f ns = LoadConfiguration (env.truncate S)
     ((NewConfiguration (env.truncate S))\<lparr>OperatorNamespace := ns\<rparr>) (configMapName f) (secretName f)"

lemma run_manager_begins:
  "\<exists>e rest. calls (run_manager S cfg) w = SComplete (domain_controller cfg) e # rest"
  "SNewClient e \<notin> set (calls (run_manager S cfg) w)"
  unfolding run_manager_def SetupWithManager_registers
  by (auto simp: startup_exec split: option.splits)

lemma main_loading:
  assumes "parse_flags (registered_flags S) args default_flags = Parsed f"
    and "SNewClient None \<in> set (calls (main S args) w)"
  shows "\<exists>ns. let l = loading S f ns; w1 = before_load S f w; cs = map SCall (calls l w1) in
    calls (main S args) w = [SGetConfig True, SNewManager (managerOptions f) None, SSetupSignalHandler,
      SLookupEnv ''OPERATOR_NAMESPACE'' (Some ns), SNewClient None] @ cs @
        (case result l w1 of Ret (None, cfg) \<Rightarrow> calls (run_manager S cfg) (after l w1) | _ \<Rightarrow> []) \<and>
    (case result l w1 of
       Panic msg \<Rightarrow> result (main S args) w = Panicked msg
     | Ret (Some err, cfg) \<Rightarrow> result (main S args) w = Exited 1
     | Ret (None, cfg) \<Rightarrow> True)"
  using assms unfolding main_def configure_def load_and_run_def loading_def before_load_def Let_def
  by (auto simp: startup_exec run_manager_begins split: option.splits go.splits prod.splits if_splits)

lemma main_loads:
  assumes "parse_flags (registered_flags S) args default_flags = Parsed f"
    and "SNewClient None \<in> set (calls (main S args) w)"
  shows "\<exists>ns rest. let l = loading S f ns; w1 = before_load S f w in
      calls (main S args) w = [SGetConfig True, SNewManager (managerOptions f) None, SSetupSignalHandler,
        SLookupEnv ''OPERATOR_NAMESPACE'' (Some ns), SNewClient None] @ map SCall (calls l w1) @ rest \<and>
      (case result l w1 of
         Panic msg \<Rightarrow> rest = [] \<and> result (main S args) w = Panicked msg
       | Ret (Some err, _) \<Rightarrow> rest = [] \<and> result (main S args) w = Exited 1
       | Ret (None, cfg) \<Rightarrow> \<exists>e more. rest = SComplete (domain_controller cfg) e # more)"
proof -
  let ?w = "before_load S f w"
  from main_loading [OF assms] obtain ns where ns:
    "calls (main S args) w = [SGetConfig True, SNewManager (managerOptions f) None, SSetupSignalHandler,
      SLookupEnv ''OPERATOR_NAMESPACE'' (Some ns), SNewClient None] @ map SCall (calls (loading S f ns) ?w) @
      (case result (loading S f ns) ?w of
         Ret (None, cfg) \<Rightarrow> calls (run_manager S cfg) (after (loading S f ns) ?w) | _ \<Rightarrow> [])"
    "case result (loading S f ns) ?w of
       Panic msg \<Rightarrow> result (main S args) w = Panicked msg
     | Ret (Some err, cfg) \<Rightarrow> result (main S args) w = Exited 1
     | Ret (None, cfg) \<Rightarrow> True"
    unfolding Let_def by blast
  consider (panic) msg where "result (loading S f ns) ?w = Panic msg"
    | (error) err cfg where "result (loading S f ns) ?w = Ret (Some err, cfg)"
    | (go) cfg where "result (loading S f ns) ?w = Ret (None, cfg)"
    by (metis go.exhaust option.exhaust prod.exhaust)
  then show ?thesis
  proof cases
    case go
    with ns run_manager_begins(1) [of S cfg "after (loading S f ns) ?w"] show ?thesis
      by (intro exI [of _ ns] exI [of _ "calls (run_manager S cfg) (after (loading S f ns) ?w)"])
        (simp add: Let_def)
  qed (use ns in \<open>intro exI [of _ ns] exI [of _ "[]"], simp add: Let_def\<close>)+
qed

text \<open>
  C26. The start-up fails fast. A request for help ends the process with status 0 and a bad command line
  with status 2, before any call. After that, any failing call (no cluster configuration, the manager or
  the client not created, the namespace missing, a controller or a health check refused, the manager
  ending with an error) is the last one, and the process exits with status 1. Once the client is created,
  the settings named by the flags are loaded in the namespace of the environment: a panic of the loading
  (a malformed interval) is the end of the process, an error is its end with status 1, both without any
  further call, and otherwise the next call registers the domain controller with the settings that were
  loaded. The process returns normally exactly when the manager was started and ended without an error.
\<close>

theorem startup_fails_fast:
  "case parse_flags (registered_flags S) args default_flags of
     HelpRequested \<Rightarrow> calls (main S args) w = [] \<and> result (main S args) w = Exited 0
   | BadFlag \<Rightarrow> calls (main S args) w = [] \<and> result (main S args) w = Exited 2
   | Parsed f \<Rightarrow>
       (\<forall>pre e post. calls (main S args) w = pre @ e # post \<and> failed e \<longrightarrow>
          post = [] \<and> result (main S args) w = Exited 1) \<and>
       (SNewClient None \<in> set (calls (main S args) w) \<longrightarrow>
          (\<exists>ns rest. let l = loading S f ns; w1 = before_load S f w in
             calls (main S args) w = [SGetConfig True, SNewManager (managerOptions f) None, SSetupSignalHandler,
               SLookupEnv ''OPERATOR_NAMESPACE'' (Some ns), SNewClient None] @ map SCall (calls l w1) @ rest \<and>
             (case result l w1 of
                Panic msg \<Rightarrow> rest = [] \<and> result (main S args) w = Panicked msg
              | Ret (Some err, _) \<Rightarrow> rest = [] \<and> result (main S args) w = Exited 1
              | Ret (None, cfg) \<Rightarrow> \<exists>e more. rest = SComplete (domain_controller cfg) e # more))) \<and>
       (result (main S args) w = Returned \<longleftrightarrow> SStart None \<in> set (calls (main S args) w))"
proof (cases "parse_flags (registered_flags S) args default_flags")
  case (Parsed f)
  have last: "\<forall>pre e post. calls (main S args) w = pre @ e # post \<and> failed e \<longrightarrow>
      post = [] \<and> result (main S args) w = Exited 1"
  proof (intro allI impI, elim conjE)
    fix pre e post
    assume "calls (main S args) w = pre @ e # post" "failed e"
    with main_fail_fast(1) [of S args w] show "post = [] \<and> result (main S args) w = Exited 1"
      by (simp add: fail_fast_def)
  qed
  show ?thesis
    unfolding Parsed parsed.case
    by (rule conjI [OF last conjI [OF impI [OF main_loads [OF Parsed]] main_fail_fast(2)]])
qed (simp_all add: main_def startup_exec)

section \<open>The command line\<close>

definition show_bool :: "bool \<Rightarrow> string" where
  "show_bool b = (if b then ''true'' else ''false'')"

definition print_flags :: "flags \<Rightarrow> string list" where
  "print_flags f =
     [''--metrics-bind-address='' @ metricsAddr f,
      ''--health-probe-bind-address='' @ probeAddr f,
      ''--leader-elect='' @ show_bool (enableLeaderElection f),
      ''--metrics-secure='' @ show_bool (secureMetrics f),
      ''--enable-http2='' @ show_bool (enableHTTP2 f),
      ''-config-map-name'', configMapName f,
      ''-secret-name'', secretName f]"

lemma ParseBool_show [simp]: "ParseBool (show_bool b) = Some b"
  by (simp add: ParseBool_def show_bool_def)

text \<open>
  C37. Settings printed as a command line are read back unchanged, whatever characters their values
  have and whatever values the flags had before; arguments that follow are parsed with them.
\<close>

theorem parse_print_flags:
  "parse_flags (registered_flags S) (print_flags f @ args) g = parse_flags (registered_flags S) args f"
  by (cases f; cases g) (simp add: print_flags_def registered_flags_def main_flags_def)

section \<open>Options of the servers\<close>

text \<open>
  The manager is created with the options of the flags. Unless \<^verbatim>\<open>--enable-http2\<close> is set, the TLS
  options of both servers, whatever configuration they are applied to, leave HTTP/1.1 as the only
  protocol; with it they change nothing. The metrics are protected by authentication exactly when
  they are served securely.
\<close>

theorem manager_options:
  assumes "SNewManager opts err \<in> set (calls (main S args) w)"
  shows "\<exists>f. parse_flags (registered_flags S) args default_flags = Parsed f \<and>
    HealthProbeBindAddress opts = probeAddr f \<and> BindAddress (Metrics opts) = metricsAddr f \<and>
    (\<forall>tls \<in> {metrics_TLSOpts (Metrics opts), webhook_TLSOpts opts}. \<forall>c.
       fold (\<lambda>opt. opt) tls c = (if enableHTTP2 f then c else c\<lparr>NextProtos := [''http/1.1'']\<rparr>)) \<and>
    SecureServing (Metrics opts) = secureMetrics f \<and>
    (FilterProvider (Metrics opts) = Some WithAuthenticationAndAuthorization \<longleftrightarrow> secureMetrics f)"
proof -
  have no_manager: "SNewManager opts err \<notin> set (calls (configure S f) w')" for f w'
    unfolding configure_def load_and_run_def run_manager_def SetupWithManager_registers
    by (auto simp: startup_exec Let_def split: option.splits go.splits prod.splits)
  from assms obtain f where "parse_flags (registered_flags S) args default_flags = Parsed f"
      "opts = managerOptions f"
    unfolding main_def using no_manager
    by (auto simp: startup_exec split: parsed.splits option.splits if_splits)
  then show ?thesis
    by (auto simp: managerOptions_def metricsServerOptions_def tlsOpts_def disableHTTP2_def Let_def)
qed

section \<open>A start on the test cluster\<close>

definition test_startup :: "cluster startup" where
  "test_startup = env.extend test_env
     (startup.fields (\<lambda>name. if name = ''kubeconfig'' then Some (False, \<lambda>v. True) else None)
       (\<lambda>w. (True, w)) (\<lambda>opts w. (None, w)) (\<lambda>w. ((), w))
       (\<lambda>name w. (if name = ''OPERATOR_NAMESPACE'' then Some ''mail'' else None, w))
       (\<lambda>w. (None, w)) (\<lambda>c w. (None, w)) (\<lambda>name w. (None, w)) (\<lambda>name w. (None, w)) (\<lambda>w. (None, w)))"

lemma test_startup_env [simp]: "env.truncate test_startup = test_env"
  by (simp add: test_startup_def env.defs)

definition start_args :: "string list" where
  "start_args = [''--kubeconfig'', ''/etc/kube'', ''--leader-elect'', ''--config-map-name=settings'']"

definition start_world :: cluster where
  "start_world = (empty_cluster (NewMailgunServer ''key''))\<lparr>cl_configmaps :=
     [(\<lparr>nn_Namespace = ''mail'', nn_Name = ''settings''\<rparr>,
       \<lparr>cm_Meta = zero_ObjectMeta, cm_Data = Some [(''domain_verification_timeout'', ''60'')]\<rparr>)]\<rparr>"

lemma start_run: "result (main test_startup start_args) start_world = Returned"
  by code_simp

lemma start_parsed:
  "parse_flags (registered_flags test_startup) start_args default_flags =
     Parsed (default_flags\<lparr>enableLeaderElection := True, configMapName := ''settings''\<rparr>)"
  by code_simp

lemma start_starts: "SStart None \<in> set (calls (main test_startup start_args) start_world)"
  using start_run by (simp only: main_fail_fast(2))

theorem manager_started_last_witness:
  "\<exists>ns cs cfg. loaded test_startup
       (default_flags\<lparr>enableLeaderElection := True, configMapName := ''settings''\<rparr>) ns cs cfg \<and>
     last (calls (main test_startup start_args) start_world) = SStart None"
  using manager_started_last [OF start_starts] start_parsed by (auto simp: launch_def)

text \<open>The ConfigMap named on the command line cannot be read.\<close>

definition unreadable_startup :: "cluster startup" where
  "unreadable_startup = test_startup\<lparr>GetConfigMap_api := \<lambda>k x w. ((Some unexpected, x), w)\<rparr>"

theorem startup_fails_fast_witness:
  "\<exists>cs ns. calls (main unreadable_startup start_args) start_world =
      [SGetConfig True, SNewManager (managerOptions (default_flags\<lparr>enableLeaderElection := True,
         configMapName := ''settings''\<rparr>)) None, SSetupSignalHandler,
       SLookupEnv ''OPERATOR_NAMESPACE'' (Some ns), SNewClient None] @ map SCall cs \<and>
    result (main unreadable_startup start_args) start_world = Exited 1"
proof -
  let ?f = "default_flags\<lparr>enableLeaderElection := True, configMapName := ''settings''\<rparr>"
  let ?calls = "calls (main unreadable_startup start_args) start_world"
  have parsed: "parse_flags (registered_flags unreadable_startup) start_args default_flags = Parsed ?f"
    by code_simp
  have "list_ex (\<lambda>e. case e of SNewClient None \<Rightarrow> True | _ \<Rightarrow> False) ?calls"
    by code_simp
  then have client: "SNewClient None \<in> set ?calls"
    by (rule list_ex_split) (auto split: startup_event.splits option.splits)
  from startup_fails_fast [of unreadable_startup start_args start_world, unfolded parsed parsed.case] client
  obtain ns rest where run: "?calls = [SGetConfig True, SNewManager (managerOptions ?f) None, SSetupSignalHandler,
      SLookupEnv ''OPERATOR_NAMESPACE'' (Some ns), SNewClient None] @
      map SCall (calls (loading unreadable_startup ?f ns) (before_load unreadable_startup ?f start_world)) @ rest"
    and ends: "case result (loading unreadable_startup ?f ns) (before_load unreadable_startup ?f start_world) of
        Panic msg \<Rightarrow> rest = [] \<and> result (main unreadable_startup start_args) start_world = Panicked msg
      | Ret (Some err, _) \<Rightarrow> rest = [] \<and> result (main unreadable_startup start_args) start_world = Exited 1
      | Ret (None, cfg) \<Rightarrow> \<exists>e more. rest = SComplete (domain_controller cfg) e # more"
    by (auto simp: Let_def)
  have "case ?calls ! 3 of SLookupEnv n v \<Rightarrow> v = Some ''mail'' | _ \<Rightarrow> False"
    by code_simp
  with run have ns: "ns = ''mail''" by simp
  have "case result (loading unreadable_startup ?f ''mail'') (before_load unreadable_startup ?f start_world) of
      Ret (Some err, _) \<Rightarrow> True | _ \<Rightarrow> False"
    by code_simp
  then obtain err d where
    "result (loading unreadable_startup ?f ns) (before_load unreadable_startup ?f start_world) = Ret (Some err, d)"
    unfolding ns by (auto split: go.splits prod.splits option.splits)
  with run ends show ?thesis by auto
qed

theorem manager_options_witness:
  "\<exists>opts err. SNewManager opts err \<in> set (calls (main test_startup start_args) start_world) \<and>
     SecureServing (Metrics opts) \<and>
     FilterProvider (Metrics opts) = Some WithAuthenticationAndAuthorization"
proof -
  have "list_ex (\<lambda>e. case e of SNewManager opts err \<Rightarrow> True | _ \<Rightarrow> False)
      (calls (main test_startup start_args) start_world)"
    by code_simp
  then obtain pre opts err post where
    "calls (main test_startup start_args) start_world = pre @ SNewManager opts err # post"
    by (rule list_ex_split) (auto split: startup_event.splits)
  then have run: "SNewManager opts err \<in> set (calls (main test_startup start_args) start_world)"
    by simp
  from manager_options [OF run] start_parsed run show ?thesis
    by (auto simp: default_flags_def)
qed

end
