(* ===== verification/World_Invariants.thy ===== *)
theory World_Invariants
  imports Environment
begin

text \<open>
  Invariants of the world under programs, in the style of Hoare logic: \<open>hoare P m Q\<close> says that from a
  world in \<open>P\<close> the program ends with a result and a world in \<open>Q\<close>, and \<open>keeps I V m\<close> that it keeps
  the invariant \<open>I\<close> and has a result in \<open>V\<close>. The rules go through the constructs of the monad; the
  predicate \<open>calls_in\<close> bounds what the calls of an environment do to the world by a relation.
\<close>

section \<open>Judgements\<close>

named_theorems keeps_rules

definition hoare :: "('w \<Rightarrow> bool) \<Rightarrow> ('w, 'e, 'a) prog \<Rightarrow> ('a \<Rightarrow> 'w \<Rightarrow> bool) \<Rightarrow> bool" where
  "hoare P m Q \<longleftrightarrow>
     (\<forall>s. P (world s) \<longrightarrow> Q (fst (run_state m s)) (world (snd (run_state m s))))"

definition keeps :: "('w \<Rightarrow> bool) \<Rightarrow> ('a \<Rightarrow> bool) \<Rightarrow> ('w, 'e, 'a) prog \<Rightarrow> bool" where
  "keeps I V m \<longleftrightarrow> hoare I m (\<lambda>r w. I w \<and> V r)"

lemma hoare_result:
  assumes "hoare P m Q" "P w"
  shows "Q (result m w) (after m w)"
  using assms by (simp add: hoare_def result_def after_def exec_def)

lemma hoare_framed:
  assumes "framed m" and "\<And>w. P w \<Longrightarrow> Q (result m w) (after m w)"
  shows "hoare P m Q"
  unfolding hoare_def
proof (intro allI impI)
  fix s :: "('a, 'b) sys"
  assume P: "P (world s)"
  obtain w ts where s: "s = \<lparr>world = w, trace = ts\<rparr>" by (cases s) simp
  with assms(2) [of w] P show "Q (fst (run_state m s)) (world (snd (run_state m s)))"
    by (simp add: framed_run [OF assms(1)])
qed

lemma hoare_bind:
  assumes "hoare P m R" and "\<And>x. hoare (R x) (f x) Q"
  shows "hoare P (State_Monad.bind m f) Q"
  using assms by (auto simp: hoare_def split: prod.split)

lemma hoare_pure: "(U \<Longrightarrow> hoare P m Q) \<Longrightarrow> hoare (\<lambda>w. P w \<and> U) m Q"
  by (auto simp: hoare_def)

lemma hoare_weaken:
  assumes "hoare P m Q" "\<And>w. P' w \<Longrightarrow> P w" "\<And>r w. Q r w \<Longrightarrow> Q' r w"
  shows "hoare P' m Q'"
  using assms by (auto simp: hoare_def)

lemma keeps_result: "keeps I V m \<Longrightarrow> I w \<Longrightarrow> V (result m w)"
  and keeps_after: "keeps I V m \<Longrightarrow> I w \<Longrightarrow> I (after m w)"
  unfolding keeps_def by (auto dest: hoare_result)

lemma hoare_keeps: "keeps I (\<lambda>_. True) m \<Longrightarrow> hoare I m (\<lambda>_. I)"
  unfolding keeps_def by (erule hoare_weaken) auto

lemma hoare_return: "(\<And>w. P w \<Longrightarrow> Q x w) \<Longrightarrow> hoare P (State_Monad.return x) Q"
  by (simp add: hoare_def)

lemma hoare_case:
  "(\<And>e. x = Inl e \<Longrightarrow> hoare P (f e) Q) \<Longrightarrow> (\<And>y. x = Inr y \<Longrightarrow> hoare P (g y) Q) \<Longrightarrow>
   hoare P (case x of Inl e \<Rightarrow> f e | Inr y \<Rightarrow> g y) Q"
  "(\<And>y. z = Ret y \<Longrightarrow> hoare P (h y) Q) \<Longrightarrow> (\<And>e. z = Panic e \<Longrightarrow> hoare P (i e) Q) \<Longrightarrow>
   hoare P (case z of Ret y \<Rightarrow> h y | Panic e \<Rightarrow> i e) Q"
  by (cases x; simp) (cases z; simp)

lemma keeps_weaken: "keeps I V m \<Longrightarrow> (\<And>r. V r \<Longrightarrow> V' r) \<Longrightarrow> keeps I V' m"
  unfolding keeps_def by (erule hoare_weaken) auto

lemma keeps_framed:
  "framed m \<Longrightarrow> (\<And>w. I w \<Longrightarrow> I (after m w) \<and> V (result m w)) \<Longrightarrow> keeps I V m"
  unfolding keeps_def by (rule hoare_framed)

lemma keeps_conj: "keeps I V m \<Longrightarrow> (\<And>w. I w \<Longrightarrow> U (result m w)) \<Longrightarrow> framed m \<Longrightarrow> keeps I (\<lambda>r. V r \<and> U r) m"
  by (rule keeps_framed) (auto dest: keeps_after keeps_result)

lemma keeps_return [keeps_rules]: "V x \<Longrightarrow> keeps I V (State_Monad.return x)"
  by (simp add: keeps_def hoare_def)

lemma keeps_bind [keeps_rules]:
  assumes "keeps I U m" and "\<And>x. U x \<Longrightarrow> keeps I V (f x)"
  shows "keeps I V (State_Monad.bind m f)"
  using assms unfolding keeps_def by (blast intro: hoare_bind hoare_pure)

lemma keeps_perform:
  "(\<And>w. I w \<Longrightarrow> I (snd (f w)) \<and> V (fst (f w))) \<Longrightarrow> keeps I V (perform f ev)"
  by (auto simp: keeps_def hoare_def perform_def case_prod_beta Let_def)

lemma keeps_if [keeps_rules]:
  "(b \<Longrightarrow> keeps I V m) \<Longrightarrow> (\<not> b \<Longrightarrow> keeps I V n) \<Longrightarrow> keeps I V (if b then m else n)"
  by simp

lemma keeps_case_option [keeps_rules]:
  "(x = None \<Longrightarrow> keeps I V m) \<Longrightarrow> (\<And>y. x = Some y \<Longrightarrow> keeps I V (f y)) \<Longrightarrow>
   keeps I V (case x of None \<Rightarrow> m | Some y \<Rightarrow> f y)"
  by (cases x) simp_all

lemma keeps_case_sum [keeps_rules]:
  "(\<And>e. x = Inl e \<Longrightarrow> keeps I V (f e)) \<Longrightarrow> (\<And>y. x = Inr y \<Longrightarrow> keeps I V (g y)) \<Longrightarrow>
   keeps I V (case x of Inl e \<Rightarrow> f e | Inr y \<Rightarrow> g y)"
  by (cases x) simp_all

lemma keeps_case_prod [keeps_rules]:
  "(\<And>a b. x = (a, b) \<Longrightarrow> keeps I V (f a b)) \<Longrightarrow> keeps I V (case x of (a, b) \<Rightarrow> f a b)"
  by (cases x) simp

lemma keeps_case_go [keeps_rules]:
  "(\<And>y. x = Ret y \<Longrightarrow> keeps I V (f y)) \<Longrightarrow> (\<And>e. x = Panic e \<Longrightarrow> keeps I V (g e)) \<Longrightarrow>
   keeps I V (case x of Ret y \<Rightarrow> f y | Panic e \<Rightarrow> g e)"
  by (cases x) simp_all

lemma keeps_let [keeps_rules]: "keeps I V (f x) \<Longrightarrow> keeps I V (let y = x in f y)"
  by simp

section \<open>What the calls of an environment do\<close>

text \<open>Each operation of a list changes the world within the relation \<open>R\<close>.\<close>

definition moves :: "('w \<Rightarrow> 'w \<Rightarrow> bool) \<Rightarrow> ('w \<Rightarrow> 'r \<times> 'w) \<Rightarrow> bool" where
  "moves R f \<longleftrightarrow> (\<forall>w. R w (snd (f w)))"

text \<open>The calls that neither write Domain or Route objects nor create a domain on Mailgun.\<close>

definition other_calls_in :: "'w env \<Rightarrow> ('w \<Rightarrow> 'w \<Rightarrow> bool) \<Rightarrow> bool" where
  "other_calls_in env R \<longleftrightarrow>
     (\<forall>k x. moves R (GetDomain_api env k x)) \<and> (\<forall>k x. moves R (GetRoute_api env k x)) \<and>
     (\<forall>k x. moves R (GetSecret_api env k x)) \<and> (\<forall>s f. moves R (CreateOrUpdateSecret_api env s f)) \<and>
     (\<forall>k x. moves R (GetConfigMap_api env k x)) \<and> (\<forall>k x. moves R (GetDNSEndpoint_api env k x)) \<and>
     (\<forall>x. moves R (CreateDNSEndpoint_api env x)) \<and> (\<forall>x. moves R (DeleteDNSEndpoint_api env x)) \<and>
     (\<forall>k t r m. moves R (Eventf_api env k t r m)) \<and> (\<forall>mg n. moves R (mg_GetDomain_api env mg n)) \<and>
     (\<forall>mg n. moves R (mg_VerifyDomain_api env mg n)) \<and> (\<forall>mg n. moves R (mg_DeleteDomain_api env mg n)) \<and>
     (\<forall>mg i. moves R (mg_GetRoute_api env mg i)) \<and> (\<forall>mg r. moves R (mg_CreateRoute_api env mg r)) \<and>
     (\<forall>mg i r. moves R (mg_UpdateRoute_api env mg i r)) \<and>
     (\<forall>mg i. moves R (mg_DeleteRoute_api env mg i)) \<and>
     (\<forall>n. moves R (rand_Read_api env n)) \<and> moves R (time_Now_api env)"

definition object_writes_in :: "'w env \<Rightarrow> ('w \<Rightarrow> 'w \<Rightarrow> bool) \<Rightarrow> bool" where
  "object_writes_in env R \<longleftrightarrow>
     (\<forall>d. moves R (UpdateDomain_api env d)) \<and> (\<forall>d. moves R (StatusUpdateDomain_api env d)) \<and>
     (\<forall>r. moves R (UpdateRoute_api env r)) \<and> (\<forall>r. moves R (StatusUpdateRoute_api env r))"

text \<open>An invariant that is closed under the relation is kept by these calls.\<close>

definition closed_under :: "('w \<Rightarrow> 'w \<Rightarrow> bool) \<Rightarrow> ('w \<Rightarrow> bool) \<Rightarrow> bool" where
  "closed_under R I \<longleftrightarrow> (\<forall>w w'. I w \<longrightarrow> R w w' \<longrightarrow> I w')"

lemma keeps_moves: "moves R f \<Longrightarrow> closed_under R I \<Longrightarrow> keeps I (\<lambda>_. True) (perform f ev)"
  by (rule keeps_perform) (auto simp: moves_def closed_under_def)

lemma keeps_other_calls:
  assumes "other_calls_in env R" and "closed_under R I"
  shows "keeps I (\<lambda>_. True) (k_GetDomain env key d)" "keeps I (\<lambda>_. True) (k_GetRoute env key r)"
    "keeps I (\<lambda>_. True) (k_GetSecret env key sec)"
    "keeps I (\<lambda>_. True) (k_CreateOrUpdateSecret env sec f)"
    "keeps I (\<lambda>_. True) (k_GetConfigMap env key c)" "keeps I (\<lambda>_. True) (k_GetDNSEndpoint env key x)"
    "keeps I (\<lambda>_. True) (k_CreateDNSEndpoint env x)" "keeps I (\<lambda>_. True) (k_DeleteDNSEndpoint env x)"
    "keeps I (\<lambda>_. True) (k_Eventf env m ty rsn msg)" "keeps I (\<lambda>_. True) (mg_GetDomain env mg name)"
    "keeps I (\<lambda>_. True) (mg_VerifyDomain env mg name)" "keeps I (\<lambda>_. True) (mg_DeleteDomain env mg name)"
    "keeps I (\<lambda>_. True) (mg_GetRoute env mg i)" "keeps I (\<lambda>_. True) (mg_CreateRoute env mg mr)"
    "keeps I (\<lambda>_. True) (mg_UpdateRoute env mg i mr)" "keeps I (\<lambda>_. True) (mg_DeleteRoute env mg i)"
    "keeps I (\<lambda>_. True) (rand_Read env n)" "keeps I (\<lambda>_. True) (time_Now env)"
  using assms(1) unfolding call_defs other_calls_in_def
  by (auto intro!: keeps_moves [where R = R] intro: assms(2))

lemma keeps_object_writes:
  assumes "object_writes_in env R" and "closed_under R I"
  shows "keeps I (\<lambda>_. True) (k_UpdateDomain env d)" "keeps I (\<lambda>_. True) (k_StatusUpdateDomain env d)"
    "keeps I (\<lambda>_. True) (k_UpdateRoute env r)" "keeps I (\<lambda>_. True) (k_StatusUpdateRoute env r)"
  using assms(1) unfolding call_defs object_writes_in_def
  by (auto intro!: keeps_moves [where R = R] intro: assms(2))

end
