(* ===== verification/Unique_Names.thy ===== *)
theory Unique_Names
  imports World_Invariants Route_Controller Mock_Laws Cluster
begin

text \<open>
  The operator never puts a second domain with the same (non-empty) name on Mailgun. The locale
  \<open>mailgun_service\<close> states what this needs of the outside world: only the call that creates a domain
  adds one, it adds one of that name, and only when the service accepts the name from this client; a
  name whose lookup fails is free or is not accepted by the creation that follows. A service that
  refuses taken names accepts exactly the free ones; the mock service of the repository accepts every
  name from a client that reaches it with the right token, and answers its lookups. The clients are
  both controllers as a whole; the cluster with the mock service is an instance.
\<close>

definition fewer :: "('w \<Rightarrow> string \<Rightarrow> nat) \<Rightarrow> 'w \<Rightarrow> 'w \<Rightarrow> bool" where
  "fewer copies w w' \<longleftrightarrow> (\<forall>n. copies w' n \<le> copies w n)"

definition unique_names :: "('w \<Rightarrow> string \<Rightarrow> nat) \<Rightarrow> 'w \<Rightarrow> bool" where
  "unique_names copies w \<longleftrightarrow> (\<forall>n. n \<noteq> '''' \<longrightarrow> copies w n \<le> 1)"

lemma unique_names_closed: "closed_under (fewer copies) (unique_names copies)"
  unfolding closed_under_def unique_names_def fewer_def by (meson order_trans)

section \<open>The contract and its clients\<close>

locale mailgun_service =
  fixes env :: "'w env"
    and copies :: "'w \<Rightarrow> string \<Rightarrow> nat"
    and accepts :: "MailgunImpl \<Rightarrow> string \<Rightarrow> 'w \<Rightarrow> bool"
  assumes other_calls: "other_calls_in env (fewer copies)"
    and object_writes: "object_writes_in env (fewer copies)"
    and creation: "copies (snd (mg_CreateDomain_api env mg n opts w)) k \<le>
      copies w k + (if k = n \<and> accepts mg n w then 1 else 0)"
    and lookup: "accepts mg n w \<Longrightarrow> n \<noteq> '''' \<Longrightarrow> fst (mg_GetDomain_api env mg n w) = Inl e \<Longrightarrow>
      copies w n = 0"
    and lookup_accepts: "accepts mg n (snd (mg_GetDomain_api env mg n w)) \<Longrightarrow> accepts mg n w"
    and rand_accepts: "accepts mg n (snd (rand_Read_api env i w)) \<Longrightarrow> accepts mg n w"
    and update_spec: "fst (UpdateDomain_api env d w) = (None, d') \<Longrightarrow> d_Spec d' = d_Spec d"
begin

abbreviation unique :: "'w \<Rightarrow> bool" where
  "unique \<equiv> unique_names copies"

lemmas keeps_unique_calls =
  keeps_other_calls [OF other_calls unique_names_closed]
  keeps_object_writes [OF object_writes unique_names_closed]

lemmas keeps_unique_rules = keeps_rules keeps_unique_calls

text \<open>A name that is free, or that the service does not accept.\<close>

definition free :: "MailgunImpl \<Rightarrow> string \<Rightarrow> 'w \<Rightarrow> bool" where
  "free mg n w \<longleftrightarrow> n = '''' \<or> \<not> accepts mg n w \<or> copies w n = 0"

lemma unique_creation:
  assumes "unique w" "free mg n w"
  shows "unique (snd (mg_CreateDomain_api env mg n opts w))"
  unfolding unique_names_def
proof (intro allI impI)
  fix k :: string
  assume "k \<noteq> ''''"
  with assms creation [of mg n opts w k]
  show "copies (snd (mg_CreateDomain_api env mg n opts w)) k \<le> 1"
    by (auto simp: unique_names_def free_def split: if_splits dest!: spec [of _ k])
qed

lemma fewer_lookup: "fewer copies w (snd (mg_GetDomain_api env mg n w))"
  and fewer_rand: "fewer copies w (snd (rand_Read_api env i w))"
  using other_calls by (simp_all add: other_calls_in_def moves_def)

lemma free_lookup:
  assumes "fst (mg_GetDomain_api env mg n w) = Inl e"
  shows "free mg n (snd (mg_GetDomain_api env mg n w))"
  using lookup [OF _ _ assms] fewer_lookup [of w mg n] lookup_accepts [of mg n w]
  by (auto simp: free_def fewer_def) (metis bot_nat_0.extremum_uniqueI less_nat_zero_code)

lemma free_rand: "free mg n w \<Longrightarrow> free mg n (snd (rand_Read_api env i w))"
  using fewer_rand [of w i] rand_accepts [of mg n i w]
  by (auto simp: free_def fewer_def dest: spec [of _ n])

lemma unique_fewer: "unique w \<Longrightarrow> fewer copies w w' \<Longrightarrow> unique w'"
  using unique_names_closed [of copies] unfolding closed_under_def by blast

lemma after_RandomHex:
  assumes "unique w" "free mg n w"
  shows "unique (after (RandomHex env i) w) \<and> free mg n (after (RandomHex env i) w)"
  using assms unique_fewer [OF assms(1) fewer_rand] free_rand [OF assms(2)]
  unfolding RandomHex_def by (auto simp: domain_exec split: sum.splits)

lemma keeps_export: "keeps unique (\<lambda>_. True) (exportCredentialsToSecret env d login password)"
  unfolding exportCredentialsToSecret_def by (rule TrueI keeps_unique_rules)+

lemma unique_createDomain:
  "hoare (\<lambda>w. unique w \<and> free mg (spec_Domain (d_Spec d)) w) (createDomain env mg d) (\<lambda>_. unique)"
  (is "hoare ?P _ _")
  unfolding createDomain_def
proof (rule hoare_bind [where R = "\<lambda>_. ?P"], goal_cases)
  case 1
  show "hoare ?P (RandomHex env 16) (\<lambda>_. ?P)"
    by (rule hoare_framed [OF framed_RandomHex]) (blast dest: after_RandomHex)
next
  case (2 r)
  have create: "hoare ?P (mg_CreateDomain env mg (spec_Domain (d_Spec d)) opts) (\<lambda>_. unique)" for opts
    by (rule hoare_framed) (simp_all add: domain_exec unique_creation)
  show ?case
    by (rule hoare_case hoare_bind [OF create] hoare_return | assumption | erule conjunct1 |
        rule hoare_keeps, (rule TrueI keeps_unique_rules keeps_export)+)+
qed

lemma unique_reconcileNew:
  "keeps unique (\<lambda>_. True) (reconcileNew env mg (spec_Domain (d_Spec d)) d)"
  (is "keeps _ _ (reconcileNew _ _ ?n _)")
proof -
  have "hoare unique (reconcileNew env mg ?n d) (\<lambda>_. unique)"
    unfolding reconcileNew_def
  proof (rule hoare_bind [where R = "\<lambda>r w. unique w \<and> (\<forall>e. r = Inl e \<longrightarrow> free mg ?n w)"], goal_cases)
    case 1
    show "hoare unique (mg_GetDomain env mg ?n) (\<lambda>r w. unique w \<and> (\<forall>e. r = Inl e \<longrightarrow> free mg ?n w))"
      by (rule hoare_framed) (auto simp: domain_exec free_lookup intro: unique_fewer fewer_lookup)
  next
    case (2 r)
    show ?case
    proof (rule hoare_case, goal_cases)
      case (1 e)
      show ?case
        by (rule hoare_weaken, rule hoare_bind [OF unique_createDomain], rule hoare_keeps,
            (rule TrueI keeps_unique_rules)+) (simp_all add: 1)
    next
      case (2 y)
      show ?case
        by (rule hoare_weaken, rule hoare_keeps, (rule TrueI keeps_unique_rules)+) simp_all
    qed
  qed
  then show ?thesis by (simp add: keeps_def)
qed

lemma unique_reconcileExisting: "keeps unique (\<lambda>_. True) (reconcileExisting env cfg mg name d)"
  unfolding reconcileExisting_def createExternalDNSEntity_def reconcileVerify_def setActivated_def
    checkMXRecordsAndSetState_def
  by (rule TrueI keeps_unique_rules)+

lemma unique_reconcileState:
  assumes "name = spec_Domain (d_Spec d)"
  shows "keeps unique (\<lambda>_. True) (reconcileState env cfg mg name d)"
  unfolding reconcileState_def assms
  by (rule TrueI keeps_unique_rules unique_reconcileNew unique_reconcileExisting)+

lemma unique_deleteDomain: "keeps unique (\<lambda>_. True) (deleteDomain env mg d)"
  unfolding deleteDomain_def deleteFromMailgun_def removeDomainFinalizer_def
  by (rule TrueI keeps_unique_rules)+

text \<open>The name looked up is the one created, because an update is answered with what was sent.\<close>

lemma unique_UpdateDomain:
  "keeps unique (\<lambda>r. True \<and> (fst r = None \<longrightarrow> d_Spec (snd r) = d_Spec d)) (k_UpdateDomain env d)"
  by (rule keeps_conj [OF keeps_unique_calls(19)])
    (simp_all add: domain_exec, metis update_spec prod.collapse)

lemma unique_DomainReconcile: "keeps unique (\<lambda>_. True) (DomainReconcile env cfg key)"
  unfolding DomainReconcile_def
  by (rule TrueI unique_UpdateDomain keeps_unique_rules unique_deleteDomain |
      rule unique_reconcileState, simp)+

lemma unique_RouteReconcile: "keeps unique (\<lambda>_. True) (RouteReconcile env cfg key)"
  unfolding RouteReconcile_def route_delete_defs sync_defs
  by (rule TrueI keeps_unique_rules)+

end

section \<open>The cluster provides it\<close>

definition mailgun_copies :: "cluster \<Rightarrow> string \<Rightarrow> nat" where
  "mailgun_copies w n = copies_of (cl_mock w) n"

text \<open>The client's base URL and key are those of the service.\<close>

definition mock_connected :: "MailgunImpl \<Rightarrow> cluster \<Rightarrow> bool" where
  "mock_connected mg w \<longleftrightarrow> client_apiBase mg = mock_url \<and> client_apiKey mg = apiToken (cl_mock w)"

lemma send_exec:
  "send mg m path f w =
     (if client_apiBase mg \<noteq> mock_url then (toJSON (Message ''no such host'') 503, w)
      else (case pattern_handler ''disabled'' (cl_clock w) (replicate (cl_fresh w) CHR ''x'') m (''v4'' # path) f of
              None \<Rightarrow> (toJSON (Message ''not found'') 404, w)
            | Some h \<Rightarrow>
                if mock_connected mg w then
                  (fst (h (cl_mock w)), w\<lparr>cl_mock := snd (h (cl_mock w)), cl_fresh := cl_fresh w + 1\<rparr>)
                else (toJSON (Message ''Invalid private key'') 401, w\<lparr>cl_fresh := cl_fresh w + 1\<rparr>)))"
  by (auto simp: send_def initRoutes_def client_request_def authHandler_def mock_connected_def
      split: option.split prod.split)

lemma send_fewer:
  assumes "\<And>spam now suffix h m'. pattern_handler spam now suffix m (''v4'' # path) f = Some h \<Longrightarrow>
    fewer copies_of m' (snd (h m'))"
  shows "fewer mailgun_copies w (snd (send mg m path f w))"
  using assms by (auto simp: send_exec fewer_def mailgun_copies_def split: option.split)

lemma handlers_fewer:
  "fewer copies_of m (snd (getDomain_handler n m))"
  "fewer copies_of m (snd (verifyDomain_handler n m))"
  "fewer copies_of m (snd (deleteDomain_handler n m))"
  "fewer copies_of m (snd (getRoute_handler n m))"
  "fewer copies_of m (snd (createRoute_handler n f m))"
  "fewer copies_of m (snd (updateRoute_handler n f m))"
  "fewer copies_of m (snd (deleteRoute_handler n m))"
proof -
  show "fewer copies_of m (snd (deleteDomain_handler n m))"
    unfolding fewer_def by (metis mock.delete_count le_add1)
  show "fewer copies_of m (snd (getDomain_handler n m))" "fewer copies_of m (snd (verifyDomain_handler n m))"
    by (simp_all add: fewer_def mock_get_copies mock_verify_copies)
qed (auto simp: fewer_def getRoute_handler_def copies_of_def
    createRoute_handler_def updateRoute_handler_def deleteRoute_handler_def Let_def split: option.split)

lemma sends_fewer:
  "fewer mailgun_copies w (snd (send mg GET [c, n] f w))"
  "fewer mailgun_copies w (snd (send mg PUT [c, n] f w))"
  "fewer mailgun_copies w (snd (send mg PUT [c, n, v] f w))"
  "fewer mailgun_copies w (snd (send mg DELETE [c, n] f w))"
  "fewer mailgun_copies w (snd (send mg POST [''routes''] f w))"
  by (rule send_fewer; auto simp: pattern_handler_def handlers_fewer split: if_splits)+

lemma test_env_other_calls: "other_calls_in test_env (fewer mailgun_copies)"
  unfolding other_calls_in_def moves_def
  by (auto simp: test_env_def case_prod_beta Let_def sends_fewer)
    (auto simp: fewer_def mailgun_copies_def cl_CreateOrUpdateSecret_def cl_CreateDNSEndpoint_def
      cl_DeleteDNSEndpoint_def Let_def)

lemma test_env_object_writes: "object_writes_in test_env (fewer mailgun_copies)"
  unfolding object_writes_in_def moves_def
  by (auto simp: test_env_def fewer_def mailgun_copies_def cl_UpdateDomain_def cl_StatusUpdateDomain_def
      cl_UpdateRoute_def cl_StatusUpdateRoute_def Let_def split: option.split)

lemma handlers_token:
  "apiToken (snd (getDomain_handler n m)) = apiToken m"
  by (auto simp: getDomain_handler_def split: option.split)

interpretation mailgun_mock: mailgun_service test_env mailgun_copies "\<lambda>mg n. mock_connected mg"
proof unfold_locales
  fix mg n opts w k e i d d'
  show "mailgun_copies (snd (mg_CreateDomain_api test_env mg n opts w)) k \<le>
      mailgun_copies w k + (if k = n \<and> mock_connected mg w then 1 else 0)"
    using mock.create_count [of "''disabled''" "cl_clock w" n "cl_mock w" k]
    by (auto simp: test_env_def case_prod_beta send_exec pattern_handler_def create_request_def
        mailgun_copies_def mock_connected_def)
  show "mock_connected mg w \<Longrightarrow> n \<noteq> '''' \<Longrightarrow> fst (mg_GetDomain_api test_env mg n w) = Inl e \<Longrightarrow>
      mailgun_copies w n = 0"
    using mock_get_code [of n "cl_mock w"]
    by (auto simp: test_env_def case_prod_beta send_exec pattern_handler_def domain_answer_def
        mailgun_copies_def mock_connected_def getDomain_handler_def toJSON_def
        split: option.splits payload.splits if_splits)
  have "mock_connected mg (snd (mg_GetDomain_api test_env mg n w)) = mock_connected mg w"
    by (auto simp: test_env_def case_prod_beta send_exec pattern_handler_def mock_connected_def handlers_token)
  then show "mock_connected mg (snd (mg_GetDomain_api test_env mg n w)) \<Longrightarrow> mock_connected mg w"
    by simp
  show "mock_connected mg (snd (rand_Read_api test_env i w)) \<Longrightarrow> mock_connected mg w"
    by (simp add: test_env_def)
  show "fst (UpdateDomain_api test_env d w) = (None, d') \<Longrightarrow> d_Spec d' = d_Spec d"
    using echo_lawsD(1) [OF test_env_echo_laws] by blast
qed (rule test_env_other_calls test_env_object_writes)+

end
