(* ===== verification/Object_Store.thy ===== *)
theory Object_Store
  imports World_Invariants Domain_Safety Route_Controller
begin

text \<open>
  What the domain controller does to the objects of the cluster. The locale \<open>api_server\<close> is the part
  of the API server the controller sees: objects under their keys, each with a resource version. Reads
  come from a cache, so they may be old, but an object with the stored version is the stored object. A
  write is accepted only with the stored version (custom resources cannot be updated without one) and
  may give the object a new one: \<^verbatim>\<open>Update\<close> takes the
  specification and the finalizers, \<^verbatim>\<open>Status().Update\<close> the status; an object under deletion goes with its
  last finalizer; an error changes nothing. Proved from it: a reconciliation leaves all other objects as
  they are, and of its own object the specification and all metadata but the operator's finalizer and
  what the server manages (version and generation); an object the operator has worked on carries the
  finalizer until it is deleted; and a reconciliation of an outdated object writes nothing.
\<close>

section \<open>Metadata up to one finalizer\<close>

text \<open>The resource version and the generation belong to the server.\<close>

definition own_meta :: "ObjectMeta \<Rightarrow> ObjectMeta" where
  "own_meta m = m\<lparr>Finalizers := [], meta_ResourceVersion := '''', meta_Generation := 0\<rparr>"

definition other_finalizers :: "string \<Rightarrow> ObjectMeta \<Rightarrow> string list" where
  "other_finalizers fin m = filter (\<lambda>f. f \<noteq> fin) (Finalizers m)"

definition same_meta :: "string \<Rightarrow> ObjectMeta \<Rightarrow> ObjectMeta \<Rightarrow> bool" where
  "same_meta fin m0 m \<longleftrightarrow> own_meta m = own_meta m0 \<and>
     other_finalizers fin m = other_finalizers fin m0"

lemma same_meta_refl [simp]: "same_meta fin m m"
  by (simp add: same_meta_def)

lemma own_meta_eq:
  "own_meta m = own_meta m0 \<longleftrightarrow> meta_Name m = meta_Name m0 \<and> meta_Namespace m = meta_Namespace m0 \<and>
     DeletionTimestamp m = DeletionTimestamp m0"
  by (cases m; cases m0) (simp add: own_meta_def)

lemma same_meta_key:
  assumes "same_meta fin m0 m"
  shows "key_of m = key_of m0" and "DeletionTimestamp m = DeletionTimestamp m0"
  using assms by (simp_all add: same_meta_def own_meta_eq key_of_def)

lemma same_meta_last: "same_meta fin m0 m \<Longrightarrow> Finalizers m = [] \<Longrightarrow> other_finalizers fin m0 = []"
  by (simp add: same_meta_def other_finalizers_def)

lemma same_meta_finalizer:
  assumes "finalizer_laws env" "same_meta fin m0 m"
  shows "same_meta fin m0 (fst (AddFinalizer env m fin))" "same_meta fin m0 (fst (RemoveFinalizer env m fin))"
  using assms by (simp_all add: finalizer_laws_def same_meta_def own_meta_eq other_finalizers_def)

lemma same_version_finalizer:
  assumes "finalizer_laws env"
  shows "meta_ResourceVersion (fst (AddFinalizer env m fin)) = meta_ResourceVersion m"
    "meta_ResourceVersion (fst (RemoveFinalizer env m fin)) = meta_ResourceVersion m"
  using assms by (simp_all add: finalizer_laws_def)

text \<open>What a write leaves: the stored metadata with the finalizers that were sent and new server fields.\<close>

definition rewritten :: "ObjectMeta \<Rightarrow> ObjectMeta \<Rightarrow> ObjectMeta \<Rightarrow> bool" where
  "rewritten old sent m \<longleftrightarrow> own_meta m = own_meta old \<and> Finalizers m = Finalizers sent"

lemma same_meta_rewritten:
  "same_meta fin m0 old \<Longrightarrow> same_meta fin m0 sent \<Longrightarrow> rewritten old sent m \<Longrightarrow> same_meta fin m0 m"
  by (simp add: same_meta_def rewritten_def other_finalizers_def)

definition same_object :: "Domain \<Rightarrow> Domain \<Rightarrow> bool" where
  "same_object d0 d \<longleftrightarrow> d_Spec d = d_Spec d0 \<and> same_meta domainFinalizer (d_Meta d0) (d_Meta d)"

text \<open>The object cannot vanish without the operator's consent, or is on its way out.\<close>

definition held :: "Domain \<Rightarrow> bool" where
  "held d \<longleftrightarrow> domainFinalizer \<in> set (Finalizers (d_Meta d)) \<or> DeletionTimestamp (d_Meta d) \<noteq> None"

lemma same_object_refl [simp]: "same_object d d"
  by (simp add: same_object_def)

lemma same_object_last:
  "same_object d0 d \<Longrightarrow> Finalizers (d_Meta d) = [] \<Longrightarrow> other_finalizers domainFinalizer (d_Meta d0) = []"
  by (auto simp: same_object_def intro: same_meta_last)

lemma same_object_key:
  assumes "same_object d0 d"
  shows "key_of (d_Meta d) = key_of (d_Meta d0)"
    and "DeletionTimestamp (d_Meta d) = DeletionTimestamp (d_Meta d0)"
  using assms by (auto simp: same_object_def dest: same_meta_key)

lemma same_object_fields [simp]:
  "same_object d0 (d\<lparr>d_Status := st\<rparr>) = same_object d0 d"
  "same_object d0 (set_State x d) = same_object d0 d"
  "same_object d0 (set_NotManaged b d) = same_object d0 d"
  "same_object d0 (set_MailgunError msg d) = same_object d0 d"
  "same_object d0 (record_response resp d) = same_object d0 d"
  "same_object d0 (record_dns resp d) = same_object d0 d"
  "same_object d0 (count_validation now d) = same_object d0 d"
  "same_object d0 (set_DomainState x d) = same_object d0 d"
  "same_object d0 (set_DnsEntrypointCreated d) = same_object d0 d"
  by (simp_all add: same_object_def)

section \<open>The contract\<close>

locale api_server =
  fixes env :: "'w env"
    and stored :: "'w \<Rightarrow> NamespacedName \<Rightarrow> Domain option"
  assumes finalizers: "finalizer_laws env"
    and zero_time: "IsZero env t \<longleftrightarrow> t = None"
    and other_calls: "other_calls_in env (\<lambda>w w'. stored w' = stored w)"
    and creation: "moves (\<lambda>w w'. stored w' = stored w) (mg_CreateDomain_api env mg n opts)"
    and route_writes: "moves (\<lambda>w w'. stored w' = stored w) (UpdateRoute_api env r)"
      "moves (\<lambda>w w'. stored w' = stored w) (StatusUpdateRoute_api env r)"
    and get: "fst (GetDomain_api env key x w) = (None, d) \<Longrightarrow> key_of (d_Meta d) = key \<and>
      (\<forall>old. stored w key = Some old \<longrightarrow>
         meta_ResourceVersion (d_Meta old) = meta_ResourceVersion (d_Meta d) \<longrightarrow> old = d)"
    and status_ok: "fst (StatusUpdateDomain_api env d w) = (None, d') \<Longrightarrow>
      \<exists>old. stored w (key_of (d_Meta d)) = Some old \<and>
        meta_ResourceVersion (d_Meta old) = meta_ResourceVersion (d_Meta d) \<and>
        d_Spec d' = d_Spec old \<and> d_Status d' = d_Status d \<and>
        rewritten (d_Meta old) (d_Meta old) (d_Meta d') \<and>
        stored (snd (StatusUpdateDomain_api env d w)) = (stored w)(key_of (d_Meta d) \<mapsto> d')"
    and status_refused: "fst (StatusUpdateDomain_api env d w) = (Some e, d') \<Longrightarrow>
      d' = d \<and> stored (snd (StatusUpdateDomain_api env d w)) = stored w"
    and update_ok: "fst (UpdateDomain_api env d w) = (None, d') \<Longrightarrow>
      \<exists>old. stored w (key_of (d_Meta d)) = Some old \<and>
        meta_ResourceVersion (d_Meta old) = meta_ResourceVersion (d_Meta d) \<and>
        d_Spec d' = d_Spec d \<and> d_Status d' = d_Status old \<and>
        rewritten (d_Meta old) (d_Meta d) (d_Meta d') \<and>
        stored (snd (UpdateDomain_api env d w)) = (stored w)(key_of (d_Meta d) :=
          if DeletionTimestamp (d_Meta old) \<noteq> None \<and> Finalizers (d_Meta d) = [] then None else Some d')"
    and update_refused: "fst (UpdateDomain_api env d w) = (Some e, d') \<Longrightarrow>
      d' = d \<and> stored (snd (UpdateDomain_api env d w)) = stored w"
begin

text \<open>
  \<open>tracked d0 h s0\<close>: the objects since they were \<open>s0\<close> and \<open>d0\<close> was read. If \<open>d0\<close> was outdated, nothing
  has changed. Otherwise only the object under its key may have changed; if it is still there it is
  \<open>d0\<close> up to status and finalizer, and, when \<open>h\<close>, it is held; it is gone only if it was under
  deletion and nobody else held it.
\<close>

definition tracked :: "Domain \<Rightarrow> bool \<Rightarrow> (NamespacedName \<Rightarrow> Domain option) \<Rightarrow> 'w \<Rightarrow> bool" where
  "tracked d0 h s0 w \<longleftrightarrow>
     (if s0 (key_of (d_Meta d0)) = Some d0 then
        (\<forall>k. k \<noteq> key_of (d_Meta d0) \<longrightarrow> stored w k = s0 k) \<and>
        (\<forall>d. stored w (key_of (d_Meta d0)) = Some d \<longrightarrow> same_object d0 d \<and> (h \<longrightarrow> held d)) \<and>
        (stored w (key_of (d_Meta d0)) = None \<longrightarrow>
           DeletionTimestamp (d_Meta d0) \<noteq> None \<and> other_finalizers domainFinalizer (d_Meta d0) = [])
      else stored w = s0)"

text \<open>The object in the controller's hands; an outdated one keeps its version.\<close>

definition handled :: "Domain \<Rightarrow> (NamespacedName \<Rightarrow> Domain option) \<Rightarrow> Domain \<Rightarrow> bool" where
  "handled d0 s0 d \<longleftrightarrow> same_object d0 d \<and>
     (s0 (key_of (d_Meta d0)) = Some d0 \<or>
      meta_ResourceVersion (d_Meta d) = meta_ResourceVersion (d_Meta d0))"

text \<open>What a read guarantees: the stored object with the version of \<open>d0\<close>, if any, is \<open>d0\<close>.\<close>

definition read_from :: "(NamespacedName \<Rightarrow> Domain option) \<Rightarrow> Domain \<Rightarrow> bool" where
  "read_from s0 d0 \<longleftrightarrow> (\<forall>old. s0 (key_of (d_Meta d0)) = Some old \<longrightarrow>
     meta_ResourceVersion (d_Meta old) = meta_ResourceVersion (d_Meta d0) \<longrightarrow> old = d0)"

lemma handled_refl [simp]: "handled d0 s0 d0"
  by (simp add: handled_def)

lemma handled_fields [simp]:
  "handled d0 s0 (d\<lparr>d_Status := st\<rparr>) = handled d0 s0 d"
  "handled d0 s0 (set_State x d) = handled d0 s0 d"
  "handled d0 s0 (set_NotManaged b d) = handled d0 s0 d"
  "handled d0 s0 (set_MailgunError msg d) = handled d0 s0 d"
  "handled d0 s0 (record_response resp d) = handled d0 s0 d"
  "handled d0 s0 (record_dns resp d) = handled d0 s0 d"
  "handled d0 s0 (count_validation now d) = handled d0 s0 d"
  "handled d0 s0 (set_DomainState x d) = handled d0 s0 d"
  "handled d0 s0 (set_DnsEntrypointCreated d) = handled d0 s0 d"
  by (simp_all add: handled_def)

lemma tracked_closed: "closed_under (\<lambda>w w'. stored w' = stored w) (tracked d0 h s0)"
  by (simp add: closed_under_def tracked_def)

text \<open>A write that the server accepted was not of an outdated object.\<close>

lemma accepted_current:
  assumes "read_from s0 d0" "handled d0 s0 d" "tracked d0 h s0 w"
    and "stored w (key_of (d_Meta d)) = Some old"
    and "meta_ResourceVersion (d_Meta old) = meta_ResourceVersion (d_Meta d)"
  shows "s0 (key_of (d_Meta d0)) = Some d0" "same_object d0 old" "h \<longrightarrow> held old"
proof -
  have key: "key_of (d_Meta d) = key_of (d_Meta d0)"
    using assms(2) by (simp add: handled_def same_object_key)
  show "s0 (key_of (d_Meta d0)) = Some d0"
  proof (rule ccontr)
    assume stale: "s0 (key_of (d_Meta d0)) \<noteq> Some d0"
    with assms(2,3) have "stored w = s0" "meta_ResourceVersion (d_Meta d) = meta_ResourceVersion (d_Meta d0)"
      by (simp_all add: tracked_def handled_def)
    with assms(1,4,5) key stale show False by (simp add: read_from_def)
  qed
  with assms(3,4) key show "same_object d0 old" "h \<longrightarrow> held old" by (simp_all add: tracked_def)
qed

lemma tracked_creation: "keeps (tracked d0 h s0) (\<lambda>_. True) (mg_CreateDomain env mg n opts)"
  unfolding mg_CreateDomain_def by (rule keeps_moves [OF creation tracked_closed])

lemma tracked_status:
  assumes "read_from s0 d0" "handled d0 s0 d"
  shows "keeps (tracked d0 h s0) (\<lambda>r. handled d0 s0 (snd r)) (k_StatusUpdateDomain env d)"
  unfolding k_StatusUpdateDomain_def
proof (rule keeps_perform)
  fix w
  assume I: "tracked d0 h s0 w"
  obtain e d' where r: "fst (StatusUpdateDomain_api env d w) = (e, d')" by fastforce
  show "tracked d0 h s0 (snd (StatusUpdateDomain_api env d w)) \<and>
      handled d0 s0 (snd (fst (StatusUpdateDomain_api env d w)))"
  proof (cases e)
    case None
    from status_ok [of d w d'] r None obtain old where
      old: "stored w (key_of (d_Meta d)) = Some old"
        "meta_ResourceVersion (d_Meta old) = meta_ResourceVersion (d_Meta d)"
        "d_Spec d' = d_Spec old" "rewritten (d_Meta old) (d_Meta old) (d_Meta d')"
        "stored (snd (StatusUpdateDomain_api env d w)) = (stored w)(key_of (d_Meta d) \<mapsto> d')"
      by auto
    note current = accepted_current [OF assms I old(1,2)]
    have "same_object d0 d'"
      using current(2) old(3,4) by (auto simp: same_object_def intro: same_meta_rewritten)
    moreover have "held old \<Longrightarrow> held d'"
      using old(4) by (auto simp: held_def rewritten_def own_meta_eq)
    ultimately show ?thesis
      using I current assms(2) r old(5) by (auto simp: tracked_def handled_def same_object_key)
  next
    case (Some x)
    with r status_refused [of d w x d'] I assms(2) show ?thesis by (auto simp: tracked_def)
  qed
qed

text \<open>Once the object is under deletion, it is held whatever finalizers are written.\<close>

lemma tracked_update:
  assumes "read_from s0 d0" "handled d0 s0 d" and "DeletionTimestamp (d_Meta d0) \<noteq> None"
  shows "keeps (tracked d0 h s0) (\<lambda>r. handled d0 s0 (snd r)) (k_UpdateDomain env d)"
  unfolding k_UpdateDomain_def
proof (rule keeps_perform)
  fix w
  assume I: "tracked d0 h s0 w"
  obtain e d' where r: "fst (UpdateDomain_api env d w) = (e, d')" by fastforce
  show "tracked d0 h s0 (snd (UpdateDomain_api env d w)) \<and>
      handled d0 s0 (snd (fst (UpdateDomain_api env d w)))"
  proof (cases e)
    case None
    from update_ok [of d w d'] r None obtain old where
      old: "stored w (key_of (d_Meta d)) = Some old"
        "meta_ResourceVersion (d_Meta old) = meta_ResourceVersion (d_Meta d)"
        "d_Spec d' = d_Spec d" "rewritten (d_Meta old) (d_Meta d) (d_Meta d')"
        "stored (snd (UpdateDomain_api env d w)) = (stored w)(key_of (d_Meta d) :=
          if DeletionTimestamp (d_Meta old) \<noteq> None \<and> Finalizers (d_Meta d) = [] then None else Some d')"
      by auto
    note current = accepted_current [OF assms(1,2) I old(1,2)]
    have d: "same_object d0 d" using assms(2) by (simp add: handled_def)
    then have "same_object d0 d'"
      using current(2) old(3,4) by (auto simp: same_object_def intro: same_meta_rewritten)
    moreover from this have "held d'"
      using assms(3) by (simp add: held_def same_object_key)
    ultimately show ?thesis
      using I current assms(3) r old(5) d
      by (auto simp: tracked_def handled_def same_object_key same_object_last split: if_splits)
  next
    case (Some x)
    with r update_refused [of d w x d'] I assms(2) show ?thesis by (auto simp: tracked_def)
  qed
qed

lemmas tracked_rules = keeps_rules keeps_other_calls [OF other_calls tracked_closed] tracked_creation

lemma tracked_RandomHex: "keeps (tracked d0 h s0) (\<lambda>_. True) (RandomHex env i)"
  unfolding RandomHex_def by (rule TrueI tracked_rules)+

lemma tracked_export:
  "keeps (tracked d0 h s0) (\<lambda>_. True) (exportCredentialsToSecret env d login password)"
  unfolding exportCredentialsToSecret_def by (rule TrueI tracked_rules)+

lemma tracked_createDomain:
  assumes "read_from s0 d0" "handled d0 s0 d"
  shows "keeps (tracked d0 h s0) (\<lambda>r. \<forall>e d'. r = Ret (e, d') \<longrightarrow> handled d0 s0 d') (createDomain env mg d)"
  unfolding createDomain_def
  by (rule tracked_RandomHex tracked_export tracked_rules tracked_status | simp add: assms)+

lemma tracked_reconcileNew:
  assumes "read_from s0 d0" "handled d0 s0 d"
  shows "keeps (tracked d0 h s0) (\<lambda>r. \<forall>d'. r = Inr d' \<longrightarrow> handled d0 s0 d') (reconcileNew env mg name d)"
  unfolding reconcileNew_def
  by (rule tracked_createDomain tracked_rules tracked_status | simp add: assms)+

lemma tracked_createExternalDNSEntity:
  assumes "read_from s0 d0" "handled d0 s0 d"
  shows "keeps (tracked d0 h s0) (\<lambda>r. handled d0 s0 (snd r)) (createExternalDNSEntity env d)"
  unfolding createExternalDNSEntity_def
  by (rule tracked_rules tracked_status | simp add: assms)+

lemma tracked_setActivated:
  assumes "read_from s0 d0" "handled d0 s0 d"
  shows "keeps (tracked d0 h s0) (\<lambda>d'. handled d0 s0 d') (setActivated env mg st d)"
  unfolding setActivated_def checkMXRecordsAndSetState_def
  by (rule tracked_rules | simp add: assms)+

lemma tracked_reconcileVerify:
  assumes "read_from s0 d0" "handled d0 s0 d"
  shows "keeps (tracked d0 h s0) (\<lambda>_. True) (reconcileVerify env cfg mg name d)"
  unfolding reconcileVerify_def
  by (rule tracked_rules tracked_status tracked_setActivated | simp add: assms)+

lemma tracked_reconcileState:
  assumes "read_from s0 d0" "handled d0 s0 d"
  shows "keeps (tracked d0 h s0) (\<lambda>_. True) (reconcileState env cfg mg name d)"
  unfolding reconcileState_def reconcileExisting_def
  by (rule tracked_reconcileNew tracked_createExternalDNSEntity tracked_reconcileVerify tracked_rules |
      simp add: assms)+

lemma handled_remove:
  "handled d0 s0 d \<Longrightarrow>
   handled d0 s0 (set_Meta (fst (RemoveFinalizer env (d_Meta d) domainFinalizer)) d)"
  by (simp add: handled_def same_object_def same_meta_finalizer [OF finalizers]
      same_version_finalizer [OF finalizers])

lemma handled_add:
  "handled d s0 (set_Meta (fst (AddFinalizer env (d_Meta d) domainFinalizer)) d)"
  by (simp add: handled_def same_object_def same_meta_finalizer [OF finalizers]
      same_version_finalizer [OF finalizers])

lemma tracked_deleteFromMailgun:
  assumes "read_from s0 d0" "handled d0 s0 d" "DeletionTimestamp (d_Meta d0) \<noteq> None"
  shows "keeps (tracked d0 h s0) (\<lambda>_. True) (deleteFromMailgun env mg name d)"
proof -
  have remove: "keeps (tracked d0 h s0) (\<lambda>_. True) (removeDomainFinalizer env d)"
    unfolding removeDomainFinalizer_def
    by (rule keeps_weaken [OF tracked_update]) (simp_all add: assms handled_remove)
  show ?thesis
    unfolding deleteFromMailgun_def
    by (rule remove tracked_rules tracked_status | simp add: assms)+
qed

lemma tracked_deleteDomain:
  assumes "read_from s0 d0" "handled d0 s0 d" "DeletionTimestamp (d_Meta d0) \<noteq> None"
  shows "keeps (tracked d0 h s0) (\<lambda>_. True) (deleteDomain env mg d)"
  unfolding deleteDomain_def
  by (rule tracked_rules tracked_update tracked_deleteFromMailgun | simp add: assms)+

text \<open>Reconciling a route writes no Domain object.\<close>

lemma domains_closed: "closed_under (\<lambda>w w'. stored w' = stored w) (\<lambda>w. stored w = s0)"
  by (simp add: closed_under_def)

lemma keeps_route_writes:
  "keeps (\<lambda>w. stored w = s0) (\<lambda>_. True) (k_UpdateRoute env r)"
  "keeps (\<lambda>w. stored w = s0) (\<lambda>_. True) (k_StatusUpdateRoute env r)"
  unfolding k_UpdateRoute_def k_StatusUpdateRoute_def
  by (rule keeps_moves [OF route_writes(1) domains_closed] keeps_moves [OF route_writes(2) domains_closed])+

lemma domains_RouteReconcile: "keeps (\<lambda>w. stored w = s0) (\<lambda>_. True) (RouteReconcile env cfg key)"
  unfolding RouteReconcile_def route_delete_defs sync_defs
  by (rule TrueI keeps_route_writes keeps_rules keeps_other_calls [OF other_calls domains_closed])+

text \<open>A whole reconciliation.\<close>

lemma get_stored: "stored (snd (GetDomain_api env key x w)) = stored w"
  using other_calls by (simp add: other_calls_in_def moves_def)

lemma get_read:
  "fst (GetDomain_api env key x w) = (None, d) \<Longrightarrow> key_of (d_Meta d) = key \<and> read_from (stored w) d"
  using get [of key x w d] by (auto simp: read_from_def)

lemma tracked_start: "h \<longrightarrow> held d \<Longrightarrow> stored w' = stored w \<Longrightarrow> tracked d h (stored w) w'"
  by (auto simp: tracked_def)

lemma tracked_after_update:
  assumes "read_from (stored w) d" "DeletionTimestamp (d_Meta d) = None"
    and ok: "fst (UpdateDomain_api env (set_Meta (fst (AddFinalizer env (d_Meta d) domainFinalizer)) d) w) = (None, d')"
  shows "handled d (stored w) d' \<and>
    tracked d True (stored w)
      (snd (UpdateDomain_api env (set_Meta (fst (AddFinalizer env (d_Meta d) domainFinalizer)) d) w))"
proof -
  let ?d = "set_Meta (fst (AddFinalizer env (d_Meta d) domainFinalizer)) d"
  have d: "handled d (stored w) ?d" by (rule handled_add)
  have key: "key_of (d_Meta ?d) = key_of (d_Meta d)"
    using d unfolding handled_def by (blast dest: same_object_key(1))
  have fin: "domainFinalizer \<in> set (Finalizers (d_Meta ?d))" using finalizers by (simp add: finalizer_laws_def)
  from update_ok [OF ok] obtain old where
    old: "stored w (key_of (d_Meta ?d)) = Some old"
      "meta_ResourceVersion (d_Meta old) = meta_ResourceVersion (d_Meta ?d)"
      "d_Spec d' = d_Spec ?d" "rewritten (d_Meta old) (d_Meta ?d) (d_Meta d')"
      "stored (snd (UpdateDomain_api env ?d w)) = (stored w)(key_of (d_Meta ?d) :=
        if DeletionTimestamp (d_Meta old) \<noteq> None \<and> Finalizers (d_Meta ?d) = [] then None else Some d')"
    by auto
  have "old = d"
    using assms(1) old(1,2) same_version_finalizer(1) [OF finalizers, of "d_Meta d" domainFinalizer]
    unfolding key by (simp add: read_from_def)
  then have current: "stored w (key_of (d_Meta d)) = Some d" using old(1) key by simp
  have same: "same_object d d'"
    using d old(3,4) \<open>old = d\<close> same_meta_rewritten [of domainFinalizer "d_Meta d" "d_Meta d" "d_Meta ?d"]
    by (simp add: handled_def same_object_def)
  moreover have "held d'" using fin old(4) by (auto simp: held_def rewritten_def)
  ultimately show ?thesis
    using current old(5) assms(2) \<open>old = d\<close> key by (simp add: tracked_def handled_def)
qed

lemma DomainReconcile_tracked:
  "stored (after (DomainReconcile env cfg key) w) = stored w \<or>
   (\<exists>d. stored w key = Some d \<and> key_of (d_Meta d) = key \<and>
      tracked d True (stored w) (after (DomainReconcile env cfg key) w))"
  (is "?same \<or> ?own")
proof -
  let ?r = "GetDomain_api env key zero_Domain w"
  let ?w = "snd ?r"
  let ?w' = "after (DomainReconcile env cfg key) w"
  obtain e d where r: "fst ?r = (e, d)" by fastforce
  show ?thesis
  proof (cases e)
    case (Some x)
    with r show ?thesis by (simp add: DomainReconcile_def domain_exec get_stored)
  next
    case None
    let ?d = "set_Meta (fst (AddFinalizer env (d_Meta d) domainFinalizer)) d"
    let ?u = "UpdateDomain_api env ?d ?w"
    have key: "key_of (d_Meta d) = key" and read: "read_from (stored w) d"
      using get_read r None by auto
    have start: "held d \<Longrightarrow> tracked d True (stored w) ?w"
      by (rule tracked_start) (simp_all add: get_stored)
    have stop: "?same \<or> ?own" if "tracked d True (stored w) ?w'"
      using that key by (cases "stored w key = Some d") (auto simp: tracked_def)
    obtain e1 d1 where u: "fst ?u = (e1, d1)" by fastforce
    consider (add) "DeletionTimestamp (d_Meta d) = None" "domainFinalizer \<notin> set (Finalizers (d_Meta d))"
      | (held) "held d" by (auto simp: held_def)
    then show ?thesis
    proof cases
      case held
      have "tracked d True (stored w) ?w'"
        using start [OF held] r None held finalizers
          keeps_after [OF tracked_reconcileState [OF read handled_refl]]
          keeps_after [OF tracked_deleteDomain [OF read handled_refl]]
        by (auto simp: DomainReconcile_def domain_exec zero_time held_def finalizer_laws_def
            case_prod_beta)
      then show ?thesis by (rule stop)
    next
      case add
      show ?thesis
      proof (cases e1)
        case (Some x)
        with r None u add update_refused [of ?d ?w x d1] finalizers show ?thesis
          by (simp add: DomainReconcile_def domain_exec zero_time finalizer_laws_def get_stored)
      next
        case e1: None
        with u read add have "handled d (stored w) d1 \<and> tracked d True (stored w) (snd ?u)"
          using tracked_after_update [of ?w d d1] by (simp add: get_stored)
        with r None u add e1 finalizers keeps_after [OF tracked_reconcileState [OF read]]
        have "tracked d True (stored w) ?w'"
          by (auto simp: DomainReconcile_def domain_exec zero_time finalizer_laws_def)
        then show ?thesis by (rule stop)
      qed
    qed
  qed
qed

end

section \<open>The theorem for any API server\<close>

text \<open>
  C19. On any API server that keeps the contract (optimistic locking by resource versions, reads from a
  cache that may be old) and as long as nobody else writes during the reconciliation: if a reconciliation
  of a Domain changes the stored objects at all, it changes only the object of its request, and of that
  neither the specification nor the name, the namespace, the deletion timestamp or the finalizers of
  others (in their order). The object disappears only when it is under deletion and nobody else holds it;
  if it is still there, it carries the operator's finalizer or is under deletion.
\<close>

theorem reconcile_writes_own_object:
  assumes server: "api_server env stored"
    and changed: "stored (after (DomainReconcile env cfg key) w) \<noteq> stored w"
  shows "(\<forall>k. k \<noteq> key \<longrightarrow> stored (after (DomainReconcile env cfg key) w) k = stored w k) \<and>
    (\<exists>d. stored w key = Some d \<and>
      (case stored (after (DomainReconcile env cfg key) w) key of
         None \<Rightarrow> DeletionTimestamp (d_Meta d) \<noteq> None \<and> other_finalizers domainFinalizer (d_Meta d) = []
       | Some d' \<Rightarrow> d_Spec d' = d_Spec d \<and>
           meta_Name (d_Meta d') = meta_Name (d_Meta d) \<and>
           meta_Namespace (d_Meta d') = meta_Namespace (d_Meta d) \<and>
           DeletionTimestamp (d_Meta d') = DeletionTimestamp (d_Meta d) \<and>
           other_finalizers domainFinalizer (d_Meta d') = other_finalizers domainFinalizer (d_Meta d) \<and>
           (domainFinalizer \<in> set (Finalizers (d_Meta d')) \<or> DeletionTimestamp (d_Meta d') \<noteq> None)))"
proof -
  let ?w' = "after (DomainReconcile env cfg key) w"
  from api_server.DomainReconcile_tracked [OF server] changed
  obtain d where d: "stored w key = Some d" "key_of (d_Meta d) = key"
    and t: "api_server.tracked stored d True (stored w) ?w'"
    by blast
  from t d have others: "\<forall>k. k \<noteq> key \<longrightarrow> stored ?w' k = stored w k"
    and own: "\<And>d'. stored ?w' key = Some d' \<Longrightarrow> same_object d d' \<and> held d'"
    and gone: "stored ?w' key = None \<Longrightarrow>
      DeletionTimestamp (d_Meta d) \<noteq> None \<and> other_finalizers domainFinalizer (d_Meta d) = []"
    by (auto simp: api_server.tracked_def [OF server])
  show ?thesis
  proof (cases "stored ?w' key")
    case None
    with others gone d(1) show ?thesis by simp
  next
    case (Some d')
    with others own [OF Some] d(1) show ?thesis
      by (auto simp: same_object_def same_meta_def own_meta_eq held_def)
  qed
qed

section \<open>The cluster is one\<close>

definition stored_domains :: "cluster \<Rightarrow> NamespacedName \<Rightarrow> Domain option" where
  "stored_domains w = map_of (cl_domains w)"

lemma send_domains: "stored_domains (snd (send mg m path f w)) = stored_domains w"
  by (simp add: send_def stored_domains_def split: option.split prod.split)

lemma test_env_domains: "other_calls_in test_env (\<lambda>w w'. stored_domains w' = stored_domains w)"
  unfolding other_calls_in_def moves_def
  by (auto simp: test_env_def case_prod_beta Let_def send_domains)
    (auto simp: stored_domains_def cl_CreateOrUpdateSecret_def cl_CreateDNSEndpoint_def
      cl_DeleteDNSEndpoint_def Let_def)

interpretation cluster_api: api_server test_env stored_domains
proof unfold_locales
  fix key d d' w e x t mg n opts r
  show "IsZero test_env t \<longleftrightarrow> t = None" by (simp add: test_env_def)
  show "moves (\<lambda>w w'. stored_domains w' = stored_domains w) (mg_CreateDomain_api test_env mg n opts)"
    by (simp add: moves_def test_env_def case_prod_beta send_domains)
  show "moves (\<lambda>w w'. stored_domains w' = stored_domains w) (UpdateRoute_api test_env r)"
    "moves (\<lambda>w w'. stored_domains w' = stored_domains w) (StatusUpdateRoute_api test_env r)"
    by (auto simp: moves_def test_env_def stored_domains_def cl_UpdateRoute_def cl_StatusUpdateRoute_def Let_def
        split: option.split)
  show "fst (GetDomain_api test_env key x w) = (None, d) \<Longrightarrow> key_of (d_Meta d) = key \<and>
      (\<forall>old. stored_domains w key = Some old \<longrightarrow>
         meta_ResourceVersion (d_Meta old) = meta_ResourceVersion (d_Meta d) \<longrightarrow> old = d)" for x
    by (auto simp: test_env_def cl_read_def stored_domains_def split: option.splits if_splits)
  show "fst (StatusUpdateDomain_api test_env d w) = (None, d') \<Longrightarrow>
      \<exists>old. stored_domains w (key_of (d_Meta d)) = Some old \<and>
        meta_ResourceVersion (d_Meta old) = meta_ResourceVersion (d_Meta d) \<and>
        d_Spec d' = d_Spec old \<and> d_Status d' = d_Status d \<and>
        rewritten (d_Meta old) (d_Meta old) (d_Meta d') \<and>
        stored_domains (snd (StatusUpdateDomain_api test_env d w)) =
          (stored_domains w)(key_of (d_Meta d) \<mapsto> d')"
    by (auto simp: test_env_def cl_StatusUpdateDomain_def stored_domains_def Let_def update_conv'
        rewritten_def own_meta_eq next_version_def split: option.splits if_splits)
  show "fst (StatusUpdateDomain_api test_env d w) = (Some e, d') \<Longrightarrow>
      d' = d \<and> stored_domains (snd (StatusUpdateDomain_api test_env d w)) = stored_domains w"
    by (auto simp: test_env_def cl_StatusUpdateDomain_def Let_def split: option.splits if_splits)
  show "fst (UpdateDomain_api test_env d w) = (None, d') \<Longrightarrow>
      \<exists>old. stored_domains w (key_of (d_Meta d)) = Some old \<and>
        meta_ResourceVersion (d_Meta old) = meta_ResourceVersion (d_Meta d) \<and>
        d_Spec d' = d_Spec d \<and> d_Status d' = d_Status old \<and>
        rewritten (d_Meta old) (d_Meta d) (d_Meta d') \<and>
        stored_domains (snd (UpdateDomain_api test_env d w)) = (stored_domains w)(key_of (d_Meta d) :=
          if DeletionTimestamp (d_Meta old) \<noteq> None \<and> Finalizers (d_Meta d) = [] then None else Some d')"
    by (auto simp: test_env_def cl_UpdateDomain_def stored_domains_def Let_def update_conv' delete_conv'
        rewritten_def own_meta_eq updated_def next_version_def split: option.splits if_splits)
  show "fst (UpdateDomain_api test_env d w) = (Some e, d') \<Longrightarrow>
      d' = d \<and> stored_domains (snd (UpdateDomain_api test_env d w)) = stored_domains w"
    by (auto simp: test_env_def cl_UpdateDomain_def Let_def split: option.splits if_splits)
qed (rule test_env_finalizer_laws test_env_domains)+

theorem reconcile_writes_own_object_witness:
  "\<exists>d'. stored_domains (after (DomainReconcile test_env test_config test_key) fresh_world) test_key = Some d' \<and>
     d_Spec d' = d_Spec test_domain \<and> domainFinalizer \<in> set (Finalizers (d_Meta d'))"
proof -
  let ?w = "after (DomainReconcile test_env test_config test_key) fresh_world"
  have start: "stored_domains fresh_world test_key = Some test_domain"
    and ended: "stored_domains ?w test_key \<noteq> None" "stored_domains ?w test_key \<noteq> Some test_domain"
    and alive: "DeletionTimestamp (d_Meta test_domain) = None"
    by code_simp+
  from ended(1) obtain d' where d': "stored_domains ?w test_key = Some d'" by blast
  have "stored_domains ?w \<noteq> stored_domains fresh_world" using ended(2) start by auto
  from reconcile_writes_own_object [OF cluster_api.api_server_axioms this] start alive
  have "d_Spec d' = d_Spec test_domain \<and> domainFinalizer \<in> set (Finalizers (d_Meta d'))"
    by (auto simp: d')
  with d' show ?thesis by blast
qed

end
