(* ===== verification/System_Runs.thy ===== *)
theory System_Runs
  imports Unique_Names Object_Store
begin

text \<open>
  The whole system as one transition system, in any environment: a step is one reconciliation of either
  controller (with any settings, for any request) or a step of somebody else, given by a relation of
  which each theorem says what it may not do. Reconciliations are single steps: the work queues run one
  at a time for each kind, and only the domain controller creates or deletes Mailgun domains. On the
  cluster of the test suite the others are its users (creating, editing and deleting objects) and
  Mailgun's side (verifying a domain, making calls fail, losing or adding a domain).
\<close>

section \<open>Steps\<close>

inductive step :: "'w env \<Rightarrow> ('w \<Rightarrow> 'w \<Rightarrow> bool) \<Rightarrow> 'w \<Rightarrow> 'w \<Rightarrow> bool" for env others where
  domain_reconciled: "step env others w (after (DomainReconcile env cfg key) w)"
| route_reconciled: "step env others w (after (RouteReconcile env cfg key) w)"
| somebody_else: "others w w' \<Longrightarrow> step env others w w'"

section \<open>Names on Mailgun stay unique\<close>

lemma step_unique:
  assumes service: "mailgun_service env copies accepts"
    and others: "\<And>w w' n. others w w' \<Longrightarrow> n \<noteq> '''' \<Longrightarrow> copies w n \<le> 1 \<Longrightarrow> copies w' n \<le> 1"
    and "step env others w w'" "unique_names copies w"
  shows "unique_names copies w'"
  using assms(3,4)
proof (induction rule: step.induct)
  case (domain_reconciled w cfg key)
  then show ?case by (rule keeps_after [OF mailgun_service.unique_DomainReconcile [OF service]])
next
  case (route_reconciled w cfg key)
  then show ?case by (rule keeps_after [OF mailgun_service.unique_RouteReconcile [OF service]])
next
  case (somebody_else w w')
  then show ?case using others by (simp add: unique_names_def)
qed

text \<open>
  C7. The operator never duplicates a domain with a non-empty name: on any service that keeps the contract
  \<open>mailgun_service\<close> (in particular, a name whose lookup fails is free or not accepted by the creation
  that follows), however reconciliations of both controllers, as single steps and with any settings, and
  steps of others interleave, there is at most one domain of each non-empty name on Mailgun if this was so
  at the start and no step of the others adds a second one.
\<close>

theorem operator_never_duplicates:
  assumes service: "mailgun_service env copies accepts"
    and others: "\<And>w w' n. others w w' \<Longrightarrow> n \<noteq> '''' \<Longrightarrow> copies w n \<le> 1 \<Longrightarrow> copies w' n \<le> 1"
    and run: "(step env others)\<^sup>*\<^sup>* w w'"
    and start: "\<And>n. n \<noteq> '''' \<Longrightarrow> copies w n \<le> 1"
    and name: "n \<noteq> ''''"
  shows "copies w' n \<le> 1"
proof -
  have "unique_names copies w" using start by (simp add: unique_names_def)
  with run have "unique_names copies w'"
    by (induction rule: rtranclp_induct) (auto intro: step_unique [OF service others])
  with name show ?thesis by (simp add: unique_names_def)
qed

section \<open>Worked-on objects are held\<close>

definition objects_held :: "(NamespacedName \<Rightarrow> Domain option) \<Rightarrow> bool" where
  "objects_held s \<longleftrightarrow> (\<forall>key d. s key = Some d \<longrightarrow> status_State (d_Status d) \<noteq> '''' \<longrightarrow> held d)"

lemma held_DomainReconcile:
  assumes server: "api_server env stored" and "objects_held (stored w)"
  shows "objects_held (stored (after (DomainReconcile env cfg key) w))"
proof -
  let ?w' = "after (DomainReconcile env cfg key) w"
  consider "stored ?w' = stored w"
    | d where "stored w key = Some d" "key_of (d_Meta d) = key"
        "api_server.tracked stored d True (stored w) ?w'"
    using api_server.DomainReconcile_tracked [OF server] by blast
  then show ?thesis
  proof cases
    case 1
    with assms(2) show ?thesis by simp
  next
    case (2 d)
    then have own: "stored ?w' key = Some d' \<Longrightarrow> held d'"
      and others: "k \<noteq> key \<Longrightarrow> stored ?w' k = stored w k" for d' k
      by (simp_all add: api_server.tracked_def [OF server])
    show ?thesis
      unfolding objects_held_def
    proof (intro allI impI)
      fix k d'
      assume "stored ?w' k = Some d'" "status_State (d_Status d') \<noteq> ''''"
      with own [of d'] others [of k] assms(2) show "held d'"
        by (cases "k = key") (auto simp: objects_held_def)
    qed
  qed
qed

lemma step_held:
  assumes server: "api_server env stored"
    and others: "\<And>w w' key d'. others w w' \<Longrightarrow> stored w' key = Some d' \<Longrightarrow> status_State (d_Status d') \<noteq> '''' \<Longrightarrow>
      \<exists>d. stored w key = Some d \<and> status_State (d_Status d) \<noteq> '''' \<and> (held d \<longrightarrow> held d')"
    and "step env others w w'" "objects_held (stored w)"
  shows "objects_held (stored w')"
  using assms(3,4)
proof (induction rule: step.induct)
  case (domain_reconciled w cfg key)
  then show ?case by (rule held_DomainReconcile [OF server])
next
  case (route_reconciled w cfg key)
  then show ?case
    using keeps_after [OF api_server.domains_RouteReconcile [OF server, of "stored w"]] by simp
next
  case (somebody_else w w')
  with others show ?case unfolding objects_held_def by meson
qed

text \<open>
  C8. Nothing the operator has begun can slip away: on any API server that keeps the contract, in every
  run in which nobody else gives an object a state or takes the operator's finalizer off a live object
  with a state, every Domain object with a state carries the operator's finalizer or is under deletion (if
  this was so at the start), so it cannot disappear before the operator has seen the deletion.
\<close>

theorem begun_objects_are_held:
  assumes server: "api_server env stored"
    and others: "\<And>w w' key d'. others w w' \<Longrightarrow> stored w' key = Some d' \<Longrightarrow> status_State (d_Status d') \<noteq> '''' \<Longrightarrow>
      \<exists>d. stored w key = Some d \<and> status_State (d_Status d) \<noteq> '''' \<and> (held d \<longrightarrow> held d')"
    and run: "(step env others)\<^sup>*\<^sup>* w w'"
    and start: "\<And>key d. stored w key = Some d \<Longrightarrow> status_State (d_Status d) \<noteq> '''' \<Longrightarrow> held d"
    and d: "stored w' key = Some d" and begun: "status_State (d_Status d) \<noteq> ''''"
  shows "domainFinalizer \<in> set (Finalizers (d_Meta d)) \<or> DeletionTimestamp (d_Meta d) \<noteq> None"
proof -
  have "objects_held (stored w)" using start by (simp add: objects_held_def)
  with run have "objects_held (stored w')"
    by (induction rule: rtranclp_induct) (auto intro: step_held [OF server others])
  with d begun show ?thesis by (simp add: objects_held_def held_def)
qed

section \<open>The cluster and its users\<close>

text \<open>
  Users create objects without a status, edit specification and metadata, and delete objects; they leave
  the operator's finalizer on live objects. Mailgun's side is what the controls of the mock service do,
  and creations by others of names that are free.
\<close>

inductive cluster_event :: "cluster \<Rightarrow> cluster \<Rightarrow> bool" where
  domain_applied: "map_of (cl_domains w) (key_of (d_Meta d)) = None \<Longrightarrow> d_Status d = zero_DomainStatus \<Longrightarrow>
    cluster_event w (create_domain_object d w)"
| route_applied: "cluster_event w (create_route_object r w)"
| domain_edited: "map_of (cl_domains w) key = Some d \<Longrightarrow> key_of m = key \<Longrightarrow>
    DeletionTimestamp m = DeletionTimestamp (d_Meta d) \<Longrightarrow>
    (domainFinalizer \<in> set (Finalizers (d_Meta d)) \<longrightarrow> domainFinalizer \<in> set (Finalizers m)) \<Longrightarrow>
    cluster_event w (w\<lparr>cl_domains := AList.update key (d\<lparr>d_Meta := m, d_Spec := spec\<rparr>) (cl_domains w)\<rparr>)"
| domain_deletion_requested: "cluster_event w (request_deletion key w)"
| route_deletion_requested: "cluster_event w (request_route_deletion key w)"
| mailgun_verified: "cluster_event w (with_mock (ActivateDomain n) w)"
| mailgun_verified_mx: "cluster_event w (with_mock (ActivateMXDomain n) w)"
| mailgun_failing: "cluster_event w (with_mock (FailedDomain n) w)"
| mailgun_failing_routes: "cluster_event w (with_mock (FailRoutes action i) w)"
| mailgun_lost: "cluster_event w (with_mock (DeleteDomain n) w)"
| mailgun_added: "mailgun_copies w n = 0 \<Longrightarrow> cluster_event w (with_mock (AddDomain spam now n) w)"

lemma delete_first_filter: "length (filter P (delete_first n cs)) \<le> length (filter P cs)"
  by (induction cs) auto

lemma cluster_event_copies:
  assumes "cluster_event w w'" "k \<noteq> ''''" "mailgun_copies w k \<le> 1"
  shows "mailgun_copies w' k \<le> 1"
  using assms
proof (induction rule: cluster_event.induct)
  case (mailgun_lost w n)
  have "mailgun_copies (with_mock (DeleteDomain n) w) k \<le> mailgun_copies w k"
    by (simp add: mailgun_copies_def copies_of_def with_mock_def DeleteDomain_def delete_first_filter)
  with mailgun_lost show ?case by simp
qed (auto simp: mailgun_copies_def copies_of_def with_mock_def create_domain_object_def AddDomain_def
    create_route_object_def request_deletion_def request_route_deletion_def ActivateDomain_def
    ActivateMXDomain_def FailedDomain_def FailRoutes_def Let_def split: option.split)

lemma cluster_event_held:
  assumes "cluster_event w w'" "stored_domains w' key = Some d'" "status_State (d_Status d') \<noteq> ''''"
  shows "\<exists>d. stored_domains w key = Some d \<and> status_State (d_Status d) \<noteq> '''' \<and> (held d \<longrightarrow> held d')"
  using assms
proof (induction rule: cluster_event.induct)
  case (domain_applied w d)
  then show ?case
    by (auto simp: stored_domains_def create_domain_object_def update_conv' zero_DomainStatus_def
        split: if_splits)
next
  case (domain_edited w k d m spec)
  then show ?case by (auto simp: stored_domains_def update_conv' held_def split: if_splits)
next
  case (domain_deletion_requested w k)
  then show ?case
    by (auto simp: stored_domains_def request_deletion_def update_conv' delete_conv' held_def
        split: option.splits if_splits)
qed (auto simp: stored_domains_def with_mock_def create_route_object_def
    request_route_deletion_def split: option.splits if_splits)

section \<open>The theorems at work\<close>

text \<open>An object is applied, reconciled and activated, between two objects for the same domain.\<close>

definition second_key :: NamespacedName where
  "second_key = \<lparr>nn_Namespace = ''default'', nn_Name = ''twin''\<rparr>"

definition second_domain :: Domain where
  "second_domain = test_domain\<lparr>d_Meta := test_meta\<lparr>meta_Name := ''twin''\<rparr>\<rparr>"

definition reconciled :: "NamespacedName \<Rightarrow> cluster \<Rightarrow> cluster" where
  "reconciled key w = after (DomainReconcile test_env test_config key) w"

definition twin_world :: cluster where
  "twin_world = reconciled second_key (create_domain_object second_domain
     (reconciled test_key (with_mock (ActivateDomain ''shop.io'') fresh_world)))"

lemma twin_run: "(step test_env cluster_event)\<^sup>*\<^sup>* fresh_world twin_world"
proof -
  let ?w1 = "with_mock (ActivateDomain ''shop.io'') fresh_world"
  let ?w2 = "reconciled test_key ?w1"
  let ?w3 = "create_domain_object second_domain ?w2"
  have "step test_env cluster_event fresh_world ?w1"
    by (rule step.somebody_else, rule cluster_event.mailgun_verified)
  moreover have "step test_env cluster_event ?w1 ?w2"
    unfolding reconciled_def by (rule step.domain_reconciled)
  moreover have "step test_env cluster_event ?w2 ?w3"
    by (rule step.somebody_else, rule cluster_event.domain_applied; code_simp)
  moreover have "step test_env cluster_event ?w3 twin_world"
    unfolding reconciled_def twin_world_def by (rule step.domain_reconciled)
  ultimately show ?thesis
    by (meson converse_rtranclp_into_rtranclp rtranclp.rtrancl_refl)
qed

theorem operator_never_duplicates_witness:
  "mailgun_copies twin_world ''shop.io'' \<le> 1 \<and> mailgun_copies twin_world ''shop.io'' = 1"
proof
  show "mailgun_copies twin_world ''shop.io'' \<le> 1"
  proof (rule operator_never_duplicates [OF mailgun_mock.mailgun_service_axioms _ twin_run, rotated -1])
    show "mailgun_copies w' k \<le> 1" if "cluster_event w w'" "k \<noteq> ''''" "mailgun_copies w k \<le> 1" for w w' k
      using that by (rule cluster_event_copies)
    show "mailgun_copies fresh_world k \<le> 1" for k
      by (simp add: mailgun_copies_def copies_of_def fresh_world_def create_domain_object_def
          empty_cluster_def NewMailgunServer_def)
  qed simp
next
  show "mailgun_copies twin_world ''shop.io'' = 1" by code_simp
qed

theorem begun_objects_are_held_witness:
  "\<exists>d. stored_domains twin_world test_key = Some d \<and> status_State (d_Status d) = DomainStateActivated \<and>
     (domainFinalizer \<in> set (Finalizers (d_Meta d)) \<or> DeletionTimestamp (d_Meta d) \<noteq> None)"
proof -
  have "map_option (\<lambda>d. status_State (d_Status d)) (stored_domains twin_world test_key) =
      Some DomainStateActivated"
    by code_simp
  then obtain d where d: "stored_domains twin_world test_key = Some d"
    "status_State (d_Status d) = DomainStateActivated" by blast
  have "domainFinalizer \<in> set (Finalizers (d_Meta d)) \<or> DeletionTimestamp (d_Meta d) \<noteq> None"
  proof (rule begun_objects_are_held [OF cluster_api.api_server_axioms _ twin_run _ d(1)])
    show "\<exists>x. stored_domains w k = Some x \<and> status_State (d_Status x) \<noteq> '''' \<and> (held x \<longrightarrow> held d')"
      if "cluster_event w w'" "stored_domains w' k = Some d'" "status_State (d_Status d') \<noteq> ''''" for w w' k d'
      using that by (rule cluster_event_held)
    show "held x" if "stored_domains fresh_world k = Some x" "status_State (d_Status x) \<noteq> ''''" for k x
      using that by (auto simp: stored_domains_def fresh_world_def create_domain_object_def
          empty_cluster_def test_domain_def zero_Domain_def zero_DomainStatus_def split: if_splits)
  qed (simp add: d(2) DomainStateActivated_def)
  with d show ?thesis by blast
qed

text \<open>
  The restriction to non-empty names is needed: no pattern of the service matches the lookup of the empty
  name, so two objects without a domain name create two domains without a name.
\<close>

definition nameless :: "Domain \<Rightarrow> Domain" where
  "nameless d = d\<lparr>d_Spec := (d_Spec d)\<lparr>spec_Domain := ''''\<rparr>\<rparr>"

lemma empty_names_duplicated:
  "mailgun_copies (reconciled second_key (reconciled test_key
     (create_domain_object (nameless second_domain)
       (create_domain_object (nameless test_domain) (empty_cluster (NewMailgunServer ''key'')))))) '''' = 2"
  by code_simp

end
