(* ===== verification/Route_Store.thy ===== *)
theory Route_Store
  imports Object_Store
begin

text \<open>
  What the route controller does to the objects of the cluster: the contract of the API server for
  Route objects, \<open>route_server\<close> (the laws of \<open>api_server\<close>), and the theorem that a reconciliation
  writes only its own object, and of it only the status and the operator's finalizer.
\<close>

definition same_route :: "Route \<Rightarrow> Route \<Rightarrow> bool" where
  "same_route r0 r \<longleftrightarrow> r_Spec r = r_Spec r0 \<and> same_meta routeFinalizer (r_Meta r0) (r_Meta r)"

lemma same_route_refl [simp]: "same_route r r"
  by (simp add: same_route_def)

lemma same_route_key:
  assumes "same_route r0 r"
  shows "key_of (r_Meta r) = key_of (r_Meta r0)"
    and "DeletionTimestamp (r_Meta r) = DeletionTimestamp (r_Meta r0)"
    and "Finalizers (r_Meta r) = [] \<Longrightarrow> other_finalizers routeFinalizer (r_Meta r0) = []"
  using assms by (auto simp: same_route_def dest: same_meta_key intro: same_meta_last)

lemma same_route_fields [simp]:
  "same_route r0 (r\<lparr>r_Status := st\<rparr>) = same_route r0 r"
  "same_route r0 (set_RouteError msg r) = same_route r0 r"
  "same_route r0 (set_RouteID i r) = same_route r0 r"
  by (simp_all add: same_route_def)

section \<open>The contract\<close>

locale route_server =
  fixes env :: "'w env"
    and stored :: "'w \<Rightarrow> NamespacedName \<Rightarrow> Route option"
  assumes finalizers: "finalizer_laws env"
    and other_calls: "other_calls_in env (\<lambda>w w'. stored w' = stored w)"
    and get: "fst (GetRoute_api env key x w) = (None, r) \<Longrightarrow> key_of (r_Meta r) = key \<and>
      (\<forall>old. stored w key = Some old \<longrightarrow>
         meta_ResourceVersion (r_Meta old) = meta_ResourceVersion (r_Meta r) \<longrightarrow> old = r)"
    and status_ok: "fst (StatusUpdateRoute_api env r w) = (None, r') \<Longrightarrow>
      \<exists>old. stored w (key_of (r_Meta r)) = Some old \<and>
        meta_ResourceVersion (r_Meta old) = meta_ResourceVersion (r_Meta r) \<and>
        r_Spec r' = r_Spec old \<and> r_Status r' = r_Status r \<and>
        rewritten (r_Meta old) (r_Meta old) (r_Meta r') \<and>
        stored (snd (StatusUpdateRoute_api env r w)) = (stored w)(key_of (r_Meta r) \<mapsto> r')"
    and status_refused: "fst (StatusUpdateRoute_api env r w) = (Some e, r') \<Longrightarrow>
      r' = r \<and> stored (snd (StatusUpdateRoute_api env r w)) = stored w"
    and update_ok: "fst (UpdateRoute_api env r w) = (None, r') \<Longrightarrow>
      \<exists>old. stored w (key_of (r_Meta r)) = Some old \<and>
        meta_ResourceVersion (r_Meta old) = meta_ResourceVersion (r_Meta r) \<and>
        r_Spec r' = r_Spec r \<and> r_Status r' = r_Status old \<and>
        rewritten (r_Meta old) (r_Meta r) (r_Meta r') \<and>
        stored (snd (UpdateRoute_api env r w)) = (stored w)(key_of (r_Meta r) :=
          if DeletionTimestamp (r_Meta old) \<noteq> None \<and> Finalizers (r_Meta r) = [] then None else Some r')"
    and update_refused: "fst (UpdateRoute_api env r w) = (Some e, r') \<Longrightarrow>
      r' = r \<and> stored (snd (UpdateRoute_api env r w)) = stored w"
begin

text \<open>
  Against the objects \<open>s0\<close> when \<open>r0\<close> was read: nothing has changed if \<open>r0\<close> was outdated, and
  otherwise at most the object under its key, up to status and finalizer.
\<close>

definition tracked :: "Route \<Rightarrow> (NamespacedName \<Rightarrow> Route option) \<Rightarrow> 'w \<Rightarrow> bool" where
  "tracked r0 s0 w \<longleftrightarrow>
     (if s0 (key_of (r_Meta r0)) = Some r0 then
        (\<forall>k. k \<noteq> key_of (r_Meta r0) \<longrightarrow> stored w k = s0 k) \<and>
        (\<forall>r. stored w (key_of (r_Meta r0)) = Some r \<longrightarrow> same_route r0 r) \<and>
        (stored w (key_of (r_Meta r0)) = None \<longrightarrow>
           DeletionTimestamp (r_Meta r0) \<noteq> None \<and> other_finalizers routeFinalizer (r_Meta r0) = [])
      else stored w = s0)"

definition handled :: "Route \<Rightarrow> (NamespacedName \<Rightarrow> Route option) \<Rightarrow> Route \<Rightarrow> bool" where
  "handled r0 s0 r \<longleftrightarrow> same_route r0 r \<and>
     (s0 (key_of (r_Meta r0)) = Some r0 \<or>
      meta_ResourceVersion (r_Meta r) = meta_ResourceVersion (r_Meta r0))"

definition read_from :: "(NamespacedName \<Rightarrow> Route option) \<Rightarrow> Route \<Rightarrow> bool" where
  "read_from s0 r0 \<longleftrightarrow> (\<forall>old. s0 (key_of (r_Meta r0)) = Some old \<longrightarrow>
     meta_ResourceVersion (r_Meta old) = meta_ResourceVersion (r_Meta r0) \<longrightarrow> old = r0)"

lemma handled_refl [simp]: "handled r0 s0 r0"
  by (simp add: handled_def)

lemma handled_fields [simp]:
  "handled r0 s0 (r\<lparr>r_Status := st\<rparr>) = handled r0 s0 r"
  "handled r0 s0 (set_RouteError msg r) = handled r0 s0 r"
  "handled r0 s0 (set_RouteID i r) = handled r0 s0 r"
  by (simp_all add: handled_def)

lemma tracked_closed: "closed_under (\<lambda>w w'. stored w' = stored w) (tracked r0 s0)"
  by (simp add: closed_under_def tracked_def)

lemma accepted_current:
  assumes "read_from s0 r0" "handled r0 s0 r" "tracked r0 s0 w"
    and "stored w (key_of (r_Meta r)) = Some old"
    and "meta_ResourceVersion (r_Meta old) = meta_ResourceVersion (r_Meta r)"
  shows "s0 (key_of (r_Meta r0)) = Some r0" "same_route r0 old"
proof -
  have key: "key_of (r_Meta r) = key_of (r_Meta r0)"
    using assms(2) by (simp add: handled_def same_route_key)
  show "s0 (key_of (r_Meta r0)) = Some r0"
  proof (rule ccontr)
    assume stale: "s0 (key_of (r_Meta r0)) \<noteq> Some r0"
    with assms(2,3) have "stored w = s0" "meta_ResourceVersion (r_Meta r) = meta_ResourceVersion (r_Meta r0)"
      by (simp_all add: tracked_def handled_def)
    with assms(1,4,5) key stale show False by (simp add: read_from_def)
  qed
  with assms(3,4) key show "same_route r0 old" by (simp add: tracked_def)
qed

lemma tracked_status:
  assumes "read_from s0 r0" "handled r0 s0 r"
  shows "keeps (tracked r0 s0) (\<lambda>x. handled r0 s0 (snd x)) (k_StatusUpdateRoute env r)"
  unfolding k_StatusUpdateRoute_def
proof (rule keeps_perform)
  fix w
  assume I: "tracked r0 s0 w"
  obtain e r' where x: "fst (StatusUpdateRoute_api env r w) = (e, r')" by fastforce
  show "tracked r0 s0 (snd (StatusUpdateRoute_api env r w)) \<and>
      handled r0 s0 (snd (fst (StatusUpdateRoute_api env r w)))"
  proof (cases e)
    case None
    from status_ok [of r w r'] x None obtain old where
      old: "stored w (key_of (r_Meta r)) = Some old"
        "meta_ResourceVersion (r_Meta old) = meta_ResourceVersion (r_Meta r)"
        "r_Spec r' = r_Spec old" "rewritten (r_Meta old) (r_Meta old) (r_Meta r')"
        "stored (snd (StatusUpdateRoute_api env r w)) = (stored w)(key_of (r_Meta r) \<mapsto> r')"
      by auto
    note current = accepted_current [OF assms I old(1,2)]
    have "same_route r0 r'"
      using current(2) old(3,4) by (auto simp: same_route_def intro: same_meta_rewritten)
    then show ?thesis
      using I current assms(2) x old(5) by (auto simp: tracked_def handled_def same_route_key)
  next
    case (Some y)
    with x status_refused [of r w y r'] I assms(2) show ?thesis by (auto simp: tracked_def)
  qed
qed

lemma tracked_update:
  assumes "read_from s0 r0" "handled r0 s0 r"
  shows "keeps (tracked r0 s0) (\<lambda>x. handled r0 s0 (snd x)) (k_UpdateRoute env r)"
  unfolding k_UpdateRoute_def
proof (rule keeps_perform)
  fix w
  assume I: "tracked r0 s0 w"
  obtain e r' where x: "fst (UpdateRoute_api env r w) = (e, r')" by fastforce
  show "tracked r0 s0 (snd (UpdateRoute_api env r w)) \<and>
      handled r0 s0 (snd (fst (UpdateRoute_api env r w)))"
  proof (cases e)
    case None
    from update_ok [of r w r'] x None obtain old where
      old: "stored w (key_of (r_Meta r)) = Some old"
        "meta_ResourceVersion (r_Meta old) = meta_ResourceVersion (r_Meta r)"
        "r_Spec r' = r_Spec r" "rewritten (r_Meta old) (r_Meta r) (r_Meta r')"
        "stored (snd (UpdateRoute_api env r w)) = (stored w)(key_of (r_Meta r) :=
          if DeletionTimestamp (r_Meta old) \<noteq> None \<and> Finalizers (r_Meta r) = [] then None else Some r')"
      by auto
    note current = accepted_current [OF assms I old(1,2)]
    have r: "same_route r0 r" using assms(2) by (simp add: handled_def)
    then have "same_route r0 r'"
      using current(2) old(3,4) by (auto simp: same_route_def intro: same_meta_rewritten)
    moreover have "Finalizers (r_Meta r) = [] \<Longrightarrow> other_finalizers routeFinalizer (r_Meta r0) = []"
      by (rule same_route_key(3) [OF r])
    ultimately show ?thesis
      using I current x old(5) same_route_key(1) [OF r] same_route_key(2) [OF current(2)]
      by (auto simp: tracked_def handled_def split: if_splits)
  next
    case (Some y)
    with x update_refused [of r w y r'] I assms(2) show ?thesis by (auto simp: tracked_def)
  qed
qed

lemmas tracked_rules = keeps_rules keeps_other_calls [OF other_calls tracked_closed]

lemma handled_remove:
  "handled r0 s0 r \<Longrightarrow> handled r0 s0 (set_r_Meta (fst (RemoveFinalizer env (r_Meta r) routeFinalizer)) r)"
  "handled r0 s0 r \<Longrightarrow> RemoveFinalizer env (r_Meta r) routeFinalizer = (m, b) \<Longrightarrow>
     handled r0 s0 (set_r_Meta m r)"
  using same_meta_finalizer(2) [OF finalizers, of routeFinalizer "r_Meta r0" "r_Meta r"]
    same_version_finalizer(2) [OF finalizers, of "r_Meta r" routeFinalizer]
  by (simp_all add: handled_def same_route_def)

lemma handled_add:
  "handled r0 s0 r \<Longrightarrow> handled r0 s0 (set_r_Meta (fst (AddFinalizer env (r_Meta r) routeFinalizer)) r)"
  by (simp add: handled_def same_route_def same_meta_finalizer [OF finalizers]
      same_version_finalizer [OF finalizers])

lemma tracked_deleteRouteOnMailgun:
  assumes "read_from s0 r0" "handled r0 s0 r"
  shows "keeps (tracked r0 s0) (\<lambda>_. True) (deleteRouteOnMailgun env mg i r)"
  unfolding deleteRouteOnMailgun_def removeRouteFinalizer_def
  by (rule tracked_rules tracked_status tracked_update | simp add: assms handled_remove)+

lemma tracked_deleteKnownRoute:
  assumes "read_from s0 r0" "handled r0 s0 r"
  shows "keeps (tracked r0 s0) (\<lambda>_. True) (deleteKnownRoute env mg r)"
  unfolding deleteKnownRoute_def
  by (rule tracked_rules tracked_deleteRouteOnMailgun tracked_update |
      erule handled_remove(2) [OF assms(2)] | simp add: assms)+

lemma tracked_deleteRoute:
  assumes "read_from s0 r0" "handled r0 s0 r"
  shows "keeps (tracked r0 s0) (\<lambda>_. True) (deleteRoute env mg r)"
  unfolding deleteRoute_def
  by (rule tracked_rules tracked_deleteKnownRoute tracked_update |
      erule handled_remove(2) [OF assms(2)] | simp add: assms)+

lemma tracked_createRoute:
  assumes "read_from s0 r0" "handled r0 s0 r"
  shows "keeps (tracked r0 s0) (\<lambda>_. True) (createRoute env mg r)"
  unfolding createRoute_def
  by (rule tracked_rules tracked_status tracked_update | simp add: assms handled_add)+

lemma tracked_reconcileRoute:
  assumes "read_from s0 r0" "handled r0 s0 r"
  shows "keeps (tracked r0 s0) (\<lambda>_. True) (reconcileRoute env mg name r)"
  unfolding reconcileRoute_def postponeRoute_def syncRoute_def updateRoute_def
  by (rule tracked_createRoute tracked_rules tracked_status | simp add: assms)+

lemma get_stored: "stored (snd (GetRoute_api env key x w)) = stored w"
  using other_calls by (simp add: other_calls_in_def moves_def)

lemma RouteReconcile_tracked:
  "stored (after (RouteReconcile env cfg key) w) = stored w \<or>
   (\<exists>r. stored w key = Some r \<and> key_of (r_Meta r) = key \<and>
      tracked r (stored w) (after (RouteReconcile env cfg key) w))"
proof -
  let ?x = "GetRoute_api env key zero_Route w"
  obtain e r where x: "fst ?x = (e, r)" by fastforce
  show ?thesis
  proof (cases e)
    case (Some y)
    with x show ?thesis by (simp add: RouteReconcile_def route_exec get_stored)
  next
    case None
    let ?rest = "do {
          let domainName = routeDomain (r_Spec r);
          let mg = MailgunClient env cfg domainName;
          if IsZero env (DeletionTimestamp (r_Meta r)) then
            (if \<not> ContainsFinalizer env (r_Meta r) routeFinalizer \<and> has_route_id r then do {
               (err, r) \<leftarrow> k_UpdateRoute env
                  (set_r_Meta (fst (AddFinalizer env (r_Meta r) routeFinalizer)) r);
               (case err of
                  Some e \<Rightarrow> State_Monad.return (Done no_requeue (Some e))
                | None \<Rightarrow> reconcileRoute env mg domainName r)
             }
             else reconcileRoute env mg domainName r)
          else if ContainsFinalizer env (r_Meta r) routeFinalizer then deleteRoute env mg r
          else reconcileRoute env mg domainName r
        }"
    have key: "key_of (r_Meta r) = key" and read: "read_from (stored w) r"
      using get [of key zero_Route w r] x None by (auto simp: read_from_def)
    have "tracked r (stored w) (snd ?x)" by (auto simp: tracked_def get_stored)
    moreover have "keeps (tracked r (stored w)) (\<lambda>_. True) ?rest"
      by (rule tracked_rules tracked_update tracked_deleteRoute tracked_reconcileRoute |
          simp add: handled_add read)+
    ultimately have "tracked r (stored w) (after ?rest (snd ?x))" by (rule keeps_after [rotated])
    then have "tracked r (stored w) (after (RouteReconcile env cfg key) w)"
      using x None by (simp add: RouteReconcile_def route_exec)
    with key show ?thesis by (cases "stored w key = Some r") (auto simp: tracked_def)
  qed
qed

end

section \<open>The theorem for any API server\<close>

text \<open>
  C20. On any API server that keeps the contract (optimistic locking by resource versions, reads from a
  cache that may be old) and as long as nobody else writes during the reconciliation: if a reconciliation
  of a Route changes the stored objects at all, it changes only the object of its request, and of that
  neither the specification nor the name, the namespace, the deletion timestamp or the finalizers of
  others (in their order). The object disappears only when it is under deletion and nobody else holds it.
\<close>

theorem route_reconcile_writes_own_object:
  assumes server: "route_server env stored"
    and changed: "stored (after (RouteReconcile env cfg key) w) \<noteq> stored w"
  shows "(\<forall>k. k \<noteq> key \<longrightarrow> stored (after (RouteReconcile env cfg key) w) k = stored w k) \<and>
    (\<exists>r. stored w key = Some r \<and>
      (case stored (after (RouteReconcile env cfg key) w) key of
         None \<Rightarrow> DeletionTimestamp (r_Meta r) \<noteq> None \<and> other_finalizers routeFinalizer (r_Meta r) = []
       | Some r' \<Rightarrow> r_Spec r' = r_Spec r \<and>
           meta_Name (r_Meta r') = meta_Name (r_Meta r) \<and>
           meta_Namespace (r_Meta r') = meta_Namespace (r_Meta r) \<and>
           DeletionTimestamp (r_Meta r') = DeletionTimestamp (r_Meta r) \<and>
           other_finalizers routeFinalizer (r_Meta r') = other_finalizers routeFinalizer (r_Meta r)))"
proof -
  let ?w' = "after (RouteReconcile env cfg key) w"
  from route_server.RouteReconcile_tracked [OF server] changed
  obtain r where r: "stored w key = Some r" "key_of (r_Meta r) = key"
    and t: "route_server.tracked stored r (stored w) ?w'"
    by blast
  from t r have others: "\<forall>k. k \<noteq> key \<longrightarrow> stored ?w' k = stored w k"
    and own: "\<And>r'. stored ?w' key = Some r' \<Longrightarrow> same_route r r'"
    and gone: "stored ?w' key = None \<Longrightarrow>
      DeletionTimestamp (r_Meta r) \<noteq> None \<and> other_finalizers routeFinalizer (r_Meta r) = []"
    by (auto simp: route_server.tracked_def [OF server])
  show ?thesis
  proof (cases "stored ?w' key")
    case None
    with others gone r(1) show ?thesis by simp
  next
    case (Some r')
    with others own [OF Some] r(1) show ?thesis
      by (auto simp: same_route_def same_meta_def own_meta_eq)
  qed
qed

section \<open>The cluster is one\<close>

definition stored_routes :: "cluster \<Rightarrow> NamespacedName \<Rightarrow> Route option" where
  "stored_routes w = map_of (cl_routes w)"

lemma send_routes: "stored_routes (snd (send mg m path f w)) = stored_routes w"
  by (simp add: send_def stored_routes_def split: option.split prod.split)

lemma test_env_routes: "other_calls_in test_env (\<lambda>w w'. stored_routes w' = stored_routes w)"
  unfolding other_calls_in_def moves_def
  by (auto simp: test_env_def case_prod_beta Let_def send_routes)
    (auto simp: stored_routes_def cl_CreateOrUpdateSecret_def cl_CreateDNSEndpoint_def
      cl_DeleteDNSEndpoint_def Let_def)

interpretation cluster_routes: route_server test_env stored_routes
proof unfold_locales
  fix key r r' w e x
  show "fst (GetRoute_api test_env key x w) = (None, r) \<Longrightarrow> key_of (r_Meta r) = key \<and>
      (\<forall>old. stored_routes w key = Some old \<longrightarrow>
         meta_ResourceVersion (r_Meta old) = meta_ResourceVersion (r_Meta r) \<longrightarrow> old = r)"
    by (auto simp: test_env_def cl_read_def stored_routes_def split: option.splits if_splits)
  show "fst (StatusUpdateRoute_api test_env r w) = (None, r') \<Longrightarrow>
      \<exists>old. stored_routes w (key_of (r_Meta r)) = Some old \<and>
        meta_ResourceVersion (r_Meta old) = meta_ResourceVersion (r_Meta r) \<and>
        r_Spec r' = r_Spec old \<and> r_Status r' = r_Status r \<and>
        rewritten (r_Meta old) (r_Meta old) (r_Meta r') \<and>
        stored_routes (snd (StatusUpdateRoute_api test_env r w)) =
          (stored_routes w)(key_of (r_Meta r) \<mapsto> r')"
    by (auto simp: test_env_def cl_StatusUpdateRoute_def stored_routes_def Let_def update_conv'
        rewritten_def own_meta_eq next_version_def split: option.splits if_splits)
  show "fst (StatusUpdateRoute_api test_env r w) = (Some e, r') \<Longrightarrow>
      r' = r \<and> stored_routes (snd (StatusUpdateRoute_api test_env r w)) = stored_routes w"
    by (auto simp: test_env_def cl_StatusUpdateRoute_def Let_def split: option.splits if_splits)
  show "fst (UpdateRoute_api test_env r w) = (None, r') \<Longrightarrow>
      \<exists>old. stored_routes w (key_of (r_Meta r)) = Some old \<and>
        meta_ResourceVersion (r_Meta old) = meta_ResourceVersion (r_Meta r) \<and>
        r_Spec r' = r_Spec r \<and> r_Status r' = r_Status old \<and>
        rewritten (r_Meta old) (r_Meta r) (r_Meta r') \<and>
        stored_routes (snd (UpdateRoute_api test_env r w)) = (stored_routes w)(key_of (r_Meta r) :=
          if DeletionTimestamp (r_Meta old) \<noteq> None \<and> Finalizers (r_Meta r) = [] then None else Some r')"
    by (auto simp: test_env_def cl_UpdateRoute_def stored_routes_def Let_def update_conv' delete_conv'
        rewritten_def own_meta_eq updated_def next_version_def split: option.splits if_splits)
  show "fst (UpdateRoute_api test_env r w) = (Some e, r') \<Longrightarrow>
      r' = r \<and> stored_routes (snd (UpdateRoute_api test_env r w)) = stored_routes w"
    by (auto simp: test_env_def cl_UpdateRoute_def Let_def split: option.splits if_splits)
qed (rule test_env_finalizer_laws test_env_routes)+

theorem route_reconcile_writes_own_object_witness:
  "\<exists>r'. stored_routes (after (RouteReconcile test_env test_config test_key) route_world) test_key = Some r' \<and>
     r_Spec r' = r_Spec test_route \<and> RouteID (r_Status r') \<noteq> None"
proof -
  let ?w = "after (RouteReconcile test_env test_config test_key) route_world"
  have start: "stored_routes route_world test_key = Some test_route"
    and old: "RouteID (r_Status test_route) = None"
    and ended: "map_option (\<lambda>r. RouteID (r_Status r) \<noteq> None) (stored_routes ?w test_key) = Some True"
    by code_simp+
  from ended obtain r' where r': "stored_routes ?w test_key = Some r'" "RouteID (r_Status r') \<noteq> None" by auto
  then have "stored_routes ?w \<noteq> stored_routes route_world" using start old by auto
  from route_reconcile_writes_own_object [OF cluster_routes.route_server_axioms this] start
  have "r_Spec r' = r_Spec test_route" by (auto simp: r')
  with r' show ?thesis by blast
qed

end
