(* ===== verification/Spec2Isabelle.thy ===== *)
theory Spec2Isabelle
  imports Reconcilers Scenarios Configuration_Laws Domain_Progress Route_Progress Deep_Copy Startup_Laws
    System_Runs Route_Store
begin

text \<open>
  Verification of the Mailgun operator, a Kubernetes operator in Go that keeps Mailgun domains and
  routes in step with \<^verbatim>\<open>Domain\<close> and \<^verbatim>\<open>Route\<close> custom resources.

  \<^bold>\<open>The program.\<close> \<^verbatim>\<open>cmd/main.go\<close> reads the command line and the settings, registers two controllers with
  a controller-runtime manager and starts it. Each controller (\<^verbatim>\<open>internal/controller/domain\<close>) implements
  \<^verbatim>\<open>Reconcile\<close>: read the object of a request (out of a cache, as a deep copy), look at Mailgun, act on
  Mailgun and on the cluster, write the outcome to the object's status, and say when to be called again.
  They share the settings of \<^verbatim>\<open>internal/configuration\<close>, which also makes the Mailgun client, and the
  password generator of \<^verbatim>\<open>internal/utils/random.go\<close>. The tests run them against an in-memory Mailgun
  service, \<^verbatim>\<open>internal/utils/mailgun_mock_server.go\<close>. The objects and their generated deep copies are in
  \<^verbatim>\<open>api/domain/v1\<close>.

  \<^bold>\<open>How it is modelled.\<close> A Go function is a program of the state monad over \<open>sys\<close>: an arbitrary world and
  the trace of the external calls made so far. The world is reached only through the functions of
  the record \<open>env\<close>, which stands for the code that is not in this repository (controller-runtime,
  the Kubernetes API, external-dns, the Mailgun client library, the clock, the random source) and
  may do anything; the theorems that rely on documented behaviour of it name the law they use
  (\<open>finalizer_laws\<close>, \<open>error_laws\<close>, \<open>echo_laws\<close>, \<open>route_echo_laws\<close>, \<open>copy_laws\<close>, and the locales
  \<open>api_server\<close>, \<open>route_server\<close> and \<open>mailgun_service\<close>). Structs are records, pointers
  are options, a nil dereference or an explicit panic is the outcome \<open>Crashed\<close> or \<open>Panic\<close>, errors
  are values, an \<^verbatim>\<open>int\<close> is a 64-bit word, maps are association lists. Every definition is
  executable. Log lines are left out.

  \<^bold>\<open>Theories.\<close>
  \<^item> \<open>Prelude\<close>: Go data; the monad; judgements on traces (\<open>emits\<close>: what is called, \<open>call_bound\<close>: how
    often, \<open>guarded\<close> and \<open>followed\<close>: in which order); \<open>framed\<close> programs and the equations
    \<open>exec_simps\<close> that execute them symbolically.
  \<^item> \<open>Api_Types\<close>: \<^verbatim>\<open>api/domain/v1\<close> and the library structs. \<open>Environment\<close>: the external calls, their
    events, the laws.
  \<^item> \<open>Configuration\<close>, \<open>Configuration_Laws\<close>: \<^verbatim>\<open>configuration.go\<close>; precedence of the sources, errors,
    the panic, a round trip through the decimal text of all 64-bit integers. The locale
    \<open>config_source\<close> is the interface of the two sources.
  \<^item> \<open>Random_Hex\<close>: \<^verbatim>\<open>random.go\<close>, with the decoder that inverts it.
  \<^item> \<open>Domain_Controller\<close>: \<^verbatim>\<open>domain_controller.go\<close>; \<^verbatim>\<open>Reconcile\<close> is \<open>DomainReconcile\<close>, cut at its early
    returns into \<open>reconcileState\<close>, \<open>reconcileNew\<close>, \<open>reconcileExisting\<close> and \<open>reconcileVerify\<close>.
    \<open>Domain_Safety\<close>: what must have happened before a domain is created, deleted, activated or let
    go. \<open>Domain_Behaviour\<close>: the reaction to every answer of Mailgun, the DNS objects, the exported
    credentials, the machine integers. \<open>Domain_Verification\<close>: the object a reconciliation works on
    (\<open>object_in_hand\<close>) and the whole effect of an answered verification on it.
  \<^item> \<open>Lifecycle\<close>: the abstract state machine of a Domain object, the refinement theorem, histories.
  \<^item> \<open>Route_Controller\<close>, \<open>Route_Safety\<close>, \<open>Route_Behaviour\<close>: the same for \<^verbatim>\<open>route_controller.go\<close>.
  \<^item> \<open>Domain_Progress\<close>, \<open>Route_Progress\<close>: in which cases the work queue forgets an object, and that an
    endless run of reconciliations activates a domain once everything goes well.
  \<^item> \<open>Reconcilers\<close>: the exact maxima of external calls of one reconciliation (15 for a Domain, 6 for a
    Route).
  \<^item> \<open>Mock_Server\<close>, \<open>Mock_Laws\<close>: the mock service and the locale \<open>registry\<close>, the contract of its domain
    endpoints; its authentication; its route store.
  \<^item> \<open>Cluster\<close>: a concrete environment, an API server together with the Mailgun client talking to the
    mock, which satisfies all the laws; its API server stores versioned objects and refuses writes with
    an old version; the witnesses are evaluated there. \<open>Scenarios\<close>: the creation that is forgotten and
    the domain that is disowned, and whole lives of objects over several reconciliations.
  \<^item> \<open>World_Invariants\<close>: Hoare-style judgements about the world a program leaves. \<open>Unique_Names\<close>: the
    locale \<open>mailgun_service\<close>, under which neither controller puts a second domain with the same
    non-empty name on Mailgun. \<open>Object_Store\<close>: the locale \<open>api_server\<close> (resource versions, reads that
    may be old), under which a reconciliation writes only its own object, its status and the operator's
    finalizer; \<open>Route_Store\<close>: the same for routes, with \<open>route_server\<close>. \<open>System_Runs\<close>: reconciliations
    of both controllers and steps of others as one step relation, in any environment that keeps these
    contracts, its invariants, and the cluster with its users and Mailgun's side as an instance.
  \<^item> \<open>Go_Heap\<close>, \<open>Deep_Copy\<close>: \<^verbatim>\<open>zz_generated.deepcopy.go\<close> over a store of addresses, with the pointers and
    slices the other theories abstract from; the locale \<open>deep_copy\<close> is what a copier promises (a well
    typed copy of the same value that shares no memory with the original).
  \<^item> \<open>Startup\<close>, \<open>Startup_Laws\<close>: \<^verbatim>\<open>cmd/main.go\<close> and \<^verbatim>\<open>SetupWithManager\<close>: flags, options, order of the
    start-up, its failures.

  \<^bold>\<open>Reading the theorems.\<close> \<open>calls m w\<close>, \<open>result m w\<close> and \<open>after m w\<close> are the calls a program makes in the
  world \<open>w\<close>, its result and the world it leaves. \<open>calls m w = pre @ e # post\<close> picks a call \<open>e\<close>, with what
  was called before and after. All programs terminate (they are total functions; the bounds of
  \<open>Reconcilers\<close> count their calls), so a theorem about the result is about every run. No fuel is
  used.

  \<^bold>\<open>Not modelled.\<close> What a third party does is a parameter: the manager with its caches and work queues,
  the API server, Mailgun. Registration of the API types with the scheme (\<^verbatim>\<open>init\<close>,
  \<^verbatim>\<open>groupversion_info.go\<close>) only hands names to a library. Version strings, the pretty printer and log
  lines have no effect the program reads. The HTTP listener of the mock (\<^verbatim>\<open>Start\<close>, \<^verbatim>\<open>URL\<close>, \<^verbatim>\<open>Stop\<close>), the
  tests and the helpers of the end-to-end tests are left out. Of the metadata of an object only the name,
  the namespace, the version, the generation, the deletion timestamp and the finalizers are modelled.

  \<^bold>\<open>Who else may act.\<close> A call changes the world in whatever way its function in \<open>env\<close> says, so others may
  act at every call, and the theorems without one of the three contracts hold whatever they do. The
  contracts \<open>api_server\<close> and \<open>route_server\<close> say that nobody else writes the objects of that kind while a
  reconciliation runs, and \<open>mailgun_service\<close> that nobody else adds a domain then; reads may still be old
  when it begins. In \<open>System_Runs\<close> reconciliations are single steps, and others act between them, within
  the limits each theorem states.

  \<^bold>\<open>Plan.\<close> Next: invariants of recorded routes in \<open>System_Runs\<close>, steps of \<open>System_Runs\<close> at the level of
  single calls (with the version checks of the contracts against writes in between), and the representation invariants of the maps (\<open>Secret\<close> data, \<open>ConfigMap\<close> data, the
  routes of the mock).
\<close>

end
